(* ===== verification/Emu_Prelude.thy ===== *)
theory Emu_Prelude
  imports Complex_Main "HOL-Library.AList" "HOL-Library.Sublist" "HOL-Library.Multiset"
begin

text \<open>
  Shared vocabulary of the development: the collection of invariant lemmas the
  component theories feed to the simplifier, Python's \<^verbatim>\<open>dict\<close> as an insertion-ordered
  association list, the exceptions the code can raise as values of a sum type,
  loops and list comprehensions whose body may raise (\<open>fold_res\<close>, \<open>map_res\<close>,
  \<open>fold_upto\<close>, which keeps the state a loop had reached, and \<open>fold_exc\<close> for
  steps that keep their own effects when they raise), and the generic lemmas on
  lists and association lists that the component proofs share.
\<close>

section \<open>Fact collection\<close>

named_theorems emu_inv "lemmas stating that an operation keeps the well-formedness of a frame"

section \<open>Errors and results\<close>

text \<open>
  The exceptions the modelled code can raise: the \<^verbatim>\<open>KeyError\<close> of a subscript
  \<^verbatim>\<open>d[k]\<close> on a dictionary or a frame, which carries the missing key, and the
  \<^verbatim>\<open>ValueError\<close> of a column assignment whose list has not the length of the
  frame's index, and the \<^verbatim>\<open>TypeError\<close> of an arithmetic operator applied to a
  string. The exceptions of the file system carry the path: \<^verbatim>\<open>FileExistsError\<close>,
  \<^verbatim>\<open>FileNotFoundError\<close>, \<^verbatim>\<open>IsADirectoryError\<close> and \<^verbatim>\<open>NotADirectoryError\<close>, and the
  plain \<^verbatim>\<open>OSError\<close> pandas raises for a file in a directory that does not exist.
\<close>

datatype py_error =
    KeyError string
  | ValueError
  | TypeError
  | FileExistsError string
  | FileNotFoundError string
  | IsADirectoryError string
  | NotADirectoryError string
  | OSError string

type_synonym 'a result = "py_error + 'a"

definition bind_res :: "'a result \<Rightarrow> ('a \<Rightarrow> 'b result) \<Rightarrow> 'b result" where
  "bind_res r f = (case r of Inl e \<Rightarrow> Inl e | Inr x \<Rightarrow> f x)"

definition is_ok :: "'a result \<Rightarrow> bool" where
  "is_ok r = (case r of Inl _ \<Rightarrow> False | Inr _ \<Rightarrow> True)"

text \<open>
  A \<^verbatim>\<open>for\<close> loop whose body may raise: the state is threaded through the
  elements from left to right and the first error ends the loop.
\<close>

fun fold_res :: "('a \<Rightarrow> 's \<Rightarrow> 's result) \<Rightarrow> 'a list \<Rightarrow> 's \<Rightarrow> 's result" where
  "fold_res f [] s = Inr s"
| "fold_res f (x # xs) s = bind_res (f x s) (fold_res f xs)"

text \<open>
  The same loop with the state it had reached when a step raised: an exception
  ends the loop, and what the steps before it did stays done.
\<close>

fun fold_upto :: "('a \<Rightarrow> 's \<Rightarrow> 's result) \<Rightarrow> 'a list \<Rightarrow> 's \<Rightarrow> 's \<times> py_error option" where
  "fold_upto f [] s = (s, None)"
| "fold_upto f (x # xs) s =
     (case f x s of Inl e \<Rightarrow> (s, Some e) | Inr s' \<Rightarrow> fold_upto f xs s')"

text \<open>
  A loop of statements with effects: a step returns the state it leaves and the
  exception it raised, if any, so that what a step did before it raised stays
  done; the first exception ends the loop.
\<close>

fun fold_exc :: "('a \<Rightarrow> 's \<Rightarrow> 's \<times> py_error option) \<Rightarrow> 'a list \<Rightarrow> 's \<Rightarrow>
    's \<times> py_error option" where
  "fold_exc f [] s = (s, None)"
| "fold_exc f (x # xs) s =
     (case f x s of (s', None) \<Rightarrow> fold_exc f xs s' | (s', Some e) \<Rightarrow> (s', Some e))"

text \<open>
  A list comprehension whose element expression may raise: the elements are
  computed from left to right and the first error ends the comprehension.
\<close>

fun map_res :: "('a \<Rightarrow> 'b result) \<Rightarrow> 'a list \<Rightarrow> 'b list result" where
  "map_res f [] = Inr []"
| "map_res f (x # xs) = bind_res (f x) (\<lambda>y. bind_res (map_res f xs) (\<lambda>ys. Inr (y # ys)))"

section \<open>Dictionaries\<close>

text \<open>
  A Python \<^verbatim>\<open>dict\<close> keeps insertion order: \<^verbatim>\<open>d[k] = v\<close> overwrites in place
  when \<^verbatim>\<open>k\<close> is present and appends otherwise, which is \<^const>\<open>AList.update\<close>.
  \<^verbatim>\<open>d.get(k)\<close> is \<^const>\<open>map_of\<close>, \<^verbatim>\<open>d[k]\<close> is \<open>dict_index\<close> and
  \<^verbatim>\<open>list(d.keys())\<close> is \<open>dict_keys\<close>.
\<close>

type_synonym 'v pydict = "(string \<times> 'v) list"

definition dict_index :: "'v pydict \<Rightarrow> string \<Rightarrow> 'v result" where
  "dict_index d k = (case map_of d k of None \<Rightarrow> Inl (KeyError k) | Some x \<Rightarrow> Inr x)"

definition dict_keys :: "'v pydict \<Rightarrow> string list" where
  "dict_keys d = map fst d"

definition dict_set :: "'v pydict \<Rightarrow> string \<Rightarrow> 'v \<Rightarrow> 'v pydict" where
  "dict_set d k v = AList.update k v d"

section \<open>Results\<close>

lemma bind_res_simps [simp]:
  "bind_res (Inl e) f = Inl e"
  "bind_res (Inr x) f = f x"
  by (simp_all add: bind_res_def)

lemma bind_res_eq_Inr_iff:
  "bind_res r f = Inr y \<longleftrightarrow> (\<exists>x. r = Inr x \<and> f x = Inr y)"
  by (cases r) simp_all

lemma bind_res_eq_Inl_iff:
  "bind_res r f = Inl e \<longleftrightarrow> r = Inl e \<or> (\<exists>x. r = Inr x \<and> f x = Inl e)"
  by (cases r) simp_all

lemma bind_res_assoc:
  "bind_res (bind_res r f) g = bind_res r (\<lambda>x. bind_res (f x) g)"
  by (cases r) simp_all

lemma map_sum_bind_res:
  "map_sum id f (bind_res r g) = bind_res r (\<lambda>x. map_sum id f (g x))"
  by (cases r) simp_all

lemma is_ok_simps [simp]:
  "is_ok (Inr x)"
  "\<not> is_ok (Inl e)"
  by (simp_all add: is_ok_def)

lemma is_ok_iff: "is_ok r \<longleftrightarrow> (\<exists>x. r = Inr x)"
  by (cases r) simp_all

lemma fold_res_append:
  "fold_res f (xs @ ys) s = bind_res (fold_res f xs s) (fold_res f ys)"
  by (induction xs arbitrary: s) (simp_all add: bind_res_def split: sum.splits)

lemma fold_res_total:
  "fold_res (\<lambda>x s. Inr (g x s)) xs s = Inr (fold g xs s)"
  by (induction xs arbitrary: s) simp_all

lemma fold_res_invariant:
  assumes "fold_res f xs s = Inr t" "P s"
    and "\<And>x u v. x \<in> set xs \<Longrightarrow> P u \<Longrightarrow> f x u = Inr v \<Longrightarrow> P v"
  shows "P t"
  using assms
proof (induction xs arbitrary: s)
  case Nil
  then show ?case by simp
next
  case (Cons x xs)
  from Cons.prems(1) obtain u where u: "f x s = Inr u" and rest: "fold_res f xs u = Inr t"
    by (auto simp: bind_res_eq_Inr_iff)
  from Cons.prems(3) [of x s u] Cons.prems(2) u have "P u" by simp
  with rest show ?case by (rule Cons.IH) (rule Cons.prems(3), simp_all)
qed

lemma fold_res_ok:
  assumes "P s"
    and "\<And>x u. x \<in> set xs \<Longrightarrow> P u \<Longrightarrow> \<exists>v. f x u = Inr v \<and> P v"
  shows "\<exists>t. fold_res f xs s = Inr t \<and> P t"
  using assms
proof (induction xs arbitrary: s)
  case Nil
  then show ?case by simp
next
  case (Cons x xs)
  from Cons.prems obtain u where u: "f x s = Inr u" "P u" by fastforce
  from Cons.IH [OF u(2)] Cons.prems(2) obtain t where "fold_res f xs u = Inr t" "P t"
    by auto
  with u show ?case by simp
qed

text \<open>A loop that only appends to a list collects what each element contributes.\<close>

lemma fold_res_collect:
  assumes "\<And>x acc. x \<in> set xs \<Longrightarrow> f x acc = Inr (acc @ g x)"
  shows "fold_res f xs acc = Inr (acc @ concat (map g xs))"
  using assms by (induction xs arbitrary: acc) simp_all

lemma fold_res_cong_set:
  "(\<And>x s. x \<in> set xs \<Longrightarrow> f x s = g x s) \<Longrightarrow> fold_res f xs s = fold_res g xs s"
  by (induction xs arbitrary: s) (simp_all add: bind_res_def split: sum.splits)

text \<open>
  The loop of statements with effects: it goes through a list in two parts, and
  it simulates a loop \<open>fold_res\<close> on related states when each of its steps
  simulates the step of that loop: it ends normally in a related state, or
  with the same exception.
\<close>

lemma find_map_comp: "find P (map f xs) = map_option f (find (P \<circ> f) xs)"
  by (induction xs) simp_all

text \<open>
  A loop whose steps raise on the items of one kind and succeed on the others
  raises at the first item of that kind.
\<close>

lemma fold_res_find:
  assumes "\<And>x s. x \<in> set xs \<Longrightarrow> f x s = (if bad x then Inl (err x) else Inr (g x s))"
  shows "fold_res f xs s =
     (case find bad xs of None \<Rightarrow> Inr (fold g xs s) | Some x \<Rightarrow> Inl (err x))"
  using assms by (induction xs arbitrary: s) (simp_all split: option.splits)

lemma fold_exc_append:
  "fold_exc f (xs @ ys) s =
     (case fold_exc f xs s of (s', None) \<Rightarrow> fold_exc f ys s' | (s', Some e) \<Rightarrow> (s', Some e))"
  by (induction xs arbitrary: s) (auto split: prod.splits option.splits)

lemma fold_exc_invariant:
  assumes "I s" and "\<And>x s. x \<in> set xs \<Longrightarrow> I s \<Longrightarrow> I (fst (f x s))"
  shows "I (fst (fold_exc f xs s))"
  using assms
proof (induction xs arbitrary: s)
  case Nil
  then show ?case by simp
next
  case (Cons x xs)
  from Cons.prems have "I (fst (f x s))" by simp
  with Cons.IH [of "fst (f x s)"] Cons.prems(2) show ?case
    by (cases "f x s") (auto split: option.splits)
qed

lemma fold_exc_simulates:
  assumes "R s t"
    and "\<And>x s t. x \<in> set xs \<Longrightarrow> R s t \<Longrightarrow>
      (case f x s of
         Inl e \<Rightarrow> \<exists>t'. g x t = (t', Some e)
       | Inr s' \<Rightarrow> \<exists>t'. g x t = (t', None) \<and> R s' t')"
  shows "case fold_res f xs s of
       Inl e \<Rightarrow> \<exists>t'. fold_exc g xs t = (t', Some e)
     | Inr s' \<Rightarrow> \<exists>t'. fold_exc g xs t = (t', None) \<and> R s' t'"
  using assms
proof (induction xs arbitrary: s t)
  case Nil
  then show ?case by simp
next
  case (Cons x xs)
  show ?case
  proof (cases "f x s")
    case (Inl e)
    with Cons.prems(2) [of x s t] Cons.prems(1) show ?thesis by auto
  next
    case (Inr s1)
    with Cons.prems(2) [of x s t] Cons.prems(1) obtain t1 where
      t1: "g x t = (t1, None)" "R s1 t1"
      by auto
    have "case fold_res f xs s1 of
        Inl e \<Rightarrow> \<exists>t'. fold_exc g xs t1 = (t', Some e)
      | Inr s' \<Rightarrow> \<exists>t'. fold_exc g xs t1 = (t', None) \<and> R s' t'"
      by (rule Cons.IH [OF t1(2)]) (rule Cons.prems(2), simp_all)
    with Inr t1(1) show ?thesis by (cases "fold_res f xs s1") simp_all
  qed
qed

text \<open>
  Two loops related by an abstraction function: when each step of the one is
  the image of the step of the other, so are the loops.
\<close>

lemma fold_res_refine:
  assumes "\<And>x s. x \<in> set xs \<Longrightarrow> g x (h s) = map_sum id h (f x s)"
  shows "fold_res g xs (h s) = map_sum id h (fold_res f xs s)"
  using assms
proof (induction xs arbitrary: s)
  case Nil
  show ?case by simp
next
  case (Cons x xs)
  then show ?case by (cases "f x s") simp_all
qed

text \<open>A loop that appends one value to each of two lists collects the pairs.\<close>

lemma fold_res_pairs:
  "fold_res (\<lambda>y acc. bind_res (g y) (\<lambda>p. Inr (fst acc @ [fst p], snd acc @ [snd p]))) ys acc =
     map_sum id (\<lambda>ps. (fst acc @ map fst ps, snd acc @ map snd ps)) (map_res g ys)"
proof (induction ys arbitrary: acc)
  case Nil
  show ?case by simp
next
  case (Cons y ys)
  show ?case
    by (cases "g y"; cases "map_res g ys") (simp_all add: Cons.IH)
qed

text \<open>
  The loop that keeps the state: it raises what \<open>fold_res\<close> raises, and when the
  steps that raise are those of the elements with \<open>P\<close>, the state kept is the
  state after the elements before the first one with \<open>P\<close>.
\<close>

lemma fold_res_upto:
  "fold_res f xs s =
     (case snd (fold_upto f xs s) of None \<Rightarrow> Inr (fst (fold_upto f xs s)) | Some e \<Rightarrow> Inl e)"
  by (induction xs arbitrary: s) (auto split: sum.splits option.splits)

lemma fold_upto_first_raise:
  assumes "\<And>x s. x \<in> set xs \<Longrightarrow> I s \<Longrightarrow>
      if P x then f x s = Inl e else \<exists>s'. f x s = Inr s' \<and> I s'"
    and "I s"
  shows "\<exists>s'. fold_res f (takeWhile (\<lambda>x. \<not> P x) xs) s = Inr s' \<and>
     fold_upto f xs s = (s', if list_ex P xs then Some e else None)"
  using assms
proof (induction xs arbitrary: s)
  case Nil
  show ?case by simp
next
  case (Cons x xs)
  show ?case
  proof (cases "P x")
    case True
    with Cons.prems(1) [of x s] Cons.prems(2) show ?thesis by simp
  next
    case False
    with Cons.prems(1) [of x s] Cons.prems(2) obtain s1 where "f x s = Inr s1" "I s1"
      by auto
    with False Cons.IH [of s1] Cons.prems(1) show ?thesis by simp
  qed
qed

lemma map_res_total [simp]: "map_res (\<lambda>x. Inr (g x)) xs = Inr (map g xs)"
  by (induction xs) simp_all

lemma map_res_cong_set:
  "(\<And>x. x \<in> set xs \<Longrightarrow> f x = g x) \<Longrightarrow> map_res f xs = map_res g xs"
  by (induction xs) simp_all

lemma map_res_eq_Inr_iff:
  "map_res f xs = Inr ys \<longleftrightarrow> list_all2 (\<lambda>x y. f x = Inr y) xs ys"
proof (induction xs arbitrary: ys)
  case Nil
  show ?case by auto
next
  case (Cons x xs)
  show ?case
    by (cases ys) (auto simp: bind_res_eq_Inr_iff Cons.IH)
qed

lemma map_res_InlD: "map_res f xs = Inl e \<Longrightarrow> \<exists>x \<in> set xs. f x = Inl e"
  by (induction xs) (auto simp: bind_res_eq_Inl_iff)

lemma map_res_raises_iff:
  assumes "\<And>x e'. x \<in> set xs \<Longrightarrow> f x = Inl e' \<Longrightarrow> e' = e"
  shows "map_res f xs = Inl e \<longleftrightarrow> (\<exists>x \<in> set xs. f x = Inl e)"
  using assms
proof (induction xs)
  case Nil
  show ?case by simp
next
  case (Cons x xs)
  then show ?case
    by (cases "f x"; cases "map_res f xs") auto
qed

lemma map_res_ok:
  assumes "\<And>x. x \<in> set xs \<Longrightarrow> \<exists>y. f x = Inr y \<and> P y"
  shows "\<exists>ys. map_res f xs = Inr ys \<and> length ys = length xs \<and> list_all P ys"
  using assms
proof (induction xs)
  case Nil
  show ?case by simp
next
  case (Cons x xs)
  from Cons.prems [of x] obtain y where "f x = Inr y" "P y" by auto
  moreover from Cons obtain ys where "map_res f xs = Inr ys" "length ys = length xs" "list_all P ys"
    by auto
  ultimately show ?case by simp
qed

text \<open>What holds of every value a step returns holds of the values of the list.\<close>

lemma map_res_Inr_all:
  assumes "map_res f xs = Inr ys" "\<And>x y. x \<in> set xs \<Longrightarrow> f x = Inr y \<Longrightarrow> Q y"
  shows "length ys = length xs \<and> list_all Q ys"
  using assms
proof (induction xs arbitrary: ys)
  case Nil
  then show ?case by simp
next
  case (Cons x xs)
  from Cons.prems(1) obtain z zs where "f x = Inr z" "map_res f xs = Inr zs" "ys = z # zs"
    by (auto simp: bind_res_eq_Inr_iff)
  moreover from this Cons.prems(2) have "Q z" by auto
  moreover from Cons.prems(2) have "Q y" if "x \<in> set xs" "f x = Inr y" for x y
    using that by auto
  ultimately show ?case using Cons.IH [of zs] by simp
qed

section \<open>Dictionary lemmas\<close>

lemma dict_index_eq_Inr_iff [simp]:
  "dict_index d k = Inr v \<longleftrightarrow> map_of d k = Some v"
  by (simp add: dict_index_def split: option.splits)

lemma dict_index_eq_Inl_iff [simp]:
  "dict_index d k = Inl e \<longleftrightarrow> map_of d k = None \<and> e = KeyError k"
  by (auto simp: dict_index_def split: option.splits)

lemma dict_index_present:
  "k \<in> set (dict_keys d) \<Longrightarrow> \<exists>v. dict_index d k = Inr v"
  by (cases "map_of d k") (auto simp: dict_keys_def map_of_eq_None_iff)

lemma dict_index_absent:
  "k \<notin> set (dict_keys d) \<Longrightarrow> dict_index d k = Inl (KeyError k)"
  by (simp add: dict_keys_def dict_index_def map_of_eq_None_iff [THEN iffD2])

lemma map_of_dict_set [simp]:
  "map_of (dict_set d k v) = (map_of d)(k \<mapsto> v)"
  by (simp add: dict_set_def update_conv')

lemma dict_keys_dict_set:
  "dict_keys (dict_set d k v) =
     (if k \<in> set (dict_keys d) then dict_keys d else dict_keys d @ [k])"
  by (simp add: dict_keys_def dict_set_def update_keys)

lemma set_dict_keys_dict_set [simp]:
  "set (dict_keys (dict_set d k v)) = insert k (set (dict_keys d))"
  by (auto simp: dict_keys_dict_set)

lemma distinct_dict_keys_dict_set [simp]:
  "distinct (dict_keys d) \<Longrightarrow> distinct (dict_keys (dict_set d k v))"
  by (simp add: dict_keys_dict_set)

lemma list_all_update:
  "list_all P al \<Longrightarrow> P (k, v) \<Longrightarrow> list_all P (AList.update k v al)"
  by (induction al) auto

lemma list_all_dict_set:
  "list_all P d \<Longrightarrow> P (k, v) \<Longrightarrow> list_all P (dict_set d k v)"
  by (simp add: dict_set_def list_all_update)

lemma map_of_map_values:
  "map_of (map (\<lambda>(k, v). (k, f v)) al) k = map_option f (map_of al k)"
  by (induction al) auto

lemma map_of_neq_None_iff: "map_of d k \<noteq> None \<longleftrightarrow> k \<in> set (dict_keys d)"
  by (simp add: dict_keys_def map_of_eq_None_iff)

lemma length_dict_set:
  "length (dict_set d k v) = (if k \<in> set (dict_keys d) then length d else Suc (length d))"
  by (induction d) (auto simp: dict_set_def dict_keys_def)

lemma map_of_eq_Some_dict_keys:
  "map_of d k = Some v \<Longrightarrow> k \<in> set (dict_keys d)"
  by (auto simp: dict_keys_def dest: map_of_SomeD intro: rev_image_eqI)

lemma dict_set_absent:
  "k \<notin> set (dict_keys d) \<Longrightarrow> dict_set d k v = d @ [(k, v)]"
  by (induction d) (auto simp: dict_set_def dict_keys_def)

text \<open>
  Overwriting the value of a present key is a map over the entries when the
  keys are distinct: the step from an update in a loop to a closed form.
\<close>

lemma update_eq_map:
  "distinct (map fst al) \<Longrightarrow> map_of al k = Some v \<Longrightarrow>
   AList.update k (f v) al = map (\<lambda>(c, x). (c, if c = k then f x else x)) al"
proof (induction al)
  case Nil
  then show ?case by simp
next
  case (Cons a al)
  obtain c x where a: "a = (c, x)" by (cases a)
  show ?case
  proof (cases "c = k")
    case True
    with Cons.prems a have "k \<notin> fst ` set al" by auto
    then have "map (\<lambda>(c, x). (c, if c = k then f x else x)) al = al"
      by (intro map_idI) (auto simp: rev_image_eqI)
    with True a Cons.prems show ?thesis by simp
  next
    case False
    with Cons a show ?thesis by simp
  qed
qed

section \<open>List lemmas\<close>

text \<open>
  Two strings joined by a separator that the first part does not contain can be
  split again: the fact behind every name the program builds by interpolation.
\<close>

lemma takeWhile_sep [simp]:
  "c \<notin> set r \<Longrightarrow> takeWhile (\<lambda>x. x \<noteq> c) (r @ c # s) = r"
  by (induction r) auto

lemma dropWhile_sep [simp]:
  "c \<notin> set r \<Longrightarrow> dropWhile (\<lambda>x. x \<noteq> c) (r @ c # s) = c # s"
  by (induction r) auto

lemma append_sep_inject:
  assumes "c \<notin> set r" "c \<notin> set r'"
  shows "r @ c # s = r' @ c # s' \<longleftrightarrow> r = r' \<and> s = s'"
proof
  assume eq: "r @ c # s = r' @ c # s'"
  from arg_cong [OF eq, of "takeWhile (\<lambda>x. x \<noteq> c)"] assms have "r = r'" by simp
  with eq show "r = r' \<and> s = s'" by simp
qed simp

lemma takeWhile_no_sep [simp]:
  "c \<notin> set r \<Longrightarrow> takeWhile (\<lambda>x. x \<noteq> c) r = r"
  by (induction r) auto

lemma in_set_enumerateD: "(i, d) \<in> set (List.enumerate n ds) \<Longrightarrow> d \<in> set ds"
  by (auto simp: in_set_enumerate_eq)

lemma sublist_length_eq: "sublist xs ys \<Longrightarrow> length ys \<le> length xs \<Longrightarrow> xs = ys"
  by (auto simp: sublist_def)

lemma those_eq_Some_iff: "those os = Some xs \<longleftrightarrow> os = map Some xs"
  by (induction os arbitrary: xs) (auto split: option.splits)

lemma those_map_Some [simp]: "those (map Some xs) = Some xs"
  by (simp add: those_eq_Some_iff)

text \<open>
  Values computed for keys in any order and then sorted by key are the values
  computed for the keys in ascending order.
\<close>

lemma insort_key_graph:
  "insort_key fst (y, f y) (map (\<lambda>y. (y, f y)) xs) = map (\<lambda>y. (y, f y)) (insort y xs)"
  by (induction xs) simp_all

lemma sort_key_graph:
  "sort_key fst (map (\<lambda>y. (y, f y)) xs) = map (\<lambda>y. (y, f y)) (sort xs)"
  by (induction xs) (simp_all add: insort_key_graph)

lemma reassemble_by_key:
  fixes ys :: "'a::linorder list"
  assumes "mset ys' = mset ys" "sorted ys"
  shows "map snd (sort_key fst (zip ys' (map f ys'))) = map f ys"
proof -
  have "zip ys' (map f ys') = map (\<lambda>y. (y, f y)) ys'"
    by (simp add: zip_map2 zip_same_conv_map)
  moreover from assms have "sort ys' = ys"
    by (simp add: properties_for_sort)
  ultimately show ?thesis by (simp add: sort_key_graph comp_def)
qed

section \<open>Concatenations and loops that raise alike\<close>

lemma distinct_concat_map:
  assumes "distinct xs" "\<And>x. x \<in> set xs \<Longrightarrow> distinct (f x)"
    and "\<And>x y. x \<in> set xs \<Longrightarrow> y \<in> set xs \<Longrightarrow> x \<noteq> y \<Longrightarrow> set (f x) \<inter> set (f y) = {}"
  shows "distinct (concat (map f xs))"
  using assms
proof (induction xs)
  case Nil
  show ?case by simp
next
  case (Cons a xs)
  from Cons.prems(1,3) have "set (f a) \<inter> set (f y) = {}" if "y \<in> set xs" for y
    using that by (metis distinct.simps(2) list.set_intros)
  with Cons show ?case by auto
qed

lemma distinct_concat_map_part:
  "distinct (concat (map f xs)) \<Longrightarrow> x \<in> set xs \<Longrightarrow> distinct (f x)"
  by (induction xs) auto

lemma distinct_concat_map_disjoint:
  "distinct (concat (map f xs)) \<Longrightarrow> x \<in> set xs \<Longrightarrow> y \<in> set xs \<Longrightarrow> f x \<noteq> f y \<Longrightarrow>
     set (f x) \<inter> set (f y) = {}"
  by (induction xs) fastforce+

lemma distinct_concat_map_subset:
  assumes "distinct (concat (map f ys))" "inj_on f (set ys)" "distinct xs" "set xs \<subseteq> set ys"
  shows "distinct (concat (map f xs))"
proof (rule distinct_concat_map [OF assms(3)])
  fix x assume x: "x \<in> set xs"
  with assms(1,4) show "distinct (f x)" by (auto intro: distinct_concat_map_part)
  fix y assume "y \<in> set xs" "x \<noteq> y"
  with x assms(2,4) have "x \<in> set ys" "y \<in> set ys" "f x \<noteq> f y" by (auto dest: inj_onD)
  with assms(1) show "set (f x) \<inter> set (f y) = {}" by (rule distinct_concat_map_disjoint)
qed

lemma fold_res_same_error:
  assumes "\<And>x s t. map_sum id (\<lambda>_. ()) (f x s) = map_sum id (\<lambda>_. ()) (g x t)"
  shows "map_sum id (\<lambda>_. ()) (fold_res f xs s) = map_sum id (\<lambda>_. ()) (fold_res g xs t)"
proof (induction xs arbitrary: s t)
  case Nil
  show ?case by simp
next
  case (Cons x xs)
  from assms [of x s t] Cons.IH show ?case
    by (cases "f x s"; cases "g x t") simp_all
qed

end
