(* ===== verification/Py_Builtins.thy ===== *)
theory Py_Builtins
  imports Emu_Prelude
begin

text \<open>
  The built-in operations of Python that the sources call. On \<^typ>\<open>string\<close>:
  \<^verbatim>\<open>s.strip()\<close>, \<^verbatim>\<open>s.strip(chars)\<close>, \<^verbatim>\<open>s.startswith(p)\<close>, \<^verbatim>\<open>s.endswith(p)\<close>, the
  slice \<^verbatim>\<open>s[i:j]\<close> with negative indices, and \<^verbatim>\<open>str(n)\<close> for an integer (what an
  f-string does with \<^verbatim>\<open>{year_inc}\<close>). On integers: \<^verbatim>\<open>range(start, stop, step)\<close>
  with a positive step. A \<^typ>\<open>char\<close> stands for a code point below 256.
  The lemmas are the facts about them that the cleaning functions, the
  coefficient names and the year loop rest on: what stripping leaves at both
  ends, that printing an integer can be read back, and the closed form, order
  and membership of a range.
\<close>

section \<open>Stripping\<close>

definition py_isspace :: "char \<Rightarrow> bool" where
  "py_isspace c =
     (let n = (of_char c :: nat)
      in (9 \<le> n \<and> n \<le> 13) \<or> (28 \<le> n \<and> n \<le> 32) \<or> n = 133 \<or> n = 160)"

definition lstrip_chars :: "(char \<Rightarrow> bool) \<Rightarrow> string \<Rightarrow> string" where
  "lstrip_chars p s = dropWhile p s"

definition rstrip_chars :: "(char \<Rightarrow> bool) \<Rightarrow> string \<Rightarrow> string" where
  "rstrip_chars p s = rev (dropWhile p (rev s))"

definition strip_chars :: "(char \<Rightarrow> bool) \<Rightarrow> string \<Rightarrow> string" where
  "strip_chars p s = rstrip_chars p (lstrip_chars p s)"

definition py_strip :: "string \<Rightarrow> string" where
  "py_strip s = strip_chars py_isspace s"

definition dquote :: char where
  "dquote = CHR 0x22"

definition strip_dquote :: "string \<Rightarrow> string" where
  "strip_dquote s = strip_chars (\<lambda>c. c = dquote) s"

section \<open>Prefix, suffix and slices\<close>

definition startswith :: "string \<Rightarrow> string \<Rightarrow> bool" where
  "startswith s p = (take (length p) s = p)"

definition endswith :: "string \<Rightarrow> string \<Rightarrow> bool" where
  "endswith s p = (drop (length s - length p) s = p)"

text \<open>
  \<^verbatim>\<open>s[i:j]\<close>: a negative index counts from the end, both are clamped to the string,
  and an empty range gives the empty string.
\<close>

definition py_slice :: "'a list \<Rightarrow> int \<Rightarrow> int \<Rightarrow> 'a list" where
  "py_slice xs i j =
     (let n = int (length xs);
          a = (if i < 0 then max 0 (n + i) else min n i);
          b = (if j < 0 then max 0 (n + j) else min n j)
      in take (nat (b - a)) (drop (nat a) xs))"

section \<open>Printing and reading integers\<close>

definition digit_char :: "nat \<Rightarrow> char" where
  "digit_char d = ''0123456789'' ! d"

definition digit_val :: "char \<Rightarrow> nat" where
  "digit_val c = of_char c - 48"

definition is_digit :: "char \<Rightarrow> bool" where
  "is_digit c = (48 \<le> (of_char c :: nat) \<and> (of_char c :: nat) \<le> 57)"

fun show_nat :: "nat \<Rightarrow> string" where
  "show_nat n =
     (if n < 10 then [digit_char n] else show_nat (n div 10) @ [digit_char (n mod 10)])"

declare show_nat.simps [simp del]

definition show_int :: "int \<Rightarrow> string" where
  "show_int i = (if i < 0 then CHR ''-'' # show_nat (nat (- i)) else show_nat (nat i))"

fun read_digits :: "nat \<Rightarrow> string \<Rightarrow> nat" where
  "read_digits acc [] = acc"
| "read_digits acc (c # cs) = read_digits (10 * acc + digit_val c) cs"

definition read_int :: "string \<Rightarrow> int option" where
  "read_int s =
     (case s of
        [] \<Rightarrow> None
      | c # cs \<Rightarrow>
          if c = CHR ''-'' then
            (if cs \<noteq> [] \<and> list_all is_digit cs then Some (- int (read_digits 0 cs)) else None)
          else if list_all is_digit s then Some (int (read_digits 0 s)) else None)"

section \<open>Ranges\<close>

text \<open>
  \<^verbatim>\<open>list(range(start, stop, step))\<close> for \<^verbatim>\<open>step > 0\<close>, as the loop it abbreviates.
  A step that is not positive gives the empty list here; the program only uses
  the step 2.
\<close>

function py_range :: "int \<Rightarrow> int \<Rightarrow> int \<Rightarrow> int list" where
  "py_range i stop step =
     (if 0 < step \<and> i < stop then i # py_range (i + step) stop step else [])"
  by pat_completeness auto
termination
  by (relation "measure (\<lambda>(i, stop, step). nat (stop - i))") auto

declare py_range.simps [simp del]

section \<open>Lemmas on stripping\<close>

lemma rstrip_chars_eq_take:
  "rstrip_chars p s = take (length s - length (takeWhile p (rev s))) s"
  by (simp add: rstrip_chars_def dropWhile_eq_drop rev_drop)

lemma rstrip_chars_Nil [simp]: "rstrip_chars p [] = []"
  by (simp add: rstrip_chars_def)

lemma lstrip_chars_Nil [simp]: "lstrip_chars p [] = []"
  by (simp add: lstrip_chars_def)

lemma strip_chars_Nil [simp]: "strip_chars p [] = []"
  by (simp add: strip_chars_def)

lemma hd_rstrip_chars: "rstrip_chars p s \<noteq> [] \<Longrightarrow> hd (rstrip_chars p s) = hd s"
  by (simp add: rstrip_chars_eq_take hd_take)

lemma last_rstrip_chars: "rstrip_chars p s \<noteq> [] \<Longrightarrow> \<not> p (last (rstrip_chars p s))"
  by (simp add: rstrip_chars_def last_rev hd_dropWhile)

lemma hd_lstrip_chars: "lstrip_chars p s \<noteq> [] \<Longrightarrow> \<not> p (hd (lstrip_chars p s))"
  by (simp add: lstrip_chars_def hd_dropWhile)

lemma rstrip_chars_id: "s = [] \<or> \<not> p (last s) \<Longrightarrow> rstrip_chars p s = s"
  by (cases s rule: rev_cases) (auto simp: rstrip_chars_def)

lemma lstrip_chars_id: "s = [] \<or> \<not> p (hd s) \<Longrightarrow> lstrip_chars p s = s"
  by (cases s) (auto simp: lstrip_chars_def)

lemma hd_strip_chars: "strip_chars p s \<noteq> [] \<Longrightarrow> \<not> p (hd (strip_chars p s))"
  unfolding strip_chars_def
  by (metis hd_rstrip_chars hd_lstrip_chars rstrip_chars_Nil)

lemma last_strip_chars: "strip_chars p s \<noteq> [] \<Longrightarrow> \<not> p (last (strip_chars p s))"
  unfolding strip_chars_def by (rule last_rstrip_chars)

lemma strip_chars_id:
  "s = [] \<or> (\<not> p (hd s) \<and> \<not> p (last s)) \<Longrightarrow> strip_chars p s = s"
  by (auto simp: strip_chars_def lstrip_chars_id rstrip_chars_id)

lemma strip_chars_idem [simp]: "strip_chars p (strip_chars p s) = strip_chars p s"
  by (rule strip_chars_id) (auto simp: hd_strip_chars last_strip_chars)

lemma set_strip_chars: "set (strip_chars p s) \<subseteq> set s"
  by (auto simp: strip_chars_def rstrip_chars_eq_take lstrip_chars_def
      dest: in_set_takeD set_dropWhileD)

lemma length_strip_chars: "length (strip_chars p s) \<le> length s"
  using length_dropWhile_le [of p s]
  by (simp add: strip_chars_def rstrip_chars_eq_take lstrip_chars_def)

lemma strip_chars_all:
  assumes "\<forall>c \<in> set s. p c"
  shows "strip_chars p s = []"
proof -
  from assms have "dropWhile p s = []" by simp
  then show ?thesis
    unfolding strip_chars_def lstrip_chars_def by (simp only: rstrip_chars_Nil)
qed

lemma strip_chars_wrap:
  assumes "\<forall>c \<in> set l. p c" "\<forall>c \<in> set r. p c" "s \<noteq> []" "\<not> p (hd s)" "\<not> p (last s)"
  shows "strip_chars p (l @ s @ r) = s"
proof -
  from assms(1,3,4) have "lstrip_chars p (l @ s @ r) = s @ r"
    by (cases s) (simp_all add: lstrip_chars_def)
  moreover have "rstrip_chars p (s @ r) = s"
  proof -
    from assms(2) have "dropWhile p (rev r @ rev s) = dropWhile p (rev s)"
      by (intro dropWhile_append2) simp
    moreover from assms(3,5) have "dropWhile p (rev s) = rev s"
      by (cases s rule: rev_cases) simp_all
    ultimately show ?thesis by (simp add: rstrip_chars_def)
  qed
  ultimately show ?thesis by (simp add: strip_chars_def)
qed

lemmas strip_ends = hd_strip_chars last_strip_chars

lemma strip_chars_eq_self_iff:
  "strip_chars p s = s \<longleftrightarrow> s = [] \<or> (\<not> p (hd s) \<and> \<not> p (last s))"
  by (metis strip_chars_id hd_strip_chars last_strip_chars)

lemma sublist_rstrip_chars [simp]: "sublist (rstrip_chars p s) s"
  by (simp add: rstrip_chars_eq_take)

lemma sublist_strip_chars [simp]: "sublist (strip_chars p s) s"
  unfolding strip_chars_def lstrip_chars_def
  by (rule sublist_order.order_trans [OF sublist_rstrip_chars]) simp

lemma py_isspace_simps [simp]:
  "\<not> py_isspace CHR ''=''" "\<not> py_isspace dquote" "py_isspace CHR '' ''"
  by (simp_all add: py_isspace_def dquote_def)

section \<open>Lemmas on prefixes and slices\<close>

lemma startswith_iff_prefix: "startswith s p \<longleftrightarrow> prefix p s"
  by (auto simp: startswith_def prefix_def) (metis append_take_drop_id)

lemma endswith_iff_suffix: "endswith s p \<longleftrightarrow> suffix p s"
proof
  assume "endswith s p"
  then have "s = take (length s - length p) s @ p"
    by (metis append_take_drop_id endswith_def)
  then show "suffix p s" by (rule suffixI)
next
  assume "suffix p s"
  then obtain q where "s = q @ p" by (auto simp: suffix_def)
  then show "endswith s p" by (simp add: endswith_def)
qed

lemma startswith_append [simp]: "startswith (p @ s) p"
  by (simp add: startswith_def)

lemma endswith_append [simp]: "endswith (s @ p) p"
  by (simp add: endswith_def)

lemma py_slice_2_m1: "py_slice s 2 (- 1) = butlast (drop 2 s)"
  by (cases "length s \<le> 2") (auto simp: py_slice_def Let_def butlast_conv_take min_def max_def nat_diff_distrib' numeral_3_eq_3)

lemma py_slice_unwrap:
  "py_slice (a # b # s @ [c]) 2 (- 1) = s"
  by (simp add: py_slice_2_m1)

lemma sublist_py_slice [simp]: "sublist (py_slice xs i j) xs"
  unfolding py_slice_def Let_def
  by (rule sublist_order.order_trans [OF sublist_take]) simp

lemma endswith_single: "endswith s [c] \<longleftrightarrow> s \<noteq> [] \<and> last s = c"
  by (cases s rule: rev_cases) (simp_all add: endswith_def)

section \<open>Lemmas on printed integers\<close>

lemma digit_val_digit_char [simp]: "d < 10 \<Longrightarrow> digit_val (digit_char d) = d"
  by (auto simp: digit_char_def digit_val_def less_Suc_eq numeral_eq_Suc)

lemma is_digit_digit_char [simp]: "d < 10 \<Longrightarrow> is_digit (digit_char d)"
  by (auto simp: digit_char_def is_digit_def less_Suc_eq numeral_eq_Suc)

lemma is_digit_not_minus [simp]: "\<not> is_digit CHR ''-''"
  by (simp add: is_digit_def)

lemma is_digit_not_dot [simp]: "\<not> is_digit CHR ''.''"
  by (simp add: is_digit_def)

lemma show_nat_nonempty [simp]: "show_nat n \<noteq> []"
  by (subst show_nat.simps) simp

lemma show_nat_digits: "list_all is_digit (show_nat n)"
  by (induction n rule: show_nat.induct) (subst show_nat.simps, simp)

lemma read_digits_snoc:
  "read_digits acc (cs @ [c]) = 10 * read_digits acc cs + digit_val c"
  by (induction cs arbitrary: acc) simp_all

lemma read_digits_show_nat [simp]: "read_digits 0 (show_nat n) = n"
  by (induction n rule: show_nat.induct)
     (subst show_nat.simps, simp add: read_digits_snoc)

lemma hd_show_nat_digit: "is_digit (hd (show_nat n))"
  using show_nat_digits [of n] show_nat_nonempty [of n]
  by (cases "show_nat n") simp_all

lemma show_nat_not_minus: "hd (show_nat n) \<noteq> CHR ''-''"
  using hd_show_nat_digit [of n] by auto

lemma read_int_show_int [simp]: "read_int (show_int i) = Some i"
proof (cases "i < 0")
  case True
  then show ?thesis
    by (simp add: read_int_def show_int_def show_nat_digits)
next
  case False
  obtain c cs where s: "show_nat (nat i) = c # cs"
    by (cases "show_nat (nat i)") simp_all
  with show_nat_not_minus [of "nat i"] have "c \<noteq> CHR ''-''" by simp
  moreover from s have "list_all is_digit (c # cs)" "read_digits 0 (c # cs) = nat i"
    by (metis show_nat_digits, metis read_digits_show_nat)
  ultimately show ?thesis using False s
    by (simp add: read_int_def show_int_def del: read_digits.simps list.pred_inject)
qed

lemma show_int_inject [simp]: "show_int i = show_int j \<longleftrightarrow> i = j"
  by (metis read_int_show_int option.inject)

lemma show_int_nonempty [simp]: "show_int i \<noteq> []"
  by (simp add: show_int_def)

lemma show_int_chars: "c \<in> set (show_int i) \<Longrightarrow> is_digit c \<or> c = CHR ''-''"
  using show_nat_digits by (auto simp: show_int_def list_all_iff split: if_splits)

lemma show_int_no_dot: "CHR ''.'' \<notin> set (show_int i)"
  using show_int_chars [of "CHR ''.''" i] by auto

lemma show_int_Cons: "\<exists>c cs. show_int y = c # cs \<and> (c = CHR ''-'' \<or> is_digit c)"
  using show_int_chars [of "hd (show_int y)" y] show_int_nonempty [of y]
  by (cases "show_int y") auto

lemma split_show_int [simp]:
  "takeWhile (\<lambda>c. c \<noteq> CHR ''.'') (show_int y @ CHR ''.'' # t) = show_int y"
  "dropWhile (\<lambda>c. c \<noteq> CHR ''.'') (show_int y @ CHR ''.'' # t) = CHR ''.'' # t"
  by (simp_all add: show_int_no_dot)

section \<open>Lemmas on ranges\<close>

lemma py_range_empty [simp]: "stop \<le> i \<Longrightarrow> py_range i stop step = []"
  by (simp add: py_range.simps [of i stop step])

lemma py_range_step: "0 < step \<Longrightarrow> i < stop \<Longrightarrow>
    py_range i stop step = i # py_range (i + step) stop step"
  by (simp add: py_range.simps [of i stop step])

lemma dvd_shift:
  fixes step :: int
  assumes "0 < step" "i \<le> y"
  shows "step dvd (y - i) \<longleftrightarrow> y = i \<or> (i + step \<le> y \<and> step dvd (y - (i + step)))"
proof
  assume d: "step dvd (y - i)"
  show "y = i \<or> (i + step \<le> y \<and> step dvd (y - (i + step)))"
  proof (cases "y = i")
    case False
    with assms have "0 < y - i" by simp
    with d have "step \<le> y - i" by (rule zdvd_imp_le)
    moreover from d have "step dvd (y - i - step)" by simp
    ultimately show ?thesis by (simp add: algebra_simps)
  qed simp
next
  assume "y = i \<or> (i + step \<le> y \<and> step dvd (y - (i + step)))"
  then show "step dvd (y - i)"
  proof
    assume "i + step \<le> y \<and> step dvd (y - (i + step))"
    then have "step dvd (y - (i + step))" ..
    then have "step dvd (y - (i + step)) + step" by (rule dvd_add) simp
    moreover have "(y - (i + step)) + step = y - i" by simp
    ultimately show ?thesis by (simp only:)
  qed simp
qed

lemma set_py_range:
  "0 < step \<Longrightarrow>
     set (py_range i stop step) = {y. i \<le> y \<and> y < stop \<and> step dvd (y - i)}"
proof (induction i stop step rule: py_range.induct)
  case (1 i stop step)
  show ?case
  proof (cases "i < stop")
    case True
    from True "1.prems" "1.IH" have
      "set (py_range i stop step) =
         insert i {y. i + step \<le> y \<and> y < stop \<and> step dvd (y - (i + step))}"
      by (simp add: py_range_step)
    also have "\<dots> = {y. i \<le> y \<and> y < stop \<and> step dvd (y - i)}"
      using True "1.prems" by (auto simp: dvd_shift [OF "1.prems"])
    finally show ?thesis .
  next
    case False
    then show ?thesis by auto
  qed
qed

lemma py_range_lower: "y \<in> set (py_range i stop step) \<Longrightarrow> i \<le> y \<and> y < stop"
  by (cases "0 < step") (auto simp: set_py_range py_range.simps [of i stop step])

lemma sorted_py_range: "sorted_wrt (<) (py_range i stop step)"
proof (induction i stop step rule: py_range.induct)
  case (1 i stop step)
  show ?case
  proof (cases "0 < step \<and> i < stop")
    case True
    with "1.IH" have "sorted_wrt (<) (py_range (i + step) stop step)" by simp
    moreover from True have "\<forall>y \<in> set (py_range (i + step) stop step). i < y"
      by (auto dest: py_range_lower)
    ultimately show ?thesis using True by (simp add: py_range_step)
  next
    case False
    then show ?thesis by (auto simp: py_range.simps [of i stop step])
  qed
qed

lemma distinct_py_range: "distinct (py_range i stop step)"
  using sorted_py_range [of i stop step] by (simp add: strict_sorted_iff)

lemma length_py_range:
  "0 < step \<Longrightarrow> length (py_range i stop step) = nat ((stop - i + step - 1) div step)"
proof (induction i stop step rule: py_range.induct)
  case (1 i stop step)
  show ?case
  proof (cases "i < stop")
    case True
    have "stop - i + step - 1 = step + (stop - (i + step) + step - 1)"
      by simp
    with "1.prems" have
      "(stop - i + step - 1) div step = (stop - (i + step) + step - 1) div step + 1"
      by (simp only: div_add_self1)
    moreover have "0 \<le> (stop - (i + step) + step - 1) div step"
      using True "1.prems" by (simp add: pos_imp_zdiv_nonneg_iff)
    ultimately show ?thesis
      using True "1.prems" "1.IH" by (simp add: py_range_step nat_add_distrib)
  next
    case False
    moreover have "(stop - i + step - 1) div step \<le> 0"
    proof (cases "0 \<le> stop - i + step - 1")
      case True
      with False show ?thesis by (simp add: div_pos_pos_trivial)
    next
      case False
      with "1.prems" show ?thesis by (simp add: pos_imp_zdiv_neg_iff less_imp_le)
    qed
    ultimately show ?thesis by simp
  qed
qed

lemma py_range_nth:
  "0 < step \<Longrightarrow> k < length (py_range i stop step) \<Longrightarrow>
     py_range i stop step ! k = i + int k * step"
proof (induction i stop step arbitrary: k rule: py_range.induct)
  case (1 i stop step)
  from "1.prems"(2) have lt: "i < stop"
    by (cases "i < stop") auto
  show ?case
  proof (cases k)
    case 0
    with lt "1.prems"(1) show ?thesis by (simp add: py_range_step)
  next
    case (Suc j)
    with "1.prems" lt have "j < length (py_range (i + step) stop step)"
      by (simp add: py_range_step)
    with "1.IH" [of j] lt "1.prems"(1) Suc show ?thesis
      by (simp add: py_range_step algebra_simps)
  qed
qed

end
