(* ===== verification/Emu_Frame.thy ===== *)
theory Emu_Frame
  imports Emu_Prelude
begin

text \<open>
  The part of pandas the program uses, as data: a \<^verbatim>\<open>Series\<close> is a list of
  labelled values, a \<^verbatim>\<open>DataFrame\<close> a list of row labels and an ordered list of
  named columns. The operations are the ones the sources call:
  \<^verbatim>\<open>beta.get(name, 0)\<close>, \<^verbatim>\<open>col in df.columns\<close>, \<^verbatim>\<open>df[col]\<close> and the column
  assignment \<^verbatim>\<open>df[col] = values\<close> (\<open>set_column\<close> is the update, \<open>assign_column\<close>
  the statement with the length check pandas makes) in \<^verbatim>\<open>src/app.py\<close>; the
  relabelling of columns, \<^verbatim>\<open>applymap\<close> and what the report reads of a table
  (\<^verbatim>\<open>shape\<close>, \<^verbatim>\<open>head\<close>, \<^verbatim>\<open>apply\<close>, \<^verbatim>\<open>unique\<close>) in \<^verbatim>\<open>src/clean_data.py\<close>. A frame
  is polymorphic in its row labels and cell values, and so is the lookup in a
  series; the coefficient tables of \<open>Emu_Predictor\<close> hold \<^typ>\<open>real\<close> values:
  the model computes with exact numbers where Python computes with binary
  floating point.
  The lemmas give the frame's well-formedness, that column assignment keeps it,
  and the lookup-after-assignment equations.
\<close>

section \<open>Series\<close>

type_synonym series = "(string \<times> real) list"

definition series_get :: "(string \<times> 'a) list \<Rightarrow> string \<Rightarrow> 'a \<Rightarrow> 'a" where
  "series_get beta name dflt = (case map_of beta name of None \<Rightarrow> dflt | Some v \<Rightarrow> v)"

section \<open>Frames\<close>

record ('i, 'a) frame =
  df_index :: "'i list"
  df_columns :: "(string \<times> 'a list) list"

type_synonym coef_frame = "(string, real) frame"

definition has_column :: "('i, 'a) frame \<Rightarrow> string \<Rightarrow> bool" where
  "has_column df c = (c \<in> set (map fst (df_columns df)))"

definition get_column :: "('i, 'a) frame \<Rightarrow> string \<Rightarrow> ('i \<times> 'a) list result" where
  "get_column df c =
     (case map_of (df_columns df) c of
        None \<Rightarrow> Inl (KeyError c)
      | Some vs \<Rightarrow> Inr (zip (df_index df) vs))"

definition set_column :: "('i, 'a) frame \<Rightarrow> string \<Rightarrow> 'a list \<Rightarrow> ('i, 'a) frame" where
  "set_column df c vs = df\<lparr>df_columns := AList.update c vs (df_columns df)\<rparr>"

definition assign_column :: "('i, 'a) frame \<Rightarrow> string \<Rightarrow> 'a list \<Rightarrow> ('i, 'a) frame result" where
  "assign_column df c vs =
     (if length vs = length (df_index df) then Inr (set_column df c vs) else Inl ValueError)"

definition column_names :: "('i, 'a) frame \<Rightarrow> string list" where
  "column_names df = map fst (df_columns df)"

text \<open>
  \<^verbatim>\<open>df.columns = [f(c) for c in df.columns]\<close> relabels the columns in place and
  \<^verbatim>\<open>df.applymap(f)\<close> applies \<^verbatim>\<open>f\<close> to every cell.
\<close>

definition rename_columns :: "(string \<Rightarrow> string) \<Rightarrow> ('i, 'a) frame \<Rightarrow> ('i, 'a) frame" where
  "rename_columns f df = df\<lparr>df_columns := map (\<lambda>(c, vs). (f c, vs)) (df_columns df)\<rparr>"

definition applymap :: "('a \<Rightarrow> 'a) \<Rightarrow> ('i, 'a) frame \<Rightarrow> ('i, 'a) frame" where
  "applymap f df = df\<lparr>df_columns := map (\<lambda>(c, vs). (c, map f vs)) (df_columns df)\<rparr>"

text \<open>
  What the report of the cleaning script reads from a table: \<^verbatim>\<open>df.shape\<close>,
  \<^verbatim>\<open>df.head(n)\<close>, \<^verbatim>\<open>df.apply(f)\<close> column by column, the labels of the columns
  in which some value satisfies a test (\<^verbatim>\<open>columns[mask.any()]\<close>), and
  \<^verbatim>\<open>unique()\<close>, which keeps the first occurrence of each value in the order of
  the column.
\<close>

definition frame_shape :: "('i, 'a) frame \<Rightarrow> nat \<times> nat" where
  "frame_shape df = (length (df_index df), length (df_columns df))"

definition frame_head :: "nat \<Rightarrow> ('i, 'a) frame \<Rightarrow> ('i, 'a) frame" where
  "frame_head n df =
     \<lparr>df_index = take n (df_index df),
      df_columns = map (\<lambda>(c, vs). (c, take n vs)) (df_columns df)\<rparr>"

definition apply_columns :: "('a list \<Rightarrow> 'b list) \<Rightarrow> ('i, 'a) frame \<Rightarrow> ('i, 'b) frame" where
  "apply_columns f df =
     \<lparr>df_index = df_index df, df_columns = map (\<lambda>(c, vs). (c, f vs)) (df_columns df)\<rparr>"

definition columns_where :: "('a \<Rightarrow> bool) \<Rightarrow> ('i, 'a) frame \<Rightarrow> string list" where
  "columns_where p df = map fst (filter (\<lambda>(c, vs). list_ex p vs) (df_columns df))"

definition py_unique :: "'a list \<Rightarrow> 'a list" where
  "py_unique vs = fold (\<lambda>v seen. if v \<in> set seen then seen else seen @ [v]) vs []"

definition wf_frame :: "('i, 'a) frame \<Rightarrow> bool" where
  "wf_frame df \<longleftrightarrow>
     distinct (map fst (df_columns df)) \<and>
     list_all (\<lambda>cv. length (snd cv) = length (df_index df)) (df_columns df)"

section \<open>Series lemmas\<close>

lemma series_get_Nil [simp]: "series_get [] name dflt = dflt"
  by (simp add: series_get_def)

lemma series_get_Cons [simp]:
  "series_get ((k, v) # beta) name dflt = (if k = name then v else series_get beta name dflt)"
  by (simp add: series_get_def)

lemma series_get_absent: "name \<notin> fst ` set beta \<Longrightarrow> series_get beta name dflt = dflt"
  by (simp add: series_get_def map_of_eq_None_iff [THEN iffD2])

lemma series_get_present:
  "map_of beta name = Some v \<Longrightarrow> series_get beta name dflt = v"
  by (simp add: series_get_def)

lemma series_get_map_of_cong:
  "map_of beta = map_of beta' \<Longrightarrow> series_get beta name dflt = series_get beta' name dflt"
  by (simp add: series_get_def)

lemma series_get_append:
  "series_get (b1 @ b2) name dflt = series_get b1 name (series_get b2 name dflt)"
  by (induction b1) auto

lemma series_get_map:
  "series_get (map (\<lambda>(k, v). (k, f v)) beta) name (f dflt) = f (series_get beta name dflt)"
  by (induction beta) auto

section \<open>Frame lemmas\<close>

lemma has_column_iff: "has_column df c \<longleftrightarrow> map_of (df_columns df) c \<noteq> None"
  by (simp add: has_column_def map_of_eq_None_iff)

lemma get_column_ok_iff: "is_ok (get_column df c) \<longleftrightarrow> has_column df c"
  by (auto simp: get_column_def has_column_iff split: option.splits)

lemma get_column_missing: "\<not> has_column df c \<Longrightarrow> get_column df c = Inl (KeyError c)"
  by (simp add: get_column_def has_column_iff)

lemma df_index_set_column [simp]: "df_index (set_column df c vs) = df_index df"
  by (simp add: set_column_def)

lemma has_column_set_column [simp]:
  "has_column (set_column df c vs) c' \<longleftrightarrow> c' = c \<or> has_column df c'"
  by (auto simp: has_column_def set_column_def dom_update)

lemma map_of_set_column [simp]:
  "map_of (df_columns (set_column df c vs)) = (map_of (df_columns df))(c \<mapsto> vs)"
  by (simp add: set_column_def update_conv')

lemma get_column_set_column:
  "get_column (set_column df c vs) c' =
     (if c' = c then Inr (zip (df_index df) vs) else get_column df c')"
  by (simp add: get_column_def split: option.splits)

lemma column_names_set_column:
  "column_names (set_column df c vs) =
     (if has_column df c then column_names df else column_names df @ [c])"
  by (simp add: column_names_def set_column_def has_column_def update_keys)

lemma wf_frame_set_column [emu_inv]:
  "wf_frame df \<Longrightarrow> length vs = length (df_index df) \<Longrightarrow> wf_frame (set_column df c vs)"
  by (simp add: wf_frame_def set_column_def distinct_update list_all_update)

lemma assign_column_ok [simp]:
  "length vs = length (df_index df) \<Longrightarrow> assign_column df c vs = Inr (set_column df c vs)"
  by (simp add: assign_column_def)

lemma assign_column_bad [simp]:
  "length vs \<noteq> length (df_index df) \<Longrightarrow> assign_column df c vs = Inl ValueError"
  by (simp add: assign_column_def)

lemma set_column_same:
  "map_of (df_columns df) c = Some vs \<Longrightarrow> set_column df c vs = df"
  by (simp add: set_column_def update_triv)

lemma wf_frame_column_length:
  "wf_frame df \<Longrightarrow> map_of (df_columns df) c = Some vs \<Longrightarrow> length vs = length (df_index df)"
  by (auto simp: wf_frame_def list_all_iff dest: map_of_SomeD)

lemma get_column_keys:
  assumes "wf_frame df" "get_column df c = Inr beta"
  shows "map fst beta = df_index df"
proof -
  from assms(2) obtain vs where vs: "map_of (df_columns df) c = Some vs"
    and beta: "beta = zip (df_index df) vs"
    by (auto simp: get_column_def split: option.splits)
  from wf_frame_column_length [OF assms(1) vs] beta show ?thesis by simp
qed

section \<open>Relabelling and cell-wise application\<close>

lemma df_index_rename [simp]: "df_index (rename_columns f df) = df_index df"
  by (simp add: rename_columns_def)

lemma df_index_applymap [simp]: "df_index (applymap f df) = df_index df"
  by (simp add: applymap_def)

lemma column_names_rename [simp]: "column_names (rename_columns f df) = map f (column_names df)"
  by (simp add: rename_columns_def column_names_def case_prod_unfold)

lemma column_names_applymap [simp]: "column_names (applymap f df) = column_names df"
  by (simp add: applymap_def column_names_def case_prod_unfold)

lemma wf_frame_applymap_rename [emu_inv]:
  "wf_frame df \<Longrightarrow> distinct (map g (column_names df)) \<Longrightarrow>
   wf_frame (applymap f (rename_columns g df))"
  by (simp add: wf_frame_def applymap_def rename_columns_def column_names_def
      list_all_iff case_prod_unfold comp_def)

section \<open>Reading a table\<close>

lemma wf_frame_head [emu_inv]: "wf_frame df \<Longrightarrow> wf_frame (frame_head n df)"
  by (auto simp: wf_frame_def frame_head_def list_all_iff comp_def case_prod_unfold)

lemma column_names_head [simp]: "column_names (frame_head n df) = column_names df"
  by (simp add: frame_head_def column_names_def case_prod_unfold)

lemma frame_shape_head:
  "wf_frame df \<Longrightarrow> frame_shape (frame_head n df) = (min n (fst (frame_shape df)), snd (frame_shape df))"
  by (simp add: frame_shape_def frame_head_def min.commute)

lemma df_index_apply [simp]: "df_index (apply_columns f df) = df_index df"
  by (simp add: apply_columns_def)

lemma map_of_apply_columns:
  "map_of (df_columns (apply_columns f df)) c = map_option f (map_of (df_columns df) c)"
  by (simp add: apply_columns_def map_of_map_values)

lemma has_column_apply [simp]: "has_column (apply_columns f df) c = has_column df c"
  by (simp add: has_column_iff map_of_apply_columns)

lemma get_column_apply:
  "get_column (apply_columns (map f) df) c =
     map_sum id (map (\<lambda>(i, v). (i, f v))) (get_column df c)"
  by (simp add: get_column_def map_of_apply_columns zip_map2 split: option.splits)

lemma update_map_values:
  "AList.update c (f vs) (map (\<lambda>(c, vs). (c, f vs)) al) =
     map (\<lambda>(c, vs). (c, f vs)) (AList.update c vs al)"
  by (induction al) auto

lemma set_column_apply:
  "set_column (apply_columns f df) c (f vs) = apply_columns f (set_column df c vs)"
  by (simp add: set_column_def apply_columns_def update_map_values)

lemma assign_column_apply:
  "assign_column (apply_columns (map f) df) c (map f vs) =
     map_sum id (apply_columns (map f)) (assign_column df c vs)"
  by (simp add: assign_column_def set_column_apply)

lemma column_names_apply [simp]: "column_names (apply_columns f df) = column_names df"
  by (simp add: apply_columns_def column_names_def case_prod_unfold)

lemma columns_where_apply:
  "columns_where p (apply_columns f df) =
     map fst (filter (\<lambda>(c, vs). list_ex p (f vs)) (df_columns df))"
  by (simp add: columns_where_def apply_columns_def filter_map comp_def case_prod_unfold)

lemma fold_unique:
  assumes "distinct seen"
  shows "distinct (fold (\<lambda>v seen. if v \<in> set seen then seen else seen @ [v]) vs seen) \<and>
     set (fold (\<lambda>v seen. if v \<in> set seen then seen else seen @ [v]) vs seen) = set seen \<union> set vs \<and>
     prefix seen (fold (\<lambda>v seen. if v \<in> set seen then seen else seen @ [v]) vs seen)"
  using assms
proof (induction vs arbitrary: seen)
  case Nil
  then show ?case by simp
next
  case (Cons v vs)
  show ?case
  proof (cases "v \<in> set seen")
    case True
    with Cons.IH [OF Cons.prems] show ?thesis by auto
  next
    case False
    with Cons.prems have "distinct (seen @ [v])" by simp
    from Cons.IH [OF this] False show ?thesis
      by (auto dest: append_prefixD)
  qed
qed

lemma py_unique_distinct [simp]: "distinct (py_unique vs)"
  and set_py_unique [simp]: "set (py_unique vs) = set vs"
  using fold_unique [of "[]" vs] by (simp_all add: py_unique_def)

lemma py_unique_id: "distinct vs \<Longrightarrow> py_unique vs = vs"
proof -
  have "distinct (seen @ vs) \<Longrightarrow>
      fold (\<lambda>v seen. if v \<in> set seen then seen else seen @ [v]) vs seen = seen @ vs" for seen
    by (induction vs arbitrary: seen) auto
  from this [of "[]"] show "distinct vs \<Longrightarrow> py_unique vs = vs"
    by (simp add: py_unique_def)
qed

end
