(* ===== verification/Emu_Predictor.thy ===== *)
theory Emu_Predictor
  imports Py_Builtins Emu_Frame
begin

text \<open>
  The prediction engine: the body of the year loop of \<^verbatim>\<open>src/app.py\<close>
  (\<open>predict_year\<close>, one iteration; \<open>predict_series\<close>, the loop with its two
  accumulators) and beside it the contract the specification gives for it: a
  structured coefficient key with its external name, a coefficient table that is
  total with default 0, and the two value formulas. The lemmas show what each
  branch computes, errors included, that the code implements the contract, that
  a missing coefficient behaves as a zero one, which coefficients each variant
  reads, and what the loop returns position by position.
\<close>

section \<open>The year loop of the program\<close>

definition predict_year :: "string \<Rightarrow> real pydict \<Rightarrow> series \<Rightarrow> int \<Rightarrow> (real \<times> real) result" where
  "predict_year key intervention_levels beta year =
     (let year_inc = year - 2024;
          b_cons = series_get beta ''_cons'' 0;
          b_year = series_get beta (show_int year_inc @ ''.year_inc'') 0
      in if key = ''pcogstate'' then
           bind_res (dict_index intervention_levels ''pcogstate_1'') (\<lambda>L1.
           bind_res (dict_index intervention_levels ''pcogstate_2'') (\<lambda>L2.
             let b_iv1 = series_get beta ''ivparm1'' 0;
                 b_year_iv1 = series_get beta (show_int year_inc @ ''.year_inc#c.ivparm1'') 0;
                 b_iv2 = series_get beta ''ivparm2'' 0;
                 b_year_iv2 = series_get beta (show_int year_inc @ ''.year_inc#c.ivparm2'') 0;
                 b_iv1_iv2 = series_get beta ''c.ivparm1#c.ivparm2'' 0;
                 b_year_iv1_iv2 =
                   series_get beta (show_int year_inc @ ''.year_inc#c.ivparm1#c.ivparm2'') 0;
                 base_val = b_cons + b_year +
                            b_iv1 * 1 + b_year_iv1 * 1 +
                            b_iv2 * 1 + b_year_iv2 * 1 +
                            b_iv1_iv2 * 1 * 1 + b_year_iv1_iv2 * 1 * 1;
                 inter_val = b_cons + b_year +
                             b_iv1 * L1 + b_year_iv1 * L1 +
                             b_iv2 * L2 + b_year_iv2 * L2 +
                             b_iv1_iv2 * L1 * L2 + b_year_iv1_iv2 * L1 * L2
             in Inr (base_val, inter_val)))
         else
           bind_res (dict_index intervention_levels key) (\<lambda>L1.
             let b_iv1 = series_get beta ''ivparm1'' 0;
                 b_year_iv1 = series_get beta (show_int year_inc @ ''.year_inc#c.ivparm1'') 0;
                 base_val = b_cons + b_year + b_iv1 * 1 + b_year_iv1 * 1;
                 inter_val = b_cons + b_year + b_iv1 * L1 + b_year_iv1 * L1
             in Inr (base_val, inter_val)))"

definition series_step :: "string \<Rightarrow> real pydict \<Rightarrow> series \<Rightarrow> int \<Rightarrow>
    real list \<times> real list \<Rightarrow> (real list \<times> real list) result" where
  "series_step key intervention_levels beta year acc =
     bind_res (predict_year key intervention_levels beta year) (\<lambda>(base_val, inter_val).
       Inr (fst acc @ [base_val], snd acc @ [inter_val]))"

definition predict_series :: "string \<Rightarrow> real pydict \<Rightarrow> series \<Rightarrow> int list \<Rightarrow>
    (real list \<times> real list) result" where
  "predict_series key intervention_levels beta year_range =
     fold_res (series_step key intervention_levels beta) year_range ([], [])"

definition diff_values :: "real list \<Rightarrow> real list \<Rightarrow> real list" where
  "diff_values intervention_values baseline_values =
     map (\<lambda>(i, b). i - b) (zip intervention_values baseline_values)"

section \<open>The contract: structured keys and value formulas\<close>

datatype ivparm = Ivparm1 | Ivparm2

datatype coef_key =
    Intercept
  | YearTrend int
  | Main ivparm
  | YearInteraction int ivparm
  | PairInteraction
  | YearPairInteraction int

fun ivparm_name :: "ivparm \<Rightarrow> string" where
  "ivparm_name Ivparm1 = ''ivparm1''"
| "ivparm_name Ivparm2 = ''ivparm2''"

fun key_name :: "coef_key \<Rightarrow> string" where
  "key_name Intercept = ''_cons''"
| "key_name (YearTrend y) = show_int y @ ''.year_inc''"
| "key_name (Main i) = ivparm_name i"
| "key_name (YearInteraction y i) = show_int y @ ''.year_inc#c.'' @ ivparm_name i"
| "key_name PairInteraction = ''c.ivparm1#c.ivparm2''"
| "key_name (YearPairInteraction y) = show_int y @ ''.year_inc#c.ivparm1#c.ivparm2''"

text \<open>Reading a name back: split at the first dot, then decide by the two parts.\<close>

definition parse_key :: "string \<Rightarrow> coef_key option" where
  "parse_key s =
     (let h = takeWhile (\<lambda>c. c \<noteq> CHR ''.'') s;
          t = dropWhile (\<lambda>c. c \<noteq> CHR ''.'') s
      in if t = [] then
           (if s = ''_cons'' then Some Intercept
            else if s = ''ivparm1'' then Some (Main Ivparm1)
            else if s = ''ivparm2'' then Some (Main Ivparm2)
            else None)
         else if s = ''c.ivparm1#c.ivparm2'' then Some PairInteraction
         else
           (case read_int h of
              None \<Rightarrow> None
            | Some y \<Rightarrow>
                if t = ''.year_inc'' then Some (YearTrend y)
                else if t = ''.year_inc#c.ivparm1'' then Some (YearInteraction y Ivparm1)
                else if t = ''.year_inc#c.ivparm2'' then Some (YearInteraction y Ivparm2)
                else if t = ''.year_inc#c.ivparm1#c.ivparm2'' then Some (YearPairInteraction y)
                else None))"

type_synonym coef_table = "coef_key \<Rightarrow> real"

definition coefficient :: "series \<Rightarrow> coef_table" where
  "coefficient beta k = series_get beta (key_name k) 0"

definition value_single :: "coef_table \<Rightarrow> int \<Rightarrow> real \<Rightarrow> real" where
  "value_single b y L =
     b Intercept + b (YearTrend y) + b (Main Ivparm1) * L + b (YearInteraction y Ivparm1) * L"

definition value_two :: "coef_table \<Rightarrow> int \<Rightarrow> real \<Rightarrow> real \<Rightarrow> real" where
  "value_two b y L1 L2 =
     b Intercept + b (YearTrend y) +
     b (Main Ivparm1) * L1 + b (YearInteraction y Ivparm1) * L1 +
     b (Main Ivparm2) * L2 + b (YearInteraction y Ivparm2) * L2 +
     b PairInteraction * L1 * L2 + b (YearPairInteraction y) * L1 * L2"

datatype variant = SingleLevel real | TwoLevel real real

fun predict_spec :: "coef_table \<Rightarrow> int \<Rightarrow> variant \<Rightarrow> real \<times> real" where
  "predict_spec b year (SingleLevel L) =
     (value_single b (year - 2024) 1, value_single b (year - 2024) L)"
| "predict_spec b year (TwoLevel L1 L2) =
     (value_two b (year - 2024) 1 1, value_two b (year - 2024) L1 L2)"

text \<open>
  Which variant an intervention code selects, and with which levels of the
  dictionary: the rule of the spec's selection vocabulary.
\<close>

definition select_variant :: "string \<Rightarrow> real pydict \<Rightarrow> variant result" where
  "select_variant key intervention_levels =
     (if key = ''pcogstate'' then
        bind_res (dict_index intervention_levels ''pcogstate_1'') (\<lambda>L1.
        bind_res (dict_index intervention_levels ''pcogstate_2'') (\<lambda>L2.
          Inr (TwoLevel L1 L2)))
      else bind_res (dict_index intervention_levels key) (\<lambda>L1. Inr (SingleLevel L1)))"

text \<open>The keys of the level dictionary that the loop subscripts for a code.\<close>

definition level_keys :: "string \<Rightarrow> string list" where
  "level_keys key = (if key = ''pcogstate'' then [''pcogstate_1'', ''pcogstate_2''] else [key])"

text \<open>A table given by structured keys, stored under the external names.\<close>

definition name_table :: "(coef_key \<times> real) list \<Rightarrow> series" where
  "name_table kvs = map (\<lambda>kv. (key_name (fst kv), snd kv)) kvs"

text \<open>The names each variant reads for a year offset.\<close>

definition single_keys :: "int \<Rightarrow> coef_key list" where
  "single_keys y = [Intercept, YearTrend y, Main Ivparm1, YearInteraction y Ivparm1]"

definition two_keys :: "int \<Rightarrow> coef_key list" where
  "two_keys y = single_keys y @
     [Main Ivparm2, YearInteraction y Ivparm2, PairInteraction, YearPairInteraction y]"

fun variant_keys :: "variant \<Rightarrow> int \<Rightarrow> coef_key list" where
  "variant_keys (SingleLevel L) y = single_keys y"
| "variant_keys (TwoLevel L1 L2) y = two_keys y"

section \<open>Names and keys\<close>

lemma key_name_fstrings [simp]:
  "show_int y @ ''.year_inc#c.ivparm1'' = key_name (YearInteraction y Ivparm1)"
  "show_int y @ ''.year_inc#c.ivparm2'' = key_name (YearInteraction y Ivparm2)"
  "show_int y @ ''.year_inc#c.ivparm1#c.ivparm2'' = key_name (YearPairInteraction y)"
  "show_int y @ ''.year_inc'' = key_name (YearTrend y)"
  by simp_all

lemma is_digit_not_c [simp]: "\<not> is_digit CHR ''c''"
  by (simp add: is_digit_def)

lemma show_int_append_neq_pair [simp]: "show_int y @ t \<noteq> ''c.ivparm1#c.ivparm2''"
proof -
  obtain c cs where "show_int y = c # cs" "c = CHR ''-'' \<or> is_digit c"
    using show_int_Cons by blast
  then show ?thesis by auto
qed

lemma parse_key_name [simp]: "parse_key (key_name k) = Some k"
proof (cases k)
  case (Main i)
  then show ?thesis by (cases i) (simp_all add: parse_key_def del: key_name_fstrings)
next
  case (YearInteraction y i)
  then show ?thesis by (cases i) (simp_all add: parse_key_def del: key_name_fstrings)
qed (simp_all add: parse_key_def del: key_name_fstrings)

lemma key_name_inject [simp]: "key_name k = key_name k' \<longleftrightarrow> k = k'"
  by (metis parse_key_name option.inject)

lemma coefficient_Nil [simp]: "coefficient [] k = 0"
  by (simp add: coefficient_def)

lemma coefficient_Cons:
  "coefficient ((n, v) # beta) k = (if n = key_name k then v else coefficient beta k)"
  by (simp add: coefficient_def)

lemma coefficient_insert_zero:
  assumes "name \<notin> fst ` set (b1 @ b2)"
  shows "coefficient (b1 @ (name, 0) # b2) = coefficient (b1 @ b2)"
proof
  fix k
  from assms have "series_get b2 name 0 = 0"
    by (intro series_get_absent) auto
  then show "coefficient (b1 @ (name, 0) # b2) k = coefficient (b1 @ b2) k"
    by (auto simp: coefficient_def series_get_append)
qed

section \<open>One year\<close>

lemma predict_year_spec:
  "predict_year key lv beta year =
     map_sum id (predict_spec (coefficient beta) year) (select_variant key lv)"
  by (simp add: predict_year_def select_variant_def map_sum_bind_res coefficient_def
      value_single_def value_two_def Let_def del: key_name_fstrings)

lemma predict_spec_cong:
  assumes "\<forall>k \<in> set (variant_keys v (year - 2024)). b k = b' k"
  shows "predict_spec b year v = predict_spec b' year v"
  using assms
  by (cases v) (simp_all add: value_single_def value_two_def single_keys_def two_keys_def)

lemma select_variant_single:
  "key \<noteq> ''pcogstate'' \<Longrightarrow> map_of lv key = Some L \<Longrightarrow>
     select_variant key lv = Inr (SingleLevel L)"
  by (simp add: select_variant_def dict_index_def)

lemma select_variant_two:
  "map_of lv ''pcogstate_1'' = Some L1 \<Longrightarrow> map_of lv ''pcogstate_2'' = Some L2 \<Longrightarrow>
     select_variant ''pcogstate'' lv = Inr (TwoLevel L1 L2)"
  by (simp add: select_variant_def dict_index_def)

lemma select_variant_ok:
  assumes "set (level_keys key) \<subseteq> set (dict_keys lv)"
  shows "\<exists>v. select_variant key lv = Inr v"
  using assms
  by (cases "key = ''pcogstate''")
     (auto simp: level_keys_def select_variant_def dict_index_def
        map_of_neq_None_iff [symmetric])

lemma select_variant_error:
  assumes "\<exists>k \<in> set (level_keys key). map_of lv k = None"
  shows "select_variant key lv =
     Inl (KeyError (hd (filter (\<lambda>k. map_of lv k = None) (level_keys key))))"
  using assms
  by (cases "key = ''pcogstate''")
     (auto simp: level_keys_def select_variant_def dict_index_def split: option.splits)


lemma value_two_reduces:
  assumes "\<forall>k \<in> set (two_keys y). k \<notin> set (single_keys y) \<longrightarrow> b k = 0"
  shows "value_two b y L1 L2 = value_single b y L1"
  using assms by (simp add: value_single_def value_two_def single_keys_def two_keys_def)

section \<open>The loop\<close>

lemma fold_series_step:
  "fold_res (series_step key lv beta) ys acc =
     (case select_variant key lv of
        Inl e \<Rightarrow> if ys = [] then Inr acc else Inl e
      | Inr v \<Rightarrow> Inr (fst acc @ map (\<lambda>y. fst (predict_spec (coefficient beta) y v)) ys,
                     snd acc @ map (\<lambda>y. snd (predict_spec (coefficient beta) y v)) ys))"
proof (induction ys arbitrary: acc)
  case Nil
  then show ?case by (simp split: sum.splits)
next
  case (Cons y ys)
  show ?case
  proof (cases "select_variant key lv")
    case (Inl e)
    then show ?thesis by (simp add: series_step_def predict_year_spec)
  next
    case (Inr v)
    with Cons.IH show ?thesis
      by (simp add: series_step_def predict_year_spec split_beta)
  qed
qed

lemma predict_series_ok:
  "select_variant key lv = Inr v \<Longrightarrow>
     predict_series key lv beta ys =
       Inr (map (\<lambda>y. fst (predict_spec (coefficient beta) y v)) ys,
            map (\<lambda>y. snd (predict_spec (coefficient beta) y v)) ys)"
  by (simp add: predict_series_def fold_series_step)

lemma predict_series_lengths:
  assumes "predict_series key lv beta ys = Inr (bs, is)"
  shows "length bs = length ys" "length is = length ys"
  using assms
  by (auto simp: predict_series_def fold_series_step split: sum.splits if_splits)

lemma diff_values_map:
  "diff_values (map f ys) (map g ys) = map (\<lambda>y. f y - g y) ys"
  by (simp add: diff_values_def zip_map_map zip_same_conv_map)

lemma length_diff_values [simp]:
  "length (diff_values is bs) = min (length is) (length bs)"
  by (simp add: diff_values_def)

lemma nth_diff_values:
  "k < length is \<Longrightarrow> k < length bs \<Longrightarrow> diff_values is bs ! k = is ! k - bs ! k"
  by (simp add: diff_values_def)

lemmas show_int_eval = show_int_def show_nat.simps digit_char_def

section \<open>Properties of the prediction engine\<close>

text \<open>
  C1. The year loop implements the contract: when the level dictionary has the
  levels the intervention code needs, the two lists the loop returns are, year by
  year and in the order of the years, the baseline and the intervention value of
  the specification's formula for the selected variant, evaluated on the table
  that reads every absent coefficient as 0; when a level is missing, the loop
  raises the \<^verbatim>\<open>KeyError\<close> in its first iteration, and returns two empty lists
  when there is no year at all.
\<close>

theorem predict_series_refines:
  "predict_series key lv beta ys =
     (case select_variant key lv of
        Inl e \<Rightarrow> if ys = [] then Inr ([], []) else Inl e
      | Inr v \<Rightarrow> Inr (map (\<lambda>y. fst (predict_spec (coefficient beta) y v)) ys,
                     map (\<lambda>y. snd (predict_spec (coefficient beta) y v)) ys))"
  by (simp add: predict_series_def fold_series_step split: sum.splits)

text \<open>
  C2. Zero default: a coefficient table that lacks a name behaves, for every
  intervention code, level dictionary and list of years, exactly as the table
  that holds this name with value 0, wherever the entry is inserted.
\<close>

theorem zero_default:
  assumes "name \<notin> fst ` set (b1 @ b2)"
  shows "predict_series key lv (b1 @ (name, 0) # b2) ys = predict_series key lv (b1 @ b2) ys"
  by (simp add: predict_series_def fold_series_step coefficient_insert_zero [OF assms]
      split: sum.splits)

theorem zero_default_witness:
  "''ivparm1'' \<notin> fst ` set ([(''_cons'', 10 :: real)] @ []) \<and>
   predict_series ''pdiabe'' [(''pdiabe'', 85 / 100)]
       ([(''_cons'', 10)] @ (''ivparm1'', 0) # []) [2026, 2028] =
     predict_series ''pdiabe'' [(''pdiabe'', 85 / 100)] ([(''_cons'', 10)] @ []) [2026, 2028]"
  using zero_default [of "''ivparm1''" "[(''_cons'', 10)]" "[]" "''pdiabe''"
      "[(''pdiabe'', 85 / 100)]" "[2026, 2028]"]
  by simp

text \<open>
  C3. Variant selection: for every intervention code other than
  \<^verbatim>\<open>pcogstate\<close> the prediction for a year reads only the intercept, the year
  trend, \<^verbatim>\<open>ivparm1\<close> and its year interaction; two tables that agree on these four
  coefficients give the same result, whatever they hold for the
  \<^verbatim>\<open>ivparm2\<close> family.
\<close>

theorem single_level_reads_four:
  assumes "key \<noteq> ''pcogstate''"
    and "\<forall>k \<in> set (single_keys (year - 2024)). coefficient beta k = coefficient beta' k"
  shows "predict_year key lv beta year = predict_year key lv beta' year"
proof (cases "select_variant key lv")
  case (Inl e)
  then show ?thesis by (simp add: predict_year_spec)
next
  case (Inr v)
  with assms(1) obtain L where "v = SingleLevel L"
    by (auto simp: select_variant_def bind_res_eq_Inr_iff)
  with assms(2) have "predict_spec (coefficient beta) year v = predict_spec (coefficient beta') year v"
    by (intro predict_spec_cong) simp
  with Inr show ?thesis by (simp add: predict_year_spec)
qed

theorem single_level_reads_four_witness:
  "predict_year ''pdiabe'' [(''pdiabe'', 85 / 100)]
       [(''_cons'', 10), (''ivparm1'', - 4), (''ivparm2'', 5), (''c.ivparm1#c.ivparm2'', 7)] 2026 =
   predict_year ''pdiabe'' [(''pdiabe'', 85 / 100)] [(''_cons'', 10), (''ivparm1'', - 4)] 2026"
  by (rule single_level_reads_four)
     (simp_all add: single_keys_def coefficient_def show_int_eval del: key_name_fstrings)

text \<open>
  C8. The order of the years does not matter: when the loop has been run over
  the years in any order, sorting the values by their years gives the two lists
  the loop returns for the same years in ascending order. The loop keeps no
  state from one year to the next.
\<close>

theorem years_in_any_order:
  assumes "predict_series key lv beta ys' = Inr (bs', is')"
    and "mset ys' = mset ys" "sorted ys"
  shows "predict_series key lv beta ys =
     Inr (map snd (sort_key fst (zip ys' bs')), map snd (sort_key fst (zip ys' is')))"
proof (cases "select_variant key lv")
  case (Inl e)
  with assms(1) have "ys' = []"
    by (simp add: predict_series_def fold_series_step split: if_splits)
  with assms(1,2) show ?thesis by (simp add: predict_series_def)
next
  case (Inr v)
  with assms(1) have "bs' = map (\<lambda>y. fst (predict_spec (coefficient beta) y v)) ys'"
    "is' = map (\<lambda>y. snd (predict_spec (coefficient beta) y v)) ys'"
    by (simp_all add: predict_series_ok)
  with Inr show ?thesis
    by (simp add: predict_series_ok reassemble_by_key [OF assms(2,3)])
qed

theorem years_in_any_order_witness:
  "predict_series ''pdiabe'' [(''pdiabe'', 17 / 20)] [(''_cons'', 10), (''4.year_inc'', 1)]
     [2026, 2028] =
     Inr (map snd (sort_key fst (zip [2028, 2026 :: int] [11, 10 :: real])),
          map snd (sort_key fst (zip [2028, 2026 :: int] [11, 10 :: real])))"
  by (rule years_in_any_order)
     (simp_all add: predict_series_def series_step_def predict_year_def dict_index_def Let_def
       show_int_eval del: key_name_fstrings)

text \<open>
  Level 1 means no intervention: when every level the code reads is 1, the
  intervention value of a year equals its baseline value, so the change is 0.
\<close>

lemma full_level_is_baseline:
  assumes "\<forall>k \<in> set (level_keys key). map_of lv k = Some 1"
  shows "\<exists>x. predict_year key lv beta year = Inr (x, x)"
proof (cases "key = ''pcogstate''")
  case True
  with assms have "select_variant key lv = Inr (TwoLevel 1 1)"
    by (simp add: level_keys_def select_variant_two)
  then show ?thesis by (simp add: predict_year_spec)
next
  case False
  with assms have "select_variant key lv = Inr (SingleLevel 1)"
    by (simp add: level_keys_def select_variant_single)
  then show ?thesis by (simp add: predict_year_spec)
qed



text \<open>
  C10. The two-level formula extends the single-level one: on a table whose
  \<^verbatim>\<open>ivparm2\<close>, pair and three-way coefficients are all 0 for the year, the
  \<^verbatim>\<open>pcogstate\<close> branch returns what the single-level branch returns for a code
  whose level is the first of the two levels.
\<close>

theorem two_level_reduces_to_single:
  assumes "key \<noteq> ''pcogstate''" "map_of lv key = Some L1"
    and "map_of lv ''pcogstate_1'' = Some L1" "map_of lv ''pcogstate_2'' = Some L2"
    and "\<forall>k \<in> set (two_keys (year - 2024)).
           k \<notin> set (single_keys (year - 2024)) \<longrightarrow> coefficient beta k = 0"
  shows "predict_year ''pcogstate'' lv beta year = predict_year key lv beta year"
  using assms(1-4) value_two_reduces [OF assms(5)]
  by (simp add: predict_year_spec select_variant_single select_variant_two)

theorem two_level_reduces_to_single_witness:
  "predict_year ''pcogstate''
       [(''pdiabe'', 85 / 100), (''pcogstate_1'', 85 / 100), (''pcogstate_2'', 9 / 10)]
       [(''_cons'', 10), (''ivparm1'', - 4)] 2026 =
   predict_year ''pdiabe''
       [(''pdiabe'', 85 / 100), (''pcogstate_1'', 85 / 100), (''pcogstate_2'', 9 / 10)]
       [(''_cons'', 10), (''ivparm1'', - 4)] 2026"
  by (rule two_level_reduces_to_single [where ?L1.0 = "85 / 100" and ?L2.0 = "9 / 10"])
     (simp_all add: two_keys_def single_keys_def coefficient_def show_int_eval
        del: key_name_fstrings)

text \<open>
  C11. A missing level is a \<^verbatim>\<open>KeyError\<close>: when the level dictionary lacks a key
  the code subscripts and there is at least one year, the loop ends with the
  \<^verbatim>\<open>KeyError\<close> of the first missing key, in the order \<^verbatim>\<open>pcogstate_1\<close>,
  \<^verbatim>\<open>pcogstate_2\<close>, and produces no values.
\<close>

theorem missing_level_raises:
  assumes "\<exists>k \<in> set (level_keys key). map_of lv k = None" "ys \<noteq> []"
  shows "predict_series key lv beta ys =
     Inl (KeyError (hd (filter (\<lambda>k. map_of lv k = None) (level_keys key))))"
  using assms(2) select_variant_error [OF assms(1)]
  by (simp add: predict_series_def fold_series_step)

theorem missing_level_raises_witness:
  "predict_series ''pcogstate'' [(''pcogstate_1'', 85 / 100)] [(''_cons'', 1)] [2026] =
     Inl (KeyError (hd (filter (\<lambda>k. map_of [(''pcogstate_1'', 85 / 100 :: real)] k = None)
       (level_keys ''pcogstate''))))"
  by (rule missing_level_raises) (simp_all add: level_keys_def)

text \<open>
  A table written under the names of its structured keys is read back, through
  the string lookup with default 0 that the code performs, as the structured
  table with absent keys read as 0.
\<close>

lemma coefficient_name_table:
  "coefficient (name_table kvs) k = (case map_of kvs k of None \<Rightarrow> 0 | Some v \<Rightarrow> v)"
  by (induction kvs) (auto simp: name_table_def coefficient_Cons)



end
