(* ===== verification/Emu_Config.thy ===== *)
theory Emu_Config
  imports Emu_Predictor
begin

text \<open>
  The constant tables of \<^verbatim>\<open>src/app.py\<close> (datasets, interventions, outcomes,
  subgroups), the loader that fills \<^verbatim>\<open>df_dict\<close> from the files that exist, the
  selection key \<^verbatim>\<open>f"{outcome_code}_{subgroup_code}"\<close> and the sidebar: its
  widgets with their arguments, the variables their answers are assigned to,
  and the loop that turns the selected interventions into sliders and into the
  dictionary of levels. The lemmas show that the tables are consistent with
  each other (every intervention code has a dataset, percentage outcomes are
  exactly the \<^verbatim>\<open>p_\<close> codes), that the selection key determines the outcome
  and the subgroup, that the sidebar produces every level the simulation later
  subscripts, and that the widgets of a run have pairwise different labels.
\<close>

section \<open>Tables\<close>

definition CLEANED_DATASETS :: "string pydict" where
  "CLEANED_DATASETS =
    [(''pdiabe'', ''clean_data/pdiabe_cleaned.csv''),
     (''phearte'', ''clean_data/phearte_cleaned.csv''),
     (''phibpe'', ''clean_data/phibpe_cleaned.csv''),
     (''pcogstate'', ''clean_data/pcogstate_cleaned.csv'')]"

definition INTERVENTION_OPTIONS :: "string pydict" where
  "INTERVENTION_OPTIONS =
    [(''Diabetes Incidence Reduction'', ''pdiabe''),
     (''Heart Disease Incidence Reduction'', ''phearte''),
     (''Hypertension Incidence Reduction'', ''phibpe''),
     (''MCI/Dementia Incidence Reduction'', ''pcogstate'')]"

definition OUTCOME_OPTIONS :: "string pydict" where
  "OUTCOME_OPTIONS =
    [(''Population'', ''n_startpop''),
     (''Nursing Home Population'', ''n_nhmliv''),
     (''Population with Dementia'', ''n_cogstate1''),
     (''Dementia Prevalence (%)'', ''p_cogstate1''),
     (''Population with MCI'', ''n_cogstate2''),
     (''MCI Prevalence (%)'', ''p_cogstate2''),
     (''Population with Diabetes'', ''n_diabe''),
     (''Diabetes Prevalence (%)'', ''p_diabe''),
     (''Population with Heart Disease'', ''n_hearte''),
     (''Heart Disease Prevalence (%)'', ''p_hearte''),
     (''Population with Hypertension'', ''n_hibpe''),
     (''Hypertension Prevalence (%)'', ''p_hibpe'')]"

definition SUBGROUP_OPTIONS :: "string pydict" where
  "SUBGROUP_OPTIONS =
    [(''Age 55-64'', ''5564''),
     (''Age 65-74'', ''6574''),
     (''Age 75-84'', ''7584''),
     (''Age 85+'', ''85p''),
     (''All'', ''all''),
     (''Non-Hispanic black'', ''blk''),
     (''At least some college'', ''college''),
     (''Female'', ''f''),
     (''Hispanic'', ''his''),
     (''Hispanic female'', ''his_f''),
     (''GED or less than high school'', ''hsless''),
     (''Male'', ''m''),
     (''Non-Hispanic white'', ''wht'')]"

section \<open>Loading the cleaned datasets\<close>

text \<open>
  The file system is a parameter: \<open>read_csv path\<close> is \<open>None\<close> when
  \<^verbatim>\<open>os.path.exists(path)\<close> is false and otherwise the frame that
  \<^verbatim>\<open>pd.read_csv(path, index_col=0)\<close> returns.
\<close>

definition load_step :: "(string \<Rightarrow> coef_frame option) \<Rightarrow> string \<times> string \<Rightarrow>
    coef_frame pydict \<Rightarrow> coef_frame pydict" where
  "load_step read_csv kp df_dict =
     (case read_csv (snd kp) of
        None \<Rightarrow> df_dict
      | Some df \<Rightarrow> dict_set df_dict (fst kp) df)"

definition load_cleaned_data :: "(string \<Rightarrow> coef_frame option) \<Rightarrow> coef_frame pydict" where
  "load_cleaned_data read_csv = fold (load_step read_csv) CLEANED_DATASETS []"

section \<open>Selection key\<close>

definition target_col :: "string \<Rightarrow> string \<Rightarrow> string" where
  "target_col outcome_code subgroup_code = outcome_code @ ''_'' @ subgroup_code"

text \<open>
  The shape all outcome codes share: one letter, an underscore, and a rest
  without underscore.
\<close>

definition code_shape :: "string \<Rightarrow> bool" where
  "code_shape code =
     (case code of a # b # r \<Rightarrow> b = CHR ''_'' \<and> CHR ''_'' \<notin> set r | _ \<Rightarrow> False)"

definition outcome_codes :: "string list" where
  "outcome_codes = map snd OUTCOME_OPTIONS"

definition subgroup_codes :: "string list" where
  "subgroup_codes = map snd SUBGROUP_OPTIONS"

section \<open>Sidebar\<close>

text \<open>
  A \<open>widget\<close> is one call of \<^verbatim>\<open>st.sidebar\<close> with the arguments the script gives
  it: label and options of a select box or a multi-select, label, minimum,
  maximum, initial pair and step of the range slider, label, minimum, maximum,
  initial value and step of a slider, label of the button. An \<open>answer\<close> is what
  such a call returns. \<open>valid_answer\<close> is what Streamlit promises of the
  returned value: an option of the list, distinct options of the list, a pair
  of steps inside the range, a value inside the range.
\<close>

datatype widget =
    Selectbox string "string list"
  | Multiselect string "string list"
  | RangeSlider string int int "int \<times> int" int
  | Slider string real real real real
  | Button string

datatype answer =
    Choice string
  | Choices "string list"
  | Range int int
  | Level real
  | Clicked bool

fun widget_label :: "widget \<Rightarrow> string" where
  "widget_label (Selectbox l opts) = l"
| "widget_label (Multiselect l opts) = l"
| "widget_label (RangeSlider l mn mx v step) = l"
| "widget_label (Slider l mn mx v step) = l"
| "widget_label (Button l) = l"

fun valid_answer :: "widget \<Rightarrow> answer \<Rightarrow> bool" where
  "valid_answer (Selectbox l opts) (Choice c) = (c \<in> set opts)"
| "valid_answer (Multiselect l opts) (Choices cs) = (set cs \<subseteq> set opts \<and> distinct cs)"
| "valid_answer (RangeSlider l mn mx v step) (Range a b) =
     (mn \<le> a \<and> a \<le> b \<and> b \<le> mx \<and> step dvd a - mn \<and> step dvd b - mn)"
| "valid_answer (Slider l mn mx v step) (Level x) = (mn \<le> x \<and> x \<le> mx)"
| "valid_answer (Button l) (Clicked b) = True"
| "valid_answer _ _ = False"

text \<open>The widgets of the script, one definition per call.\<close>

definition outcome_box :: widget where
  "outcome_box = Selectbox ''Outcome'' (dict_keys OUTCOME_OPTIONS)"

definition subgroup_box :: widget where
  "subgroup_box = Selectbox ''Subgroup'' (dict_keys SUBGROUP_OPTIONS)"

definition intervention_select :: widget where
  "intervention_select = Multiselect ''Choose Intervention(s)'' (dict_keys INTERVENTION_OPTIONS)"

definition year_slider :: widget where
  "year_slider = RangeSlider ''Year Range'' 2026 2050 (2026, 2050) 2"

definition level_sliders :: "string \<Rightarrow> string \<Rightarrow> widget list" where
  "level_sliders key item =
     (if key = ''pcogstate'' then
        [Slider ''Dementia Prevalence Reduction'' (1 / 2) 1 (85 / 100) (1 / 100),
         Slider ''MCI Prevalence Reduction'' (1 / 2) 1 (90 / 100) (1 / 100)]
      else [Slider (item @ '' Level'') (1 / 2) 1 (85 / 100) (1 / 100)])"

definition run_button :: widget where
  "run_button = Button ''Run Simulation''"

text \<open>
  The variables of the script that hold the answers. \<open>slider\<close> gives the
  current value of the slider with a given label.
\<close>

record inputs =
  selected_outcome :: string
  selected_subgroup :: string
  selected_interventions :: "string list"
  start_year :: int
  end_year :: int
  slider :: "string \<Rightarrow> real"
  run_clicked :: bool

definition level_step :: "(string \<Rightarrow> real) \<Rightarrow> string \<Rightarrow> real pydict \<Rightarrow> real pydict result" where
  "level_step sl item intervention_levels =
     bind_res (dict_index INTERVENTION_OPTIONS item) (\<lambda>key.
       if key = ''pcogstate'' then
         Inr (dict_set
               (dict_set intervention_levels ''pcogstate_1''
                  (sl ''Dementia Prevalence Reduction''))
               ''pcogstate_2'' (sl ''MCI Prevalence Reduction''))
       else Inr (dict_set intervention_levels key (sl (item @ '' Level''))))"

definition build_levels :: "inputs \<Rightarrow> real pydict result" where
  "build_levels inp = fold_res (level_step (slider inp)) (selected_interventions inp) []"

text \<open>
  \<open>covers lv item\<close>: the dictionary has every level the year loop subscripts
  for the code of \<open>item\<close>. \<open>levels_in_range\<close>: every level is one a slider
  \<^verbatim>\<open>(0.5, 1.0)\<close> can give.
\<close>

definition covers :: "real pydict \<Rightarrow> string \<Rightarrow> bool" where
  "covers lv item =
     (case map_of INTERVENTION_OPTIONS item of
        None \<Rightarrow> False
      | Some key \<Rightarrow> list_all (\<lambda>k. map_of lv k \<noteq> None) (level_keys key))"

definition levels_in_range :: "real pydict \<Rightarrow> bool" where
  "levels_in_range lv = list_all (\<lambda>kv. 1 / 2 \<le> snd kv \<and> snd kv \<le> 1) lv"

text \<open>
  The widgets in the order the script creates them: the four fixed ones, the
  sliders of each selected intervention, the button. A selection that is not a
  name of the intervention table raises in the loop, as it does in
  \<open>build_levels\<close>.
\<close>

definition widget_step :: "string \<Rightarrow> widget list \<Rightarrow> widget list result" where
  "widget_step item shown =
     bind_res (dict_index INTERVENTION_OPTIONS item) (\<lambda>key.
       Inr (shown @ level_sliders key item))"

definition sidebar_widgets :: "inputs \<Rightarrow> widget list result" where
  "sidebar_widgets inp =
     bind_res (fold_res widget_step (selected_interventions inp)
        [outcome_box, subgroup_box, intervention_select, year_slider])
       (\<lambda>shown. Inr (shown @ [run_button]))"

text \<open>
  \<open>answer_of inp w\<close> is the answer of widget \<open>w\<close> that the variables \<open>inp\<close> hold:
  the assignments of the script read backwards.
\<close>

definition answer_of :: "inputs \<Rightarrow> widget \<Rightarrow> answer" where
  "answer_of inp w =
     (case w of
        Selectbox l opts \<Rightarrow>
          Choice (if l = ''Outcome'' then selected_outcome inp else selected_subgroup inp)
      | Multiselect l opts \<Rightarrow> Choices (selected_interventions inp)
      | RangeSlider l mn mx v step \<Rightarrow> Range (start_year inp) (end_year inp)
      | Slider l mn mx v step \<Rightarrow> Level (slider inp l)
      | Button l \<Rightarrow> Clicked (run_clicked inp))"

text \<open>
  Every slider the loop can create, every widget the script can create, and
  \<open>wf_inputs\<close>: the variables hold, for each of these widgets, an answer the
  widget can give. \<open>sliders_ok\<close> is the part of it that concerns the levels.
\<close>

definition level_widgets :: "widget list" where
  "level_widgets = concat (map (\<lambda>(item, key). level_sliders key item) INTERVENTION_OPTIONS)"

definition all_widgets :: "widget list" where
  "all_widgets =
     [outcome_box, subgroup_box, intervention_select, year_slider] @ level_widgets @ [run_button]"

definition sliders_ok :: "(string \<Rightarrow> real) \<Rightarrow> bool" where
  "sliders_ok sl = list_all (\<lambda>w. valid_answer w (Level (sl (widget_label w)))) level_widgets"

definition wf_inputs :: "inputs \<Rightarrow> bool" where
  "wf_inputs inp = list_all (\<lambda>w. valid_answer w (answer_of inp w)) all_widgets"

text \<open>
  Closed forms: the sliders one selection adds, and the whole list of widgets
  of a selection.
\<close>

definition sliders_of :: "string \<Rightarrow> widget list" where
  "sliders_of item =
     (case map_of INTERVENTION_OPTIONS item of
        None \<Rightarrow> []
      | Some key \<Rightarrow> level_sliders key item)"

definition shown_widgets :: "string list \<Rightarrow> widget list" where
  "shown_widgets sel =
     [outcome_box, subgroup_box, intervention_select, year_slider] @
     concat (map sliders_of sel) @ [run_button]"

section \<open>Table lemmas\<close>

lemmas table_defs =
  CLEANED_DATASETS_def INTERVENTION_OPTIONS_def OUTCOME_OPTIONS_def SUBGROUP_OPTIONS_def

lemma distinct_dataset_keys: "distinct (dict_keys CLEANED_DATASETS)"
  by (simp add: dict_keys_def CLEANED_DATASETS_def)

lemma distinct_intervention_keys: "distinct (dict_keys INTERVENTION_OPTIONS)"
  by (simp add: dict_keys_def INTERVENTION_OPTIONS_def)

lemma distinct_outcome_keys: "distinct (dict_keys OUTCOME_OPTIONS)"
  by (simp add: dict_keys_def OUTCOME_OPTIONS_def)

lemma distinct_subgroup_keys: "distinct (dict_keys SUBGROUP_OPTIONS)"
  by (simp add: dict_keys_def SUBGROUP_OPTIONS_def)

lemma distinct_outcome_codes: "distinct outcome_codes"
  by (simp add: outcome_codes_def OUTCOME_OPTIONS_def)

lemma distinct_subgroup_codes: "distinct subgroup_codes"
  by (simp add: subgroup_codes_def SUBGROUP_OPTIONS_def)

lemma intervention_codes_are_datasets:
  "map snd INTERVENTION_OPTIONS = dict_keys CLEANED_DATASETS"
  by (simp add: dict_keys_def INTERVENTION_OPTIONS_def CLEANED_DATASETS_def)

lemma intervention_code_cases:
  assumes "map_of INTERVENTION_OPTIONS item = Some key"
  shows "key \<in> {''pdiabe'', ''phearte'', ''phibpe'', ''pcogstate''}"
  using assms by (auto simp: INTERVENTION_OPTIONS_def split: if_splits)

lemma pcogstate_not_level_key:
  "map_of INTERVENTION_OPTIONS item = Some key \<Longrightarrow> key \<noteq> ''pcogstate_1'' \<and> key \<noteq> ''pcogstate_2''"
  by (auto dest!: intervention_code_cases)

text \<open>
  Percentage outcomes are exactly the prevalence codes: an entry of the outcome
  table has a percent sign in its display name if and only if its code starts
  with \<^verbatim>\<open>p_\<close>.
\<close>

lemma percent_iff_p_code:
  "list_all (\<lambda>(name, code). CHR ''%'' \<in> set name \<longleftrightarrow> startswith code ''p_'') OUTCOME_OPTIONS"
  by (simp add: OUTCOME_OPTIONS_def startswith_def)

section \<open>Loader lemmas\<close>

lemma map_of_fold_load_step:
  assumes "distinct (map fst ps)"
  shows "map_of (fold (load_step fs) ps acc) key =
     (case map_of ps key of
        None \<Rightarrow> map_of acc key
      | Some path \<Rightarrow> (case fs path of None \<Rightarrow> map_of acc key | Some df \<Rightarrow> Some df))"
  using assms
proof (induction ps arbitrary: acc)
  case Nil
  then show ?case by simp
next
  case (Cons p ps)
  obtain k path where p: "p = (k, path)" by (cases p)
  from Cons.prems p have notin: "map_of ps k = None"
    by (simp add: map_of_eq_None_iff)
  from Cons.prems have "distinct (map fst ps)" by simp
  from Cons.IH [OF this] notin p show ?case
    by (auto simp: load_step_def split: option.splits)
qed

section \<open>Selection key lemmas\<close>

lemma outcome_codes_shape: "list_all code_shape outcome_codes"
  by (simp add: outcome_codes_def OUTCOME_OPTIONS_def code_shape_def)

lemma code_shapeD:
  "code_shape code \<Longrightarrow> \<exists>a r. code = a # CHR ''_'' # r \<and> CHR ''_'' \<notin> set r"
  by (auto simp: code_shape_def split: list.splits)

lemma target_col_inject:
  assumes "code_shape o1" "code_shape o2"
  shows "target_col o1 s1 = target_col o2 s2 \<longleftrightarrow> o1 = o2 \<and> s1 = s2"
proof -
  from assms obtain a1 r1 a2 r2 where
    o: "o1 = a1 # CHR ''_'' # r1" "o2 = a2 # CHR ''_'' # r2"
    and r: "CHR ''_'' \<notin> set r1" "CHR ''_'' \<notin> set r2"
    by (blast dest: code_shapeD)
  from append_sep_inject [OF r, of s1 s2] o show ?thesis
    by (auto simp: target_col_def)
qed

section \<open>Sidebar lemmas\<close>

lemma level_step_known:
  assumes "map_of INTERVENTION_OPTIONS item = Some key"
  shows "level_step sl item lv =
     Inr (if key = ''pcogstate'' then
            dict_set (dict_set lv ''pcogstate_1'' (sl ''Dementia Prevalence Reduction''))
              ''pcogstate_2'' (sl ''MCI Prevalence Reduction'')
          else dict_set lv key (sl (item @ '' Level'')))"
  using assms by (simp add: level_step_def dict_index_def)

lemma level_step_unknown:
  "map_of INTERVENTION_OPTIONS item = None \<Longrightarrow> level_step sl item lv = Inl (KeyError item)"
  by (simp add: level_step_def dict_index_def)

lemma covers_iff:
  "covers lv item \<longleftrightarrow>
     (\<exists>key. map_of INTERVENTION_OPTIONS item = Some key \<and>
        set (level_keys key) \<subseteq> set (dict_keys lv))"
  by (auto simp: covers_def list_all_iff map_of_neq_None_iff simp del: not_None_eq
      split: option.splits)

lemma covers_mono:
  "covers lv item \<Longrightarrow> set (dict_keys lv) \<subseteq> set (dict_keys lv') \<Longrightarrow> covers lv' item"
  by (auto simp: covers_iff)

lemmas widget_defs =
  outcome_box_def subgroup_box_def intervention_select_def year_slider_def run_button_def

lemma level_widgets_eval:
  "level_widgets =
     [Slider ''Diabetes Incidence Reduction Level'' (1 / 2) 1 (85 / 100) (1 / 100),
      Slider ''Heart Disease Incidence Reduction Level'' (1 / 2) 1 (85 / 100) (1 / 100),
      Slider ''Hypertension Incidence Reduction Level'' (1 / 2) 1 (85 / 100) (1 / 100),
      Slider ''Dementia Prevalence Reduction'' (1 / 2) 1 (85 / 100) (1 / 100),
      Slider ''MCI Prevalence Reduction'' (1 / 2) 1 (90 / 100) (1 / 100)]"
  by (simp add: level_widgets_def level_sliders_def INTERVENTION_OPTIONS_def)

lemma level_sliders_shown:
  "map_of INTERVENTION_OPTIONS item = Some key \<Longrightarrow>
     set (level_sliders key item) \<subseteq> set level_widgets"
  by (force simp: level_widgets_def dest: map_of_SomeD)

lemma sliders_ok_iff:
  "sliders_ok sl \<longleftrightarrow>
     (\<forall>w \<in> set level_widgets. 1 / 2 \<le> sl (widget_label w) \<and> sl (widget_label w) \<le> 1)"
  by (simp add: sliders_ok_def level_widgets_eval)

lemma sliders_ok_shown:
  assumes "sliders_ok sl" "map_of INTERVENTION_OPTIONS item = Some key"
    and "w \<in> set (level_sliders key item)"
  shows "1 / 2 \<le> sl (widget_label w) \<and> sl (widget_label w) \<le> 1"
  using assms level_sliders_shown [OF assms(2)] by (auto simp: sliders_ok_iff)

lemma wf_inputs_iff:
  "wf_inputs inp \<longleftrightarrow>
     selected_outcome inp \<in> set (dict_keys OUTCOME_OPTIONS) \<and>
     selected_subgroup inp \<in> set (dict_keys SUBGROUP_OPTIONS) \<and>
     set (selected_interventions inp) \<subseteq> set (dict_keys INTERVENTION_OPTIONS) \<and>
     distinct (selected_interventions inp) \<and>
     2026 \<le> start_year inp \<and> start_year inp \<le> end_year inp \<and> end_year inp \<le> 2050 \<and>
     even (start_year inp) \<and> even (end_year inp) \<and>
     sliders_ok (slider inp)"
  by (simp add: wf_inputs_def all_widgets_def widget_defs answer_of_def sliders_ok_def
      level_widgets_eval conj_ac)

lemma level_step_ok:
  assumes "item \<in> set (dict_keys INTERVENTION_OPTIONS)" "levels_in_range lv"
    and "sliders_ok sl"
  shows "\<exists>lv'. level_step sl item lv = Inr lv' \<and> levels_in_range lv' \<and>
     set (dict_keys lv) \<subseteq> set (dict_keys lv') \<and> covers lv' item"
proof -
  from assms(1) obtain key where key: "map_of INTERVENTION_OPTIONS item = Some key"
    by (auto simp: map_of_neq_None_iff [symmetric])
  from sliders_ok_shown [OF assms(3) key]
  have "\<forall>w \<in> set (level_sliders key item). 1 / 2 \<le> sl (widget_label w) \<and> sl (widget_label w) \<le> 1"
    by blast
  with assms(2) key show ?thesis
    by (auto simp: level_step_known [OF key] levels_in_range_def covers_iff level_keys_def
        list_all_dict_set level_sliders_def)
qed

lemma fold_level_step_ok:
  assumes "set items \<subseteq> set (dict_keys INTERVENTION_OPTIONS)" "levels_in_range lv"
    and "sliders_ok sl"
  shows "\<exists>lv'. fold_res (level_step sl) items lv = Inr lv' \<and> levels_in_range lv' \<and>
     set (dict_keys lv) \<subseteq> set (dict_keys lv') \<and> (\<forall>item \<in> set items. covers lv' item)"
  using assms(1,2)
proof (induction items arbitrary: lv)
  case Nil
  then show ?case by simp
next
  case (Cons x xs)
  from Cons.prems assms(3) obtain lv1 where lv1: "level_step sl x lv = Inr lv1"
    "levels_in_range lv1" "set (dict_keys lv) \<subseteq> set (dict_keys lv1)" "covers lv1 x"
    using level_step_ok [of x lv sl] by auto
  from Cons.prems(1) Cons.IH [OF _ lv1(2)] obtain lv' where lv':
    "fold_res (level_step sl) xs lv1 = Inr lv'" "levels_in_range lv'"
    "set (dict_keys lv1) \<subseteq> set (dict_keys lv')" "\<forall>item \<in> set xs. covers lv' item"
    by auto
  from lv1(4) lv'(3) have "covers lv' x" by (rule covers_mono)
  with lv1 lv' show ?case by auto
qed

lemma wf_inputs_levels:
  assumes "wf_inputs inp"
  obtains lv where "build_levels inp = Inr lv"
    "\<forall>d \<in> set (selected_interventions inp). covers lv d"
proof -
  from assms have "set (selected_interventions inp) \<subseteq> set (dict_keys INTERVENTION_OPTIONS)"
    "sliders_ok (slider inp)"
    by (simp_all add: wf_inputs_iff)
  from fold_level_step_ok [OF this(1) _ this(2), of "[]"] that show thesis
    by (auto simp: build_levels_def levels_in_range_def)
qed

lemma wf_inputs_codes:
  assumes "wf_inputs inp"
  obtains oc sc where "map_of OUTCOME_OPTIONS (selected_outcome inp) = Some oc"
    "map_of SUBGROUP_OPTIONS (selected_subgroup inp) = Some sc"
  using assms that
  by (auto simp: wf_inputs_iff map_of_neq_None_iff [symmetric])

lemma widget_step_known:
  "item \<in> set (dict_keys INTERVENTION_OPTIONS) \<Longrightarrow>
     widget_step item shown = Inr (shown @ sliders_of item)"
  by (auto simp: widget_step_def sliders_of_def dict_index_def map_of_neq_None_iff [symmetric])

lemma sidebar_widgets_closed:
  assumes "set (selected_interventions inp) \<subseteq> set (dict_keys INTERVENTION_OPTIONS)"
  shows "sidebar_widgets inp = Inr (shown_widgets (selected_interventions inp))"
proof -
  have "fold_res widget_step (selected_interventions inp) acc =
      Inr (acc @ concat (map sliders_of (selected_interventions inp)))" for acc
    using assms by (intro fold_res_collect widget_step_known) auto
  then show ?thesis by (simp add: sidebar_widgets_def shown_widgets_def)
qed

lemma sidebar_raises_as_levels:
  "map_sum id (\<lambda>_. ()) (sidebar_widgets inp) = map_sum id (\<lambda>_. ()) (build_levels inp)"
proof -
  have "map_sum id (\<lambda>_. ()) (widget_step x s) = map_sum id (\<lambda>_. ()) (level_step sl x t)"
    for x s t sl
    by (cases "map_of INTERVENTION_OPTIONS x") (simp_all add: widget_step_def level_step_def dict_index_def)
  from fold_res_same_error [of widget_step "level_step (slider inp)", OF this]
  have "map_sum id (\<lambda>_. ()) (fold_res widget_step (selected_interventions inp) s) =
     map_sum id (\<lambda>_. ()) (fold_res (level_step (slider inp)) (selected_interventions inp) t)" for s t .
  from this [of "[outcome_box, subgroup_box, intervention_select, year_slider]" "[]"]
  show ?thesis
    by (cases "fold_res widget_step (selected_interventions inp)
          [outcome_box, subgroup_box, intervention_select, year_slider]")
       (simp_all add: sidebar_widgets_def build_levels_def)
qed

lemma level_step_sliders:
  assumes "map_of INTERVENTION_OPTIONS item = Some key"
  shows "level_step sl item lv =
     Inr (fold (\<lambda>(k, w) lv. dict_set lv k (sl (widget_label w)))
            (zip (level_keys key) (level_sliders key item)) lv)"
  by (simp add: level_step_known [OF assms] level_keys_def level_sliders_def)

lemma slider_labels_eval:
  "map widget_label level_widgets =
     [''Diabetes Incidence Reduction Level'', ''Heart Disease Incidence Reduction Level'',
      ''Hypertension Incidence Reduction Level'', ''Dementia Prevalence Reduction'',
      ''MCI Prevalence Reduction'']"
  by (simp add: level_widgets_eval)

lemma sliders_of_eval:
  "map (map widget_label \<circ> sliders_of) (dict_keys INTERVENTION_OPTIONS) =
     [[''Diabetes Incidence Reduction Level''], [''Heart Disease Incidence Reduction Level''],
      [''Hypertension Incidence Reduction Level''],
      [''Dementia Prevalence Reduction'', ''MCI Prevalence Reduction'']]"
  by (simp add: dict_keys_def INTERVENTION_OPTIONS_def sliders_of_def level_sliders_def)

lemma slider_labels_distinct:
  assumes "distinct sel" "set sel \<subseteq> set (dict_keys INTERVENTION_OPTIONS)"
  shows "distinct (concat (map (map widget_label \<circ> sliders_of) sel))"
proof (rule distinct_concat_map_subset [OF _ _ assms])
  show "distinct (concat (map (map widget_label \<circ> sliders_of) (dict_keys INTERVENTION_OPTIONS)))"
    unfolding sliders_of_eval by simp
  have "distinct (map (map widget_label \<circ> sliders_of) (dict_keys INTERVENTION_OPTIONS))"
    unfolding sliders_of_eval by simp
  then show "inj_on (map widget_label \<circ> sliders_of) (set (dict_keys INTERVENTION_OPTIONS))"
    by (simp add: distinct_map)
qed

lemma sliders_of_shown:
  "set (sliders_of item) \<subseteq> set level_widgets"
  by (cases "map_of INTERVENTION_OPTIONS item")
     (use level_sliders_shown in \<open>auto simp: sliders_of_def\<close>)

lemma shown_labels_distinct:
  assumes "distinct sel" "set sel \<subseteq> set (dict_keys INTERVENTION_OPTIONS)"
  shows "distinct (map widget_label (shown_widgets sel))"
proof -
  have "set (concat (map (map widget_label \<circ> sliders_of) sel)) \<subseteq>
      set (map widget_label level_widgets)"
    using sliders_of_shown by fastforce
  then have "set (concat (map (map widget_label \<circ> sliders_of) sel)) \<inter>
      {''Outcome'', ''Subgroup'', ''Choose Intervention(s)'', ''Year Range'', ''Run Simulation''} = {}"
    unfolding slider_labels_eval by auto
  with slider_labels_distinct [OF assms] show ?thesis
    by (simp add: shown_widgets_def widget_defs map_concat)
qed

lemma shown_widgets_distinct:
  "distinct sel \<Longrightarrow> set sel \<subseteq> set (dict_keys INTERVENTION_OPTIONS) \<Longrightarrow>
     distinct (shown_widgets sel)"
  by (rule distinct_map [THEN iffD1, THEN conjunct1]) (rule shown_labels_distinct)

section \<open>Properties of the tables and the sidebar\<close>

text \<open>
  C13. The selection key determines the selection: for outcome codes of the
  outcome table, two keys \<^verbatim>\<open>f"{outcome_code}_{subgroup_code}"\<close> are equal if
  and only if both the outcome codes and the subgroup codes are equal, although
  subgroup codes may contain underscores themselves.
\<close>

theorem target_col_determines:
  assumes "o1 \<in> set outcome_codes" "o2 \<in> set outcome_codes"
  shows "target_col o1 s1 = target_col o2 s2 \<longleftrightarrow> o1 = o2 \<and> s1 = s2"
proof -
  from assms outcome_codes_shape have "code_shape o1" "code_shape o2"
    by (simp_all add: list_all_iff)
  then show ?thesis by (auto simp: target_col_inject)
qed

theorem target_col_determines_witness:
  "target_col ''n_hibpe'' ''his_f'' \<noteq> target_col ''p_hibpe'' ''his_f'' \<and>
   target_col ''n_hibpe'' ''his_f'' \<noteq> target_col ''n_hibpe'' ''his''"
  using target_col_determines [of "''n_hibpe''" "''p_hibpe''" "''his_f''" "''his_f''"]
    target_col_determines [of "''n_hibpe''" "''n_hibpe''" "''his_f''" "''his''"]
  by (simp add: outcome_codes_def OUTCOME_OPTIONS_def)

text \<open>
  The loader fills \<^verbatim>\<open>df_dict\<close> with exactly the datasets whose file exists:
  a key of the dataset table is bound to the frame read from its path when the
  path exists and is unbound otherwise, and no other key is bound.
\<close>

lemma load_cleaned_data_lookup:
  "map_of (load_cleaned_data fs) key =
     (case map_of CLEANED_DATASETS key of None \<Rightarrow> None | Some path \<Rightarrow> fs path)"
  using distinct_dataset_keys
  by (simp add: load_cleaned_data_def map_of_fold_load_step dict_keys_def split: option.splits)

text \<open>
  C15. The sidebar produces every level the simulation reads: when the selected
  interventions are names of the intervention table and every slider the loop
  can create holds a value of its range, building the level dictionary raises no \<^verbatim>\<open>KeyError\<close>, the
  dictionary holds, for each selected intervention, all the keys the year loop
  subscripts for its code, and every level in it lies between 0.5 and 1.
\<close>

theorem build_levels_covers:
  assumes "set (selected_interventions inp) \<subseteq> set (dict_keys INTERVENTION_OPTIONS)"
    and "sliders_ok (slider inp)"
  shows "\<exists>lv. build_levels inp = Inr lv \<and> levels_in_range lv \<and>
     (\<forall>item \<in> set (selected_interventions inp). covers lv item)"
  using fold_level_step_ok [OF assms(1) _ assms(2), of "[]"]
  by (auto simp: build_levels_def levels_in_range_def)

theorem build_levels_covers_witness:
  "\<exists>lv. build_levels \<lparr>selected_outcome = ''Population'', selected_subgroup = ''All'',
       selected_interventions = [''MCI/Dementia Incidence Reduction''],
       start_year = 2026, end_year = 2050, slider = (\<lambda>l. 85 / 100), run_clicked = True\<rparr> = Inr lv \<and>
     levels_in_range lv \<and>
     (\<forall>item \<in> set (selected_interventions \<lparr>selected_outcome = ''Population'',
         selected_subgroup = ''All'',
         selected_interventions = [''MCI/Dementia Incidence Reduction''],
         start_year = 2026, end_year = 2050, slider = (\<lambda>l. 85 / 100), run_clicked = True\<rparr>).
       covers lv item)"
  by (rule build_levels_covers)
     (simp_all add: dict_keys_def INTERVENTION_OPTIONS_def sliders_ok_iff level_widgets_eval)

text \<open>
  C18. The script never creates the same widget twice: for answers the widgets
  can give, the sidebar is built without \<^verbatim>\<open>KeyError\<close> and the labels of the
  widgets it creates, the sliders of the selected interventions included, are
  pairwise different, so that no two widgets share an identity.
\<close>

theorem sidebar_widgets_distinct:
  assumes "wf_inputs inp"
  shows "\<exists>shown. sidebar_widgets inp = Inr shown \<and> distinct (map widget_label shown)"
proof -
  from assms have "set (selected_interventions inp) \<subseteq> set (dict_keys INTERVENTION_OPTIONS)"
    "distinct (selected_interventions inp)"
    by (simp_all add: wf_inputs_iff)
  from sidebar_widgets_closed [OF this(1)] shown_labels_distinct [OF this(2,1)]
  show ?thesis by simp
qed

theorem sidebar_widgets_distinct_witness:
  "\<exists>shown. sidebar_widgets \<lparr>selected_outcome = ''Population'', selected_subgroup = ''All'',
       selected_interventions = [''MCI/Dementia Incidence Reduction'',
         ''Diabetes Incidence Reduction''],
       start_year = 2026, end_year = 2050, slider = (\<lambda>l. 85 / 100), run_clicked = True\<rparr> =
       Inr shown \<and> distinct (map widget_label shown)"
  by (rule sidebar_widgets_distinct)
     (simp add: wf_inputs_iff sliders_ok_iff level_widgets_eval dict_keys_def table_defs)

end
