(* ===== verification/Emu_Simulation.thy ===== *)
theory Emu_Simulation
  imports Emu_Config
begin

text \<open>
  The handler of the \<^verbatim>\<open>Run Simulation\<close> button of \<^verbatim>\<open>src/app.py\<close> up to the
  point where the charts are drawn: the state it builds (the results frame, the
  error messages shown with \<^verbatim>\<open>st.error\<close>, the flag \<^verbatim>\<open>valid_plot\<close>), one step
  per selected intervention (\<open>sim_step\<close>) and the loop over the selection
  (\<open>run_simulation\<close>). The loop is also given as a transition system, the
  inductive predicate \<open>reachable\<close>. The lemmas classify each step (unknown name,
  dataset not loaded, column missing, usable), show that the results frame stays
  well formed, give the final state in closed form (which messages, which
  columns, which values) and prove the invariants of the reachable states by
  rule induction.
\<close>

section \<open>State\<close>

record sim_state =
  results_df :: "(nat, real) frame"
  errors :: "string list"
  valid_plot :: bool

definition init_results :: "int list \<Rightarrow> (nat, real) frame" where
  "init_results year_range =
     \<lparr>df_index = [0..<length year_range], df_columns = [(''Year'', map of_int year_range)]\<rparr>"

definition init_state :: "int list \<Rightarrow> sim_state" where
  "init_state year_range =
     \<lparr>results_df = init_results year_range, errors = [], valid_plot = False\<rparr>"

section \<open>Column names and messages\<close>

definition squote :: char where
  "squote = CHR 0x27"

definition baseline_col :: "string \<Rightarrow> string" where
  "baseline_col display_name = ''Baseline ('' @ display_name @ '')''"

definition intervention_col :: "string \<Rightarrow> string" where
  "intervention_col display_name = ''Intervention ('' @ display_name @ '')''"

definition change_col :: "string \<Rightarrow> string" where
  "change_col display_name = ''Change ('' @ display_name @ '')''"

definition dataset_error :: "string \<Rightarrow> string" where
  "dataset_error key = ''Dataset for '' @ key @ '' not loaded.''"

definition column_error :: "string \<Rightarrow> string \<Rightarrow> string" where
  "column_error target key =
     ''Column '' @ [squote] @ target @ [squote] @ '' not found in '' @ key @ '' dataset.''"

section \<open>One selected intervention\<close>

definition store_results :: "string \<Rightarrow> real list \<Rightarrow> real list \<Rightarrow> (nat, real) frame \<Rightarrow>
    (nat, real) frame result" where
  "store_results display_name baseline_values intervention_values df =
     bind_res (assign_column df (baseline_col display_name) baseline_values) (\<lambda>df.
     bind_res (assign_column df (intervention_col display_name) intervention_values) (\<lambda>df.
       let diff = diff_values intervention_values baseline_values
       in bind_res (assign_column df (baseline_col display_name) baseline_values) (\<lambda>df.
          bind_res (assign_column df (intervention_col display_name) intervention_values) (\<lambda>df.
          assign_column df (change_col display_name) diff))))"

definition sim_step :: "coef_frame pydict \<Rightarrow> real pydict \<Rightarrow> string \<Rightarrow> int list \<Rightarrow> string \<Rightarrow>
    sim_state \<Rightarrow> sim_state result" where
  "sim_step df_dict intervention_levels target year_range display_name st =
     bind_res (dict_index INTERVENTION_OPTIONS display_name) (\<lambda>key.
       case map_of df_dict key of
         None \<Rightarrow> Inr (st\<lparr>errors := errors st @ [dataset_error key]\<rparr>)
       | Some df \<Rightarrow>
           if \<not> has_column df target then
             Inr (st\<lparr>errors := errors st @ [column_error target key]\<rparr>)
           else
             bind_res (get_column df target) (\<lambda>beta.
             bind_res (predict_series key intervention_levels beta year_range) (\<lambda>vals.
             bind_res (store_results display_name (fst vals) (snd vals) (results_df st)) (\<lambda>df'.
               Inr (st\<lparr>results_df := df', valid_plot := True\<rparr>)))))"

section \<open>The loop over the selection\<close>

definition year_range_of :: "inputs \<Rightarrow> int list" where
  "year_range_of inp = py_range (start_year inp) (end_year inp + 1) 2"

definition run_simulation :: "coef_frame pydict \<Rightarrow> inputs \<Rightarrow> real pydict \<Rightarrow> sim_state result" where
  "run_simulation df_dict inp intervention_levels =
     bind_res (dict_index OUTCOME_OPTIONS (selected_outcome inp)) (\<lambda>outcome_code.
     bind_res (dict_index SUBGROUP_OPTIONS (selected_subgroup inp)) (\<lambda>subgroup_code.
       let target = target_col outcome_code subgroup_code;
           year_range = year_range_of inp
       in fold_res (sim_step df_dict intervention_levels target year_range)
            (selected_interventions inp) (init_state year_range)))"

section \<open>Classification of a selected intervention\<close>

datatype 'a step_kind = Unknown | NoDataset string | NoColumn string | Usable string "(string \<times> 'a) list"

definition classify :: "(string, 'a) frame pydict \<Rightarrow> string \<Rightarrow> string \<Rightarrow> 'a step_kind" where
  "classify df_dict target display_name =
     (case map_of INTERVENTION_OPTIONS display_name of
        None \<Rightarrow> Unknown
      | Some key \<Rightarrow>
          (case map_of df_dict key of
             None \<Rightarrow> NoDataset key
           | Some df \<Rightarrow>
               (case map_of (df_columns df) target of
                  None \<Rightarrow> NoColumn key
                | Some vs \<Rightarrow> Usable key (zip (df_index df) vs))))"

definition is_usable :: "'a step_kind \<Rightarrow> bool" where
  "is_usable k = (case k of Usable _ _ \<Rightarrow> True | _ \<Rightarrow> False)"

fun step_message :: "string \<Rightarrow> 'a step_kind \<Rightarrow> string list" where
  "step_message target (NoDataset key) = [dataset_error key]"
| "step_message target (NoColumn key) = [column_error target key]"
| "step_message target _ = []"

text \<open>The three columns a usable intervention leaves in the results frame.\<close>

definition add_columns :: "string \<Rightarrow> real list \<Rightarrow> real list \<Rightarrow> (nat, real) frame \<Rightarrow> (nat, real) frame" where
  "add_columns d bs is df =
     set_column (set_column (set_column df (baseline_col d) bs) (intervention_col d) is)
       (change_col d) (diff_values is bs)"

section \<open>Invariants\<close>

text \<open>
  \<open>sim_inv n\<close>: the results frame is well formed and has \<open>n\<close> rows.
  \<open>change_consistent\<close>: every change column is the difference of the
  intervention and the baseline column of the same intervention.
\<close>

definition sim_inv :: "nat \<Rightarrow> sim_state \<Rightarrow> bool" where
  "sim_inv n st \<longleftrightarrow> wf_frame (results_df st) \<and> length (df_index (results_df st)) = n"

definition change_consistent :: "(nat, real) frame \<Rightarrow> bool" where
  "change_consistent df \<longleftrightarrow>
     (\<forall>d ch. map_of (df_columns df) (change_col d) = Some ch \<longrightarrow>
        (\<exists>b i. map_of (df_columns df) (baseline_col d) = Some b \<and>
           map_of (df_columns df) (intervention_col d) = Some i \<and> ch = diff_values i b))"

section \<open>The handler as a transition system\<close>

text \<open>
  The states the loop over the selection can be in: the state before the loop
  and every state a step that raised nothing leads to, whatever intervention
  the step is for. \<open>columns_together\<close>: the flag \<^verbatim>\<open>valid_plot\<close> is set exactly
  when the frame has a baseline column, and the three columns of an
  intervention are present together or not at all.
\<close>

inductive reachable :: "coef_frame pydict \<Rightarrow> real pydict \<Rightarrow> string \<Rightarrow> int list \<Rightarrow>
    sim_state \<Rightarrow> bool"
  for df_dict lv target ys where
    reachable_init: "reachable df_dict lv target ys (init_state ys)"
  | reachable_step: "reachable df_dict lv target ys st \<Longrightarrow>
      sim_step df_dict lv target ys d st = Inr st' \<Longrightarrow>
      reachable df_dict lv target ys st'"

definition columns_together :: "sim_state \<Rightarrow> bool" where
  "columns_together st \<longleftrightarrow>
     (valid_plot st \<longleftrightarrow> (\<exists>d. has_column (results_df st) (baseline_col d))) \<and>
     (\<forall>d. has_column (results_df st) (intervention_col d) =
            has_column (results_df st) (baseline_col d) \<and>
          has_column (results_df st) (change_col d) =
            has_column (results_df st) (baseline_col d))"

section \<open>A worked example\<close>

text \<open>
  The single-level table of the specification's testable properties
  (\<^verbatim>\<open>_cons\<close> 10, \<^verbatim>\<open>2.year_inc\<close> 1, \<^verbatim>\<open>ivparm1\<close> -4, its year interaction -0.5)
  as the only column of the only loaded dataset, one year (2026), level 0.85,
  and a second selected intervention whose dataset is not loaded. The expected
  state holds the baseline 6.5, the intervention value 7.175, the change 0.675
  and one message.
\<close>

definition example_beta :: series where
  "example_beta =
     [(''_cons'', 10), (''2.year_inc'', 1), (''ivparm1'', - 4),
      (''2.year_inc#c.ivparm1'', - (1 / 2))]"

definition example_frame :: coef_frame where
  "example_frame =
     \<lparr>df_index = [''_cons'', ''2.year_inc'', ''ivparm1'', ''2.year_inc#c.ivparm1''],
      df_columns = [(''n_startpop_all'', [10, 1, - 4, - (1 / 2)])]\<rparr>"

definition example_df_dict :: "coef_frame pydict" where
  "example_df_dict = [(''pdiabe'', example_frame)]"

definition example_inputs :: inputs where
  "example_inputs =
     \<lparr>selected_outcome = ''Population'', selected_subgroup = ''All'',
      selected_interventions =
        [''Diabetes Incidence Reduction'', ''Heart Disease Incidence Reduction''],
      start_year = 2026, end_year = 2026, slider = (\<lambda>l. 17 / 20), run_clicked = True\<rparr>"

definition example_levels :: "real pydict" where
  "example_levels = [(''pdiabe'', 17 / 20), (''phearte'', 17 / 20)]"

definition example_state :: sim_state where
  "example_state =
     \<lparr>results_df =
        \<lparr>df_index = [0],
         df_columns =
           [(''Year'', [2026]),
            (''Baseline (Diabetes Incidence Reduction)'', [13 / 2]),
            (''Intervention (Diabetes Incidence Reduction)'', [287 / 40]),
            (''Change (Diabetes Incidence Reduction)'', [27 / 40])]\<rparr>,
      errors = [''Dataset for phearte not loaded.''],
      valid_plot = True\<rparr>"

section \<open>Column names\<close>

lemmas col_defs = baseline_col_def intervention_col_def change_col_def

lemma col_inject [simp]:
  "baseline_col d = baseline_col d' \<longleftrightarrow> d = d'"
  "intervention_col d = intervention_col d' \<longleftrightarrow> d = d'"
  "change_col d = change_col d' \<longleftrightarrow> d = d'"
  by (simp_all add: col_defs)

lemma col_distinct [simp]:
  "baseline_col d \<noteq> intervention_col d'" "intervention_col d \<noteq> baseline_col d'"
  "baseline_col d \<noteq> change_col d'" "change_col d \<noteq> baseline_col d'"
  "intervention_col d \<noteq> change_col d'" "change_col d \<noteq> intervention_col d'"
  "baseline_col d \<noteq> ''Year''" "intervention_col d \<noteq> ''Year''" "change_col d \<noteq> ''Year''"
  "''Year'' \<noteq> baseline_col d" "''Year'' \<noteq> intervention_col d" "''Year'' \<noteq> change_col d"
  by (simp_all add: col_defs)

lemma dataset_error_inject [simp]: "dataset_error k = dataset_error k' \<longleftrightarrow> k = k'"
  by (simp add: dataset_error_def)

lemma dataset_error_not_column [simp]: "dataset_error k \<noteq> column_error t k'"
  by (simp add: dataset_error_def column_error_def)

section \<open>Steps\<close>

lemma store_results_eq:
  assumes "length bs = length (df_index df)" "length is = length (df_index df)"
  shows "store_results d bs is df = Inr (add_columns d bs is df)"
  using assms
  by (simp add: store_results_def add_columns_def Let_def set_column_same)

lemma store_results_bad:
  assumes "length bs \<noteq> length (df_index df) \<or> length is \<noteq> length (df_index df)"
  shows "store_results d bs is df = Inl ValueError"
  using assms
  by (auto simp: store_results_def Let_def assign_column_def)

lemma sim_step_classify:
  "sim_step df_dict lv target ys d st =
    (case classify df_dict target d of
       Unknown \<Rightarrow> Inl (KeyError d)
     | NoDataset key \<Rightarrow> Inr (st\<lparr>errors := errors st @ [dataset_error key]\<rparr>)
     | NoColumn key \<Rightarrow> Inr (st\<lparr>errors := errors st @ [column_error target key]\<rparr>)
     | Usable key beta \<Rightarrow>
         bind_res (predict_series key lv beta ys) (\<lambda>vals.
         bind_res (store_results d (fst vals) (snd vals) (results_df st)) (\<lambda>df'.
           Inr (st\<lparr>results_df := df', valid_plot := True\<rparr>))))"
  by (simp add: sim_step_def classify_def dict_index_def has_column_iff get_column_def
      split: option.splits)

lemma store_results_Inr:
  assumes "store_results d bs is df = Inr df'"
  shows "df' = add_columns d bs is df \<and> length bs = length (df_index df) \<and>
     length is = length (df_index df)"
proof (cases "length bs = length (df_index df) \<and> length is = length (df_index df)")
  case True
  with assms show ?thesis by (simp add: store_results_eq)
next
  case False
  then have "store_results d bs is df = Inl ValueError"
    by (intro store_results_bad) auto
  with assms show ?thesis by simp
qed

lemma df_index_add_columns [simp]: "df_index (add_columns d bs is df) = df_index df"
  by (simp add: add_columns_def)

lemma map_of_add_columns:
  "map_of (df_columns (add_columns d bs is df)) =
     (map_of (df_columns df))(baseline_col d \<mapsto> bs, intervention_col d \<mapsto> is,
        change_col d \<mapsto> diff_values is bs)"
  by (simp add: add_columns_def)

lemma wf_frame_add_columns [emu_inv]:
  assumes "wf_frame df" "length bs = length (df_index df)" "length is = length (df_index df)"
  shows "wf_frame (add_columns d bs is df)"
  using assms by (simp add: add_columns_def emu_inv)

lemma sim_step_Inr:
  assumes "sim_step df_dict lv target ys d st = Inr st'"
  shows "case classify df_dict target d of
       Unknown \<Rightarrow> False
     | NoDataset key \<Rightarrow> st' = st\<lparr>errors := errors st @ [dataset_error key]\<rparr>
     | NoColumn key \<Rightarrow> st' = st\<lparr>errors := errors st @ [column_error target key]\<rparr>
     | Usable key beta \<Rightarrow>
         (\<exists>bs is. predict_series key lv beta ys = Inr (bs, is) \<and>
            length bs = length (df_index (results_df st)) \<and>
            length is = length (df_index (results_df st)) \<and>
            st' = st\<lparr>results_df := add_columns d bs is (results_df st), valid_plot := True\<rparr>)"
  using assms
  by (auto simp: sim_step_classify bind_res_eq_Inr_iff split: step_kind.splits
      dest!: store_results_Inr)

lemma sim_step_inv:
  assumes "sim_step df_dict lv target ys d st = Inr st'" "sim_inv n st"
  shows "sim_inv n st'"
  using sim_step_Inr [OF assms(1)] assms(2)
  by (auto simp: sim_inv_def emu_inv split: step_kind.splits)

lemma sim_step_errors:
  assumes "sim_step df_dict lv target ys d st = Inr st'"
  shows "errors st' = errors st @ step_message target (classify df_dict target d)"
    and "valid_plot st' \<longleftrightarrow> valid_plot st \<or> is_usable (classify df_dict target d)"
  using sim_step_Inr [OF assms]
  by (auto simp: is_usable_def split: step_kind.splits)

lemma sim_step_frame:
  assumes "sim_step df_dict lv target ys d st = Inr st'"
    and "c \<notin> {baseline_col d, intervention_col d, change_col d}"
  shows "map_of (df_columns (results_df st')) c = map_of (df_columns (results_df st)) c"
  using sim_step_Inr [OF assms(1)] assms(2)
  by (auto simp: map_of_add_columns split: step_kind.splits)

section \<open>The loop\<close>

lemma fold_sim_step_errors:
  assumes "fold_res (sim_step df_dict lv target ys) ds st = Inr st'"
  shows "errors st' = errors st @ concat (map (\<lambda>d. step_message target (classify df_dict target d)) ds)
    \<and> (valid_plot st' \<longleftrightarrow> valid_plot st \<or> list_ex (\<lambda>d. is_usable (classify df_dict target d)) ds)"
  using assms
proof (induction ds arbitrary: st)
  case Nil
  then show ?case by simp
next
  case (Cons d ds)
  from Cons.prems obtain st1 where st1: "sim_step df_dict lv target ys d st = Inr st1"
    and rest: "fold_res (sim_step df_dict lv target ys) ds st1 = Inr st'"
    by (auto simp: bind_res_eq_Inr_iff)
  from Cons.IH [OF rest] sim_step_errors [OF st1] show ?case by auto
qed

lemma fold_sim_step_frame:
  assumes "fold_res (sim_step df_dict lv target ys) ds st = Inr st'"
    and "\<forall>d \<in> set ds. c \<notin> {baseline_col d, intervention_col d, change_col d}"
  shows "map_of (df_columns (results_df st')) c = map_of (df_columns (results_df st)) c"
proof (rule fold_res_invariant [OF assms(1)])
  show "map_of (df_columns (results_df st)) c = map_of (df_columns (results_df st)) c" ..
next
  fix d u v
  assume "d \<in> set ds" "sim_step df_dict lv target ys d u = Inr v"
    and "map_of (df_columns (results_df u)) c = map_of (df_columns (results_df st)) c"
  with assms(2) show "map_of (df_columns (results_df v)) c = map_of (df_columns (results_df st)) c"
    by (auto dest: sim_step_frame)
qed

lemma fold_sim_step_inv:
  assumes "fold_res (sim_step df_dict lv target ys) ds st = Inr st'" "sim_inv n st"
  shows "sim_inv n st'"
  using assms by (rule fold_res_invariant) (rule sim_step_inv)

lemma change_consistent_add_columns:
  "change_consistent df \<Longrightarrow> change_consistent (add_columns d bs is df)"
  by (auto simp: change_consistent_def map_of_add_columns)

lemma sim_step_change:
  assumes "sim_step df_dict lv target ys d st = Inr st'" "change_consistent (results_df st)"
  shows "change_consistent (results_df st')"
  using sim_step_Inr [OF assms(1)] assms(2)
  by (auto simp: change_consistent_add_columns split: step_kind.splits)

lemma fold_sim_step_change:
  assumes "fold_res (sim_step df_dict lv target ys) ds st = Inr st'"
    "change_consistent (results_df st)"
  shows "change_consistent (results_df st')"
  using assms by (rule fold_res_invariant) (rule sim_step_change)

lemma fold_sim_step_values:
  assumes "fold_res (sim_step df_dict lv target ys) ds st = Inr st'" "d \<in> set ds"
    and "classify df_dict target d = Usable key beta"
  shows "\<exists>bs is. predict_series key lv beta ys = Inr (bs, is) \<and>
     map_of (df_columns (results_df st')) (baseline_col d) = Some bs \<and>
     map_of (df_columns (results_df st')) (intervention_col d) = Some is \<and>
     map_of (df_columns (results_df st')) (change_col d) = Some (diff_values is bs)"
  using assms(1,2)
proof (induction ds arbitrary: st)
  case Nil
  then show ?case by simp
next
  case (Cons x xs)
  from Cons.prems(1) obtain st1 where st1: "sim_step df_dict lv target ys x st = Inr st1"
    and rest: "fold_res (sim_step df_dict lv target ys) xs st1 = Inr st'"
    by (auto simp: bind_res_eq_Inr_iff)
  show ?case
  proof (cases "d \<in> set xs")
    case True
    with rest show ?thesis by (rule Cons.IH)
  next
    case False
    with Cons.prems(2) have x: "x = d" by simp
    from False have keep: "\<forall>e \<in> set xs. c \<notin> {baseline_col e, intervention_col e, change_col e}"
      if "c \<in> {baseline_col d, intervention_col d, change_col d}" for c
      using that by auto
    from sim_step_Inr [OF st1] x assms(3) obtain bs "is" where
      p: "predict_series key lv beta ys = Inr (bs, is)"
      and st1': "st1 = st\<lparr>results_df := add_columns d bs is (results_df st), valid_plot := True\<rparr>"
      by auto
    from fold_sim_step_frame [OF rest keep] st1' p show ?thesis
      by (simp add: map_of_add_columns)
  qed
qed

lemma run_simulation_Inr:
  assumes "run_simulation df_dict inp lv = Inr st"
  obtains oc sc where "map_of OUTCOME_OPTIONS (selected_outcome inp) = Some oc"
    "map_of SUBGROUP_OPTIONS (selected_subgroup inp) = Some sc"
    "fold_res (sim_step df_dict lv (target_col oc sc) (year_range_of inp))
       (selected_interventions inp) (init_state (year_range_of inp)) = Inr st"
  using assms by (auto simp: run_simulation_def bind_res_eq_Inr_iff Let_def)

lemma sim_inv_init: "sim_inv (length ys) (init_state ys)"
  by (simp add: sim_inv_def init_state_def init_results_def wf_frame_def)

lemma change_consistent_init: "change_consistent (results_df (init_state ys))"
  by (simp add: change_consistent_def init_state_def init_results_def)



lemma classify_Usable_key:
  "classify df_dict target d = Usable key beta \<Longrightarrow> map_of INTERVENTION_OPTIONS d = Some key"
  by (auto simp: classify_def split: option.splits)

lemma classify_NoDataset_iff:
  "classify df_dict target d = NoDataset key \<longleftrightarrow>
     map_of INTERVENTION_OPTIONS d = Some key \<and> map_of df_dict key = None"
  by (auto simp: classify_def split: option.splits)

lemma classify_Unknown_iff:
  "classify df_dict target d = Unknown \<longleftrightarrow> d \<notin> set (dict_keys INTERVENTION_OPTIONS)"
  by (auto simp: classify_def map_of_neq_None_iff [symmetric] split: option.splits)

lemma sim_step_ok:
  assumes "d \<in> set (dict_keys INTERVENTION_OPTIONS)" "covers lv d" "sim_inv (length ys) st"
  shows "\<exists>st'. sim_step df_dict lv target ys d st = Inr st' \<and> sim_inv (length ys) st'"
proof (cases "classify df_dict target d")
  case Unknown
  with assms(1) show ?thesis by (simp add: classify_Unknown_iff)
next
  case (NoDataset key)
  with assms(3) show ?thesis by (simp add: sim_step_classify sim_inv_def)
next
  case (NoColumn key)
  with assms(3) show ?thesis by (simp add: sim_step_classify sim_inv_def)
next
  case (Usable key beta)
  from classify_Usable_key [OF Usable] assms(2)
  have "set (level_keys key) \<subseteq> set (dict_keys lv)"
    by (simp add: covers_iff)
  then obtain v where "select_variant key lv = Inr v"
    using select_variant_ok by blast
  with Usable assms(3) show ?thesis
    by (simp add: sim_step_classify predict_series_ok store_results_eq sim_inv_def
        wf_frame_add_columns)
qed

lemma run_simulation_ok:
  assumes "selected_outcome inp \<in> set (dict_keys OUTCOME_OPTIONS)"
    and "selected_subgroup inp \<in> set (dict_keys SUBGROUP_OPTIONS)"
    and "set (selected_interventions inp) \<subseteq> set (dict_keys INTERVENTION_OPTIONS)"
    and "\<forall>d \<in> set (selected_interventions inp). covers lv d"
  shows "\<exists>st. run_simulation df_dict inp lv = Inr st"
proof -
  from assms(1,2) obtain oc sc where
    "dict_index OUTCOME_OPTIONS (selected_outcome inp) = Inr oc"
    "dict_index SUBGROUP_OPTIONS (selected_subgroup inp) = Inr sc"
    by (blast dest: dict_index_present)
  moreover have "\<exists>st. fold_res (sim_step df_dict lv (target_col oc sc) (year_range_of inp))
      (selected_interventions inp) (init_state (year_range_of inp)) = Inr st \<and>
      sim_inv (length (year_range_of inp)) st"
    using assms(3,4) by (intro fold_res_ok sim_inv_init sim_step_ok) auto
  ultimately show ?thesis by (auto simp: run_simulation_def Let_def dict_index_def)
qed

text \<open>Which columns a run leaves: those of the usable interventions and no others.\<close>

lemma fold_sim_step_absent:
  assumes "fold_res (sim_step df_dict lv target ys) ds st = Inr st'"
    and "\<not> is_usable (classify df_dict target d)"
    and "c \<in> {baseline_col d, intervention_col d, change_col d}"
  shows "map_of (df_columns (results_df st')) c = map_of (df_columns (results_df st)) c"
proof (rule fold_res_invariant [OF assms(1)])
  show "map_of (df_columns (results_df st)) c = map_of (df_columns (results_df st)) c" ..
next
  fix x u v
  assume step: "sim_step df_dict lv target ys x u = Inr v"
    and u: "map_of (df_columns (results_df u)) c = map_of (df_columns (results_df st)) c"
  have "map_of (df_columns (results_df v)) c = map_of (df_columns (results_df u)) c"
  proof (cases "x = d")
    case True
    with sim_step_Inr [OF step] assms(2) show ?thesis
      by (auto simp: is_usable_def split: step_kind.splits)
  next
    case False
    with assms(3) have "c \<notin> {baseline_col x, intervention_col x, change_col x}" by auto
    with step show ?thesis by (rule sim_step_frame)
  qed
  with u show "map_of (df_columns (results_df v)) c = map_of (df_columns (results_df st)) c"
    by simp
qed

lemma init_state_columns [simp]:
  "map_of (df_columns (results_df (init_state ys))) (baseline_col d) = None"
  "map_of (df_columns (results_df (init_state ys))) (intervention_col d) = None"
  "map_of (df_columns (results_df (init_state ys))) (change_col d) = None"
  "map_of (df_columns (results_df (init_state ys))) ''Year'' = Some (map of_int ys)"
  by (simp_all add: init_state_def init_results_def)

lemma run_columns:
  assumes "fold_res (sim_step df_dict lv target ys) ds (init_state ys) = Inr st" "d \<in> set ds"
  shows "case classify df_dict target d of
       Usable key beta \<Rightarrow>
         (\<exists>bs is. predict_series key lv beta ys = Inr (bs, is) \<and>
            map_of (df_columns (results_df st)) (baseline_col d) = Some bs \<and>
            map_of (df_columns (results_df st)) (intervention_col d) = Some is \<and>
            map_of (df_columns (results_df st)) (change_col d) = Some (diff_values is bs))
     | _ \<Rightarrow>
         map_of (df_columns (results_df st)) (baseline_col d) = None \<and>
         map_of (df_columns (results_df st)) (intervention_col d) = None \<and>
         map_of (df_columns (results_df st)) (change_col d) = None"
proof (cases "is_usable (classify df_dict target d)")
  case True
  then obtain key beta where "classify df_dict target d = Usable key beta"
    by (auto simp: is_usable_def split: step_kind.splits)
  with fold_sim_step_values [OF assms this] show ?thesis by simp
next
  case False
  from fold_sim_step_absent [OF assms(1) False, of "baseline_col d"]
    fold_sim_step_absent [OF assms(1) False, of "intervention_col d"]
    fold_sim_step_absent [OF assms(1) False, of "change_col d"] False
  show ?thesis by (auto simp: is_usable_def split: step_kind.splits)
qed

lemma run_frame_wf:
  assumes "fold_res (sim_step df_dict lv target ys) ds (init_state ys) = Inr st"
  shows "wf_frame (results_df st)"
    "map_of (df_columns (results_df st)) ''Year'' = Some (map of_int ys)"
  using fold_sim_step_inv [OF assms sim_inv_init] fold_sim_step_frame [OF assms, of "''Year''"]
  by (simp_all add: sim_inv_def)

text \<open>Invariants of the reachable states, by induction over the steps.\<close>

lemma reachable_fold:
  assumes "reachable df_dict lv target ys st"
    and "fold_res (sim_step df_dict lv target ys) ds st = Inr st'"
  shows "reachable df_dict lv target ys st'"
  using assms(2,1)
  by (rule fold_res_invariant) (rule reachable_step)

lemma has_column_add_columns:
  "has_column (add_columns d bs is df) c \<longleftrightarrow>
     c \<in> {baseline_col d, intervention_col d, change_col d} \<or> has_column df c"
  by (auto simp: has_column_iff map_of_add_columns)

lemma columns_together_init: "columns_together (init_state ys)"
  by (simp add: columns_together_def has_column_iff init_state_def init_results_def)

lemma columns_together_step:
  assumes "sim_step df_dict lv target ys d st = Inr st'" "columns_together st"
  shows "columns_together st'"
  using sim_step_Inr [OF assms(1)] assms(2)
  by (auto simp: columns_together_def has_column_add_columns split: step_kind.splits)

lemma reachable_together:
  "reachable df_dict lv target ys st \<Longrightarrow> columns_together st"
  by (induction rule: reachable.induct) (auto intro: columns_together_init columns_together_step)

lemma reachable_inv:
  "reachable df_dict lv target ys st \<Longrightarrow>
   sim_inv (length ys) st \<and> change_consistent (results_df st)"
  by (induction rule: reachable.induct)
     (auto intro: sim_inv_init change_consistent_init sim_step_inv sim_step_change)

lemma year_range_of_length:
  "length (year_range_of inp) = nat ((end_year inp - start_year inp + 2) div 2)"
  by (simp add: year_range_of_def length_py_range algebra_simps)

section \<open>The worked example, evaluated\<close>

lemmas example_defs = example_beta_def example_frame_def example_df_dict_def
  example_inputs_def example_levels_def example_state_def

lemma example_year_range: "year_range_of example_inputs = [2026]"
  by (simp add: year_range_of_def example_inputs_def py_range.simps)

lemma example_classify:
  "classify example_df_dict ''n_startpop_all'' ''Diabetes Incidence Reduction'' =
     Usable ''pdiabe'' example_beta"
  "classify example_df_dict ''n_startpop_all'' ''Heart Disease Incidence Reduction'' =
     NoDataset ''phearte''"
  by (simp_all add: classify_def example_defs INTERVENTION_OPTIONS_def)

lemma example_predict:
  "predict_series ''pdiabe'' example_levels example_beta [2026] = Inr ([13 / 2], [287 / 40])"
  by (simp add: predict_series_def series_step_def predict_year_def dict_index_def
      example_levels_def example_beta_def Let_def show_int_eval del: key_name_fstrings)

lemma example_variant: "select_variant ''pdiabe'' example_levels = Inr (SingleLevel (17 / 20))"
  by (simp add: select_variant_def dict_index_def example_levels_def)

lemma example_fields:
  "selected_outcome example_inputs = ''Population''"
  "selected_subgroup example_inputs = ''All''"
  "selected_interventions example_inputs =
     [''Diabetes Incidence Reduction'', ''Heart Disease Incidence Reduction'']"
  by (simp_all add: example_inputs_def)

lemma example_target: "target_col ''n_startpop'' ''all'' = ''n_startpop_all''"
  by (simp add: target_col_def)

lemma example_codes:
  "map_of OUTCOME_OPTIONS (selected_outcome example_inputs) = Some ''n_startpop''"
  "map_of SUBGROUP_OPTIONS (selected_subgroup example_inputs) = Some ''all''"
  by (simp_all add: example_fields OUTCOME_OPTIONS_def SUBGROUP_OPTIONS_def)

lemma wf_inputs_example: "wf_inputs example_inputs"
  by (simp add: wf_inputs_iff sliders_ok_iff level_widgets_eval example_inputs_def
      dict_keys_def table_defs)

lemma example_build_levels: "build_levels example_inputs = Inr example_levels"
  by (simp add: example_inputs_def example_levels_def table_defs build_levels_def
      level_step_def dict_index_def dict_set_def)

lemma example_run: "run_simulation example_df_dict example_inputs example_levels = Inr example_state"
  by (simp add: run_simulation_def example_year_range example_fields example_target
      sim_step_classify example_classify
      example_predict dict_index_def OUTCOME_OPTIONS_def SUBGROUP_OPTIONS_def
      store_results_def assign_column_def set_column_def diff_values_def
      init_state_def init_results_def col_defs dataset_error_def Let_def example_state_def)

section \<open>Properties of the simulation\<close>

text \<open>
  C4. What the handler leaves in the results frame: after a run that raised
  nothing, for every selected intervention whose dataset is loaded and has the
  selected column, the columns \<^verbatim>\<open>Baseline (name)\<close>, \<^verbatim>\<open>Intervention (name)\<close> and
  \<^verbatim>\<open>Change (name)\<close> hold, year by year over the year range, the baseline value,
  the intervention value and their difference as the specification's formula
  gives them for that column's coefficients and the selected levels.
\<close>

theorem run_simulation_values:
  assumes "run_simulation df_dict inp lv = Inr st"
    and "map_of OUTCOME_OPTIONS (selected_outcome inp) = Some oc"
    and "map_of SUBGROUP_OPTIONS (selected_subgroup inp) = Some sc"
    and "d \<in> set (selected_interventions inp)"
    and "classify df_dict (target_col oc sc) d = Usable key beta"
    and "select_variant key lv = Inr v"
  shows "map_of (df_columns (results_df st)) (baseline_col d) =
       Some (map (\<lambda>y. fst (predict_spec (coefficient beta) y v)) (year_range_of inp)) \<and>
     map_of (df_columns (results_df st)) (intervention_col d) =
       Some (map (\<lambda>y. snd (predict_spec (coefficient beta) y v)) (year_range_of inp)) \<and>
     map_of (df_columns (results_df st)) (change_col d) =
       Some (map (\<lambda>y. snd (predict_spec (coefficient beta) y v) -
                      fst (predict_spec (coefficient beta) y v)) (year_range_of inp))"
proof -
  from assms(1-3) have "fold_res (sim_step df_dict lv (target_col oc sc) (year_range_of inp))
       (selected_interventions inp) (init_state (year_range_of inp)) = Inr st"
    by (auto elim: run_simulation_Inr)
  from fold_sim_step_values [OF this assms(4,5)] assms(6) show ?thesis
    by (auto simp: predict_series_ok diff_values_map)
qed

theorem run_simulation_values_witness:
  "map_of (df_columns (results_df example_state)) (baseline_col ''Diabetes Incidence Reduction'') =
       Some (map (\<lambda>y. fst (predict_spec (coefficient example_beta) y (SingleLevel (17 / 20))))
         (year_range_of example_inputs)) \<and>
     map_of (df_columns (results_df example_state))
         (intervention_col ''Diabetes Incidence Reduction'') =
       Some (map (\<lambda>y. snd (predict_spec (coefficient example_beta) y (SingleLevel (17 / 20))))
         (year_range_of example_inputs)) \<and>
     map_of (df_columns (results_df example_state)) (change_col ''Diabetes Incidence Reduction'') =
       Some (map (\<lambda>y. snd (predict_spec (coefficient example_beta) y (SingleLevel (17 / 20))) -
                      fst (predict_spec (coefficient example_beta) y (SingleLevel (17 / 20))))
         (year_range_of example_inputs))"
  by (rule run_simulation_values [where key = "''pdiabe''", OF example_run example_codes])
     (simp_all add: example_fields example_target example_classify example_variant)

text \<open>
  C5. An unusable intervention is reported and skipped: when the dataset of a
  selected intervention is not loaded, or is loaded but lacks the selected
  column, the step raises nothing, appends exactly one message (naming the
  dataset, or the column and the dataset) to the messages shown, and leaves the
  results frame and the flag \<^verbatim>\<open>valid_plot\<close> as they were, so the loop goes on
  with the next intervention.
\<close>

theorem unusable_intervention_is_reported:
  assumes "classify df_dict target d = NoDataset key \<or> classify df_dict target d = NoColumn key"
  shows "sim_step df_dict lv target ys d st =
     Inr (st\<lparr>errors := errors st @ step_message target (classify df_dict target d)\<rparr>)"
  using assms by (auto simp: sim_step_classify)

theorem unusable_intervention_is_reported_witness:
  "sim_step example_df_dict example_levels ''n_startpop_all'' [2026]
       ''Heart Disease Incidence Reduction'' (init_state [2026]) =
     Inr ((init_state [2026])\<lparr>errors := errors (init_state [2026]) @
       step_message ''n_startpop_all''
         (classify example_df_dict ''n_startpop_all'' ''Heart Disease Incidence Reduction'')\<rparr>)"
  by (rule unusable_intervention_is_reported [of _ _ _ "''phearte''"])
     (simp add: example_classify)

text \<open>
  C6. Change consistency: in the results frame of a run that raised nothing,
  every column \<^verbatim>\<open>Change (name)\<close> comes with the columns \<^verbatim>\<open>Baseline (name)\<close> and
  \<^verbatim>\<open>Intervention (name)\<close> of the same name and the same length, and is, row by
  row, the intervention value minus the baseline value.
\<close>

theorem change_column_consistent:
  assumes "run_simulation df_dict inp lv = Inr st"
    and "map_of (df_columns (results_df st)) (change_col d) = Some ch"
  shows "\<exists>b i. map_of (df_columns (results_df st)) (baseline_col d) = Some b \<and>
     map_of (df_columns (results_df st)) (intervention_col d) = Some i \<and>
     length b = length ch \<and> length i = length ch \<and>
     (\<forall>k < length ch. ch ! k = i ! k - b ! k)"
proof -
  from assms(1) obtain t where run: "fold_res (sim_step df_dict lv t (year_range_of inp))
       (selected_interventions inp) (init_state (year_range_of inp)) = Inr st"
    by (auto elim: run_simulation_Inr)
  from fold_sim_step_change [OF run change_consistent_init]
  have "change_consistent (results_df st)" .
  with assms(2) obtain b i where bi: "map_of (df_columns (results_df st)) (baseline_col d) = Some b"
    "map_of (df_columns (results_df st)) (intervention_col d) = Some i" "ch = diff_values i b"
    unfolding change_consistent_def by blast
  from fold_sim_step_inv [OF run sim_inv_init] have "wf_frame (results_df st)"
    by (simp add: sim_inv_def)
  from wf_frame_column_length [OF this] bi(1,2) have "length b = length i"
    by simp
  with bi show ?thesis by (simp add: nth_diff_values)
qed

theorem change_column_consistent_witness:
  "\<exists>b i. map_of (df_columns (results_df example_state))
        (baseline_col ''Diabetes Incidence Reduction'') = Some b \<and>
     map_of (df_columns (results_df example_state))
        (intervention_col ''Diabetes Incidence Reduction'') = Some i \<and>
     length b = length [27 / 40 :: real] \<and> length i = length [27 / 40 :: real] \<and>
     (\<forall>k < length [27 / 40 :: real]. [27 / 40] ! k = i ! k - b ! k)"
  by (rule change_column_consistent [OF example_run])
     (simp add: example_state_def col_defs)



text \<open>
  C17. When the run stops: after the loop the flag \<^verbatim>\<open>valid_plot\<close> is set if and
  only if at least one selected intervention has a loaded dataset with the
  selected column; otherwise the script calls \<^verbatim>\<open>st.stop()\<close> and draws nothing.
\<close>

theorem run_stops_iff_nothing_usable:
  assumes "run_simulation df_dict inp lv = Inr st"
    and "map_of OUTCOME_OPTIONS (selected_outcome inp) = Some oc"
    and "map_of SUBGROUP_OPTIONS (selected_subgroup inp) = Some sc"
  shows "valid_plot st \<longleftrightarrow>
     list_ex (\<lambda>d. is_usable (classify df_dict (target_col oc sc) d)) (selected_interventions inp)"
proof -
  from assms have "fold_res (sim_step df_dict lv (target_col oc sc) (year_range_of inp))
       (selected_interventions inp) (init_state (year_range_of inp)) = Inr st"
    by (auto elim: run_simulation_Inr)
  from fold_sim_step_errors [OF this] show ?thesis by (simp add: init_state_def)
qed

theorem run_stops_iff_nothing_usable_witness:
  "valid_plot example_state \<longleftrightarrow>
     list_ex (\<lambda>d. is_usable (classify example_df_dict (target_col ''n_startpop'' ''all'') d))
       (selected_interventions example_inputs)"
  by (rule run_stops_iff_nothing_usable [OF example_run example_codes])

text \<open>
  The messages shown: after a run that raised nothing, the error messages
  are, in the order of the selection, one message for each selected intervention
  that is not usable and none for the others.
\<close>

lemma run_reports_in_order:
  assumes "run_simulation df_dict inp lv = Inr st"
    and "map_of OUTCOME_OPTIONS (selected_outcome inp) = Some oc"
    and "map_of SUBGROUP_OPTIONS (selected_subgroup inp) = Some sc"
  shows "errors st =
     concat (map (\<lambda>d. step_message (target_col oc sc) (classify df_dict (target_col oc sc) d))
       (selected_interventions inp))"
proof -
  from assms have "fold_res (sim_step df_dict lv (target_col oc sc) (year_range_of inp))
       (selected_interventions inp) (init_state (year_range_of inp)) = Inr st"
    by (auto elim: run_simulation_Inr)
  from fold_sim_step_errors [OF this] show ?thesis by (simp add: init_state_def)
qed

text \<open>
  C20. The year range is ascending: the years the loop visits are strictly
  increasing, they are exactly the years from the start year to the end year at
  an even distance from the start year, and there are
  \<^verbatim>\<open>(end - start + 2) // 2\<close> of them (none when the end precedes the start).
\<close>

theorem year_range_ascending:
  "sorted_wrt (<) (year_range_of inp) \<and>
   set (year_range_of inp) =
     {y. start_year inp \<le> y \<and> y \<le> end_year inp \<and> even (y - start_year inp)} \<and>
   length (year_range_of inp) = nat ((end_year inp - start_year inp + 2) div 2)"
  by (auto simp: year_range_of_def sorted_py_range set_py_range length_py_range algebra_simps)

text \<open>
  C40. The flag and the frame agree: after a run that raised nothing,
  \<^verbatim>\<open>valid_plot\<close> is set exactly when the results frame has the baseline column
  of some intervention, and for every intervention the baseline, intervention
  and change columns are present together or not at all, so that the charts are
  drawn exactly when there is something to draw.
\<close>

theorem charts_iff_columns:
  assumes "run_simulation df_dict inp lv = Inr st"
  shows "(valid_plot st \<longleftrightarrow> (\<exists>d. has_column (results_df st) (baseline_col d))) \<and>
     (\<forall>d. has_column (results_df st) (intervention_col d) =
            has_column (results_df st) (baseline_col d) \<and>
          has_column (results_df st) (change_col d) =
            has_column (results_df st) (baseline_col d))"
proof -
  from assms obtain t where run: "fold_res (sim_step df_dict lv t (year_range_of inp))
       (selected_interventions inp) (init_state (year_range_of inp)) = Inr st"
    by (auto elim: run_simulation_Inr)
  have "reachable df_dict lv t (year_range_of inp) st"
    by (rule reachable_fold [OF reachable_init run])
  from reachable_together [OF this] show ?thesis
    by (simp add: columns_together_def)
qed

theorem charts_iff_columns_witness:
  "(valid_plot example_state \<longleftrightarrow>
      (\<exists>d. has_column (results_df example_state) (baseline_col d))) \<and>
   (\<forall>d. has_column (results_df example_state) (intervention_col d) =
          has_column (results_df example_state) (baseline_col d) \<and>
        has_column (results_df example_state) (change_col d) =
          has_column (results_df example_state) (baseline_col d))"
  by (rule charts_iff_columns [OF example_run])

end
