(* ===== verification/Emu_Plot.thy ===== *)
theory Emu_Plot
  imports Emu_Simulation
begin

text \<open>
  The two charts \<^verbatim>\<open>src/app.py\<close> draws after a run with at least one usable
  intervention. A chart is data: a \<open>figure\<close> is a list of \<open>trace\<close>s with the
  \<open>layout\<close> that \<^verbatim>\<open>update_layout\<close> sets, every argument of the call a field of
  the record. \<open>value_traces_step\<close> is the body of
  the loop that fills the first chart, \<open>change_traces_step\<close> that of the second;
  \<open>add_trace\<close> is the block the three \<^verbatim>\<open>if col in results_df.columns\<close>
  statements share. The text Python prints for a level inside a trace name is
  given by the parameter \<open>fmt\<close>. The lemmas show that after a run the loops
  raise nothing and give the traces in closed form: per usable intervention, in
  the order of the selection, the predicted series, scaled by 100 for a
  percentage outcome, in the colour of its position.
\<close>

section \<open>Figures\<close>

record line_style =
  ln_dash :: "string option"
  ln_color :: string
  ln_width :: nat

record trace =
  tr_x :: "real list"
  tr_y :: "real list"
  tr_mode :: string
  tr_name :: string
  tr_line :: line_style
  tr_opacity :: "real option"
  tr_hover :: string

text \<open>
  The arguments of \<^verbatim>\<open>fig.update_layout\<close>: the legend, the margins, the fonts and
  the two axes.
\<close>

record legend =
  lg_orientation :: string
  lg_yanchor :: string
  lg_y :: real
  lg_xanchor :: string
  lg_x :: real

record margin =
  mg_l :: nat
  mg_r :: nat
  mg_t :: nat
  mg_b :: nat

record font =
  ft_size :: "nat option"
  ft_color :: string

record axis =
  ax_title_font :: font
  ax_tickfont :: font
  ax_showgrid :: bool
  ax_gridcolor :: string
  ax_showline :: bool

record layout =
  ly_height :: nat
  ly_xaxis_title :: string
  ly_yaxis_title :: string
  ly_legend :: legend
  ly_margin :: margin
  ly_font :: font
  ly_xaxis :: axis
  ly_yaxis :: axis

record figure =
  fig_traces :: "trace list"
  fig_layout :: layout

section \<open>Building the traces\<close>

text \<open>
  The colour of the \<open>i\<close>-th selected intervention is \<^verbatim>\<open>colors[i % len(colors)]\<close>:
  the index is below the length of the list, so the subscript cannot fail.
\<close>

definition colors :: "string list" where
  "colors = [''#990000'', ''#FFCC00'', ''#293035'', ''#53616a'', ''#bdc4c9'']"

definition pick_color :: "nat \<Rightarrow> string" where
  "pick_color i = colors ! (i mod length colors)"

text \<open>
  The label of an intervention trace names the selected level or levels; the
  subscripts of \<^verbatim>\<open>intervention_levels\<close> can raise \<^verbatim>\<open>KeyError\<close>.
\<close>

definition inter_label :: "(real \<Rightarrow> string) \<Rightarrow> real pydict \<Rightarrow> string \<Rightarrow> string \<Rightarrow> string result" where
  "inter_label fmt intervention_levels display_name key =
     (if key = ''pcogstate'' then
        bind_res (dict_index intervention_levels ''pcogstate_1'') (\<lambda>l1.
        bind_res (dict_index intervention_levels ''pcogstate_2'') (\<lambda>l2.
          Inr (display_name @ '' (L1='' @ fmt l1 @ '', L2='' @ fmt l2 @ '')'')))
      else
        bind_res (dict_index intervention_levels key) (\<lambda>level.
          Inr (display_name @ '' (Level='' @ fmt level @ '')'')))"

text \<open>
  \<^verbatim>\<open>if "%" in selected_outcome: y_val = y_val * 100\<close>, and a column of the results
  frame read as its list of values.
\<close>

definition scale_percent :: "string \<Rightarrow> real list \<Rightarrow> real list" where
  "scale_percent sel_outcome y_val =
     (if CHR ''%'' \<in> set sel_outcome then map (\<lambda>v. v * 100) y_val else y_val)"

definition column_values :: "(nat, real) frame \<Rightarrow> string \<Rightarrow> real list result" where
  "column_values df c = bind_res (get_column df c) (\<lambda>s. Inr (map snd s))"

text \<open>
  The two kinds of trace: the baseline is a dashed, half-transparent line of
  width 4, the intervention and the change are lines with markers of width 2.
\<close>

definition hover_value :: "string \<Rightarrow> string" where
  "hover_value name =
     name @ ''<br><b>Year:</b> %{x}<br><b>Value:</b> %{y:,.2f}<extra></extra>''"

definition hover_difference :: "string \<Rightarrow> string" where
  "hover_difference name =
     name @ ''<br><b>Year:</b> %{x}<br><b>Difference:</b> %{y:,.2f}<extra></extra>''"

definition dashed_trace :: "string \<Rightarrow> string \<Rightarrow> real list \<Rightarrow> real list \<Rightarrow> trace" where
  "dashed_trace color name x y =
     \<lparr>tr_x = x, tr_y = y, tr_mode = ''lines'', tr_name = name,
      tr_line = \<lparr>ln_dash = Some ''dash'', ln_color = color, ln_width = 4\<rparr>,
      tr_opacity = Some (1 / 2), tr_hover = hover_value name\<rparr>"

definition marker_trace :: "string \<Rightarrow> string \<Rightarrow> string \<Rightarrow> real list \<Rightarrow> real list \<Rightarrow> trace" where
  "marker_trace color name hover x y =
     \<lparr>tr_x = x, tr_y = y, tr_mode = ''lines+markers'', tr_name = name,
      tr_line = \<lparr>ln_dash = None, ln_color = color, ln_width = 2\<rparr>,
      tr_opacity = None, tr_hover = hover\<rparr>"

text \<open>
  The block \<^verbatim>\<open>if col in results_df.columns: ... fig.add_trace(go.Scatter(...))\<close>:
  the column is read, scaled, and plotted against the \<^verbatim>\<open>Year\<close> column.
\<close>

definition add_trace :: "(nat, real) frame \<Rightarrow> string \<Rightarrow> string \<Rightarrow>
    (real list \<Rightarrow> real list \<Rightarrow> trace) \<Rightarrow> trace list \<Rightarrow> trace list result" where
  "add_trace df sel_outcome col scatter fig =
     (if has_column df col then
        bind_res (column_values df col) (\<lambda>y_val.
          let y_val = scale_percent sel_outcome y_val
          in bind_res (column_values df ''Year'') (\<lambda>x.
               Inr (fig @ [scatter x y_val])))
      else Inr fig)"

text \<open>
  The layout of the two charts. The axis dictionary is written four times in
  the source, each time with the same values; the layouts differ in the title
  of the vertical axis only.
\<close>

definition grid_axis :: axis where
  "grid_axis =
     \<lparr>ax_title_font = \<lparr>ft_size = Some 14, ft_color = ''black''\<rparr>,
      ax_tickfont = \<lparr>ft_size = Some 12, ft_color = ''black''\<rparr>,
      ax_showgrid = True, ax_gridcolor = ''#D0D0D0'', ax_showline = False\<rparr>"

definition value_layout :: "string \<Rightarrow> layout" where
  "value_layout sel_outcome =
     \<lparr>ly_height = 450, ly_xaxis_title = ''Year'', ly_yaxis_title = sel_outcome,
      ly_legend = \<lparr>lg_orientation = ''h'', lg_yanchor = ''bottom'', lg_y = 102 / 100,
                   lg_xanchor = ''right'', lg_x = 1\<rparr>,
      ly_margin = \<lparr>mg_l = 20, mg_r = 20, mg_t = 40, mg_b = 20\<rparr>,
      ly_font = \<lparr>ft_size = None, ft_color = ''black''\<rparr>,
      ly_xaxis = grid_axis, ly_yaxis = grid_axis\<rparr>"

definition change_layout :: layout where
  "change_layout =
     \<lparr>ly_height = 450, ly_xaxis_title = ''Year'',
      ly_yaxis_title = ''Difference (Intervention - Baseline)'',
      ly_legend = \<lparr>lg_orientation = ''h'', lg_yanchor = ''bottom'', lg_y = 102 / 100,
                   lg_xanchor = ''right'', lg_x = 1\<rparr>,
      ly_margin = \<lparr>mg_l = 20, mg_r = 20, mg_t = 40, mg_b = 20\<rparr>,
      ly_font = \<lparr>ft_size = None, ft_color = ''black''\<rparr>,
      ly_xaxis = grid_axis, ly_yaxis = grid_axis\<rparr>"

text \<open>The bodies of the two loops over \<^verbatim>\<open>enumerate(selected_interventions)\<close>.\<close>

definition value_traces_step :: "(real \<Rightarrow> string) \<Rightarrow> string \<Rightarrow> real pydict \<Rightarrow> (nat, real) frame \<Rightarrow>
    nat \<times> string \<Rightarrow> trace list \<Rightarrow> trace list result" where
  "value_traces_step fmt sel_outcome intervention_levels df item fig =
     (case item of (i, display_name) \<Rightarrow>
        let color = pick_color i
        in bind_res (dict_index INTERVENTION_OPTIONS display_name) (\<lambda>key.
             let base_col = baseline_col display_name;
                 inter_col = intervention_col display_name
             in bind_res (inter_label fmt intervention_levels display_name key) (\<lambda>inter_label.
                  let base_name = ''<b>Baseline:</b> '' @ display_name;
                      inter_name = ''<b>Intervention:</b> '' @ inter_label
                  in bind_res (add_trace df sel_outcome base_col
                                 (dashed_trace color base_name) fig) (\<lambda>fig.
                       add_trace df sel_outcome inter_col
                         (marker_trace color inter_name (hover_value inter_name)) fig))))"

definition value_chart :: "(real \<Rightarrow> string) \<Rightarrow> inputs \<Rightarrow> real pydict \<Rightarrow> (nat, real) frame \<Rightarrow>
    figure result" where
  "value_chart fmt inp intervention_levels df =
     bind_res (fold_res (value_traces_step fmt (selected_outcome inp) intervention_levels df)
                 (List.enumerate 0 (selected_interventions inp)) []) (\<lambda>traces.
       Inr \<lparr>fig_traces = traces, fig_layout = value_layout (selected_outcome inp)\<rparr>)"

definition change_traces_step :: "string \<Rightarrow> (nat, real) frame \<Rightarrow> nat \<times> string \<Rightarrow> trace list \<Rightarrow>
    trace list result" where
  "change_traces_step sel_outcome df item fig =
     (case item of (i, display_name) \<Rightarrow>
        let color = pick_color i;
            diff_col = change_col display_name;
            change_name = ''<b>Change:</b> '' @ display_name
        in add_trace df sel_outcome diff_col
             (marker_trace color change_name (hover_difference change_name)) fig)"

definition change_chart :: "inputs \<Rightarrow> (nat, real) frame \<Rightarrow> figure result" where
  "change_chart inp df =
     bind_res (fold_res (change_traces_step (selected_outcome inp) df)
                 (List.enumerate 0 (selected_interventions inp)) []) (\<lambda>traces.
       Inr \<lparr>fig_traces = traces, fig_layout = change_layout\<rparr>)"

definition draw_charts :: "(real \<Rightarrow> string) \<Rightarrow> inputs \<Rightarrow> real pydict \<Rightarrow> (nat, real) frame \<Rightarrow>
    (figure \<times> figure) result" where
  "draw_charts fmt inp intervention_levels df =
     bind_res (value_chart fmt inp intervention_levels df) (\<lambda>fig.
     bind_res (change_chart inp df) (\<lambda>fig_diff. Inr (fig, fig_diff)))"

section \<open>The traces in closed form\<close>

text \<open>
  What the loops produce for the intervention at position \<open>i\<close>, stated over the
  inputs of the run instead of the results frame: the traces of a usable
  intervention hold its predicted series, an intervention that was skipped
  contributes none.
\<close>

definition label_of :: "(real \<Rightarrow> string) \<Rightarrow> real pydict \<Rightarrow> string \<Rightarrow> string \<Rightarrow> string" where
  "label_of fmt lv d key = (case inter_label fmt lv d key of Inl e \<Rightarrow> [] | Inr l \<Rightarrow> l)"

definition value_traces :: "(real \<Rightarrow> string) \<Rightarrow> string \<Rightarrow> real pydict \<Rightarrow> coef_frame pydict \<Rightarrow> string \<Rightarrow>
    int list \<Rightarrow> nat \<times> string \<Rightarrow> trace list" where
  "value_traces fmt so lv df_dict target years item =
     (case item of (i, d) \<Rightarrow>
        (case classify df_dict target d of
           Usable key beta \<Rightarrow>
             (case predict_series key lv beta years of
                Inl e \<Rightarrow> []
              | Inr (bs, is) \<Rightarrow>
                  [dashed_trace (pick_color i) (''<b>Baseline:</b> '' @ d)
                     (map of_int years) (scale_percent so bs),
                   marker_trace (pick_color i) (''<b>Intervention:</b> '' @ label_of fmt lv d key)
                     (hover_value (''<b>Intervention:</b> '' @ label_of fmt lv d key))
                     (map of_int years) (scale_percent so is)])
         | _ \<Rightarrow> []))"

definition change_traces :: "string \<Rightarrow> real pydict \<Rightarrow> coef_frame pydict \<Rightarrow> string \<Rightarrow>
    int list \<Rightarrow> nat \<times> string \<Rightarrow> trace list" where
  "change_traces so lv df_dict target years item =
     (case item of (i, d) \<Rightarrow>
        (case classify df_dict target d of
           Usable key beta \<Rightarrow>
             (case predict_series key lv beta years of
                Inl e \<Rightarrow> []
              | Inr (bs, is) \<Rightarrow>
                  [marker_trace (pick_color i) (''<b>Change:</b> '' @ d)
                     (hover_difference (''<b>Change:</b> '' @ d))
                     (map of_int years) (scale_percent so (diff_values is bs))])
         | _ \<Rightarrow> []))"

section \<open>An example formatter\<close>

definition example_fmt :: "real \<Rightarrow> string" where
  "example_fmt level = ''0.85''"

section \<open>Layout\<close>

lemma change_layout_eq:
  "change_layout = value_layout ''Difference (Intervention - Baseline)''"
  by (simp add: change_layout_def value_layout_def)

section \<open>One trace\<close>

lemma column_values_eq:
  assumes "wf_frame df" "map_of (df_columns df) c = Some vs"
  shows "column_values df c = Inr vs"
  using assms wf_frame_column_length [OF assms]
  by (simp add: column_values_def get_column_def)

lemma add_trace_closed:
  assumes "wf_frame df" "map_of (df_columns df) ''Year'' = Some xs"
  shows "add_trace df so col mk fig =
     Inr (fig @ (case map_of (df_columns df) col of None \<Rightarrow> [] | Some ys \<Rightarrow> [mk xs (scale_percent so ys)]))"
  using assms
  by (auto simp: add_trace_def has_column_iff column_values_eq split: option.splits)

lemma inter_label_ok:
  assumes "map_of INTERVENTION_OPTIONS d = Some key" "covers lv d"
  shows "inter_label fmt lv d key = Inr (label_of fmt lv d key)"
proof -
  from assms have "set (level_keys key) \<subseteq> set (dict_keys lv)"
    by (simp add: covers_iff)
  then have "\<forall>k \<in> set (level_keys key). \<exists>v. map_of lv k = Some v"
    by (metis map_of_neq_None_iff not_None_eq subsetD)
  then have "\<exists>l. inter_label fmt lv d key = Inr l"
    by (auto simp: inter_label_def level_keys_def dict_index_def split: if_splits)
  then show ?thesis by (auto simp: label_of_def)
qed

lemma value_traces_step_run:
  assumes run: "fold_res (sim_step df_dict lv target ys) ds (init_state ys) = Inr st"
    and d: "d \<in> set ds" "covers lv d"
  shows "value_traces_step fmt so lv (results_df st) (i, d) fig =
     Inr (fig @ value_traces fmt so lv df_dict target ys (i, d))"
proof -
  from d(2) obtain key where key: "map_of INTERVENTION_OPTIONS d = Some key"
    by (auto simp: covers_iff)
  note closed = add_trace_closed [OF run_frame_wf [OF run]]
  from run_columns [OF run d(1)] key show ?thesis
    by (auto simp: value_traces_step_def value_traces_def Let_def inter_label_ok [OF key d(2)]
        closed dict_index_def classify_Usable_key split: step_kind.splits)
qed

lemma change_traces_step_run:
  assumes run: "fold_res (sim_step df_dict lv target ys) ds (init_state ys) = Inr st"
    and d: "d \<in> set ds"
  shows "change_traces_step so (results_df st) (i, d) fig =
     Inr (fig @ change_traces so lv df_dict target ys (i, d))"
proof -
  note closed = add_trace_closed [OF run_frame_wf [OF run]]
  from run_columns [OF run d(1)] show ?thesis
    by (auto simp: change_traces_step_def change_traces_def Let_def closed
        split: step_kind.splits)
qed

section \<open>The charts after a run\<close>

lemma value_chart_run:
  assumes run: "fold_res (sim_step df_dict lv target (year_range_of inp))
        (selected_interventions inp) (init_state (year_range_of inp)) = Inr st"
    and cov: "\<forall>d \<in> set (selected_interventions inp). covers lv d"
  shows "value_chart fmt inp lv (results_df st) =
     Inr \<lparr>fig_traces = concat (map (value_traces fmt (selected_outcome inp) lv df_dict target
               (year_range_of inp)) (List.enumerate 0 (selected_interventions inp))),
          fig_layout = value_layout (selected_outcome inp)\<rparr>"
proof -
  have "fold_res (value_traces_step fmt (selected_outcome inp) lv (results_df st))
      (List.enumerate 0 (selected_interventions inp)) [] =
    Inr ([] @ concat (map (value_traces fmt (selected_outcome inp) lv df_dict target
      (year_range_of inp)) (List.enumerate 0 (selected_interventions inp))))"
    using cov by (intro fold_res_collect) (auto dest!: in_set_enumerateD intro!: value_traces_step_run [OF run])
  then show ?thesis by (simp add: value_chart_def)
qed

lemma change_chart_run:
  assumes run: "fold_res (sim_step df_dict lv target (year_range_of inp))
        (selected_interventions inp) (init_state (year_range_of inp)) = Inr st"
  shows "change_chart inp (results_df st) =
     Inr \<lparr>fig_traces = concat (map (change_traces (selected_outcome inp) lv df_dict target
               (year_range_of inp)) (List.enumerate 0 (selected_interventions inp))),
          fig_layout = change_layout\<rparr>"
proof -
  have "fold_res (change_traces_step (selected_outcome inp) (results_df st))
      (List.enumerate 0 (selected_interventions inp)) [] =
    Inr ([] @ concat (map (change_traces (selected_outcome inp) lv df_dict target
      (year_range_of inp)) (List.enumerate 0 (selected_interventions inp))))"
    by (intro fold_res_collect) (auto dest!: in_set_enumerateD intro!: change_traces_step_run [OF run])
  then show ?thesis by (simp add: change_chart_def)
qed

lemma draw_charts_ok:
  assumes "run_simulation df_dict inp lv = Inr st"
    and "\<forall>d \<in> set (selected_interventions inp). covers lv d"
  shows "\<exists>figs. draw_charts fmt inp lv (results_df st) = Inr figs"
proof -
  from assms(1) obtain t where run: "fold_res (sim_step df_dict lv t (year_range_of inp))
       (selected_interventions inp) (init_state (year_range_of inp)) = Inr st"
    by (auto elim: run_simulation_Inr)
  show ?thesis
    by (simp add: draw_charts_def value_chart_run [OF run assms(2)] change_chart_run [OF run])
qed

lemma length_scale_percent [simp]: "length (scale_percent so ys) = length ys"
  by (simp add: scale_percent_def)

lemma trace_simps [simp]:
  "tr_x (dashed_trace c n x y) = x" "tr_y (dashed_trace c n x y) = y"
  "tr_x (marker_trace c n h x y) = x" "tr_y (marker_trace c n h x y) = y"
  "ln_color (tr_line (dashed_trace c n x y)) = c"
  "ln_color (tr_line (marker_trace c n h x y)) = c"
  by (simp_all add: dashed_trace_def marker_trace_def)

lemma value_traces_aligned:
  assumes "t \<in> set (value_traces fmt so lv df_dict target ys item)"
  shows "tr_x t = map of_int ys \<and> length (tr_y t) = length ys"
proof -
  obtain i d where item: "item = (i, d)" by (cases item)
  show ?thesis
  proof (cases "classify df_dict target d")
    case (Usable key beta)
    show ?thesis
    proof (cases "predict_series key lv beta ys")
      case (Inr vals)
      obtain bs "is" where vals: "vals = (bs, is)" by (cases vals)
      from predict_series_lengths [of key lv beta ys bs "is"] Inr vals assms item Usable
      show ?thesis by (auto simp: value_traces_def)
    qed (use assms item Usable in \<open>simp add: value_traces_def\<close>)
  qed (use assms item in \<open>simp_all add: value_traces_def\<close>)
qed

lemma change_traces_aligned:
  assumes "t \<in> set (change_traces so lv df_dict target ys item)"
  shows "tr_x t = map of_int ys \<and> length (tr_y t) = length ys"
proof -
  obtain i d where item: "item = (i, d)" by (cases item)
  show ?thesis
  proof (cases "classify df_dict target d")
    case (Usable key beta)
    show ?thesis
    proof (cases "predict_series key lv beta ys")
      case (Inr vals)
      obtain bs "is" where vals: "vals = (bs, is)" by (cases vals)
      from predict_series_lengths [of key lv beta ys bs "is"] Inr vals assms item Usable
      show ?thesis by (auto simp: change_traces_def)
    qed (use assms item Usable in \<open>simp add: change_traces_def\<close>)
  qed (use assms item in \<open>simp_all add: change_traces_def\<close>)
qed

lemma distinct_colors: "distinct colors" "length colors = 5"
  by (simp_all add: colors_def)

lemma pick_color_inject:
  "i < 5 \<Longrightarrow> j < 5 \<Longrightarrow> pick_color i = pick_color j \<longleftrightarrow> i = j"
  by (simp add: pick_color_def distinct_colors nth_eq_iff_index_eq)

lemma selection_short:
  assumes "distinct ds" "set ds \<subseteq> set (dict_keys INTERVENTION_OPTIONS)"
  shows "length ds \<le> 4"
proof -
  from assms(1) have "length ds = card (set ds)" by (simp add: distinct_card)
  also from assms(2) have "\<dots> \<le> card (set (dict_keys INTERVENTION_OPTIONS))"
    by (intro card_mono) simp_all
  also have "\<dots> = 4" by (simp add: dict_keys_def INTERVENTION_OPTIONS_def)
  finally show ?thesis .
qed

lemma scale_percent_diff:
  "scale_percent so (diff_values is bs) = diff_values (scale_percent so is) (scale_percent so bs)"
  by (simp add: scale_percent_def diff_values_def zip_map_map case_prod_unfold algebra_simps)

lemma percent_name_code:
  assumes "map_of OUTCOME_OPTIONS so = Some oc"
  shows "CHR ''%'' \<in> set so \<longleftrightarrow> startswith oc ''p_''"
  using percent_iff_p_code map_of_SomeD [OF assms] by (auto simp: list_all_iff)

lemma example_covers:
  "\<forall>d \<in> set (selected_interventions example_inputs). covers example_levels d"
  by (simp add: example_fields covers_iff INTERVENTION_OPTIONS_def level_keys_def
      example_levels_def dict_keys_def)

text \<open>
  Scaling follows the outcome code: for an outcome of the outcome table the
  plotted values are the computed values times 100 exactly when the outcome code
  starts with \<^verbatim>\<open>p_\<close>, and the computed values themselves otherwise.
\<close>

lemma percent_scaling_by_code:
  assumes "map_of OUTCOME_OPTIONS so = Some oc"
  shows "scale_percent so ys = (if startswith oc ''p_'' then map (\<lambda>v. v * 100) ys else ys)"
  using percent_name_code [OF assms] by (simp add: scale_percent_def)

section \<open>Properties of the charts\<close>

text \<open>
  C34. What the first chart shows: after a run that raised nothing, with every
  level the labels read present, building the chart raises nothing, and its
  traces are, in the order of the selection, for each usable intervention a
  dashed baseline trace and a marked intervention trace over the years of the
  range, holding the predicted baseline and intervention series (times 100 for
  an outcome with a percent sign in its name), and nothing for an intervention
  that was skipped; the vertical axis is titled with the outcome.
\<close>

theorem value_chart_plots_predictions:
  assumes "run_simulation df_dict inp lv = Inr st"
    and "\<forall>d \<in> set (selected_interventions inp). covers lv d"
    and "map_of OUTCOME_OPTIONS (selected_outcome inp) = Some oc"
    and "map_of SUBGROUP_OPTIONS (selected_subgroup inp) = Some sc"
  shows "value_chart fmt inp lv (results_df st) =
     Inr \<lparr>fig_traces = concat (map (value_traces fmt (selected_outcome inp) lv df_dict
               (target_col oc sc) (year_range_of inp))
               (List.enumerate 0 (selected_interventions inp))),
          fig_layout = value_layout (selected_outcome inp)\<rparr>"
proof -
  from assms(1,3,4) have "fold_res (sim_step df_dict lv (target_col oc sc) (year_range_of inp))
       (selected_interventions inp) (init_state (year_range_of inp)) = Inr st"
    by (auto elim: run_simulation_Inr)
  then show ?thesis using assms(2) by (rule value_chart_run)
qed

theorem value_chart_plots_predictions_witness:
  "value_chart example_fmt example_inputs example_levels (results_df example_state) =
     Inr \<lparr>fig_traces = concat (map (value_traces example_fmt (selected_outcome example_inputs)
               example_levels example_df_dict (target_col ''n_startpop'' ''all'')
               (year_range_of example_inputs))
               (List.enumerate 0 (selected_interventions example_inputs))),
          fig_layout = value_layout (selected_outcome example_inputs)\<rparr>"
  by (rule value_chart_plots_predictions [OF example_run example_covers example_codes])

text \<open>
  C35. What the second chart shows: after a run that raised nothing, building
  the chart raises nothing, and its traces are, in the order of the selection,
  one marked trace for each usable intervention, holding intervention minus
  baseline of the predicted series (times 100 for a percentage outcome).
\<close>

theorem change_chart_plots_differences:
  assumes "run_simulation df_dict inp lv = Inr st"
    and "map_of OUTCOME_OPTIONS (selected_outcome inp) = Some oc"
    and "map_of SUBGROUP_OPTIONS (selected_subgroup inp) = Some sc"
  shows "change_chart inp (results_df st) =
     Inr \<lparr>fig_traces = concat (map (change_traces (selected_outcome inp) lv df_dict
               (target_col oc sc) (year_range_of inp))
               (List.enumerate 0 (selected_interventions inp))),
          fig_layout = change_layout\<rparr>"
proof -
  from assms have "fold_res (sim_step df_dict lv (target_col oc sc) (year_range_of inp))
       (selected_interventions inp) (init_state (year_range_of inp)) = Inr st"
    by (auto elim: run_simulation_Inr)
  then show ?thesis by (rule change_chart_run)
qed

theorem change_chart_plots_differences_witness:
  "change_chart example_inputs (results_df example_state) =
     Inr \<lparr>fig_traces = concat (map (change_traces (selected_outcome example_inputs)
               example_levels example_df_dict (target_col ''n_startpop'' ''all'')
               (year_range_of example_inputs))
               (List.enumerate 0 (selected_interventions example_inputs))),
          fig_layout = change_layout\<rparr>"
  by (rule change_chart_plots_differences [OF example_run example_codes])

text \<open>
  Colours tell the interventions apart: when the selection has no repetition
  and consists of names of the intervention table, the colours given to the
  selected interventions by their positions are pairwise different.
\<close>

lemma selection_colors_distinct:
  assumes "distinct ds" "set ds \<subseteq> set (dict_keys INTERVENTION_OPTIONS)"
  shows "distinct (map (pick_color \<circ> fst) (List.enumerate 0 ds))"
proof -
  from selection_short [OF assms] have "inj_on pick_color {0..<length ds}"
    by (intro inj_onI) (simp add: pick_color_inject)
  then have "distinct (map pick_color [0..<length ds])"
    by (simp add: distinct_map)
  then show ?thesis by (simp add: enumerate_eq_zip map_map [symmetric] del: map_map)
qed

text \<open>
  Every trace is aligned with the years: after a run that raised nothing,
  drawing the two charts raises nothing, and every trace of either chart has the
  years of the range as its horizontal values and one vertical value per year.
\<close>

lemma chart_traces_aligned:
  assumes "run_simulation df_dict inp lv = Inr st"
    and "\<forall>d \<in> set (selected_interventions inp). covers lv d"
  shows "\<exists>fig fig_diff. draw_charts fmt inp lv (results_df st) = Inr (fig, fig_diff) \<and>
     (\<forall>t \<in> set (fig_traces fig @ fig_traces fig_diff).
        tr_x t = map of_int (year_range_of inp) \<and> length (tr_y t) = length (tr_x t))"
proof -
  from assms(1) obtain t where run: "fold_res (sim_step df_dict lv t (year_range_of inp))
       (selected_interventions inp) (init_state (year_range_of inp)) = Inr st"
    by (auto elim: run_simulation_Inr)
  show ?thesis
    by (auto simp: draw_charts_def value_chart_run [OF run assms(2)] change_chart_run [OF run]
        dest: value_traces_aligned change_traces_aligned)
qed

text \<open>
  The second chart is the difference of the first: where the first chart
  has a baseline and an intervention trace for an intervention, the second has
  one trace for it, in the same colour, whose values are the plotted
  intervention values minus the plotted baseline values.
\<close>

lemma change_trace_is_difference:
  assumes "value_traces fmt so lv df_dict target ys (i, d) = [b, v]"
  shows "\<exists>c. change_traces so lv df_dict target ys (i, d) = [c] \<and>
     tr_y c = diff_values (tr_y v) (tr_y b) \<and>
     ln_color (tr_line c) = ln_color (tr_line b) \<and>
     ln_color (tr_line c) = ln_color (tr_line v)"
proof (cases "classify df_dict target d")
  case (Usable key beta)
  show ?thesis
  proof (cases "predict_series key lv beta ys")
    case (Inr vals)
    obtain bs "is" where "vals = (bs, is)" by (cases vals)
    with assms Usable Inr show ?thesis
      by (auto simp: value_traces_def change_traces_def scale_percent_diff)
  qed (use assms Usable in \<open>simp add: value_traces_def\<close>)
qed (use assms in \<open>simp_all add: value_traces_def\<close>)

end
