(* ===== verification/Emu_Interface.thy ===== *)
theory Emu_Interface
  imports Emu_Plot
begin

text \<open>
  The Streamlit interface as the script meets it. A \<open>ui_call\<close> is one call of
  the interface with its arguments. The interface keeps a state (whether a call
  was made, which widgets exist, whether the run was stopped) and refuses a
  call that breaks one of its rules: \<^verbatim>\<open>st.set_page_config\<close> must be the first
  call of a run, a widget must differ from every widget created before, and
  \<^verbatim>\<open>st.stop()\<close> ends the run. \<open>ui_step\<close> is one call, \<open>ui_run\<close> the relation
  between the states before and after a list of calls that are all accepted.
  The lemmas show what acceptance means for a list of calls and how accepted
  lists are composed.
\<close>

section \<open>Calls\<close>

datatype ui_call =
    SetPageConfig string string
  | Markdown string bool
  | Title string
  | SidebarHeader string
  | Sidebar widget
  | Error string
  | Stop
  | Columns nat
  | Subheader string
  | PlotlyChart figure bool

definition is_page_config :: "ui_call \<Rightarrow> bool" where
  "is_page_config c = (case c of SetPageConfig title wide \<Rightarrow> True | _ \<Rightarrow> False)"

definition is_chart :: "ui_call \<Rightarrow> bool" where
  "is_chart c = (case c of PlotlyChart fig wide \<Rightarrow> True | _ \<Rightarrow> False)"

text \<open>A call that is neither the page configuration, nor a widget, nor the stop.\<close>

definition is_plain :: "ui_call \<Rightarrow> bool" where
  "is_plain c =
     (case c of SetPageConfig title wide \<Rightarrow> False | Sidebar w \<Rightarrow> False | Stop \<Rightarrow> False
      | _ \<Rightarrow> True)"

definition created :: "ui_call \<Rightarrow> widget list" where
  "created c = (case c of Sidebar w \<Rightarrow> [w] | _ \<Rightarrow> [])"

section \<open>The rules of the interface\<close>

record ui_state =
  ui_started :: bool
  ui_widgets :: "widget list"
  ui_stopped :: bool

definition ui_init :: ui_state where
  "ui_init = \<lparr>ui_started = False, ui_widgets = [], ui_stopped = False\<rparr>"

fun ui_step :: "ui_call \<Rightarrow> ui_state \<Rightarrow> ui_state option" where
  "ui_step (SetPageConfig title wide) s =
     (if ui_started s \<or> ui_stopped s then None else Some (s\<lparr>ui_started := True\<rparr>))"
| "ui_step (Sidebar w) s =
     (if w \<in> set (ui_widgets s) \<or> ui_stopped s then None
      else Some (s\<lparr>ui_started := True, ui_widgets := ui_widgets s @ [w]\<rparr>))"
| "ui_step Stop s =
     (if ui_stopped s then None else Some (s\<lparr>ui_started := True, ui_stopped := True\<rparr>))"
| "ui_step c s = (if ui_stopped s then None else Some (s\<lparr>ui_started := True\<rparr>))"

inductive ui_run :: "ui_state \<Rightarrow> ui_call list \<Rightarrow> ui_state \<Rightarrow> bool" where
    ui_run_Nil: "ui_run s [] s"
  | ui_run_Cons: "ui_step c s = Some s' \<Longrightarrow> ui_run s' cs s'' \<Longrightarrow> ui_run s (c # cs) s''"

section \<open>Steps\<close>

inductive_cases ui_run_NilE [elim!]: "ui_run s [] s'"
inductive_cases ui_run_ConsE [elim!]: "ui_run s (c # cs) s'"

inductive_simps ui_run_Nil_iff [simp]: "ui_run s [] s'"
inductive_simps ui_run_Cons_iff [simp]: "ui_run s (c # cs) s'"

lemma ui_step_stopped [simp]: "ui_stopped s \<Longrightarrow> ui_step c s = None"
  by (cases c) simp_all

lemma ui_step_started: "ui_step c s = Some s' \<Longrightarrow> ui_started s'"
  by (cases c) (auto split: if_splits)

lemma ui_step_plain:
  "is_plain c \<Longrightarrow> \<not> ui_stopped s \<Longrightarrow> ui_step c s = Some (s\<lparr>ui_started := True\<rparr>)"
  by (cases c) (simp_all add: is_plain_def)

lemma ui_step_widgets:
  assumes "ui_step c s = Some s'"
  shows "ui_widgets s' = ui_widgets s @ created c" "set (created c) \<inter> set (ui_widgets s) = {}"
  using assms by (cases c; auto simp: created_def split: if_splits)+

section \<open>Runs\<close>

lemma ui_run_append [simp]:
  "ui_run s (xs @ ys) s'' \<longleftrightarrow> (\<exists>s'. ui_run s xs s' \<and> ui_run s' ys s'')"
  by (induction xs arbitrary: s) auto

lemma ui_run_appendI: "ui_run s xs s' \<Longrightarrow> ui_run s' ys s'' \<Longrightarrow> ui_run s (xs @ ys) s''"
  by auto

lemma ui_run_deterministic: "ui_run s cs s1 \<Longrightarrow> ui_run s cs s2 \<Longrightarrow> s1 = s2"
  by (induction arbitrary: s2 rule: ui_run.induct) auto

text \<open>What acceptance means, by induction over the run.\<close>

lemma ui_run_stopped: "ui_run s cs s' \<Longrightarrow> ui_stopped s \<Longrightarrow> cs = []"
  by (induction rule: ui_run.induct) simp_all

lemma ui_run_no_config:
  "ui_run s cs s' \<Longrightarrow> ui_started s \<Longrightarrow> \<not> list_ex is_page_config cs"
proof (induction rule: ui_run.induct)
  case (ui_run_Nil s)
  show ?case by simp
next
  case (ui_run_Cons c s s' cs s'')
  from ui_run_Cons.hyps(1) ui_run_Cons.prems have "\<not> is_page_config c"
    by (cases c) (simp_all add: is_page_config_def)
  with ui_run_Cons ui_step_started [OF ui_run_Cons.hyps(1)] show ?case by simp
qed

lemma ui_run_config_first:
  assumes "ui_run ui_init (c # cs) s"
  shows "\<not> list_ex is_page_config cs"
  using assms by (auto dest: ui_step_started ui_run_no_config)

lemma ui_run_stop_last:
  "ui_run s cs s' \<Longrightarrow> Stop \<in> set cs \<Longrightarrow> last cs = Stop \<and> count_list cs Stop = 1 \<and> ui_stopped s'"
proof (induction rule: ui_run.induct)
  case (ui_run_Nil s)
  then show ?case by simp
next
  case (ui_run_Cons c s s' cs s'')
  show ?case
  proof (cases "c = Stop")
    case True
    with ui_run_Cons.hyps(1) have "ui_stopped s'" by (auto split: if_splits)
    with ui_run_Cons.hyps(2) have "cs = []" "s'' = s'" by (auto dest: ui_run_stopped)
    with True \<open>ui_stopped s'\<close> show ?thesis by simp
  next
    case False
    with ui_run_Cons show ?thesis by auto
  qed
qed

lemma ui_run_widgets:
  "ui_run s cs s' \<Longrightarrow> distinct (ui_widgets s) \<Longrightarrow>
     distinct (ui_widgets s') \<and> ui_widgets s' = ui_widgets s @ concat (map created cs)"
proof (induction rule: ui_run.induct)
  case (ui_run_Nil s)
  then show ?case by simp
next
  case (ui_run_Cons c s s' cs s'')
  note step = ui_step_widgets [OF ui_run_Cons.hyps(1)]
  from step ui_run_Cons.prems have "distinct (ui_widgets s')"
    by (auto simp: created_def split: ui_call.splits)
  from ui_run_Cons.IH [OF this] have d: "distinct (ui_widgets s'')"
    and e: "ui_widgets s'' = ui_widgets s' @ concat (map created cs)"
    by blast+
  from e step(1) have "ui_widgets s'' = ui_widgets s @ concat (map created (c # cs))"
    by simp
  with d show ?case by (rule conjI)
qed

lemma ui_run_rules:
  assumes "ui_run ui_init cs s"
  shows "\<not> list_ex is_page_config (tl cs)" "distinct (concat (map created cs))"
    "Stop \<in> set cs \<Longrightarrow> last cs = Stop \<and> count_list cs Stop = 1"
proof -
  from assms show "\<not> list_ex is_page_config (tl cs)"
    by (cases cs) (simp_all add: ui_run_config_first del: ui_run_Cons_iff)
  from ui_run_widgets [OF assms] show "distinct (concat (map created cs))"
    by (auto simp: ui_init_def)
  from ui_run_stop_last [OF assms] show "Stop \<in> set cs \<Longrightarrow> last cs = Stop \<and> count_list cs Stop = 1"
    by simp
qed

text \<open>Accepted lists of calls, in a run that has started and is not stopped.\<close>

lemma ui_started_same [simp]: "ui_started s \<Longrightarrow> s\<lparr>ui_started := True\<rparr> = s"
  by (cases s) simp

lemma ui_run_widget_calls:
  assumes "distinct (ui_widgets s @ ws)" "ui_started s" "\<not> ui_stopped s"
  shows "ui_run s (map Sidebar ws) (s\<lparr>ui_widgets := ui_widgets s @ ws\<rparr>)"
  using assms
proof (induction ws arbitrary: s)
  case Nil
  show ?case by simp
next
  case (Cons w ws)
  let ?s = "s\<lparr>ui_widgets := ui_widgets s @ [w]\<rparr>"
  from Cons.prems have "ui_step (Sidebar w) s = Some ?s" by simp
  moreover from Cons.prems have "ui_run ?s (map Sidebar ws) (?s\<lparr>ui_widgets := ui_widgets ?s @ ws\<rparr>)"
    by (intro Cons.IH) simp_all
  ultimately show ?case by auto
qed

lemma ui_run_plain_calls:
  assumes "list_all is_plain cs" "ui_started s" "\<not> ui_stopped s"
  shows "ui_run s cs s"
  using assms by (induction cs) (simp_all add: ui_step_plain)

end
