(* ===== verification/Emu_App.thy ===== *)
theory Emu_App
  imports Emu_Interface
begin

text \<open>
  The module body of \<^verbatim>\<open>src/app.py\<close> as one run of the script, and what the run
  asks of Streamlit. \<open>script\<close> composes the loader, the sidebar, the handler
  of the button and the charts the way the module does. \<open>page_setup\<close> are the
  calls before the first widget, and \<open>render\<close> the list of calls of a run that
  raised nothing, in the order the script makes them. The lemmas give the run
  in closed form over the inputs and the file system; the properties show that
  the run raises nothing, which calls it makes, that the interface accepts them
  (the page is configured first, no widget is created twice, nothing follows
  \<^verbatim>\<open>st.stop()\<close>) and that every selected intervention is answered.
\<close>

section \<open>Page setup\<close>

text \<open>The style sheet of the sidebar: the lines of the literal, each with its line end.\<close>

definition sidebar_css :: string where
  "sidebar_css =
     concat (map (\<lambda>l. l @ [CHR 0x0A])
       ['''',
        ''<style>'',
        ''    section[data-testid='' @ [dquote] @ ''stSidebar'' @ [dquote] @ ''] {'',
        ''        background-color: #D0D7E5; '',
        ''        box-shadow: 2px 0px 15px rgba(0,0,0,0.08);'',
        ''        border-right: 1px solid #E0E0E0;'',
        ''        min-width: 300px;'',
        ''    }'',
        ''</style>''])"

definition page_setup :: "ui_call list" where
  "page_setup =
     [SetPageConfig ''Intervention Simulation Dashboard'' ''wide'',
      Markdown sidebar_css True,
      Title ''US Cost of Dementia Model'',
      SidebarHeader ''Filters'']"

section \<open>The module body\<close>

datatype outcome = Idle | Stopped "string list" | Charts sim_state figure figure

definition script :: "(real \<Rightarrow> string) \<Rightarrow> (string \<Rightarrow> coef_frame option) \<Rightarrow> inputs \<Rightarrow>
    outcome result" where
  "script fmt read_csv inp =
     (let df_dict = load_cleaned_data read_csv
      in bind_res (build_levels inp) (\<lambda>intervention_levels.
           if run_clicked inp then
             bind_res (run_simulation df_dict inp intervention_levels) (\<lambda>st.
               if \<not> valid_plot st then Inr (Stopped (errors st))
               else
                 bind_res (draw_charts fmt inp intervention_levels (results_df st)) (\<lambda>figs.
                   Inr (Charts st (fst figs) (snd figs))))
           else Inr Idle))"

text \<open>
  The calls of the handler: the messages of the loop, then \<^verbatim>\<open>st.stop()\<close> or the
  two columns, each with its heading and its chart.
\<close>

definition handler_calls :: "inputs \<Rightarrow> outcome \<Rightarrow> ui_call list" where
  "handler_calls inp out =
     (case out of
        Idle \<Rightarrow> []
      | Stopped msgs \<Rightarrow> map Error msgs @ [Stop]
      | Charts st fig fig_diff \<Rightarrow>
          map Error (errors st) @
          [Columns 2,
           Subheader (''Projected '' @ selected_outcome inp), PlotlyChart fig True,
           Subheader ''Change from Baseline'', PlotlyChart fig_diff True])"

definition render :: "(real \<Rightarrow> string) \<Rightarrow> (string \<Rightarrow> coef_frame option) \<Rightarrow> inputs \<Rightarrow>
    ui_call list result" where
  "render fmt read_csv inp =
     bind_res (sidebar_widgets inp) (\<lambda>shown.
     bind_res (script fmt read_csv inp) (\<lambda>out.
       Inr (page_setup @ map Sidebar shown @ handler_calls inp out)))"

section \<open>The run in closed form\<close>

text \<open>
  What a run shows after the button, stated over the inputs and the loaded
  datasets: the messages of the unusable interventions, then the two charts of
  the usable ones, or \<^verbatim>\<open>st.stop()\<close> when there is none.
\<close>

definition messages :: "coef_frame pydict \<Rightarrow> string \<Rightarrow> string list \<Rightarrow> string list" where
  "messages df_dict target ds = concat (map (\<lambda>d. step_message target (classify df_dict target d)) ds)"

definition value_figure :: "(real \<Rightarrow> string) \<Rightarrow> inputs \<Rightarrow> real pydict \<Rightarrow> coef_frame pydict \<Rightarrow>
    string \<Rightarrow> figure" where
  "value_figure fmt inp lv df_dict target =
     \<lparr>fig_traces = concat (map (value_traces fmt (selected_outcome inp) lv df_dict target
          (year_range_of inp)) (List.enumerate 0 (selected_interventions inp))),
      fig_layout = value_layout (selected_outcome inp)\<rparr>"

definition change_figure :: "inputs \<Rightarrow> real pydict \<Rightarrow> coef_frame pydict \<Rightarrow> string \<Rightarrow> figure" where
  "change_figure inp lv df_dict target =
     \<lparr>fig_traces = concat (map (change_traces (selected_outcome inp) lv df_dict target
          (year_range_of inp)) (List.enumerate 0 (selected_interventions inp))),
      fig_layout = change_layout\<rparr>"

definition handler_view :: "(real \<Rightarrow> string) \<Rightarrow> inputs \<Rightarrow> real pydict \<Rightarrow> coef_frame pydict \<Rightarrow>
    string \<Rightarrow> ui_call list" where
  "handler_view fmt inp lv df_dict target =
     map Error (messages df_dict target (selected_interventions inp)) @
     (if list_ex (\<lambda>d. is_usable (classify df_dict target d)) (selected_interventions inp) then
        [Columns 2,
         Subheader (''Projected '' @ selected_outcome inp),
         PlotlyChart (value_figure fmt inp lv df_dict target) True,
         Subheader ''Change from Baseline'',
         PlotlyChart (change_figure inp lv df_dict target) True]
      else [Stop])"

text \<open>
  \<open>answers target d c\<close>: the call \<open>c\<close> answers the selected intervention \<open>d\<close>, as
  a message that names its dataset or as a chart with its baseline trace.
\<close>

definition answers :: "string \<Rightarrow> string \<Rightarrow> ui_call \<Rightarrow> bool" where
  "answers target d c =
     (case c of
        Error msg \<Rightarrow>
          (case map_of INTERVENTION_OPTIONS d of
             None \<Rightarrow> False
           | Some key \<Rightarrow> msg = dataset_error key \<or> msg = column_error target key)
      | PlotlyChart fig wide \<Rightarrow>
          list_ex (\<lambda>t. tr_name t = ''<b>Baseline:</b> '' @ d) (fig_traces fig)
      | _ \<Rightarrow> False)"

section \<open>Lemmas\<close>

lemma wf_inputs_run:
  assumes "wf_inputs inp"
    and codes: "map_of OUTCOME_OPTIONS (selected_outcome inp) = Some oc"
      "map_of SUBGROUP_OPTIONS (selected_subgroup inp) = Some sc"
    and lv: "build_levels inp = Inr lv"
  shows "\<exists>st. run_simulation df_dict inp lv = Inr st \<and>
     fold_res (sim_step df_dict lv (target_col oc sc) (year_range_of inp))
       (selected_interventions inp) (init_state (year_range_of inp)) = Inr st"
proof -
  from assms(1) lv obtain cov: "\<forall>d \<in> set (selected_interventions inp). covers lv d"
    by (auto elim: wf_inputs_levels)
  from assms(1) have "selected_outcome inp \<in> set (dict_keys OUTCOME_OPTIONS)"
    "selected_subgroup inp \<in> set (dict_keys SUBGROUP_OPTIONS)"
    "set (selected_interventions inp) \<subseteq> set (dict_keys INTERVENTION_OPTIONS)"
    by (simp_all add: wf_inputs_iff)
  from run_simulation_ok [OF this cov] obtain st where "run_simulation df_dict inp lv = Inr st"
    by blast
  with codes show ?thesis by (auto elim: run_simulation_Inr)
qed

lemma script_clicked:
  assumes "wf_inputs inp" "run_clicked inp"
    and codes: "map_of OUTCOME_OPTIONS (selected_outcome inp) = Some oc"
      "map_of SUBGROUP_OPTIONS (selected_subgroup inp) = Some sc"
    and lv: "build_levels inp = Inr lv"
  shows "\<exists>out. script fmt read_csv inp = Inr out \<and>
     handler_calls inp out =
       handler_view fmt inp lv (load_cleaned_data read_csv) (target_col oc sc)"
proof -
  let ?dd = "load_cleaned_data read_csv" and ?t = "target_col oc sc"
  from assms(1) lv obtain cov: "\<forall>d \<in> set (selected_interventions inp). covers lv d"
    by (auto elim: wf_inputs_levels)
  from wf_inputs_run [OF assms(1) codes lv] obtain st where st: "run_simulation ?dd inp lv = Inr st"
    and run: "fold_res (sim_step ?dd lv ?t (year_range_of inp))
       (selected_interventions inp) (init_state (year_range_of inp)) = Inr st"
    by blast
  from fold_sim_step_errors [OF run]
  have msgs: "errors st = messages ?dd ?t (selected_interventions inp)"
    and valid: "valid_plot st \<longleftrightarrow>
      list_ex (\<lambda>d. is_usable (classify ?dd ?t d)) (selected_interventions inp)"
    by (simp_all add: init_state_def messages_def)
  have "draw_charts fmt inp lv (results_df st) =
      Inr (value_figure fmt inp lv ?dd ?t, change_figure inp lv ?dd ?t)"
    by (simp add: draw_charts_def value_chart_run [OF run cov] change_chart_run [OF run]
        value_figure_def change_figure_def)
  with lv st assms(2) msgs valid show ?thesis
    by (simp add: script_def handler_calls_def handler_view_def)
qed

lemma render_clicked:
  assumes "wf_inputs inp" "run_clicked inp"
    and "map_of OUTCOME_OPTIONS (selected_outcome inp) = Some oc"
      "map_of SUBGROUP_OPTIONS (selected_subgroup inp) = Some sc"
    and "build_levels inp = Inr lv"
  shows "render fmt read_csv inp =
     Inr (page_setup @ map Sidebar (shown_widgets (selected_interventions inp)) @
          handler_view fmt inp lv (load_cleaned_data read_csv) (target_col oc sc))"
proof -
  from assms(1) have "set (selected_interventions inp) \<subseteq> set (dict_keys INTERVENTION_OPTIONS)"
    by (simp add: wf_inputs_iff)
  from sidebar_widgets_closed [OF this] script_clicked [OF assms, of fmt read_csv]
  show ?thesis by (auto simp: render_def)
qed

text \<open>With nothing selected the button is answered by the stop alone.\<close>

lemma empty_selection_stops:
  assumes "wf_inputs inp" "run_clicked inp" "selected_interventions inp = []"
    and "map_of OUTCOME_OPTIONS (selected_outcome inp) = Some oc"
      "map_of SUBGROUP_OPTIONS (selected_subgroup inp) = Some sc"
  shows "render fmt read_csv inp =
     Inr (page_setup @
       map Sidebar [outcome_box, subgroup_box, intervention_select, year_slider, run_button] @
       [Stop])"
proof -
  from assms(3) have "build_levels inp = Inr []" by (simp add: build_levels_def)
  from render_clicked [OF assms(1,2,4,5) this, of fmt read_csv] assms(3) show ?thesis
    by (simp add: shown_widgets_def handler_view_def messages_def)
qed

lemma render_Inr:
  assumes "render fmt read_csv inp = Inr calls"
  obtains shown out where "sidebar_widgets inp = Inr shown" "script fmt read_csv inp = Inr out"
    "calls = page_setup @ map Sidebar shown @ handler_calls inp out"
  using assms by (auto simp: render_def bind_res_eq_Inr_iff)

lemma call_kinds [simp]:
  "\<not> is_page_config (Sidebar w)" "\<not> is_page_config (Error m)" "\<not> is_page_config Stop"
  "\<not> is_chart (Sidebar w)" "\<not> is_chart (Error m)" "\<not> is_chart Stop"
  "is_chart (PlotlyChart fig wide)"
  by (simp_all add: is_page_config_def is_chart_def)

lemma page_setup_accepted:
  "ui_run ui_init page_setup \<lparr>ui_started = True, ui_widgets = [], ui_stopped = False\<rparr>"
  by (simp add: page_setup_def ui_init_def)

lemma handler_calls_accepted:
  assumes "ui_started s" "\<not> ui_stopped s"
  shows "\<exists>s'. ui_run s (handler_calls inp out) s' \<and> ui_widgets s' = ui_widgets s \<and>
     (ui_stopped s' \<longleftrightarrow> Stop \<in> set (handler_calls inp out))"
proof (cases out)
  case Idle
  with assms show ?thesis by (simp add: handler_calls_def)
next
  case (Stopped msgs)
  from assms have "ui_run s (map Error msgs) s"
    by (intro ui_run_plain_calls) (simp_all add: list_all_iff is_plain_def)
  moreover from assms have "ui_run s [Stop] (s\<lparr>ui_stopped := True\<rparr>)"
    by simp
  ultimately have "ui_run s (map Error msgs @ [Stop]) (s\<lparr>ui_stopped := True\<rparr>)"
    by (rule ui_run_appendI)
  with Stopped show ?thesis
    by (intro exI [of _ "s\<lparr>ui_stopped := True\<rparr>"]) (simp add: handler_calls_def)
next
  case (Charts st fig fig_diff)
  from assms have "ui_run s (handler_calls inp out) s"
    by (intro ui_run_plain_calls) (auto simp: Charts handler_calls_def list_all_iff is_plain_def)
  moreover have "Stop \<notin> set (handler_calls inp out)"
    by (auto simp: Charts handler_calls_def)
  ultimately show ?thesis
    using assms by (intro exI [of _ s]) simp
qed

lemma answered_by_message:
  assumes "d \<in> set ds" "\<not> is_usable (classify df_dict target d)"
    and "d \<in> set (dict_keys INTERVENTION_OPTIONS)"
  shows "list_ex (answers target d) (map Error (messages df_dict target ds))"
proof (cases "classify df_dict target d")
  case Unknown
  with assms(3) show ?thesis by (simp add: classify_Unknown_iff)
next
  case (NoDataset key)
  then have "map_of INTERVENTION_OPTIONS d = Some key"
    by (auto simp: classify_def split: option.splits)
  with NoDataset assms(1) show ?thesis
    by (force simp: list_ex_iff messages_def answers_def)
next
  case (NoColumn key)
  then have "map_of INTERVENTION_OPTIONS d = Some key"
    by (auto simp: classify_def split: option.splits)
  with NoColumn assms(1) show ?thesis
    by (force simp: list_ex_iff messages_def answers_def)
next
  case (Usable key beta)
  with assms(2) show ?thesis by (simp add: is_usable_def)
qed

lemma answered_by_chart:
  assumes run: "fold_res (sim_step df_dict lv target (year_range_of inp))
        (selected_interventions inp) (init_state (year_range_of inp)) = Inr st"
    and d: "d \<in> set (selected_interventions inp)" "is_usable (classify df_dict target d)"
  shows "answers target d (PlotlyChart (value_figure fmt inp lv df_dict target) wide)"
proof -
  from d(2) obtain key beta where kind: "classify df_dict target d = Usable key beta"
    by (auto simp: is_usable_def split: step_kind.splits)
  with run_columns [OF run d(1)] obtain bs "is" where
    "predict_series key lv beta (year_range_of inp) = Inr (bs, is)"
    by auto
  with kind have "\<exists>t \<in> set (value_traces fmt (selected_outcome inp) lv df_dict target
       (year_range_of inp) (i, d)). tr_name t = ''<b>Baseline:</b> '' @ d" for i
    by (simp add: value_traces_def dashed_trace_def)
  moreover from d(1) obtain i where "i < length (selected_interventions inp)"
    "selected_interventions inp ! i = d"
    by (auto simp: in_set_conv_nth)
  then have "(i, d) \<in> set (List.enumerate 0 (selected_interventions inp))"
    by (simp add: in_set_enumerate_eq)
  ultimately show ?thesis
    by (fastforce simp: answers_def value_figure_def list_ex_iff)
qed

lemma dataset_error_in_messages:
  "dataset_error key \<in> set (messages df_dict target ds) \<longleftrightarrow>
     (\<exists>d \<in> set ds. classify df_dict target d = NoDataset key)"
proof -
  have "dataset_error key \<in> set (step_message target k) \<longleftrightarrow> k = NoDataset key"
    for k :: "real step_kind"
    by (cases k) auto
  then show ?thesis by (simp add: messages_def)
qed

lemma dataset_error_shown_iff:
  "Error (dataset_error key) \<in> set (page_setup @ map Sidebar ws @ handler_view fmt inp lv df_dict target) \<longleftrightarrow>
     (\<exists>d \<in> set (selected_interventions inp). classify df_dict target d = NoDataset key)"
proof -
  have "Error m \<in> set (handler_view fmt inp lv df_dict target) \<longleftrightarrow>
      m \<in> set (messages df_dict target (selected_interventions inp))" for m
    by (auto simp: handler_view_def)
  then show ?thesis
    by (auto simp: page_setup_def dataset_error_in_messages)
qed

text \<open>The example inputs on a file system without files.\<close>

lemma load_nothing: "load_cleaned_data (\<lambda>path. None) = []"
  by (simp add: load_cleaned_data_def load_step_def CLEANED_DATASETS_def)

lemma example_no_files:
  "handler_view example_fmt example_inputs example_levels (load_cleaned_data (\<lambda>path. None)) t =
     [Error (dataset_error ''pdiabe''), Error (dataset_error ''phearte''), Stop]"
  by (simp add: load_nothing handler_view_def messages_def example_inputs_def classify_def
      INTERVENTION_OPTIONS_def is_usable_def)

section \<open>Properties of a run of the script\<close>

text \<open>
  C7. The script raises nothing on what the widgets can deliver: for inputs that
  satisfy the widgets' guarantees and for any state of the file system, building
  the levels, running the handler and drawing the charts end without
  \<^verbatim>\<open>KeyError\<close> and without \<^verbatim>\<open>ValueError\<close>, and the script is idle exactly when
  the button was not pressed.
\<close>

theorem script_never_raises:
  assumes "wf_inputs inp"
  shows "\<exists>out. script fmt read_csv inp = Inr out \<and> (out = Idle \<longleftrightarrow> \<not> run_clicked inp)"
proof -
  from assms obtain lv where lv: "build_levels inp = Inr lv"
    "\<forall>d \<in> set (selected_interventions inp). covers lv d"
    by (rule wf_inputs_levels)
  from assms have "selected_outcome inp \<in> set (dict_keys OUTCOME_OPTIONS)"
    "selected_subgroup inp \<in> set (dict_keys SUBGROUP_OPTIONS)"
    "set (selected_interventions inp) \<subseteq> set (dict_keys INTERVENTION_OPTIONS)"
    by (simp_all add: wf_inputs_iff)
  from run_simulation_ok [OF this lv(2)] obtain st where
    st: "run_simulation (load_cleaned_data read_csv) inp lv = Inr st"
    by blast
  from draw_charts_ok [OF st lv(2)] obtain figs where
    "draw_charts fmt inp lv (results_df st) = Inr figs"
    by blast
  with lv(1) st show ?thesis by (simp add: script_def)
qed

theorem script_never_raises_witness:
  "\<exists>out. script example_fmt (\<lambda>path. None) example_inputs = Inr out \<and>
     (out = Idle \<longleftrightarrow> \<not> run_clicked example_inputs)"
  by (rule script_never_raises) (rule wf_inputs_example)

text \<open>
  C32. What a run shows: for answers the widgets can give and any state of the
  file system, the script makes, in this order, the calls of the page setup, one
  call per widget of the sidebar (the fixed ones, the sliders of the selected
  interventions, the button) and, when the button was pressed, one
  \<^verbatim>\<open>st.error\<close> per unusable intervention followed by \<^verbatim>\<open>st.stop()\<close> when no
  intervention is usable and otherwise by the two columns with their headings
  and the charts of the predicted series and of the differences.
\<close>

theorem render_closed_form:
  assumes "wf_inputs inp"
    and "map_of OUTCOME_OPTIONS (selected_outcome inp) = Some oc"
    and "map_of SUBGROUP_OPTIONS (selected_subgroup inp) = Some sc"
    and "build_levels inp = Inr lv"
  shows "render fmt read_csv inp =
     Inr (page_setup @ map Sidebar (shown_widgets (selected_interventions inp)) @
          (if run_clicked inp then
             handler_view fmt inp lv (load_cleaned_data read_csv) (target_col oc sc)
           else []))"
proof (cases "run_clicked inp")
  case True
  with render_clicked [OF assms(1) True assms(2-4), of fmt read_csv] show ?thesis by simp
next
  case False
  from assms(1) have "set (selected_interventions inp) \<subseteq> set (dict_keys INTERVENTION_OPTIONS)"
    by (simp add: wf_inputs_iff)
  from sidebar_widgets_closed [OF this] assms(4) False show ?thesis
    by (simp add: render_def script_def handler_calls_def)
qed

theorem render_closed_form_witness:
  "render example_fmt (\<lambda>path. None) example_inputs =
     Inr (page_setup @ map Sidebar (shown_widgets (selected_interventions example_inputs)) @
          (if run_clicked example_inputs then
             handler_view example_fmt example_inputs example_levels
               (load_cleaned_data (\<lambda>path. None)) (target_col ''n_startpop'' ''all'')
           else []))"
  by (rule render_closed_form [OF wf_inputs_example])
     (simp_all add: example_inputs_def example_levels_def table_defs build_levels_def
       level_step_def dict_index_def dict_set_def)

text \<open>
  C23. The interface accepts every run: for answers the widgets can give, the
  calls of a run that raises nothing are accepted by the interface one after the
  other, so that \<^verbatim>\<open>st.set_page_config\<close> is the first call, no widget is created
  twice and no call follows \<^verbatim>\<open>st.stop()\<close>; the widgets the interface then holds
  are those of the sidebar, and the run is stopped exactly when it called
  \<^verbatim>\<open>st.stop()\<close>.
\<close>

theorem interface_accepts_the_run:
  assumes "wf_inputs inp" "render fmt read_csv inp = Inr calls"
  shows "\<exists>s. ui_run ui_init calls s \<and>
     ui_widgets s = shown_widgets (selected_interventions inp) \<and>
     (ui_stopped s \<longleftrightarrow> Stop \<in> set calls) \<and>
     \<not> list_ex is_page_config (tl calls) \<and>
     (Stop \<in> set calls \<longrightarrow> last calls = Stop \<and> count_list calls Stop = 1)"
proof -
  let ?ws = "shown_widgets (selected_interventions inp)"
  from assms(1) have sel: "set (selected_interventions inp) \<subseteq> set (dict_keys INTERVENTION_OPTIONS)"
    "distinct (selected_interventions inp)"
    by (simp_all add: wf_inputs_iff)
  from assms(2) sidebar_widgets_closed [OF sel(1)] obtain out where
    calls: "calls = page_setup @ map Sidebar ?ws @ handler_calls inp out"
    by (auto elim: render_Inr)
  let ?s1 = "\<lparr>ui_started = True, ui_widgets = [], ui_stopped = False\<rparr>"
  let ?s2 = "\<lparr>ui_started = True, ui_widgets = ?ws, ui_stopped = False\<rparr>"
  from shown_widgets_distinct [OF sel(2,1)] have widgets: "ui_run ?s1 (map Sidebar ?ws) ?s2"
    using ui_run_widget_calls [of ?s1 ?ws] by simp
  from handler_calls_accepted [of ?s2 inp out] obtain s where
    s: "ui_run ?s2 (handler_calls inp out) s" "ui_widgets s = ?ws"
    "ui_stopped s \<longleftrightarrow> Stop \<in> set (handler_calls inp out)"
    by auto
  from widgets s(1) have "ui_run ?s1 (map Sidebar ?ws @ handler_calls inp out) s"
    by (rule ui_run_appendI)
  with page_setup_accepted have run: "ui_run ui_init calls s"
    unfolding calls by (rule ui_run_appendI)
  moreover from s(3) have "ui_stopped s \<longleftrightarrow> Stop \<in> set calls"
    by (auto simp: calls page_setup_def)
  ultimately show ?thesis using s(2) ui_run_rules(1,3) [OF run] by blast
qed

theorem interface_accepts_the_run_witness:
  "\<exists>s. ui_run ui_init
       (page_setup @ map Sidebar (shown_widgets (selected_interventions example_inputs)) @
        [Error (dataset_error ''pdiabe''), Error (dataset_error ''phearte''), Stop]) s \<and>
     ui_widgets s = shown_widgets (selected_interventions example_inputs) \<and> ui_stopped s"
proof -
  let ?calls = "page_setup @
     map Sidebar (shown_widgets (selected_interventions example_inputs)) @
     [Error (dataset_error ''pdiabe''), Error (dataset_error ''phearte''), Stop]"
  have "render example_fmt (\<lambda>path. None) example_inputs =
      Inr (page_setup @ map Sidebar (shown_widgets (selected_interventions example_inputs)) @
        handler_view example_fmt example_inputs example_levels
          (load_cleaned_data (\<lambda>path. None)) (target_col ''n_startpop'' ''all''))"
    by (rule render_clicked [OF wf_inputs_example])
       (simp_all add: example_inputs_def example_levels_def table_defs build_levels_def
         level_step_def dict_index_def dict_set_def)
  then have "render example_fmt (\<lambda>path. None) example_inputs = Inr ?calls"
    by (simp only: example_no_files)
  from interface_accepts_the_run [OF wf_inputs_example this] obtain s where
    s: "ui_run ui_init ?calls s"
      "ui_widgets s = shown_widgets (selected_interventions example_inputs)"
      "ui_stopped s \<longleftrightarrow> Stop \<in> set ?calls"
    by (elim exE conjE)
  from s(3) have "ui_stopped s" by simp
  with s(1,2) show ?thesis by (intro exI [of _ s] conjI)
qed

text \<open>
  C26. Every selected intervention is answered: for answers the widgets can give
  and any state of the file system, a run in which the button was pressed makes,
  after the call of the button, for each selected intervention a call that
  answers it, a message that names its dataset or the chart that holds its
  baseline trace, and the run ends with \<^verbatim>\<open>st.stop()\<close> or with a chart.
\<close>

theorem every_selection_is_answered:
  assumes "wf_inputs inp" "run_clicked inp" "d \<in> set (selected_interventions inp)"
    and "map_of OUTCOME_OPTIONS (selected_outcome inp) = Some oc"
    and "map_of SUBGROUP_OPTIONS (selected_subgroup inp) = Some sc"
  shows "\<exists>pre post. render fmt read_csv inp = Inr (pre @ Sidebar run_button # post) \<and>
     list_ex (answers (target_col oc sc) d) post \<and>
     (last post = Stop \<or> is_chart (last post))"
proof -
  let ?dd = "load_cleaned_data read_csv" and ?t = "target_col oc sc"
  let ?ds = "selected_interventions inp"
  from assms(1) obtain lv where lv: "build_levels inp = Inr lv"
    "\<forall>d \<in> set ?ds. covers lv d"
    by (rule wf_inputs_levels)
  from assms(1) have sel: "set ?ds \<subseteq> set (dict_keys INTERVENTION_OPTIONS)"
    by (simp add: wf_inputs_iff)
  from wf_inputs_run [OF assms(1,4,5) lv(1)] obtain st where
    run: "fold_res (sim_step ?dd lv ?t (year_range_of inp)) ?ds (init_state (year_range_of inp)) = Inr st"
    by blast
  let ?pre = "page_setup @ map Sidebar
     ([outcome_box, subgroup_box, intervention_select, year_slider] @ concat (map sliders_of ?ds))"
  let ?post = "handler_view fmt inp lv ?dd ?t"
  have "render fmt read_csv inp = Inr (?pre @ Sidebar run_button # ?post)"
    using render_clicked [OF assms(1,2,4,5) lv(1), of fmt read_csv]
    by (simp add: shown_widgets_def)
  moreover have "list_ex (answers ?t d) ?post"
  proof (cases "is_usable (classify ?dd ?t d)")
    case True
    with assms(3) have "list_ex (\<lambda>d. is_usable (classify ?dd ?t d)) ?ds"
      by (auto simp: list_ex_iff)
    with answered_by_chart [OF run assms(3) True, of fmt True] show ?thesis
      by (simp add: handler_view_def)
  next
    case False
    from answered_by_message [OF assms(3) False] assms(3) sel show ?thesis
      by (auto simp: handler_view_def)
  qed
  moreover have "last ?post = Stop \<or> is_chart (last ?post)"
    by (simp add: handler_view_def)
  ultimately show ?thesis by blast
qed

theorem every_selection_is_answered_witness:
  "\<exists>pre post. render example_fmt (\<lambda>path. None) example_inputs =
       Inr (pre @ Sidebar run_button # post) \<and>
     list_ex (answers (target_col ''n_startpop'' ''all'') ''Diabetes Incidence Reduction'') post \<and>
     (last post = Stop \<or> is_chart (last post))"
  by (rule every_selection_is_answered [OF wf_inputs_example])
     (simp_all add: example_inputs_def table_defs)

end
