(* ===== verification/Py_Values.thy ===== *)
theory Py_Values
  imports Emu_Prelude
begin

text \<open>
  The values a cell of a table can hold in either script, and Python's
  arithmetic on them. A \<open>number\<close> is a real or \<^verbatim>\<open>NaN\<close>, the value pandas gives
  a cell it cannot read as a number; a \<open>cell\<close> is a string or a number. The
  operators \<^verbatim>\<open>+\<close>, \<^verbatim>\<open>*\<close> and \<^verbatim>\<open>-\<close> are checked when they run: applied to
  numbers they compute, with \<^verbatim>\<open>NaN\<close> absorbing; \<^verbatim>\<open>+\<close> on two strings
  concatenates; every other combination raises \<^verbatim>\<open>TypeError\<close>. The lemmas make
  \<open>number\<close> a commutative semiring without the law \<open>0 * x = 0\<close> and say when
  each operator raises.
\<close>

section \<open>Numbers\<close>

datatype number = Fin real | NaN

instantiation number :: "{comm_monoid_add, comm_monoid_mult, comm_semiring, minus}"
begin

definition zero_number :: number where
  "0 = Fin 0"

definition one_number :: number where
  "1 = Fin 1"

fun plus_number :: "number \<Rightarrow> number \<Rightarrow> number" where
  "plus_number (Fin a) (Fin b) = Fin (a + b)"
| "plus_number _ _ = NaN"

fun times_number :: "number \<Rightarrow> number \<Rightarrow> number" where
  "times_number (Fin a) (Fin b) = Fin (a * b)"
| "times_number _ _ = NaN"

fun minus_number :: "number \<Rightarrow> number \<Rightarrow> number" where
  "minus_number (Fin a) (Fin b) = Fin (a - b)"
| "minus_number _ _ = NaN"

instance
proof
  fix x y z :: number
  show "1 * x = x" and "0 + x = x"
    by (cases x; simp add: one_number_def zero_number_def)+
  show "x + y = y + x" and "x * y = y * x"
    by (cases x; cases y; simp)+
  show "x + y + z = x + (y + z)" and "x * y * z = x * (y * z)"
    by (cases x; cases y; cases z; simp)+
  show "(x + y) * z = x * z + y * z"
    by (cases x; cases y; cases z; simp add: distrib_right)
qed

end

definition is_nan :: "number \<Rightarrow> bool" where
  "is_nan x = (case x of Fin _ \<Rightarrow> False | NaN \<Rightarrow> True)"

section \<open>Cells\<close>

datatype cell = Str string | Num number

definition is_str :: "cell \<Rightarrow> bool" where
  "is_str v = (case v of Str _ \<Rightarrow> True | Num _ \<Rightarrow> False)"

definition is_num :: "cell \<Rightarrow> bool" where
  "is_num v = (case v of Str _ \<Rightarrow> False | Num _ \<Rightarrow> True)"

section \<open>Operators\<close>

text \<open>
  \<open>py_add a b\<close> is \<^verbatim>\<open>a + b\<close> and \<open>py_sub a b\<close> is \<^verbatim>\<open>a - b\<close> on two cells;
  \<open>py_mul a r\<close> is \<^verbatim>\<open>a * r\<close> for a cell and a float. \<open>add_res\<close> and \<open>mul_res\<close>
  are the operators on operands that are expressions: the left operand is
  computed first, then the right one, then the operator is applied.
\<close>

fun py_add :: "cell \<Rightarrow> cell \<Rightarrow> cell result" where
  "py_add (Num x) (Num y) = Inr (Num (x + y))"
| "py_add (Str s) (Str t) = Inr (Str (s @ t))"
| "py_add _ _ = Inl TypeError"

fun py_mul :: "cell \<Rightarrow> real \<Rightarrow> cell result" where
  "py_mul (Num x) r = Inr (Num (x * Fin r))"
| "py_mul (Str s) r = Inl TypeError"

fun py_sub :: "cell \<Rightarrow> cell \<Rightarrow> cell result" where
  "py_sub (Num x) (Num y) = Inr (Num (x - y))"
| "py_sub _ _ = Inl TypeError"

definition add_res :: "cell result \<Rightarrow> cell result \<Rightarrow> cell result" where
  "add_res l r = bind_res l (\<lambda>a. bind_res r (\<lambda>b. py_add a b))"

definition mul_res :: "cell result \<Rightarrow> real \<Rightarrow> cell result" where
  "mul_res l r = bind_res l (\<lambda>a. py_mul a r)"

section \<open>Arithmetic of numbers\<close>

lemma is_nan_simps [simp]: "is_nan NaN" "\<not> is_nan (Fin a)"
  by (simp_all add: is_nan_def)

lemma is_nan_iff: "is_nan x \<longleftrightarrow> x = NaN"
  by (cases x) simp_all

lemma number_arith_simps [simp]:
  "NaN + x = NaN" "x + NaN = NaN" "NaN * x = NaN" "x * NaN = NaN"
  "NaN - x = NaN" "x - NaN = NaN"
  by (cases x; simp)+

lemma is_nan_plus [simp]: "is_nan (x + y) \<longleftrightarrow> is_nan x \<or> is_nan y"
  by (cases x; cases y) simp_all

lemma is_nan_times [simp]: "is_nan (x * y) \<longleftrightarrow> is_nan x \<or> is_nan y"
  by (cases x; cases y) simp_all

lemma is_nan_minus [simp]: "is_nan (x - y) \<longleftrightarrow> is_nan x \<or> is_nan y"
  by (cases x; cases y) simp_all

section \<open>When an operator raises\<close>

lemma is_str_simps [simp]: "is_str (Str s)" "\<not> is_str (Num x)"
  by (simp_all add: is_str_def)

lemma is_num_simps [simp]: "is_num (Num x)" "\<not> is_num (Str s)"
  by (simp_all add: is_num_def)

lemma is_num_iff_not_str: "is_num v \<longleftrightarrow> \<not> is_str v"
  by (cases v) simp_all

lemma py_mul_raises_iff: "py_mul a r = Inl e \<longleftrightarrow> is_str a \<and> e = TypeError"
  by (cases a) auto

lemma py_sub_Num_iff: "py_sub a b = Inr c \<longleftrightarrow> (\<exists>x y. a = Num x \<and> b = Num y \<and> c = Num (x - y))"
  by (cases a; cases b) auto

lemma add_res_simps [simp]:
  "add_res (Inl e) r = Inl e"
  "add_res (Inr a) (Inl e) = Inl e"
  "add_res (Inr a) (Inr b) = py_add a b"
  by (simp_all add: add_res_def)

lemma mul_res_simps [simp]:
  "mul_res (Inl e) r = Inl e"
  "mul_res (Inr a) r = py_mul a r"
  by (simp_all add: mul_res_def)

lemma add_res_raises_iff:
  "add_res l r = Inl e \<longleftrightarrow>
     l = Inl e \<or> (\<exists>a. l = Inr a \<and> (r = Inl e \<or> (\<exists>b. r = Inr b \<and> py_add a b = Inl e)))"
  by (cases l; cases r) simp_all

end
