(* ===== verification/Emu_Clean_Text.thy ===== *)
theory Emu_Clean_Text
  imports Py_Builtins Py_Values
begin

text \<open>
  The two string functions of \<^verbatim>\<open>src/clean_data.py\<close>: \<open>clean_column\<close> cleans a
  column label, \<open>clean_cell\<close> a cell. Both remove the wrapper \<^verbatim>\<open>="..."\<close> a
  spreadsheet export puts around a value; they differ in what they do with
  double quotes inside the wrapper. The lemmas show what the functions return
  on wrapped text, which labels they leave alone, that they only remove
  characters, and that two different raw labels can be cleaned to the same one.
\<close>

section \<open>Labels and cells\<close>

text \<open>
  A column label read by \<^verbatim>\<open>pd.read_csv\<close> is a string, so \<^verbatim>\<open>str(col)\<close> is the
  label itself. A cell is a string or, after the conversion, a number;
  \<^verbatim>\<open>isinstance(val, str)\<close> is the case distinction on \<open>cell\<close>. A \<open>number\<close> is
  a real or \<^verbatim>\<open>NaN\<close>, the value pandas gives a cell it cannot read as a number.
\<close>

definition clean_column :: "string \<Rightarrow> string" where
  "clean_column col =
     (let col = py_strip col;
          col = (if startswith col [CHR ''='', dquote] \<and> endswith col [dquote]
                 then py_slice col 2 (- 1) else col)
      in strip_dquote col)"

fun clean_cell :: "cell \<Rightarrow> cell" where
  "clean_cell (Str val) =
     (let val = py_strip val
      in if startswith val [CHR ''='', dquote] \<and> endswith val [dquote]
         then Str (py_slice val 2 (- 1))
         else Str (strip_dquote val))"
| "clean_cell val = val"

section \<open>What the two functions return\<close>

lemma py_strip_wrapped:
  assumes "list_all py_isspace l" "list_all py_isspace r"
  shows "py_strip (l @ CHR ''='' # dquote # s @ dquote # r) = CHR ''='' # dquote # s @ [dquote]"
proof -
  have "py_strip (l @ (CHR ''='' # dquote # s @ [dquote]) @ r) = CHR ''='' # dquote # s @ [dquote]"
    unfolding py_strip_def using assms
    by (intro strip_chars_wrap) (simp_all add: list_all_iff)
  then show ?thesis by simp
qed

lemma wrapped_tests [simp]:
  "startswith (CHR ''='' # dquote # s) [CHR ''='', dquote]"
  "endswith (CHR ''='' # dquote # s @ [dquote]) [dquote]"
  using endswith_append [of "CHR ''='' # dquote # s" "[dquote]"]
  by (simp_all add: startswith_def)

lemma clean_column_sublist: "sublist (clean_column s) s"
proof -
  have "sublist (strip_dquote (py_slice (py_strip s) 2 (- 1))) (py_strip s)"
    unfolding strip_dquote_def
    by (rule sublist_order.order_trans [OF sublist_strip_chars]) simp
  moreover have "sublist (strip_dquote (py_strip s)) (py_strip s)"
    by (simp add: strip_dquote_def)
  moreover have "sublist (py_strip s) s"
    by (simp add: py_strip_def)
  ultimately show ?thesis
    by (auto simp: clean_column_def Let_def intro: sublist_order.order_trans)
qed

lemma clean_column_ends:
  assumes "clean_column s \<noteq> []"
  shows "hd (clean_column s) \<noteq> dquote" "last (clean_column s) \<noteq> dquote"
  using assms hd_strip_chars [of "\<lambda>c. c = dquote"] last_strip_chars [of "\<lambda>c. c = dquote"]
  by (auto simp: clean_column_def Let_def strip_dquote_def)

lemma clean_column_strip_fixed:
  assumes "clean_column s = s"
  shows "py_strip s = s"
proof -
  have "sublist (clean_column s) (py_strip s)"
    unfolding clean_column_def Let_def strip_dquote_def
    by (auto intro: sublist_order.order_trans [OF sublist_strip_chars])
  with assms have "sublist s (py_strip s)" by simp
  moreover have "sublist (py_strip s) s" by (simp add: py_strip_def)
  ultimately show ?thesis by (simp add: sublist_order.order_antisym)
qed

lemma is_str_clean_cell [simp]: "is_str (clean_cell v) = is_str v"
  by (cases v) (simp_all add: is_str_def Let_def)

lemmas clean_eval = clean_column_def py_strip_def strip_dquote_def strip_chars_def
  lstrip_chars_def rstrip_chars_def startswith_def endswith_def py_slice_def dquote_def
  py_isspace_def

text \<open>
  \<^verbatim>\<open>clean_cell\<close> removes the same wrapper from a string cell and returns the
  text between the quotes unchanged, whatever it holds; a cell that is not a
  string is returned as it is.
\<close>

lemma clean_cell_unwraps:
  assumes "list_all py_isspace l" "list_all py_isspace r"
  shows "clean_cell (Str (l @ CHR ''='' # dquote # s @ dquote # r)) = Str s \<and>
     clean_cell (Num x) = Num x"
  using py_strip_wrapped [OF assms, of s] by (simp add: py_slice_unwrap)

text \<open>
  White space is removed before the quotes are: a label with white space
  inside its quotes keeps it, and cleaning the cleaned label again gives a
  different label.
\<close>

lemma clean_column_twice:
  "clean_column (dquote # '' n_all'' @ [dquote]) = '' n_all'' \<and> clean_column '' n_all'' = ''n_all''"
  by (simp add: clean_eval)

text \<open>
  The two functions differ by one step only: cleaning a label is cleaning
  it as a cell and then removing the double quotes at both ends.
\<close>

lemma clean_column_after_cell:
  "\<exists>t. clean_cell (Str s) = Str t \<and> clean_column s = strip_dquote t"
  by (simp add: clean_column_def Let_def strip_dquote_def)

text \<open>
  \<^verbatim>\<open>clean_column\<close> only removes: the cleaned label is a contiguous piece of
  the raw label, and when it is not empty it neither starts nor ends with a
  double quote.
\<close>

lemma clean_column_is_piece:
  "sublist (clean_column s) s \<and>
   (clean_column s \<noteq> [] \<longrightarrow> hd (clean_column s) \<noteq> dquote \<and> last (clean_column s) \<noteq> dquote)"
  using clean_column_sublist [of s] clean_column_ends [of s] by simp

section \<open>Properties of the two functions\<close>

text \<open>
  C22. \<^verbatim>\<open>clean_column\<close> removes the spreadsheet wrapper: a label exported as
  \<^verbatim>\<open>="..."\<close>, with any white space around it, is cleaned to the text between the
  quotes with the double quotes at its two ends removed.
\<close>

theorem clean_column_unwraps:
  assumes "list_all py_isspace l" "list_all py_isspace r"
  shows "clean_column (l @ CHR ''='' # dquote # s @ dquote # r) = strip_dquote s"
  using py_strip_wrapped [OF assms, of s] by (simp add: clean_column_def py_slice_unwrap)

theorem clean_column_unwraps_witness:
  "list_all py_isspace '' '' \<and> list_all py_isspace [] \<and>
   clean_column ('' '' @ CHR ''='' # dquote # ''n_all'' @ dquote # []) = strip_dquote ''n_all''"
  using clean_column_unwraps [of "'' ''" "[]" "''n_all''"] by simp

text \<open>
  The labels \<^verbatim>\<open>clean_column\<close> leaves alone: a label is returned unchanged
  if and only if it is empty or has neither white space nor a double quote at
  either end.
\<close>

lemma clean_column_fixed_point:
  "clean_column s = s \<longleftrightarrow>
     s = [] \<or> (\<not> py_isspace (hd s) \<and> \<not> py_isspace (last s) \<and> hd s \<noteq> dquote \<and> last s \<noteq> dquote)"
proof (cases "s = []")
  case True
  then show ?thesis by (simp add: clean_column_def py_strip_def strip_dquote_def startswith_def)
next
  case False
  show ?thesis
  proof
    assume fp: "clean_column s = s"
    from clean_column_strip_fixed [OF fp] False
    have "\<not> py_isspace (hd s) \<and> \<not> py_isspace (last s)"
      by (simp add: py_strip_def strip_chars_eq_self_iff)
    with clean_column_ends [of s] fp False show
      "s = [] \<or> (\<not> py_isspace (hd s) \<and> \<not> py_isspace (last s) \<and> hd s \<noteq> dquote \<and> last s \<noteq> dquote)"
      by simp
  next
    assume "s = [] \<or> (\<not> py_isspace (hd s) \<and> \<not> py_isspace (last s) \<and> hd s \<noteq> dquote \<and> last s \<noteq> dquote)"
    with False show "clean_column s = s"
      by (simp add: clean_column_def py_strip_def strip_dquote_def strip_chars_id endswith_single)
  qed
qed

text \<open>
  Cleaning can merge labels: the raw labels \<^verbatim>\<open>"a"\<close> (in double quotes) and
  \<^verbatim>\<open>a\<close> are different and are cleaned to the same label, and a wrapped cell
  keeps the quotes inside the wrapper that the same text loses as a label.
\<close>

lemma clean_column_merges_labels:
  "dquote # ''a'' @ [dquote] \<noteq> ''a'' \<and>
   clean_column (dquote # ''a'' @ [dquote]) = clean_column ''a'' \<and>
   clean_cell (Str (CHR ''='' # dquote # dquote # ''a'' @ [dquote, dquote])) =
     Str (dquote # ''a'' @ [dquote]) \<and>
   clean_column (CHR ''='' # dquote # dquote # ''a'' @ [dquote, dquote]) = ''a''"
  by (simp add: clean_eval)

end
