(* ===== verification/Emu_Clean_Table.thy ===== *)
theory Emu_Clean_Table
  imports Emu_Clean_Text Emu_Frame
begin

text \<open>
  What the offline script \<^verbatim>\<open>src/clean_data.py\<close> does to one table.
  \<open>clean_frame\<close> is the loop body on a table that has been read (relabel the
  columns, clean every cell, convert every column but \<^verbatim>\<open>Year\<close> to numbers),
  with \<open>convert_step\<close> for one turn of the conversion loop; \<open>debug_dataset\<close>
  gives the values of the report the script prints of the cleaned table.
  \<^verbatim>\<open>pd.to_numeric\<close> is given by its documented behaviour under
  \<^verbatim>\<open>errors="ignore"\<close> and \<^verbatim>\<open>errors="coerce"\<close> over a parser of numbers that is a
  parameter. The lemmas show that the loop body equals a column-wise closed
  form on tables whose cleaned labels are distinct, which type each column of
  a cleaned table has, and which columns the report names.
\<close>


section \<open>Numeric conversion\<close>

text \<open>
  \<^verbatim>\<open>pd.to_numeric\<close> on one cell, and on a column. With \<^verbatim>\<open>errors="ignore"\<close> the
  column becomes numeric when every cell is a number or parses as one, and is
  returned as it is otherwise; with \<^verbatim>\<open>errors="coerce"\<close> every cell is
  converted, a cell that does not parse to \<^verbatim>\<open>NaN\<close>. \<open>isna\<close> is the test
  \<^verbatim>\<open>isna()\<close> makes on a cell.
\<close>

fun numeric :: "(string \<Rightarrow> number option) \<Rightarrow> cell \<Rightarrow> number option" where
  "numeric parse (Str s) = parse s"
| "numeric parse (Num x) = Some x"

definition to_numeric_ignore :: "(string \<Rightarrow> number option) \<Rightarrow> cell list \<Rightarrow> cell list" where
  "to_numeric_ignore parse vs =
     (case those (map (numeric parse) vs) of None \<Rightarrow> vs | Some xs \<Rightarrow> map Num xs)"

definition to_numeric_coerce :: "(string \<Rightarrow> number option) \<Rightarrow> cell list \<Rightarrow> cell list" where
  "to_numeric_coerce parse vs =
     map (\<lambda>v. case numeric parse v of None \<Rightarrow> Num NaN | Some x \<Rightarrow> Num x) vs"

definition isna :: "cell \<Rightarrow> bool" where
  "isna v = (v = Num NaN)"

section \<open>One table\<close>

type_synonym raw_frame = "(nat, cell) frame"

definition convert_step :: "(string \<Rightarrow> number option) \<Rightarrow> string \<Rightarrow> raw_frame \<Rightarrow> raw_frame result" where
  "convert_step parse col df =
     (if col \<noteq> ''Year'' then
        bind_res (get_column df col) (\<lambda>s.
          assign_column df col (to_numeric_ignore parse (map snd s)))
      else Inr df)"

definition clean_frame :: "(string \<Rightarrow> number option) \<Rightarrow> raw_frame \<Rightarrow> raw_frame result" where
  "clean_frame parse df =
     (let df = rename_columns clean_column df;
          df = applymap clean_cell df
      in fold_res (convert_step parse) (column_names df) df)"

section \<open>The report\<close>

text \<open>
  What \<^verbatim>\<open>debug_dataset\<close> prints of a cleaned table, as the values it computes:
  the name, the shape, the first ten labels, the first three rows, the first
  ten of the columns in which the conversion with \<^verbatim>\<open>errors="coerce"\<close> leaves a
  \<^verbatim>\<open>NaN\<close>, and, when there is a column \<^verbatim>\<open>Year\<close>, the first ten of its
  different values.
\<close>

record debug_report =
  dbg_name :: string
  dbg_shape :: "nat \<times> nat"
  dbg_columns :: "string list"
  dbg_sample :: raw_frame
  dbg_non_numeric :: "string list"
  dbg_years :: "cell list option"

definition debug_dataset :: "(string \<Rightarrow> number option) \<Rightarrow> raw_frame \<Rightarrow> string \<Rightarrow> debug_report" where
  "debug_dataset parse df name =
     (let numeric_check = apply_columns (to_numeric_coerce parse) df;
          non_numeric_cols = columns_where isna numeric_check
      in \<lparr>dbg_name = name,
          dbg_shape = frame_shape df,
          dbg_columns = take 10 (column_names df),
          dbg_sample = frame_head 3 df,
          dbg_non_numeric = take 10 non_numeric_cols,
          dbg_years =
            (if has_column df ''Year'' then
               map_option (\<lambda>vs. take 10 (py_unique vs)) (map_of (df_columns df) ''Year'')
             else None)\<rparr>)"

section \<open>Types of columns\<close>

text \<open>
  The type of a cell, and of a column all of whose cells have one type: a
  column of strings is what pandas calls \<^verbatim>\<open>object\<close>, a column of numbers is
  numeric. \<open>all_text\<close> is what \<^verbatim>\<open>pd.read_csv(path, dtype=str, keep_default_na=False)\<close>
  returns: every cell is a string. \<open>parses\<close>: every cell of a column can be
  read as a number.
\<close>

datatype dtype = Text | Number

fun cell_dtype :: "cell \<Rightarrow> dtype" where
  "cell_dtype (Str s) = Text"
| "cell_dtype (Num x) = Number"

definition has_dtype :: "dtype \<Rightarrow> cell list \<Rightarrow> bool" where
  "has_dtype t vs = list_all (\<lambda>v. cell_dtype v = t) vs"

definition all_text :: "raw_frame \<Rightarrow> bool" where
  "all_text df = list_all (\<lambda>(c, vs). has_dtype Text vs) (df_columns df)"

definition parses :: "(string \<Rightarrow> number option) \<Rightarrow> cell list \<Rightarrow> bool" where
  "parses parse vs = list_all (\<lambda>v. numeric parse v \<noteq> None) vs"

definition cleaned_dtype :: "(string \<Rightarrow> number option) \<Rightarrow> string \<Rightarrow> cell list \<Rightarrow> dtype" where
  "cleaned_dtype parse c vs = (if c \<noteq> ''Year'' \<and> parses parse vs then Number else Text)"

text \<open>
  The types of a cleaned table, label by label (what \<^verbatim>\<open>df.dtypes\<close> shows), and
  that a table has given types.
\<close>

definition schema :: "(string \<Rightarrow> number option) \<Rightarrow> raw_frame \<Rightarrow> (string \<times> dtype) list" where
  "schema parse df =
     map (\<lambda>(c, vs). (clean_column c, cleaned_dtype parse (clean_column c) (map clean_cell vs)))
       (df_columns df)"

definition dtypes_ok :: "(string \<times> dtype) list \<Rightarrow> raw_frame \<Rightarrow> bool" where
  "dtypes_ok sch df = list_all2 (\<lambda>(c, t) (c', vs). c = c' \<and> has_dtype t vs) sch (df_columns df)"

section \<open>Closed forms\<close>

text \<open>
  \<open>cleaned\<close>: the cleaned table column by column. \<open>cleanable\<close>: the table is
  well formed and its cleaned labels are distinct; pandas addresses a column by
  its label, and a table in which two columns share a label is outside the
  model.
\<close>

definition cleaned :: "(string \<Rightarrow> number option) \<Rightarrow> raw_frame \<Rightarrow> raw_frame" where
  "cleaned parse df =
     df\<lparr>df_columns :=
       map (\<lambda>(c, vs). (clean_column c,
              if clean_column c = ''Year'' then map clean_cell vs
              else to_numeric_ignore parse (map clean_cell vs)))
         (df_columns df)\<rparr>"

definition cleanable :: "raw_frame \<Rightarrow> bool" where
  "cleanable df \<longleftrightarrow> wf_frame df \<and> distinct (map clean_column (column_names df))"

text \<open>
  \<open>unreadable parse vs\<close>: some cell of the column does not parse, or is
  \<^verbatim>\<open>NaN\<close>.
\<close>

definition unreadable :: "(string \<Rightarrow> number option) \<Rightarrow> cell list \<Rightarrow> bool" where
  "unreadable parse vs = list_ex (\<lambda>v. numeric parse v = None \<or> numeric parse v = Some NaN) vs"

section \<open>A small table\<close>

text \<open>
  A raw table as a spreadsheet export leaves it, and a parser that reads
  integers.
\<close>

definition example_raw :: raw_frame where
  "example_raw =
     \<lparr>df_index = [0],
      df_columns =
        [(CHR ''='' # dquote # ''Year'' @ [dquote], [Str (CHR ''='' # dquote # ''2026'' @ [dquote])]),
         (dquote # ''n_all'' @ [dquote], [Str '' 12 ''])]\<rparr>"

definition example_parse :: "string \<Rightarrow> number option" where
  "example_parse s = map_option (\<lambda>i. Fin (of_int i)) (read_int s)"

section \<open>Numeric conversion\<close>

lemma numeric_Num [simp]: "numeric parse \<circ> Num = Some"
  by (simp add: fun_eq_iff)

lemma to_numeric_ignore_length [simp]: "length (to_numeric_ignore parse vs) = length vs"
  by (auto simp: to_numeric_ignore_def those_eq_Some_iff split: option.splits
      dest: map_eq_imp_length_eq)

lemma to_numeric_ignore_Num [simp]: "to_numeric_ignore parse (map Num xs) = map Num xs"
  by (simp add: to_numeric_ignore_def)

lemma to_numeric_ignore_idem:
  "to_numeric_ignore parse (to_numeric_ignore parse vs) = to_numeric_ignore parse vs"
  by (cases "those (map (numeric parse) vs)") (simp_all add: to_numeric_ignore_def)

lemma to_numeric_ignore_kinds:
  "to_numeric_ignore parse vs = vs \<or> list_all is_num (to_numeric_ignore parse vs)"
  by (cases "those (map (numeric parse) vs)")
     (simp_all add: to_numeric_ignore_def list_all_iff is_num_def)

text \<open>
  Conversion with \<^verbatim>\<open>errors="ignore"\<close> is all or nothing: it keeps the number
  of cells, it either returns the column as it is or returns numbers only, and
  converting a second time changes nothing.
\<close>

lemma to_numeric_ignore_all_or_nothing:
  "length (to_numeric_ignore parse vs) = length vs \<and>
   (to_numeric_ignore parse vs = vs \<or> list_all is_num (to_numeric_ignore parse vs)) \<and>
   to_numeric_ignore parse (to_numeric_ignore parse vs) = to_numeric_ignore parse vs"
  using to_numeric_ignore_kinds [of parse vs] by (simp add: to_numeric_ignore_idem)

section \<open>One table\<close>

lemma convert_step_present:
  assumes "wf_frame df" "map_of (df_columns df) c = Some vs"
  shows "convert_step parse c df =
     Inr (if c = ''Year'' then df else set_column df c (to_numeric_ignore parse vs))"
  using assms wf_frame_column_length [OF assms]
  by (simp add: convert_step_def get_column_def assign_column_def)

lemma fold_convert_step:
  assumes "wf_frame df" "distinct ks" "set ks \<subseteq> set (column_names df)"
  shows "fold_res (convert_step parse) ks df =
     Inr (df\<lparr>df_columns :=
       map (\<lambda>(c, vs). (c, if c \<in> set ks \<and> c \<noteq> ''Year'' then to_numeric_ignore parse vs else vs)) (df_columns df)\<rparr>)"
  using assms(1-3)
proof (induction ks arbitrary: df)
  case Nil
  then show ?case by (simp add: case_prod_unfold)
next
  case (Cons k ks)
  from Cons.prems(3) have "map_of (df_columns df) k \<noteq> None"
    by (simp add: column_names_def map_of_eq_None_iff del: not_None_eq)
  then obtain vs where vs: "map_of (df_columns df) k = Some vs" by auto
  let ?df = "if k = ''Year'' then df else set_column df k (to_numeric_ignore parse vs)"
  have step: "convert_step parse k df = Inr ?df"
    by (rule convert_step_present [OF Cons.prems(1) vs])
  have wf: "wf_frame ?df"
    using Cons.prems(1) wf_frame_column_length [OF Cons.prems(1) vs]
    by (simp add: emu_inv)
  have names: "column_names ?df = column_names df"
    using vs by (auto simp: column_names_set_column has_column_iff)
  from Cons.prems(2) have d: "distinct ks" "k \<notin> set ks" by simp_all
  from Cons.prems(1) have dist: "distinct (map fst (df_columns df))" by (simp add: wf_frame_def)
  have cols: "df_columns ?df =
      map (\<lambda>(c, x). (c, if c = k \<and> c \<noteq> ''Year'' then to_numeric_ignore parse x else x)) (df_columns df)"
    using update_eq_map [OF dist vs, of "to_numeric_ignore parse"]
    by (auto simp: set_column_def case_prod_unfold intro: map_idI [symmetric])
  from Cons.IH [OF wf d(1)] Cons.prems(3) names
  have "fold_res (convert_step parse) ks ?df =
     Inr (?df\<lparr>df_columns :=
       map (\<lambda>(c, vs). (c, if c \<in> set ks \<and> c \<noteq> ''Year'' then to_numeric_ignore parse vs else vs)) (df_columns ?df)\<rparr>)"
    by simp
  moreover have "map (\<lambda>(c, vs). (c, if c \<in> set ks \<and> c \<noteq> ''Year'' then to_numeric_ignore parse vs else vs))
        (df_columns ?df) =
      map (\<lambda>(c, vs). (c, if c \<in> set (k # ks) \<and> c \<noteq> ''Year'' then to_numeric_ignore parse vs else vs))
        (df_columns df)"
    using d(2) unfolding cols by (auto simp: case_prod_unfold)
  moreover have "?df\<lparr>df_columns := X\<rparr> = df\<lparr>df_columns := X\<rparr>" for X
    by (simp add: set_column_def)
  ultimately show ?case using step by simp
qed

lemma clean_frame_cleaned:
  assumes "cleanable df"
  shows "clean_frame parse df = Inr (cleaned parse df)"
proof -
  let ?df = "applymap clean_cell (rename_columns clean_column df)"
  from assms(1) have wf: "wf_frame ?df"
    by (simp add: cleanable_def emu_inv)
  then have "distinct (column_names ?df)"
    by (simp add: wf_frame_def column_names_def)
  from fold_convert_step [OF wf this subset_refl]
  have "clean_frame parse df = Inr (?df\<lparr>df_columns :=
      map (\<lambda>(c, vs). (c, if c \<in> set (column_names ?df) \<and> c \<noteq> ''Year'' then to_numeric_ignore parse vs else vs))
        (df_columns ?df)\<rparr>)"
    by (simp add: clean_frame_def Let_def)
  moreover have "map (\<lambda>(c, vs). (c, if c \<in> set (column_names ?df) \<and> c \<noteq> ''Year'' then to_numeric_ignore parse vs else vs))
        (df_columns ?df) = df_columns (cleaned parse df)"
    by (auto simp: cleaned_def applymap_def rename_columns_def column_names_def case_prod_unfold)
  ultimately show ?thesis
    by (simp add: cleaned_def applymap_def rename_columns_def)
qed

lemma wf_frame_cleaned:
  assumes "cleanable df"
  shows "wf_frame (cleaned parse df)"
  using assms
  by (auto simp: cleanable_def cleaned_def wf_frame_def column_names_def list_all_iff
      case_prod_unfold comp_def)

lemma df_index_cleaned [simp]: "df_index (cleaned parse df) = df_index df"
  by (simp add: cleaned_def)

lemma column_names_cleaned [simp]:
  "column_names (cleaned parse df) = map clean_column (column_names df)"
  by (simp add: cleaned_def column_names_def case_prod_unfold)

lemma map_of_cleaned:
  assumes "cleanable df" "(c, vs) \<in> set (df_columns df)"
  shows "map_of (df_columns (cleaned parse df)) (clean_column c) =
     Some (if clean_column c = ''Year'' then map clean_cell vs else to_numeric_ignore parse (map clean_cell vs))"
proof -
  from assms(1) have "distinct (map fst (df_columns (cleaned parse df)))"
    by (simp add: cleanable_def cleaned_def column_names_def case_prod_unfold comp_def)
  moreover from assms(2) have "(clean_column c,
      if clean_column c = ''Year'' then map clean_cell vs else to_numeric_ignore parse (map clean_cell vs))
        \<in> set (df_columns (cleaned parse df))"
    by (force simp: cleaned_def)
  ultimately show ?thesis by (rule map_of_is_SomeI)
qed

section \<open>Types and the report\<close>

lemma cell_dtype_clean_cell [simp]: "cell_dtype (clean_cell v) = cell_dtype v"
  by (cases v) (simp_all add: Let_def)

lemma has_dtype_clean_cell [simp]: "has_dtype t (map clean_cell vs) = has_dtype t vs"
  by (simp add: has_dtype_def list_all_iff)

lemma parses_iff: "parses parse vs \<longleftrightarrow> those (map (numeric parse) vs) \<noteq> None"
  by (induction vs) (auto simp: parses_def split: option.splits)

lemma has_dtype_to_numeric_ignore:
  assumes "has_dtype Text vs"
  shows "has_dtype (if parses parse vs then Number else Text) (to_numeric_ignore parse vs)"
  using assms
  by (auto simp: parses_iff to_numeric_ignore_def has_dtype_def list_all_iff)

lemma dtypes_okD:
  assumes "dtypes_ok sch df" "(c, vs) \<in> set (df_columns df)"
  shows "\<exists>t. (c, t) \<in> set sch \<and> has_dtype t vs"
proof -
  from assms(1) have "list_all2 (\<lambda>(c, t) (c', vs). c = c' \<and> has_dtype t vs) sch (df_columns df)"
    by (simp add: dtypes_ok_def)
  then show ?thesis using assms(2)
    by (induction rule: list_all2_induct) auto
qed

lemma dtypes_ok_cleaned:
  assumes "all_text df"
  shows "dtypes_ok (schema parse df) (cleaned parse df)"
proof -
  have "has_dtype (cleaned_dtype parse (clean_column c) (map clean_cell vs))
      (if clean_column c = ''Year'' then map clean_cell vs
       else to_numeric_ignore parse (map clean_cell vs))"
    if "(c, vs) \<in> set (df_columns df)" for c vs
  proof -
    from assms that have "has_dtype Text (map clean_cell vs)"
      by (auto simp: all_text_def list_all_iff)
    from this has_dtype_to_numeric_ignore [OF this, of parse] show ?thesis
      by (simp add: cleaned_dtype_def)
  qed
  then show ?thesis
    by (auto simp: dtypes_ok_def schema_def cleaned_def list_all2_map1 list_all2_map2
        intro!: list_all2_same [THEN iffD2])
qed

lemma coerce_after_ignore [simp]:
  "to_numeric_coerce parse (to_numeric_ignore parse vs) = to_numeric_coerce parse vs"
proof (cases "those (map (numeric parse) vs)")
  case None
  then show ?thesis by (simp add: to_numeric_ignore_def)
next
  case (Some xs)
  then have "map (numeric parse) vs = map Some xs" by (simp add: those_eq_Some_iff)
  then have "map (\<lambda>v. case numeric parse v of None \<Rightarrow> Num NaN | Some x \<Rightarrow> Num x) vs = map Num xs"
    by (induction vs arbitrary: xs) auto
  with Some show ?thesis
    by (simp add: to_numeric_ignore_def to_numeric_coerce_def comp_def)
qed

lemma list_ex_isna_coerce:
  "list_ex isna (to_numeric_coerce parse vs) \<longleftrightarrow> unreadable parse vs"
  by (induction vs)
     (auto simp: to_numeric_coerce_def unreadable_def isna_def split: option.splits)

lemma cleaned_column_unreadable:
  "list_ex isna (to_numeric_coerce parse
       (if c = ''Year'' then ws else to_numeric_ignore parse ws)) \<longleftrightarrow> unreadable parse ws"
  by (cases "c = ''Year''") (simp_all add: list_ex_isna_coerce)

lemma frame_shape_cleaned [simp]: "frame_shape (cleaned parse df) = frame_shape df"
  by (simp add: frame_shape_def cleaned_def)

lemma non_numeric_cleaned:
  "columns_where isna (apply_columns (to_numeric_coerce parse) (cleaned parse df)) =
     map (clean_column \<circ> fst)
       (filter (\<lambda>(c, vs). unreadable parse (map clean_cell vs)) (df_columns df))"
  by (simp add: columns_where_apply cleaned_def filter_map comp_def case_prod_unfold
      cleaned_column_unreadable)

lemma dbg_name_debug_dataset [simp]: "dbg_name (debug_dataset parse df name) = name"
  by (simp add: debug_dataset_def Let_def)

lemma dbg_years_cleaned:
  assumes "cleanable df" "(c, vs) \<in> set (df_columns df)" "clean_column c = ''Year''"
  shows "dbg_years (debug_dataset parse (cleaned parse df) name) =
     Some (take 10 (py_unique (map clean_cell vs)))"
proof -
  from map_of_cleaned [OF assms(1,2), of parse] assms(3)
  have "map_of (df_columns (cleaned parse df)) ''Year'' = Some (map clean_cell vs)"
    by simp
  then show ?thesis by (simp add: debug_dataset_def Let_def has_column_iff)
qed

section \<open>The small table\<close>

lemma example_cleanable: "cleanable example_raw"
  by (simp add: cleanable_def example_raw_def wf_frame_def column_names_def clean_eval)

lemma example_parse_12 [simp]: "example_parse ''12'' = Some (Fin 12)"
  by (simp add: example_parse_def read_int_def is_digit_def digit_val_def)

lemma example_cleaned:
  "cleaned example_parse example_raw =
     \<lparr>df_index = [0], df_columns = [(''Year'', [Str ''2026'']), (''n_all'', [Num (Fin 12)])]\<rparr>"
  by (simp add: cleaned_def example_raw_def to_numeric_ignore_def Let_def clean_eval)

lemma example_schema:
  "schema example_parse example_raw = [(''Year'', Text), (''n_all'', Number)]"
  by (simp add: schema_def example_raw_def cleaned_dtype_def parses_def clean_eval)

lemma example_report:
  "debug_dataset example_parse (cleaned example_parse example_raw) ''pdiabe'' =
     \<lparr>dbg_name = ''pdiabe'', dbg_shape = (1, 2), dbg_columns = [''Year'', ''n_all''],
      dbg_sample = \<lparr>df_index = [0],
        df_columns = [(''Year'', [Str ''2026'']), (''n_all'', [Num (Fin 12)])]\<rparr>,
      dbg_non_numeric = [], dbg_years = Some [Str ''2026'']\<rparr>"
  by (simp add: example_cleaned debug_dataset_def Let_def frame_shape_def column_names_def
      frame_head_def apply_columns_def columns_where_def to_numeric_coerce_def isna_def
      has_column_def py_unique_def example_parse_def read_int_def is_digit_def digit_val_def)

section \<open>Properties of the cleaning of a table\<close>

text \<open>
  C27. The loop body on one table: for a well-formed table whose cleaned labels
  are distinct, cleaning raises nothing; the result is well formed, has the same rows, has the cleaned labels
  in the order of the raw ones, and holds under each cleaned label the cleaned
  cells of the raw column, converted unless the label is \<^verbatim>\<open>Year\<close>.
\<close>

theorem clean_frame_columns:
  assumes "cleanable df"
  shows "\<exists>df'. clean_frame parse df = Inr df' \<and> wf_frame df' \<and>
     df_index df' = df_index df \<and>
     column_names df' = map clean_column (column_names df) \<and>
     (\<forall>(c, vs) \<in> set (df_columns df).
        map_of (df_columns df') (clean_column c) =
          Some (if clean_column c = ''Year'' then map clean_cell vs
                else to_numeric_ignore parse (map clean_cell vs)))"
proof (intro exI conjI)
  show "clean_frame parse df = Inr (cleaned parse df)"
    by (rule clean_frame_cleaned [OF assms])
  show "wf_frame (cleaned parse df)"
    by (rule wf_frame_cleaned [OF assms])
  show "\<forall>(c, vs) \<in> set (df_columns df).
      map_of (df_columns (cleaned parse df)) (clean_column c) =
        Some (if clean_column c = ''Year'' then map clean_cell vs else to_numeric_ignore parse (map clean_cell vs))"
    by clarify (rule map_of_cleaned [OF assms(1)])
qed simp_all

theorem clean_frame_columns_witness:
  "\<exists>df'. clean_frame example_parse example_raw = Inr df' \<and> wf_frame df' \<and>
     df_index df' = df_index example_raw \<and>
     column_names df' = map clean_column (column_names example_raw) \<and>
     (\<forall>(c, vs) \<in> set (df_columns example_raw).
        map_of (df_columns df') (clean_column c) =
          Some (if clean_column c = ''Year'' then map clean_cell vs
                else to_numeric_ignore example_parse (map clean_cell vs)))"
  by (rule clean_frame_columns [OF example_cleanable])

text \<open>
  The year stays text: when the cells of the raw column whose cleaned label
  is \<^verbatim>\<open>Year\<close> are strings, the \<^verbatim>\<open>Year\<close> column of the cleaned table holds the
  cleaned cells, all of them strings, whatever the parser of numbers reads.
\<close>

lemma year_stays_text:
  assumes "cleanable df"
    and "clean_frame parse df = Inr df'"
    and "(c, vs) \<in> set (df_columns df)" "clean_column c = ''Year''" "list_all is_str vs"
  shows "map_of (df_columns df') ''Year'' = Some (map clean_cell vs) \<and>
     list_all is_str (map clean_cell vs)"
  using clean_frame_cleaned [OF assms(1)] map_of_cleaned [OF assms(1,3), of parse] assms(2,4,5)
  by (simp add: list_all_iff)

text \<open>
  C29. Cleaning gives every column a type: a table read as text, well formed
  and with distinct cleaned labels, is cleaned without an exception into a
  table whose columns have, label by label, the types of its schema: numbers
  when the label is not \<^verbatim>\<open>Year\<close> and every cleaned cell parses, text otherwise.
  So no column mixes text and numbers, and \<^verbatim>\<open>Year\<close> is text.
\<close>

theorem cleaned_table_typed:
  assumes "cleanable df" "all_text df"
  shows "\<exists>df'. clean_frame parse df = Inr df' \<and> dtypes_ok (schema parse df) df' \<and>
     (\<forall>(c, vs) \<in> set (df_columns df').
        (c = ''Year'' \<longrightarrow> has_dtype Text vs) \<and> (has_dtype Text vs \<or> has_dtype Number vs))"
proof (intro exI conjI)
  show "clean_frame parse df = Inr (cleaned parse df)"
    by (rule clean_frame_cleaned [OF assms(1)])
  show ok: "dtypes_ok (schema parse df) (cleaned parse df)"
    by (rule dtypes_ok_cleaned [OF assms(2)])
  show "\<forall>(c, vs) \<in> set (df_columns (cleaned parse df)).
      (c = ''Year'' \<longrightarrow> has_dtype Text vs) \<and> (has_dtype Text vs \<or> has_dtype Number vs)"
  proof clarify
    fix c vs assume "(c, vs) \<in> set (df_columns (cleaned parse df))"
    with ok obtain t where "(c, t) \<in> set (schema parse df)" "has_dtype t vs"
      by (blast dest: dtypes_okD)
    then show "(c = ''Year'' \<longrightarrow> has_dtype Text vs) \<and> (has_dtype Text vs \<or> has_dtype Number vs)"
      by (cases t) (auto simp: schema_def cleaned_dtype_def)
  qed
qed

theorem cleaned_table_typed_witness:
  "\<exists>df'. clean_frame example_parse example_raw = Inr df' \<and>
     dtypes_ok (schema example_parse example_raw) df' \<and>
     (\<forall>(c, vs) \<in> set (df_columns df').
        (c = ''Year'' \<longrightarrow> has_dtype Text vs) \<and> (has_dtype Text vs \<or> has_dtype Number vs))"
  by (rule cleaned_table_typed [OF example_cleanable])
     (simp add: all_text_def example_raw_def has_dtype_def)

text \<open>
  C25. What the report names: for a table with distinct cleaned labels, the
  report of the cleaned table gives the shape of the raw table, the first ten
  cleaned labels, as columns with values that are not numbers the first ten of
  the cleaned labels of those columns in which some cleaned cell does not parse
  or reads as \<^verbatim>\<open>NaN\<close>, whether or not the conversion made the column numeric,
  and as years the first ten different cleaned cells of the \<^verbatim>\<open>Year\<close> column.
\<close>

theorem debug_names_unreadable_columns:
  assumes "cleanable df" "clean_frame parse df = Inr df'"
  shows "dbg_shape (debug_dataset parse df' name) = frame_shape df \<and>
     dbg_columns (debug_dataset parse df' name) = take 10 (map clean_column (column_names df)) \<and>
     dbg_non_numeric (debug_dataset parse df' name) =
       take 10 (map (clean_column \<circ> fst)
         (filter (\<lambda>(c, vs). unreadable parse (map clean_cell vs)) (df_columns df))) \<and>
     (\<forall>(c, vs) \<in> set (df_columns df). clean_column c = ''Year'' \<longrightarrow>
        dbg_years (debug_dataset parse df' name) = Some (take 10 (py_unique (map clean_cell vs))))"
proof -
  from assms have "df' = cleaned parse df" by (simp add: clean_frame_cleaned)
  then show ?thesis
    using dbg_years_cleaned [OF assms(1), of _ _ parse name]
    by (auto simp: debug_dataset_def Let_def non_numeric_cleaned)
qed

theorem debug_names_unreadable_columns_witness:
  "dbg_shape (debug_dataset example_parse (cleaned example_parse example_raw) ''pdiabe'') =
     frame_shape example_raw \<and>
   dbg_columns (debug_dataset example_parse (cleaned example_parse example_raw) ''pdiabe'') =
     take 10 (map clean_column (column_names example_raw)) \<and>
   dbg_non_numeric (debug_dataset example_parse (cleaned example_parse example_raw) ''pdiabe'') =
     take 10 (map (clean_column \<circ> fst)
       (filter (\<lambda>(c, vs). unreadable example_parse (map clean_cell vs)) (df_columns example_raw))) \<and>
   dbg_years (debug_dataset example_parse (cleaned example_parse example_raw) ''pdiabe'') =
     Some (take 10 (py_unique (map clean_cell [Str (CHR ''='' # dquote # ''2026'' @ [dquote])])))"
proof -
  have "(CHR ''='' # dquote # ''Year'' @ [dquote], [Str (CHR ''='' # dquote # ''2026'' @ [dquote])])
      \<in> set (df_columns example_raw)"
    "clean_column (CHR ''='' # dquote # ''Year'' @ [dquote]) = ''Year''"
    by (simp_all add: example_raw_def clean_eval)
  with debug_names_unreadable_columns
    [OF example_cleanable clean_frame_cleaned [OF example_cleanable], of example_parse "''pdiabe''"]
  show ?thesis by blast
qed

end
