(* ===== verification/Emu_Clean.thy ===== *)
theory Emu_Clean
  imports Emu_Clean_Table
begin

text \<open>
  The loop of the offline script \<^verbatim>\<open>src/clean_data.py\<close> over the exported
  regression tables, which writes the files \<^verbatim>\<open>src/app.py\<close> loads.
  \<open>clean_step\<close> is the loop body with the test for the file, the cleaning of
  the table (\<open>clean_frame\<close> of \<open>Emu_Clean_Table\<close>), the write and the report;
  \<open>clean_datasets\<close> is the loop over \<open>RAW_DATASETS\<close>. The file system is a
  function from paths to tables, the files written are a dictionary from paths
  to tables, and what the loop prints is a list of lines in the order they are
  printed: the message of a missing file, the two progress lines of a dataset
  and its report. The lemmas give the final state in closed form and show
  which files a run writes and what it prints.
\<close>


section \<open>Tables\<close>

definition RAW_DATASETS :: "string pydict" where
  "RAW_DATASETS =
     [(''pdiabe'', ''data/uscdm_emu_pdiabe_regression_ests.csv''),
      (''phearte'', ''data/uscdm_emu_phearte_regression_ests.csv''),
      (''phibpe'', ''data/uscdm_emu_phibpe_regression_ests.csv''),
      (''pcogstate'', ''data/uscdm_emu_pcogstate_regression_ests.csv'')]"

definition CLEANED_DIR :: string where
  "CLEANED_DIR = ''clean_data''"

section \<open>The loop over the datasets\<close>

text \<open>
  A line of the output of the loop, by the statement that prints it: the message
  of a missing file with its path, the line that announces a dataset with its
  name, the line that confirms the file written with its path, and the report
  of \<^verbatim>\<open>debug_dataset\<close> with its values. \<open>not_found\<close> gives the texts of the
  messages a state holds, \<open>reports\<close> its reports.
\<close>

datatype log_line = NotFound string | Cleaning string | Saved string | Report debug_report

record clean_state =
  written :: "raw_frame pydict"
  printed :: "log_line list"

definition output_path :: "string \<Rightarrow> string" where
  "output_path name = CLEANED_DIR @ ''/'' @ name @ ''_cleaned.csv''"

definition clean_step :: "(string \<Rightarrow> raw_frame option) \<Rightarrow> (string \<Rightarrow> number option) \<Rightarrow>
    string \<times> string \<Rightarrow> clean_state \<Rightarrow> clean_state result" where
  "clean_step read_csv parse item st =
     (case item of (name, path) \<Rightarrow>
        (case read_csv path of
           None \<Rightarrow> Inr (st\<lparr>printed := printed st @ [NotFound path]\<rparr>)
         | Some df \<Rightarrow>
             bind_res (clean_frame parse df) (\<lambda>df.
               Inr (st\<lparr>written := dict_set (written st) (output_path name) df,
                       printed := printed st @
                         [Cleaning name, Saved (output_path name),
                          Report (debug_dataset parse df name)]\<rparr>))))"

definition clean_datasets :: "(string \<Rightarrow> raw_frame option) \<Rightarrow> (string \<Rightarrow> number option) \<Rightarrow>
    clean_state result" where
  "clean_datasets read_csv parse =
     fold_res (clean_step read_csv parse) RAW_DATASETS \<lparr>written = [], printed = []\<rparr>"

definition not_found :: "clean_state \<Rightarrow> string list" where
  "not_found st =
     concat (map (\<lambda>l. case l of NotFound path \<Rightarrow> [''File not found: '' @ path] | _ \<Rightarrow> [])
       (printed st))"

definition reports :: "clean_state \<Rightarrow> debug_report list" where
  "reports st = concat (map (\<lambda>l. case l of Report r \<Rightarrow> [r] | _ \<Rightarrow> []) (printed st))"

section \<open>Closed forms\<close>

text \<open>
  \<open>files_written\<close> and \<open>files_printed\<close>: what a run over a table of datasets
  leaves behind and prints; \<open>files_missing\<close> and \<open>files_reported\<close>: the
  messages and the reports among the lines printed.
\<close>

definition files_written :: "(string \<Rightarrow> raw_frame option) \<Rightarrow> (string \<Rightarrow> number option) \<Rightarrow>
    string pydict \<Rightarrow> raw_frame pydict" where
  "files_written read_csv parse tbl =
     concat (map (\<lambda>(name, path). case read_csv path of
                 None \<Rightarrow> [] | Some df \<Rightarrow> [(output_path name, cleaned parse df)]) tbl)"

definition files_printed :: "(string \<Rightarrow> raw_frame option) \<Rightarrow> (string \<Rightarrow> number option) \<Rightarrow>
    string pydict \<Rightarrow> log_line list" where
  "files_printed read_csv parse tbl =
     concat (map (\<lambda>(name, path). case read_csv path of
                 None \<Rightarrow> [NotFound path]
               | Some df \<Rightarrow> [Cleaning name, Saved (output_path name),
                            Report (debug_dataset parse (cleaned parse df) name)]) tbl)"

definition files_missing :: "(string \<Rightarrow> raw_frame option) \<Rightarrow> string pydict \<Rightarrow> string list" where
  "files_missing read_csv tbl =
     concat (map (\<lambda>(name, path). case read_csv path of
                 None \<Rightarrow> [''File not found: '' @ path] | Some df \<Rightarrow> []) tbl)"

definition files_reported :: "(string \<Rightarrow> raw_frame option) \<Rightarrow> (string \<Rightarrow> number option) \<Rightarrow>
    string pydict \<Rightarrow> debug_report list" where
  "files_reported read_csv parse tbl =
     concat (map (\<lambda>(name, path). case read_csv path of
                 None \<Rightarrow> [] | Some df \<Rightarrow> [debug_dataset parse (cleaned parse df) name]) tbl)"

section \<open>A small file system\<close>

text \<open>
  A file system that holds the small table as the raw file of \<^verbatim>\<open>pdiabe\<close> and
  nothing else.
\<close>

definition example_raw_fs :: "string \<Rightarrow> raw_frame option" where
  "example_raw_fs path =
     (if path = ''data/uscdm_emu_pdiabe_regression_ests.csv'' then Some example_raw else None)"

section \<open>The loop over the datasets\<close>

lemma output_path_inject [simp]: "output_path a = output_path b \<longleftrightarrow> a = b"
  by (simp add: output_path_def)

lemma clean_step_missing:
  "read_csv path = None \<Longrightarrow>
   clean_step read_csv parse (name, path) st = Inr (st\<lparr>printed := printed st @ [NotFound path]\<rparr>)"
  by (simp add: clean_step_def)

lemma clean_step_present:
  "read_csv path = Some df \<Longrightarrow>
   clean_step read_csv parse (name, path) st =
     bind_res (clean_frame parse df) (\<lambda>df.
       Inr (st\<lparr>written := dict_set (written st) (output_path name) df,
               printed := printed st @
                 [Cleaning name, Saved (output_path name),
                  Report (debug_dataset parse df name)]\<rparr>))"
  by (simp add: clean_step_def)

lemma files_written_Cons:
  "files_written read_csv parse ((name, path) # tbl) =
     (case read_csv path of None \<Rightarrow> [] | Some df \<Rightarrow> [(output_path name, cleaned parse df)]) @
     files_written read_csv parse tbl"
  by (simp add: files_written_def)

lemma files_missing_Cons:
  "files_missing read_csv ((name, path) # tbl) =
     (case read_csv path of None \<Rightarrow> [''File not found: '' @ path] | Some df \<Rightarrow> []) @
     files_missing read_csv tbl"
  by (simp add: files_missing_def)

lemma files_reported_Cons:
  "files_reported read_csv parse ((name, path) # tbl) =
     (case read_csv path of
        None \<Rightarrow> []
      | Some df \<Rightarrow> [debug_dataset parse (cleaned parse df) name]) @
     files_reported read_csv parse tbl"
  by (simp add: files_reported_def)

lemma files_printed_Cons:
  "files_printed read_csv parse ((name, path) # tbl) =
     (case read_csv path of
        None \<Rightarrow> [NotFound path]
      | Some df \<Rightarrow> [Cleaning name, Saved (output_path name),
                   Report (debug_dataset parse (cleaned parse df) name)]) @
     files_printed read_csv parse tbl"
  by (simp add: files_printed_def)

lemmas files_Cons = files_written_Cons files_missing_Cons files_reported_Cons files_printed_Cons

lemma files_Nil [simp]:
  "files_written read_csv parse [] = []" "files_missing read_csv [] = []"
  "files_reported read_csv parse [] = []" "files_printed read_csv parse [] = []"
  by (simp_all add: files_written_def files_missing_def files_reported_def files_printed_def)

lemma not_found_printed [simp]:
  "not_found \<lparr>written = w, printed = files_printed read_csv parse tbl\<rparr> =
     files_missing read_csv tbl"
  by (induction tbl) (auto simp: not_found_def files_Cons split: option.splits)

lemma reports_printed [simp]:
  "reports \<lparr>written = w, printed = files_printed read_csv parse tbl\<rparr> =
     files_reported read_csv parse tbl"
  by (induction tbl) (auto simp: reports_def files_Cons split: option.splits)

lemma fold_clean_step:
  assumes "\<And>name path df. (name, path) \<in> set tbl \<Longrightarrow> read_csv path = Some df \<Longrightarrow> cleanable df"
    and "distinct (map fst tbl)"
    and "\<forall>(name, path) \<in> set tbl. output_path name \<notin> set (dict_keys (written st))"
  shows "fold_res (clean_step read_csv parse) tbl st =
     Inr \<lparr>written = written st @ files_written read_csv parse tbl,
          printed = printed st @ files_printed read_csv parse tbl\<rparr>"
  using assms
proof (induction tbl arbitrary: st)
  case Nil
  then show ?case by simp
next
  case (Cons item tbl)
  obtain name path where item: "item = (name, path)" by (cases item)
  from Cons.prems(2) item have fresh: "\<forall>(n, p) \<in> set tbl. n \<noteq> name" and d: "distinct (map fst tbl)"
    by (force simp: image_iff)+
  from Cons.prems(3) item have new: "output_path name \<notin> set (dict_keys (written st))"
    by simp
  show ?case
  proof (cases "read_csv path")
    case None
    let ?st = "st\<lparr>printed := printed st @ [NotFound path]\<rparr>"
    have "fold_res (clean_step read_csv parse) tbl ?st =
       Inr \<lparr>written = written ?st @ files_written read_csv parse tbl,
            printed = printed ?st @ files_printed read_csv parse tbl\<rparr>"
      using Cons.prems(1,3) by (intro Cons.IH d) auto
    with None item show ?thesis
      by (simp add: clean_step_missing files_Cons)
  next
    case (Some df)
    with Cons.prems(1) item have "cleanable df" by auto
    then have cf: "clean_frame parse df = Inr (cleaned parse df)"
      by (rule clean_frame_cleaned)
    let ?st = "st\<lparr>written := written st @ [(output_path name, cleaned parse df)],
       printed := printed st @ [Cleaning name, Saved (output_path name),
         Report (debug_dataset parse (cleaned parse df) name)]\<rparr>"
    have "fold_res (clean_step read_csv parse) tbl ?st =
       Inr \<lparr>written = written ?st @ files_written read_csv parse tbl,
            printed = printed ?st @ files_printed read_csv parse tbl\<rparr>"
      using Cons.prems(1,3) fresh by (intro Cons.IH d) (auto simp: dict_keys_def)
    with Some item cf new show ?thesis
      by (simp add: clean_step_present dict_set_absent files_Cons)
  qed
qed

lemma distinct_raw_keys: "distinct (map fst RAW_DATASETS)"
  by (simp add: RAW_DATASETS_def)

lemma clean_datasets_closed:
  assumes "\<And>name path df. (name, path) \<in> set RAW_DATASETS \<Longrightarrow> read_csv path = Some df \<Longrightarrow> cleanable df"
  shows "clean_datasets read_csv parse =
     Inr \<lparr>written = files_written read_csv parse RAW_DATASETS,
          printed = files_printed read_csv parse RAW_DATASETS\<rparr>"
  unfolding clean_datasets_def
  using fold_clean_step [OF assms distinct_raw_keys,
      where st = "\<lparr>written = [], printed = []\<rparr>"]
  by (simp add: dict_keys_def)

lemma files_written_keys:
  "fst ` set (files_written read_csv parse tbl) \<subseteq> output_path ` fst ` set tbl"
proof (induction tbl)
  case Nil
  then show ?case by simp
next
  case (Cons item tbl)
  then show ?case by (cases item) (auto simp: files_written_Cons split: option.splits)
qed

lemma map_of_files_written_fresh:
  assumes "name \<notin> fst ` set tbl"
  shows "map_of (files_written read_csv parse tbl) (output_path name) = None"
proof -
  from assms have "output_path name \<notin> output_path ` fst ` set tbl" by (force simp: image_iff)
  with files_written_keys [of read_csv parse tbl]
  have "output_path name \<notin> fst ` set (files_written read_csv parse tbl)" by blast
  then show ?thesis by (simp add: map_of_eq_None_iff)
qed

lemma map_of_files_written:
  assumes "distinct (map fst tbl)" "map_of tbl name = Some path"
  shows "map_of (files_written read_csv parse tbl) (output_path name) =
     map_option (cleaned parse) (read_csv path)"
  using assms
proof (induction tbl)
  case Nil
  then show ?case by simp
next
  case (Cons item tbl)
  then show ?case
    by (cases item)
       (auto simp: files_written_Cons map_of_files_written_fresh split: option.splits if_splits)
qed

lemma dict_keys_files_written:
  "dict_keys (files_written read_csv parse tbl) =
     map (output_path \<circ> fst) (filter (\<lambda>(name, path). read_csv path \<noteq> None) tbl)"
  by (induction tbl) (auto simp: files_written_Cons dict_keys_def split: option.splits)

lemma files_missing_filter:
  "files_missing read_csv tbl =
     map (\<lambda>(name, path). ''File not found: '' @ path)
       (filter (\<lambda>(name, path). read_csv path = None) tbl)"
  by (induction tbl) (auto simp: files_missing_Cons split: option.splits)

lemma files_reported_written:
  "list_all2 (\<lambda>r (path, df). path = output_path (dbg_name r) \<and> r = debug_dataset parse df (dbg_name r))
     (files_reported read_csv parse tbl) (files_written read_csv parse tbl)"
proof (induction tbl)
  case Nil
  show ?case by simp
next
  case (Cons item tbl)
  then show ?case
    by (cases item) (auto simp: files_Cons split: option.splits)
qed

section \<open>The small file system\<close>

lemma example_fs_cleanable:
  "(name, path) \<in> set RAW_DATASETS \<Longrightarrow> example_raw_fs path = Some df \<Longrightarrow> cleanable df"
  using example_cleanable by (auto simp: example_raw_fs_def split: if_splits)

section \<open>The result of a run\<close>

text \<open>
  A run of the loop: when every raw table that exists is well formed with
  distinct cleaned labels, the run raises nothing; it writes, in the order of
  \<^verbatim>\<open>RAW_DATASETS\<close>, one file \<^verbatim>\<open>clean_data/<name>_cleaned.csv\<close> for each dataset
  whose raw file exists, holding the cleaned table; it prints, dataset by
  dataset in the order of the table, the message of the missing file or else
  the line announcing the dataset, the line confirming the path written and the
  report of the table written; so each missing raw file is reported once, and
  there is one report per file written, in the order of the files.
\<close>

lemma clean_datasets_result:
  assumes "\<And>name path df. (name, path) \<in> set RAW_DATASETS \<Longrightarrow> read_csv path = Some df \<Longrightarrow> cleanable df"
  shows "\<exists>st. clean_datasets read_csv parse = Inr st \<and>
     printed st =
       concat (map (\<lambda>(name, path). case read_csv path of
           None \<Rightarrow> [NotFound path]
         | Some df \<Rightarrow> [Cleaning name, Saved (output_path name),
                      Report (debug_dataset parse (cleaned parse df) name)]) RAW_DATASETS) \<and>
     dict_keys (written st) =
       map (output_path \<circ> fst) (filter (\<lambda>(name, path). read_csv path \<noteq> None) RAW_DATASETS) \<and>
     not_found st =
       map (\<lambda>(name, path). ''File not found: '' @ path)
         (filter (\<lambda>(name, path). read_csv path = None) RAW_DATASETS) \<and>
     (\<forall>(name, path) \<in> set RAW_DATASETS.
        map_of (written st) (output_path name) = map_option (cleaned parse) (read_csv path)) \<and>
     list_all2 (\<lambda>r (path, df). path = output_path (dbg_name r) \<and>
         r = debug_dataset parse df (dbg_name r)) (reports st) (written st)"
proof (intro exI conjI)
  let ?st = "\<lparr>written = files_written read_csv parse RAW_DATASETS,
     printed = files_printed read_csv parse RAW_DATASETS\<rparr>"
  show "clean_datasets read_csv parse = Inr ?st"
    by (rule clean_datasets_closed [OF assms])
  show "printed ?st = concat (map (\<lambda>(name, path). case read_csv path of
           None \<Rightarrow> [NotFound path]
         | Some df \<Rightarrow> [Cleaning name, Saved (output_path name),
                      Report (debug_dataset parse (cleaned parse df) name)]) RAW_DATASETS)"
    by (simp add: files_printed_def)
  show "dict_keys (written ?st) =
      map (output_path \<circ> fst) (filter (\<lambda>(name, path). read_csv path \<noteq> None) RAW_DATASETS)"
    by (simp add: dict_keys_files_written)
  show "not_found ?st = map (\<lambda>(name, path). ''File not found: '' @ path)
      (filter (\<lambda>(name, path). read_csv path = None) RAW_DATASETS)"
    by (simp add: files_missing_filter)
  show "\<forall>(name, path) \<in> set RAW_DATASETS.
      map_of (written ?st) (output_path name) = map_option (cleaned parse) (read_csv path)"
    by (auto intro!: map_of_files_written distinct_raw_keys map_of_is_SomeI)
  show "list_all2 (\<lambda>r (path, df). path = output_path (dbg_name r) \<and>
      r = debug_dataset parse df (dbg_name r)) (reports ?st) (written ?st)"
    using files_reported_written [of parse read_csv RAW_DATASETS] by simp
qed

end
