(* ===== verification/Emu_Files.thy ===== *)
theory Emu_Files
  imports Emu_Prelude
begin

text \<open>
  The file system as the two scripts use it: \<^verbatim>\<open>os.makedirs\<close>, \<^verbatim>\<open>os.path.exists\<close>
  and \<^verbatim>\<open>os.path.join\<close>, the opening of a file for \<^verbatim>\<open>pd.read_csv\<close> and the
  writing of one by \<^verbatim>\<open>df.to_csv\<close>. A file system is a dictionary from paths to
  entries, an entry is a directory or a file with its content; the content of
  a file is the table it holds. Paths are relative POSIX paths whose
  components are separated by one \<^verbatim>\<open>/\<close>; the empty path stands for the working
  directory. \<open>wf_fs\<close> says that every entry lies in a directory. The lemmas
  give each operation by cases, show that the operations keep \<open>wf_fs\<close>, that
  \<^verbatim>\<open>os.makedirs\<close> leaves a directory behind, changes nothing that existed and is
  idempotent, and that a file written is the file read.
\<close>

section \<open>Entries and paths\<close>

datatype 'a entry = Dir | File 'a

type_synonym 'a file_system = "'a entry pydict"

text \<open>
  \<^verbatim>\<open>os.path.join(a, b)\<close> on two components, and the path without its last
  component (the \<^verbatim>\<open>head\<close> of \<^verbatim>\<open>os.path.split\<close>, the \<^verbatim>\<open>parent\<close> of \<^verbatim>\<open>pathlib\<close>).
\<close>

definition os_path_join :: "string \<Rightarrow> string \<Rightarrow> string" where
  "os_path_join a b =
     (if b \<noteq> [] \<and> hd b = CHR ''/'' then b
      else if a = [] \<or> last a = CHR ''/'' then a @ b
      else a @ ''/'' @ b)"

definition parent_dir :: "string \<Rightarrow> string" where
  "parent_dir p = rev (tl (dropWhile (\<lambda>c. c \<noteq> CHR ''/'') (rev p)))"

definition os_path_exists :: "'a file_system \<Rightarrow> string \<Rightarrow> bool" where
  "os_path_exists fs p \<longleftrightarrow> map_of fs p \<noteq> None"

definition dir_exists :: "'a file_system \<Rightarrow> string \<Rightarrow> bool" where
  "dir_exists fs p \<longleftrightarrow> p = [] \<or> map_of fs p = Some Dir"

section \<open>Directories\<close>

text \<open>
  \<^verbatim>\<open>os.mkdir(p)\<close> creates one directory: the path must be unused and its parent
  a directory. \<^verbatim>\<open>os.makedirs(name, exist_ok=True)\<close> first creates the parent in
  the same way when the parent does not exist, then the directory itself, and
  lets the exception of \<^verbatim>\<open>mkdir\<close> pass when the path is a directory already.
  A path ends in a component, as the path of the output directory does; the
  handler of \<^verbatim>\<open>os.makedirs\<close> for a parent that another process made in the
  meantime is left out, since nothing else changes the disk during a call.
\<close>

definition os_mkdir :: "'a file_system \<Rightarrow> string \<Rightarrow> 'a file_system result" where
  "os_mkdir fs p =
     (if os_path_exists fs p then Inl (FileExistsError p)
      else if \<not> dir_exists fs (parent_dir p) then
        Inl (if os_path_exists fs (parent_dir p) then NotADirectoryError p
             else FileNotFoundError p)
      else Inr (dict_set fs p Dir))"

function os_makedirs :: "'a file_system \<Rightarrow> string \<Rightarrow> 'a file_system result" where
  "os_makedirs fs name =
     (let head = parent_dir name
      in bind_res (if head \<noteq> [] \<and> \<not> os_path_exists fs head then os_makedirs fs head
                   else Inr fs) (\<lambda>fs.
           case os_mkdir fs name of
             Inl e \<Rightarrow> if map_of fs name = Some Dir then Inr fs else Inl e
           | Inr fs' \<Rightarrow> Inr fs'))"
  by pat_completeness auto

termination
proof (relation "measure (\<lambda>(fs, name). length name)")
  fix fs :: "'a file_system" and name head :: string
  assume head: "head = parent_dir name" "head \<noteq> [] \<and> \<not> os_path_exists fs head"
  have "length (tl (dropWhile (\<lambda>c. c \<noteq> CHR ''/'') (rev name))) \<le> length (rev name) - 1"
    using length_dropWhile_le [of "\<lambda>c. c \<noteq> CHR ''/''" "rev name"] by simp
  with head show "((fs, head), (fs, name)) \<in> measure (\<lambda>(fs, name). length name)"
    by (cases name) (auto simp: parent_dir_def)
qed simp

declare os_makedirs.simps [simp del]

section \<open>Files\<close>

text \<open>
  Opening a file to read it, as \<^verbatim>\<open>pd.read_csv(path)\<close> does, and writing a file,
  as \<^verbatim>\<open>df.to_csv(path)\<close> does: pandas first checks that the parent is a
  directory, then opens the path for writing, which replaces a file and fails
  on a directory.
\<close>

definition read_file :: "'a file_system \<Rightarrow> string \<Rightarrow> 'a result" where
  "read_file fs p =
     (case map_of fs p of
        None \<Rightarrow> Inl (FileNotFoundError p)
      | Some Dir \<Rightarrow> Inl (IsADirectoryError p)
      | Some (File x) \<Rightarrow> Inr x)"

definition write_file :: "'a file_system \<Rightarrow> string \<Rightarrow> 'a \<Rightarrow> 'a file_system result" where
  "write_file fs p x =
     (if \<not> dir_exists fs (parent_dir p) then Inl (OSError (parent_dir p))
      else if map_of fs p = Some Dir then Inl (IsADirectoryError p)
      else Inr (dict_set fs p (File x)))"

section \<open>Well-formed file systems\<close>

text \<open>
  Every entry lies in a directory. \<open>files_of\<close> is the view of a file system
  that forgets the directories: the content of the path when it is a file.
\<close>

definition wf_fs :: "'a file_system \<Rightarrow> bool" where
  "wf_fs fs \<longleftrightarrow> list_all (\<lambda>p. dir_exists fs (parent_dir p)) (dict_keys fs)"

definition files_of :: "'a file_system \<Rightarrow> string \<Rightarrow> 'a option" where
  "files_of fs p = (case map_of fs p of Some (File x) \<Rightarrow> Some x | _ \<Rightarrow> None)"

section \<open>Paths\<close>

lemma parent_dir_join [simp]:
  "CHR ''/'' \<notin> set f \<Longrightarrow> parent_dir (d @ CHR ''/'' # f) = d"
  by (simp add: parent_dir_def dropWhile_append2)

lemma parent_dir_plain [simp]: "CHR ''/'' \<notin> set p \<Longrightarrow> parent_dir p = []"
proof -
  assume "CHR ''/'' \<notin> set p"
  then have "dropWhile (\<lambda>c. c \<noteq> CHR ''/'') (rev p) = []"
    by (auto simp: dropWhile_eq_Nil_conv)
  then show ?thesis by (simp only: parent_dir_def list.sel(2) rev.simps(1))
qed

lemma os_path_join_plain:
  "d \<noteq> [] \<Longrightarrow> last d \<noteq> CHR ''/'' \<Longrightarrow> f \<noteq> [] \<Longrightarrow> hd f \<noteq> CHR ''/'' \<Longrightarrow>
   os_path_join d f = d @ CHR ''/'' # f"
  by (simp add: os_path_join_def)

section \<open>The operations by cases\<close>

lemma dir_exists_dict_set:
  "dir_exists (dict_set fs q e) p \<longleftrightarrow> p = [] \<or> (if p = q then e = Dir else dir_exists fs p)"
  by (auto simp: dir_exists_def)

lemma dir_exists_Nil [simp]: "dir_exists fs []"
  by (simp add: dir_exists_def)

lemma os_mkdir_Inr_iff:
  "os_mkdir fs p = Inr fs' \<longleftrightarrow>
     map_of fs p = None \<and> dir_exists fs (parent_dir p) \<and> fs' = dict_set fs p Dir"
  by (auto simp: os_mkdir_def os_path_exists_def)

lemma os_mkdir_exists: "map_of fs p = Some e \<Longrightarrow> os_mkdir fs p = Inl (FileExistsError p)"
  by (simp add: os_mkdir_def os_path_exists_def)

lemma read_file_Inr_iff [simp]: "read_file fs p = Inr x \<longleftrightarrow> map_of fs p = Some (File x)"
  by (simp add: read_file_def split: option.splits entry.splits)

lemma read_file_files_of: "read_file fs p = Inr x \<longleftrightarrow> files_of fs p = Some x"
  by (simp add: files_of_def split: option.splits entry.splits)

lemma read_file_dir [simp]: "map_of fs p = Some Dir \<Longrightarrow> read_file fs p = Inl (IsADirectoryError p)"
  by (simp add: read_file_def)

lemma write_file_Inr_iff:
  "write_file fs p x = Inr fs' \<longleftrightarrow>
     dir_exists fs (parent_dir p) \<and> map_of fs p \<noteq> Some Dir \<and> fs' = dict_set fs p (File x)"
  by (auto simp: write_file_def)

lemma files_of_dict_set:
  "files_of (dict_set fs q e) p =
     (if p = q then (case e of Dir \<Rightarrow> None | File x \<Rightarrow> Some x) else files_of fs p)"
  by (simp add: files_of_def split: entry.splits)

text \<open>A file written is the file read, and no other path changes.\<close>

lemma write_then_read:
  assumes "write_file fs p x = Inr fs'"
  shows "read_file fs' p = Inr x" and "q \<noteq> p \<Longrightarrow> map_of fs' q = map_of fs q"
  using assms by (simp_all add: write_file_Inr_iff)

section \<open>The invariant\<close>

lemma wf_fs_dict_set:
  assumes "wf_fs fs" "dir_exists fs (parent_dir p)"
    and "e = Dir \<or> map_of fs p \<noteq> Some Dir"
  shows "wf_fs (dict_set fs p e)"
proof -
  have "dir_exists (dict_set fs p e) d" if "dir_exists fs d" for d
    using that assms(3) by (auto simp: dir_exists_def)
  with assms(1,2) show ?thesis
    by (auto simp: wf_fs_def list_all_iff)
qed

lemma wf_fs_mkdir [emu_inv]: "wf_fs fs \<Longrightarrow> os_mkdir fs p = Inr fs' \<Longrightarrow> wf_fs fs'"
  by (auto simp: os_mkdir_Inr_iff intro: wf_fs_dict_set)

lemma wf_fs_write [emu_inv]: "wf_fs fs \<Longrightarrow> write_file fs p x = Inr fs' \<Longrightarrow> wf_fs fs'"
  by (auto simp: write_file_Inr_iff intro: wf_fs_dict_set)

section \<open>Creating a directory with its parents\<close>

text \<open>
  On a path of one component \<^verbatim>\<open>os.makedirs\<close> is decided by the entry there. In
  general a call that returns leaves the directory behind, keeps every entry
  there was, adds directories only, and keeps the file system well formed; a
  second call changes nothing.
\<close>

lemma os_makedirs_plain:
  assumes "parent_dir name = []"
  shows "os_makedirs fs name =
     (case map_of fs name of
        None \<Rightarrow> Inr (dict_set fs name Dir)
      | Some Dir \<Rightarrow> Inr fs
      | Some (File x) \<Rightarrow> Inl (FileExistsError name))"
  using assms
  by (simp add: os_makedirs.simps [of fs name] Let_def os_mkdir_def os_path_exists_def
      split: option.splits entry.splits)

lemma os_makedirs_result:
  assumes "os_makedirs fs name = Inr fs'"
  shows "map_of fs' name = Some Dir \<and>
     (\<forall>p e. map_of fs p = Some e \<longrightarrow> map_of fs' p = Some e) \<and>
     (\<forall>p. map_of fs p = None \<longrightarrow> map_of fs' p = None \<or> map_of fs' p = Some Dir) \<and>
     (wf_fs fs \<longrightarrow> wf_fs fs')"
  using assms
proof (induction fs name arbitrary: fs' rule: os_makedirs.induct)
  case (1 fs name)
  let ?head = "parent_dir name"
  from "1.prems" obtain fs1 where
    fs1: "(if ?head \<noteq> [] \<and> \<not> os_path_exists fs ?head then os_makedirs fs ?head else Inr fs) =
        Inr fs1"
    and last: "(case os_mkdir fs1 name of
          Inl e \<Rightarrow> if map_of fs1 name = Some Dir then Inr fs1 else Inl e
        | Inr fs2 \<Rightarrow> Inr fs2) = Inr fs'"
    by (auto simp: os_makedirs.simps [of fs name] Let_def bind_res_eq_Inr_iff)
  have mid: "(\<forall>p e. map_of fs p = Some e \<longrightarrow> map_of fs1 p = Some e) \<and>
     (\<forall>p. map_of fs p = None \<longrightarrow> map_of fs1 p = None \<or> map_of fs1 p = Some Dir) \<and>
     (wf_fs fs \<longrightarrow> wf_fs fs1)"
  proof (cases "?head \<noteq> [] \<and> \<not> os_path_exists fs ?head")
    case True
    with fs1 "1.IH" [of ?head fs1] show ?thesis by simp
  next
    case False
    with fs1 show ?thesis by auto
  qed
  from last have "fs' = fs1 \<and> map_of fs1 name = Some Dir \<or> os_mkdir fs1 name = Inr fs'"
    by (auto split: sum.splits if_splits)
  then show ?case
  proof
    assume "fs' = fs1 \<and> map_of fs1 name = Some Dir"
    with mid show ?thesis by simp
  next
    assume mk: "os_mkdir fs1 name = Inr fs'"
    then have "map_of fs1 name = None" "fs' = dict_set fs1 name Dir"
      by (simp_all add: os_mkdir_Inr_iff)
    moreover from mk mid have "wf_fs fs \<longrightarrow> wf_fs fs'"
      by (auto intro: wf_fs_mkdir)
    ultimately show ?thesis using mid by auto
  qed
qed

lemma os_makedirs_again:
  assumes "os_makedirs fs name = Inr fs'"
  shows "os_makedirs fs' name = Inr fs'"
proof -
  from os_makedirs_result [OF assms] have dir: "map_of fs' name = Some Dir" by simp
  show ?thesis
  proof (cases "parent_dir name \<noteq> [] \<and> \<not> os_path_exists fs' (parent_dir name)")
    case False
    with dir show ?thesis
      by (auto simp: os_makedirs.simps [of fs' name] Let_def os_mkdir_exists)
  next
    case True
    have "os_path_exists fs' (parent_dir name) \<or> parent_dir name = []"
      using assms
    proof (cases "parent_dir name \<noteq> [] \<and> \<not> os_path_exists fs (parent_dir name)")
      case made: True
      from assms obtain fs1 where fs1: "os_makedirs fs (parent_dir name) = Inr fs1"
        and last: "(case os_mkdir fs1 name of
            Inl e \<Rightarrow> if map_of fs1 name = Some Dir then Inr fs1 else Inl e
          | Inr fs2 \<Rightarrow> Inr fs2) = Inr fs'"
        using made by (auto simp: os_makedirs.simps [of fs name] Let_def bind_res_eq_Inr_iff)
      from os_makedirs_result [OF fs1] have "map_of fs1 (parent_dir name) = Some Dir" by simp
      moreover from last have "fs' = fs1 \<or> fs' = dict_set fs1 name Dir"
        by (auto simp: os_mkdir_Inr_iff split: sum.splits if_splits)
      ultimately show ?thesis
        by (auto simp: os_path_exists_def)
    next
      case False
      with os_makedirs_result [OF assms] show ?thesis
        by (auto simp: os_path_exists_def)
    qed
    with True show ?thesis by simp
  qed
qed

end
