(* ===== verification/Emu_Clean_Script.thy ===== *)
theory Emu_Clean_Script
  imports Emu_Clean Emu_Files
begin

text \<open>
  The offline script \<^verbatim>\<open>src/clean_data.py\<close> as a whole, on the file system of
  \<open>Emu_Files\<close>: the directory it makes before the loop, the test of each raw
  path, the file it reads and the file it writes. A statement returns the
  state it leaves and the exception it raised, if any, so that a run that
  raises keeps the lines it has printed and the files it has written.
  \<open>clean_step_fs\<close> is the loop body and \<open>clean_script\<close> the module body; the
  loop of \<open>Emu_Clean\<close>, which reads tables from a function and collects the
  files it writes, is their specification. The lemmas show that the script
  simulates that loop on the files of the disk, give the disk and the output
  of a run in closed form, say when and where a run raises and what it has
  done by then, and show that the script keeps the disk well formed and that
  a second run changes nothing.
\<close>

section \<open>The script on a file system\<close>

record script_state =
  disk :: "raw_frame file_system"
  stdout :: "log_line list"

definition clean_step_fs :: "(string \<Rightarrow> number option) \<Rightarrow> string \<times> string \<Rightarrow> script_state \<Rightarrow>
    script_state \<times> py_error option" where
  "clean_step_fs parse item st =
     (case item of (name, path) \<Rightarrow>
        if \<not> os_path_exists (disk st) path then
          (st\<lparr>stdout := stdout st @ [NotFound path]\<rparr>, None)
        else
          let st = st\<lparr>stdout := stdout st @ [Cleaning name]\<rparr>
          in case bind_res (read_file (disk st) path) (clean_frame parse) of
               Inl e \<Rightarrow> (st, Some e)
             | Inr df \<Rightarrow>
                 let out_path = os_path_join CLEANED_DIR (name @ ''_cleaned.csv'')
                 in case write_file (disk st) out_path df of
                      Inl e \<Rightarrow> (st, Some e)
                    | Inr fs \<Rightarrow>
                        (st\<lparr>disk := fs,
                            stdout := stdout st @
                              [Saved out_path, Report (debug_dataset parse df name)]\<rparr>,
                         None))"

definition clean_script :: "raw_frame file_system \<Rightarrow> (string \<Rightarrow> number option) \<Rightarrow>
    script_state \<times> py_error option" where
  "clean_script fs parse =
     (case os_makedirs fs CLEANED_DIR of
        Inl e \<Rightarrow> (\<lparr>disk = fs, stdout = []\<rparr>, Some e)
      | Inr fs \<Rightarrow> fold_exc (clean_step_fs parse) RAW_DATASETS \<lparr>disk = fs, stdout = []\<rparr>)"

section \<open>What stands in the way of a run, and what a run leaves\<close>

text \<open>
  \<open>dir_free fs\<close>: the output directory can be made, its path is not a file.
  \<open>blocked fs (name, path)\<close>: the raw path is a directory, or it exists and
  the path of the cleaned file is a directory. \<open>commit fs w\<close> is the disk
  \<open>fs\<close> after the output directory was made and the files \<open>w\<close> were written,
  as a lookup. \<open>cleanable_disk fs\<close>: the raw files that exist hold tables
  the cleaning accepts. \<open>script_rel fs s t\<close> relates a state \<open>s\<close> of the loop of
  \<open>Emu_Clean\<close> to a state \<open>t\<close> of the script started on \<open>fs\<close>.
\<close>

definition dir_free :: "raw_frame file_system \<Rightarrow> bool" where
  "dir_free fs = (case map_of fs CLEANED_DIR of Some (File x) \<Rightarrow> False | _ \<Rightarrow> True)"

definition blocked :: "raw_frame file_system \<Rightarrow> string \<times> string \<Rightarrow> bool" where
  "blocked fs item =
     (case item of (name, path) \<Rightarrow>
        map_of fs path = Some Dir \<or>
        (os_path_exists fs path \<and> map_of fs (output_path name) = Some Dir))"

definition blocked_at :: "raw_frame file_system \<Rightarrow> string \<times> string \<Rightarrow> string" where
  "blocked_at fs item =
     (case item of (name, path) \<Rightarrow>
        if map_of fs path = Some Dir then path else output_path name)"

definition commit :: "raw_frame file_system \<Rightarrow> raw_frame pydict \<Rightarrow> string \<Rightarrow>
    raw_frame entry option" where
  "commit fs w p =
     (case map_of w p of
        Some df \<Rightarrow> Some (File df)
      | None \<Rightarrow> if p = CLEANED_DIR then Some Dir else map_of fs p)"

definition cleanable_disk :: "raw_frame file_system \<Rightarrow> bool" where
  "cleanable_disk fs =
     list_all (\<lambda>(name, path). case map_of fs path of Some (File df) \<Rightarrow> cleanable df | _ \<Rightarrow> True)
       RAW_DATASETS"

definition script_rel :: "raw_frame file_system \<Rightarrow> clean_state \<Rightarrow> script_state \<Rightarrow> bool" where
  "script_rel fs s t \<longleftrightarrow>
     stdout t = printed s \<and> (\<forall>p. map_of (disk t) p = commit fs (written s) p) \<and>
     set (dict_keys (written s)) \<subseteq> output_path ` fst ` set RAW_DATASETS"

section \<open>A small disk\<close>

text \<open>
  A disk that holds the small table as the raw file of \<^verbatim>\<open>pdiabe\<close> in the
  directory \<^verbatim>\<open>data\<close>, and the same disk with a directory where the raw file of
  \<^verbatim>\<open>phearte\<close> should be.
\<close>

definition example_disk :: "raw_frame file_system" where
  "example_disk =
     [(''data'', Dir), (''data/uscdm_emu_pdiabe_regression_ests.csv'', File example_raw)]"

definition example_bad_disk :: "raw_frame file_system" where
  "example_bad_disk = example_disk @ [(''data/uscdm_emu_phearte_regression_ests.csv'', Dir)]"

section \<open>The paths of the script\<close>

lemma cleanable_diskD:
  "cleanable_disk fs \<Longrightarrow> (name, path) \<in> set RAW_DATASETS \<Longrightarrow>
   map_of fs path = Some (File df) \<Longrightarrow> cleanable df"
  by (auto simp: cleanable_disk_def list_all_iff)

lemma raw_names_plain: "(name, path) \<in> set RAW_DATASETS \<Longrightarrow> CHR ''/'' \<notin> set name"
  by (auto simp: RAW_DATASETS_def)

lemma out_path_eq:
  "(name, path) \<in> set RAW_DATASETS \<Longrightarrow>
   os_path_join CLEANED_DIR (name @ ''_cleaned.csv'') = output_path name"
  by (cases name)
     (auto simp: os_path_join_def CLEANED_DIR_def output_path_def dest: raw_names_plain)

lemma parent_output_path:
  "(name, path) \<in> set RAW_DATASETS \<Longrightarrow> parent_dir (output_path name) = CLEANED_DIR"
  using parent_dir_join [of "name @ ''_cleaned.csv''" CLEANED_DIR]
  by (auto simp: output_path_def dest: raw_names_plain)

lemma parent_cleaned_dir [simp]: "parent_dir CLEANED_DIR = []"
  by (simp add: CLEANED_DIR_def)

lemma raw_path_not_output:
  "(name, path) \<in> set RAW_DATASETS \<Longrightarrow> path \<noteq> output_path n \<and> path \<noteq> CLEANED_DIR"
  by (auto simp: RAW_DATASETS_def output_path_def CLEANED_DIR_def)

lemma output_path_not_dir [simp]:
  "output_path n \<noteq> CLEANED_DIR" "CLEANED_DIR \<noteq> output_path n"
  by (simp_all add: output_path_def)

section \<open>The directory\<close>

lemma makedirs_cleaned_dir:
  "os_makedirs fs CLEANED_DIR =
     (if dir_free fs then
        Inr (if map_of fs CLEANED_DIR = None then dict_set fs CLEANED_DIR Dir else fs)
      else Inl (FileExistsError CLEANED_DIR))"
  by (simp add: os_makedirs_plain dir_free_def split: option.splits entry.splits)

lemma commit_Nil:
  assumes "dir_free fs"
  shows "map_of (if map_of fs CLEANED_DIR = None then dict_set fs CLEANED_DIR Dir else fs) p =
     commit fs [] p"
  using assms by (auto simp: commit_def dir_free_def split: option.splits entry.splits)

lemma script_rel_init:
  assumes "dir_free fs"
  shows "script_rel fs \<lparr>written = [], printed = []\<rparr>
     \<lparr>disk = if map_of fs CLEANED_DIR = None then dict_set fs CLEANED_DIR Dir else fs,
      stdout = []\<rparr>"
  using commit_Nil [OF assms] by (simp add: script_rel_def dict_keys_def)

section \<open>One step\<close>

text \<open>
  In related states the raw paths and the output directory are on the disk of
  the script as they were on the disk it started on.
\<close>

lemma script_rel_dir:
  assumes "script_rel fs s t"
  shows "map_of (disk t) CLEANED_DIR = Some Dir"
proof -
  from assms have "CLEANED_DIR \<notin> set (dict_keys (written s))"
    by (auto simp: script_rel_def)
  then have "map_of (written s) CLEANED_DIR = None"
    by (simp add: map_of_neq_None_iff [symmetric])
  with assms show ?thesis
    by (simp add: script_rel_def commit_def)
qed

lemma script_rel_raw:
  assumes "script_rel fs s t" "(name, path) \<in> set RAW_DATASETS"
  shows "map_of (disk t) path = map_of fs path"
proof -
  from assms(1) have keys: "set (dict_keys (written s)) \<subseteq> output_path ` fst ` set RAW_DATASETS"
    and look: "map_of (disk t) p = commit fs (written s) p" for p
    by (simp_all add: script_rel_def)
  from keys raw_path_not_output [OF assms(2)] have "path \<notin> set (dict_keys (written s))"
    by auto
  then have "map_of (written s) path = None"
    by (simp add: map_of_neq_None_iff [symmetric])
  with raw_path_not_output [OF assms(2)] show ?thesis
    by (simp add: look commit_def)
qed

lemma script_rel_write:
  assumes "script_rel fs s t" "(name, path) \<in> set RAW_DATASETS"
  shows "script_rel fs
     (s\<lparr>written := dict_set (written s) (output_path name) df, printed := printed s @ ls\<rparr>)
     (t\<lparr>disk := dict_set (disk t) (output_path name) (File df), stdout := stdout t @ ls\<rparr>)"
  using assms by (force simp: script_rel_def commit_def)

lemma clean_step_fs_simulates:
  assumes rel: "script_rel fs s t" and item: "(name, path) \<in> set RAW_DATASETS"
    and free: "\<not> blocked fs (name, path)"
  shows "case clean_step (files_of fs) parse (name, path) s of
       Inl e \<Rightarrow> \<exists>t'. clean_step_fs parse (name, path) t = (t', Some e)
     | Inr s' \<Rightarrow> \<exists>t'. clean_step_fs parse (name, path) t = (t', None) \<and> script_rel fs s' t'"
proof (cases "map_of fs path")
  case None
  with script_rel_raw [OF rel item] rel show ?thesis
    by (simp add: clean_step_def clean_step_fs_def files_of_def os_path_exists_def
        script_rel_def)
next
  case (Some e)
  with free obtain df where df: "map_of fs path = Some (File df)"
    and out: "map_of fs (output_path name) \<noteq> Some Dir"
    by (cases e) (auto simp: blocked_def os_path_exists_def)
  from rel have "map_of (disk t) (output_path name) = commit fs (written s) (output_path name)"
    by (simp add: script_rel_def)
  with out have target: "map_of (disk t) (output_path name) \<noteq> Some Dir"
    by (auto simp: commit_def split: option.splits)
  show ?thesis
  proof (cases "clean_frame parse df")
    case (Inl e)
    with df script_rel_raw [OF rel item] show ?thesis
      by (simp add: clean_step_def clean_step_fs_def files_of_def os_path_exists_def
          read_file_def)
  next
    case (Inr df')
    with df script_rel_raw [OF rel item] script_rel_dir [OF rel] target parent_output_path [OF item]
      script_rel_write [OF rel item, where df = df' and
        ls = "[Cleaning name, Saved (output_path name), Report (debug_dataset parse df' name)]"]
    show ?thesis
      by (simp add: clean_step_def clean_step_fs_def files_of_def os_path_exists_def
          read_file_def write_file_def dir_exists_def out_path_eq [OF item] Let_def)
  qed
qed

text \<open>
  A dataset that is blocked ends the run with \<^verbatim>\<open>IsADirectoryError\<close>, after the
  line that announces it.
\<close>

lemma clean_step_fs_blocked:
  assumes rel: "script_rel fs s t" and item: "(name, path) \<in> set RAW_DATASETS"
    and blocked: "blocked fs (name, path)"
    and new: "map_of (written s) (output_path name) = None"
    and ok: "\<And>df. map_of fs path = Some (File df) \<Longrightarrow> cleanable df"
  shows "clean_step_fs parse (name, path) t =
     (t\<lparr>stdout := stdout t @ [Cleaning name]\<rparr>,
      Some (IsADirectoryError (blocked_at fs (name, path))))"
proof (cases "map_of fs path = Some Dir")
  case True
  with script_rel_raw [OF rel item] show ?thesis
    by (simp add: clean_step_fs_def os_path_exists_def blocked_at_def)
next
  case False
  with blocked obtain e where e: "map_of fs path = Some e" "e \<noteq> Dir"
    and out: "map_of fs (output_path name) = Some Dir"
    by (cases "map_of fs path") (auto simp: blocked_def os_path_exists_def)
  then obtain df where df: "map_of fs path = Some (File df)"
    by (cases e) auto
  from rel new out have "map_of (disk t) (output_path name) = Some Dir"
    by (simp add: script_rel_def commit_def)
  with df False script_rel_raw [OF rel item] script_rel_dir [OF rel] parent_output_path [OF item]
    clean_frame_cleaned [OF ok [OF df], of parse]
  show ?thesis
    by (simp add: clean_step_fs_def os_path_exists_def read_file_def write_file_def
        dir_exists_def out_path_eq [OF item] blocked_at_def)
qed

section \<open>The loop\<close>

lemma fold_clean_step_fs_simulates:
  assumes "script_rel fs s t" "set tbl \<subseteq> set RAW_DATASETS" "\<not> list_ex (blocked fs) tbl"
  shows "case fold_res (clean_step (files_of fs) parse) tbl s of
       Inl e \<Rightarrow> \<exists>t'. fold_exc (clean_step_fs parse) tbl t = (t', Some e)
     | Inr s' \<Rightarrow> \<exists>t'. fold_exc (clean_step_fs parse) tbl t = (t', None) \<and> script_rel fs s' t'"
proof (rule fold_exc_simulates [where R = "script_rel fs", OF assms(1)])
  fix item s t
  assume item: "item \<in> set tbl" and rel: "script_rel fs s t"
  obtain name path where eq: "item = (name, path)" by (cases item)
  from item assms(2,3) have "(name, path) \<in> set RAW_DATASETS" "\<not> blocked fs (name, path)"
    by (auto simp: list_ex_iff eq)
  then show "case clean_step (files_of fs) parse item s of
       Inl e \<Rightarrow> \<exists>t'. clean_step_fs parse item t = (t', Some e)
     | Inr s' \<Rightarrow> \<exists>t'. clean_step_fs parse item t = (t', None) \<and> script_rel fs s' t'"
    unfolding eq by (rule clean_step_fs_simulates [OF rel])
qed

text \<open>
  The loop over datasets of which none is blocked, started on the disk with
  the output directory and with nothing printed, ends normally in the state
  related to the closed form of \<open>Emu_Clean\<close>.
\<close>

lemma script_loop_closed:
  assumes free: "dir_free fs" and sub: "set tbl \<subseteq> set RAW_DATASETS"
    and dist: "distinct (map fst tbl)" and ok: "\<not> list_ex (blocked fs) tbl"
    and clean: "cleanable_disk fs"
  shows "\<exists>t. fold_exc (clean_step_fs parse) tbl
       \<lparr>disk = if map_of fs CLEANED_DIR = None then dict_set fs CLEANED_DIR Dir else fs,
        stdout = []\<rparr> = (t, None) \<and>
     script_rel fs \<lparr>written = files_written (files_of fs) parse tbl,
       printed = files_printed (files_of fs) parse tbl\<rparr> t"
proof -
  have "cleanable df" if "(name, path) \<in> set tbl" "files_of fs path = Some df" for name path df
    using that sub cleanable_diskD [OF clean, of name path df]
    by (auto simp: files_of_def split: option.splits entry.splits)
  from fold_clean_step [of tbl "files_of fs" "\<lparr>written = [], printed = []\<rparr>" parse, OF this dist]
  have "fold_res (clean_step (files_of fs) parse) tbl \<lparr>written = [], printed = []\<rparr> =
      Inr \<lparr>written = files_written (files_of fs) parse tbl,
        printed = files_printed (files_of fs) parse tbl\<rparr>"
    by (simp add: dict_keys_def)
  with fold_clean_step_fs_simulates [OF script_rel_init [OF free] sub ok, of parse]
  show ?thesis by simp
qed

text \<open>The script stops at the first dataset that is blocked.\<close>

lemma script_loop_blocked:
  assumes free: "dir_free fs" and tbl: "RAW_DATASETS = pre @ (name, path) # post"
    and ok: "\<not> list_ex (blocked fs) pre" and blocked: "blocked fs (name, path)"
    and clean: "cleanable_disk fs"
  shows "\<exists>t. fold_exc (clean_step_fs parse) RAW_DATASETS
       \<lparr>disk = if map_of fs CLEANED_DIR = None then dict_set fs CLEANED_DIR Dir else fs,
        stdout = []\<rparr> = (t, Some (IsADirectoryError (blocked_at fs (name, path)))) \<and>
     stdout t = files_printed (files_of fs) parse pre @ [Cleaning name] \<and>
     (\<forall>p. map_of (disk t) p = commit fs (files_written (files_of fs) parse pre) p)"
proof -
  have sub: "set pre \<subseteq> set RAW_DATASETS" and item: "(name, path) \<in> set RAW_DATASETS"
    by (auto simp: tbl)
  from distinct_raw_keys have dist: "distinct (map fst pre)" and new: "name \<notin> fst ` set pre"
    by (auto simp: tbl)
  from script_loop_closed [OF free sub dist ok clean, of parse] obtain t where
    t: "fold_exc (clean_step_fs parse) pre
        \<lparr>disk = if map_of fs CLEANED_DIR = None then dict_set fs CLEANED_DIR Dir else fs,
         stdout = []\<rparr> = (t, None)"
    and rel: "script_rel fs \<lparr>written = files_written (files_of fs) parse pre,
        printed = files_printed (files_of fs) parse pre\<rparr> t"
    by blast
  from clean_step_fs_blocked [OF rel item blocked _ cleanable_diskD [OF clean item], of parse]
    map_of_files_written_fresh [OF new, of "files_of fs" parse]
  have "clean_step_fs parse (name, path) t =
      (t\<lparr>stdout := stdout t @ [Cleaning name]\<rparr>,
       Some (IsADirectoryError (blocked_at fs (name, path))))"
    by simp
  with t rel show ?thesis
    by (simp add: tbl fold_exc_append script_rel_def)
qed

section \<open>The module body\<close>

lemma clean_script_no_dir:
  "\<not> dir_free fs \<Longrightarrow>
   clean_script fs parse = (\<lparr>disk = fs, stdout = []\<rparr>, Some (FileExistsError CLEANED_DIR))"
  by (simp add: clean_script_def makedirs_cleaned_dir)

lemma clean_script_loop:
  "dir_free fs \<Longrightarrow>
   clean_script fs parse = fold_exc (clean_step_fs parse) RAW_DATASETS
     \<lparr>disk = if map_of fs CLEANED_DIR = None then dict_set fs CLEANED_DIR Dir else fs,
      stdout = []\<rparr>"
  by (simp add: clean_script_def makedirs_cleaned_dir)

lemma first_blocked:
  assumes "list_ex (blocked fs) tbl"
  shows "\<exists>pre name path post. tbl = pre @ (name, path) # post \<and>
     \<not> list_ex (blocked fs) pre \<and> blocked fs (name, path) \<and>
     pre = takeWhile (\<lambda>i. \<not> blocked fs i) tbl \<and>
     (name, path) = hd (dropWhile (\<lambda>i. \<not> blocked fs i) tbl)"
proof -
  let ?P = "\<lambda>i. \<not> blocked fs i"
  from assms have "dropWhile ?P tbl \<noteq> []"
    by (auto simp: list_ex_iff dropWhile_eq_Nil_conv)
  then obtain name path post where d: "dropWhile ?P tbl = (name, path) # post"
    by (cases "dropWhile ?P tbl") auto
  then have "blocked fs (name, path)"
    using hd_dropWhile [of ?P tbl] by auto
  moreover have "tbl = takeWhile ?P tbl @ (name, path) # post"
    using takeWhile_dropWhile_id [of ?P tbl] d by simp
  moreover have "\<not> list_ex (blocked fs) (takeWhile ?P tbl)"
    by (auto simp: list_ex_iff dest: set_takeWhileD)
  ultimately show ?thesis using d
    by (intro exI [of _ "takeWhile ?P tbl"] exI [of _ name] exI [of _ path] exI [of _ post]) simp
qed

section \<open>The disk stays well formed\<close>

lemma clean_step_fs_wf:
  "wf_fs (disk st) \<Longrightarrow> wf_fs (disk (fst (clean_step_fs parse item st)))"
  by (cases item)
     (auto simp: clean_step_fs_def Let_def split: sum.splits intro: wf_fs_write)

lemma clean_script_wf:
  assumes "wf_fs fs"
  shows "wf_fs (disk (fst (clean_script fs parse)))"
proof (cases "os_makedirs fs CLEANED_DIR")
  case (Inl e)
  with assms show ?thesis by (simp add: clean_script_def)
next
  case (Inr fs')
  with os_makedirs_result [OF Inr] assms have "wf_fs (disk \<lparr>disk = fs', stdout = []\<rparr>)"
    by simp
  then have "wf_fs (disk (fst (fold_exc (clean_step_fs parse) RAW_DATASETS
      \<lparr>disk = fs', stdout = []\<rparr>)))"
    by (rule fold_exc_invariant [where I = "\<lambda>st. wf_fs (disk st)"]) (rule clean_step_fs_wf)
  with Inr show ?thesis by (simp add: clean_script_def)
qed

section \<open>A second run\<close>

lemma files_cong:
  assumes "\<And>name path. (name, path) \<in> set tbl \<Longrightarrow> r1 path = r2 path"
  shows "files_written r1 parse tbl = files_written r2 parse tbl"
    and "files_printed r1 parse tbl = files_printed r2 parse tbl"
proof -
  from assms have "\<forall>item \<in> set tbl. r1 (snd item) = r2 (snd item)" by auto
  then show "files_written r1 parse tbl = files_written r2 parse tbl"
    and "files_printed r1 parse tbl = files_printed r2 parse tbl"
    unfolding files_written_def files_printed_def
    by (auto intro!: arg_cong [where f = concat] map_cong simp: case_prod_beta)
qed

text \<open>
  By cases: the output directory cannot be made, a dataset is blocked, or the
  run ends normally in the state of the closed form.
\<close>

lemma clean_script_cases:
  assumes clean: "cleanable_disk fs"
  shows "if \<not> dir_free fs then
       clean_script fs parse = (\<lparr>disk = fs, stdout = []\<rparr>, Some (FileExistsError CLEANED_DIR))
     else if list_ex (blocked fs) RAW_DATASETS then
       \<exists>t p. clean_script fs parse = (t, Some (IsADirectoryError p))
     else
       \<exists>t. clean_script fs parse = (t, None) \<and>
         script_rel fs \<lparr>written = files_written (files_of fs) parse RAW_DATASETS,
           printed = files_printed (files_of fs) parse RAW_DATASETS\<rparr> t"
proof (cases "dir_free fs")
  case False
  then show ?thesis by (simp add: clean_script_no_dir)
next
  case True
  show ?thesis
  proof (cases "list_ex (blocked fs) RAW_DATASETS")
    case False
    with True script_loop_closed [where parse = parse, OF True subset_refl distinct_raw_keys False clean]
    show ?thesis by (simp add: clean_script_loop)
  next
    case blocked: True
    from first_blocked [OF this] obtain pre name path post where
      "RAW_DATASETS = pre @ (name, path) # post" "\<not> list_ex (blocked fs) pre"
      "blocked fs (name, path)"
      by blast
    from script_loop_blocked [where parse = parse, OF True this clean] True blocked show ?thesis
      by (auto simp: clean_script_loop)
  qed
qed

lemma script_rel_again:
  assumes rel: "script_rel fs s t" and item: "(name, path) \<in> set RAW_DATASETS"
    and free: "\<not> blocked fs (name, path)"
  shows "\<not> blocked (disk t) (name, path)" and "files_of (disk t) path = files_of fs path"
proof -
  from rel have look: "map_of (disk t) p = commit fs (written s) p" for p
    by (simp add: script_rel_def)
  note raw = script_rel_raw [OF rel item]
  from raw show "files_of (disk t) path = files_of fs path"
    by (simp add: files_of_def)
  from free raw show "\<not> blocked (disk t) (name, path)"
    by (auto simp: blocked_def os_path_exists_def look [of "output_path name"] commit_def
        split: option.splits)
qed

lemma commit_again:
  assumes "\<And>p. map_of d p = commit fs w p"
  shows "commit d w p = commit fs w p"
  using assms [of p] by (simp add: commit_def split: option.splits)

section \<open>The small disks\<close>

lemma example_disk_cleanable: "cleanable_disk example_disk" "cleanable_disk example_bad_disk"
  using example_cleanable
  by (simp_all add: cleanable_disk_def example_bad_disk_def example_disk_def RAW_DATASETS_def)

lemma example_disk_free: "dir_free example_disk" "\<not> list_ex (blocked example_disk) RAW_DATASETS"
  by (simp_all add: dir_free_def blocked_def example_disk_def RAW_DATASETS_def CLEANED_DIR_def
      output_path_def os_path_exists_def)

lemma example_bad_disk_blocked:
  "dir_free example_bad_disk" "list_ex (blocked example_bad_disk) RAW_DATASETS"
  "blocked_at example_bad_disk (''phearte'', ''data/uscdm_emu_phearte_regression_ests.csv'') =
     ''data/uscdm_emu_phearte_regression_ests.csv''"
  "takeWhile (\<lambda>i. \<not> blocked example_bad_disk i) RAW_DATASETS =
     [(''pdiabe'', ''data/uscdm_emu_pdiabe_regression_ests.csv'')]"
  "hd (dropWhile (\<lambda>i. \<not> blocked example_bad_disk i) RAW_DATASETS) =
     (''phearte'', ''data/uscdm_emu_phearte_regression_ests.csv'')"
  by (simp_all add: dir_free_def blocked_def blocked_at_def example_bad_disk_def example_disk_def
      RAW_DATASETS_def CLEANED_DIR_def output_path_def os_path_exists_def)

lemma clean_datasets_on_disk:
  assumes "cleanable_disk fs"
  shows "clean_datasets (files_of fs) parse =
     Inr \<lparr>written = files_written (files_of fs) parse RAW_DATASETS,
          printed = files_printed (files_of fs) parse RAW_DATASETS\<rparr>"
proof (rule clean_datasets_closed)
  fix name path df
  assume "(name, path) \<in> set RAW_DATASETS" "files_of fs path = Some df"
  with cleanable_diskD [OF assms, of name path df] show "cleanable df"
    by (auto simp: files_of_def split: option.splits entry.splits)
qed

section \<open>Properties of the script on a file system\<close>

text \<open>
  C24. The script implements the loop of \<open>Emu_Clean\<close>: started on a disk where
  the output directory can be made and no dataset is blocked, the script ends
  with the exception with which the loop on the files of that disk ends, or
  it ends normally as the loop does, and then it has printed the lines the
  loop collects, and its disk is the one it started on with the output
  directory and the files the loop collects.
\<close>

theorem clean_script_refines:
  assumes "dir_free fs" "\<not> list_ex (blocked fs) RAW_DATASETS"
  shows "case clean_datasets (files_of fs) parse of
       Inl e \<Rightarrow> \<exists>t. clean_script fs parse = (t, Some e)
     | Inr s \<Rightarrow> \<exists>t. clean_script fs parse = (t, None) \<and> stdout t = printed s \<and>
         (\<forall>p. map_of (disk t) p = commit fs (written s) p)"
  using fold_clean_step_fs_simulates [OF script_rel_init [OF assms(1)] subset_refl assms(2),
      of parse]
  by (auto simp: clean_script_loop [OF assms(1)] clean_datasets_def script_rel_def
      split: sum.splits)

theorem clean_script_refines_witness:
  "\<exists>t. clean_script example_disk example_parse = (t, None) \<and>
     stdout t = files_printed (files_of example_disk) example_parse RAW_DATASETS \<and>
     (\<forall>p. map_of (disk t) p =
        commit example_disk (files_written (files_of example_disk) example_parse RAW_DATASETS) p)"
  using clean_script_refines [OF example_disk_free, of example_parse]
  by (simp add: clean_datasets_on_disk [OF example_disk_cleanable(1)])

text \<open>
  C30. A run of the script on a disk whose raw files, where they exist, hold
  well formed tables with distinct cleaned labels. When the path of the
  output directory is a file, the run ends at its first statement with
  \<^verbatim>\<open>FileExistsError\<close>, the disk unchanged and nothing printed. Otherwise, when
  a directory stands where a raw file or the cleaned file of an existing raw
  file should be, the run ends with \<^verbatim>\<open>IsADirectoryError\<close>. Otherwise it ends
  normally; it has then printed, dataset by dataset in the order of
  \<^verbatim>\<open>RAW_DATASETS\<close>, the message of the missing file or else the line
  announcing the dataset, the line confirming the path written and the report
  of the table written; and the disk it leaves has the output directory, the
  cleaned table of every raw file that exists at
  \<^verbatim>\<open>clean_data/<name>_cleaned.csv\<close>, and every other path as it was.
\<close>

theorem clean_script_result:
  assumes "cleanable_disk fs"
  shows "if \<not> dir_free fs then
       clean_script fs parse = (\<lparr>disk = fs, stdout = []\<rparr>, Some (FileExistsError CLEANED_DIR))
     else if list_ex (blocked fs) RAW_DATASETS then
       \<exists>t p. clean_script fs parse = (t, Some (IsADirectoryError p))
     else
       \<exists>t. clean_script fs parse = (t, None) \<and>
         stdout t = files_printed (files_of fs) parse RAW_DATASETS \<and>
         (\<forall>p. map_of (disk t) p =
            commit fs (files_written (files_of fs) parse RAW_DATASETS) p)"
  using clean_script_cases [where parse = parse, OF assms]
  by (auto simp: script_rel_def)

theorem clean_script_result_witness:
  "\<exists>t. clean_script example_disk example_parse = (t, None) \<and>
     stdout t = files_printed (files_of example_disk) example_parse RAW_DATASETS \<and>
     (\<forall>p. map_of (disk t) p =
        commit example_disk (files_written (files_of example_disk) example_parse RAW_DATASETS) p)"
  using clean_script_result [of example_disk example_parse] example_disk_free
  by (simp add: example_disk_cleanable)

text \<open>
  C14. Where a run stops: when the output directory can be made and some
  dataset is blocked, the run ends at the first such dataset with
  \<^verbatim>\<open>IsADirectoryError\<close> for the raw path, when that is a directory, and else for
  the path of the cleaned file; by then it has printed the lines of the
  datasets before it and the line announcing the blocked one, and the disk has
  the output directory and the cleaned files of the datasets before it.
\<close>

theorem clean_script_stops_at_directory:
  assumes "dir_free fs" "list_ex (blocked fs) RAW_DATASETS" "cleanable_disk fs"
  shows "let pre = takeWhile (\<lambda>i. \<not> blocked fs i) RAW_DATASETS;
         item = hd (dropWhile (\<lambda>i. \<not> blocked fs i) RAW_DATASETS)
     in \<exists>t. clean_script fs parse = (t, Some (IsADirectoryError (blocked_at fs item))) \<and>
          stdout t = files_printed (files_of fs) parse pre @ [Cleaning (fst item)] \<and>
          (\<forall>p. map_of (disk t) p = commit fs (files_written (files_of fs) parse pre) p)"
proof -
  from first_blocked [OF assms(2)] obtain pre name path post where
    tbl: "RAW_DATASETS = pre @ (name, path) # post" "\<not> list_ex (blocked fs) pre"
      "blocked fs (name, path)"
    and eq: "pre = takeWhile (\<lambda>i. \<not> blocked fs i) RAW_DATASETS"
      "(name, path) = hd (dropWhile (\<lambda>i. \<not> blocked fs i) RAW_DATASETS)"
    by blast
  from script_loop_blocked [where parse = parse, OF assms(1) tbl assms(3)] show ?thesis
    unfolding Let_def eq [symmetric] by (simp add: clean_script_loop [OF assms(1)])
qed

theorem clean_script_stops_at_directory_witness:
  "\<exists>t. clean_script example_bad_disk example_parse =
       (t, Some (IsADirectoryError ''data/uscdm_emu_phearte_regression_ests.csv'')) \<and>
     stdout t =
       files_printed (files_of example_bad_disk) example_parse
         [(''pdiabe'', ''data/uscdm_emu_pdiabe_regression_ests.csv'')] @ [Cleaning ''phearte''] \<and>
     (\<forall>p. map_of (disk t) p =
        commit example_bad_disk (files_written (files_of example_bad_disk) example_parse
          [(''pdiabe'', ''data/uscdm_emu_pdiabe_regression_ests.csv'')]) p)"
  using clean_script_stops_at_directory [of example_bad_disk example_parse]
  by (simp add: example_bad_disk_blocked example_disk_cleanable Let_def)

text \<open>
  C39. A second run changes nothing: after a run that ended normally, a run
  on the disk it left ends normally too, prints the same lines, and leaves
  every path of the disk as the first run left it.
\<close>

theorem clean_script_again:
  assumes run: "clean_script fs parse = (t, None)"
    and clean: "cleanable_disk fs"
  shows "\<exists>t'. clean_script (disk t) parse = (t', None) \<and> stdout t' = stdout t \<and>
     (\<forall>p. map_of (disk t') p = map_of (disk t) p)"
proof -
  let ?w = "files_written (files_of fs) parse RAW_DATASETS"
  let ?s = "\<lparr>written = ?w, printed = files_printed (files_of fs) parse RAW_DATASETS\<rparr>"
  from clean_script_cases [where parse = parse, OF clean] run
  have free: "dir_free fs" "\<not> list_ex (blocked fs) RAW_DATASETS" and rel: "script_rel fs ?s t"
    by (auto split: if_splits)
  have again: "\<not> blocked (disk t) (name, path)" "files_of (disk t) path = files_of fs path"
    if "(name, path) \<in> set RAW_DATASETS" for name path
    using script_rel_again [OF rel that] free(2) that by (auto simp: list_ex_iff)
  have "dir_free (disk t)"
    using script_rel_dir [OF rel] by (simp add: dir_free_def)
  moreover from again(1) have "\<not> list_ex (blocked (disk t)) RAW_DATASETS"
    by (auto simp: list_ex_iff)
  moreover from clean script_rel_raw [OF rel] have "cleanable_disk (disk t)"
    by (auto simp: cleanable_disk_def list_all_iff)
  ultimately obtain t' where t': "clean_script (disk t) parse = (t', None)"
    "script_rel (disk t) \<lparr>written = files_written (files_of (disk t)) parse RAW_DATASETS,
       printed = files_printed (files_of (disk t)) parse RAW_DATASETS\<rparr> t'"
    using clean_script_cases [of "disk t" parse] by auto
  from again(2) have same: "files_written (files_of (disk t)) parse RAW_DATASETS = ?w"
    "files_printed (files_of (disk t)) parse RAW_DATASETS =
       files_printed (files_of fs) parse RAW_DATASETS"
    by (auto intro: files_cong)
  from rel have look: "map_of (disk t) p = commit fs ?w p" for p
    by (simp add: script_rel_def)
  from t'(2) rel have "stdout t' = stdout t" "map_of (disk t') p = map_of (disk t) p" for p
    by (simp_all add: script_rel_def same commit_again [of "disk t" fs ?w, OF look] look)
  with t'(1) show ?thesis by simp
qed

theorem clean_script_again_witness:
  "\<exists>t'. clean_script (disk (fst (clean_script example_disk example_parse))) example_parse =
       (t', None) \<and>
     stdout t' = stdout (fst (clean_script example_disk example_parse)) \<and>
     (\<forall>p. map_of (disk t') p =
        map_of (disk (fst (clean_script example_disk example_parse))) p)"
proof -
  from clean_script_cases [of example_disk example_parse] example_disk_free
  obtain t where "clean_script example_disk example_parse = (t, None)"
    by (auto simp: example_disk_cleanable)
  with clean_script_again [of example_disk example_parse t] show ?thesis
    by (simp add: example_disk_cleanable)
qed

end
