(* ===== verification/Emu_Pipeline.thy ===== *)
theory Emu_Pipeline
  imports Emu_App Emu_Clean_Script
begin

text \<open>
  The dashboard on the disk the cleaning script leaves. \<open>load_cleaned_data_fs\<close>
  is the loader of \<^verbatim>\<open>src/app.py\<close> on the file system of \<open>Emu_Files\<close>, where
  reading a path that is a directory raises; \<open>render_fs\<close> is a run of the page
  that starts with it. A file holds the table the cleaning script wrote;
  \<open>parse\<close> stands for reading that file with \<^verbatim>\<open>pd.read_csv(path, index_col=0)\<close>.
  The lemmas reduce the loader on a disk to the loader of \<open>Emu_Config\<close> on the
  files of the disk, and give the cleaned paths of the disk a run of the
  script leaves in terms of the disk it started on.
\<close>

section \<open>The loader on a file system\<close>

definition load_step_fs :: "(raw_frame \<Rightarrow> coef_frame) \<Rightarrow> raw_frame file_system \<Rightarrow>
    string \<times> string \<Rightarrow> coef_frame pydict \<Rightarrow> coef_frame pydict result" where
  "load_step_fs parse fs kp df_dict =
     (case kp of (key, path) \<Rightarrow>
        if os_path_exists fs path then
          bind_res (read_file fs path) (\<lambda>raw. Inr (dict_set df_dict key (parse raw)))
        else Inr df_dict)"

definition load_cleaned_data_fs :: "(raw_frame \<Rightarrow> coef_frame) \<Rightarrow> raw_frame file_system \<Rightarrow>
    coef_frame pydict result" where
  "load_cleaned_data_fs parse fs = fold_res (load_step_fs parse fs) CLEANED_DATASETS []"

text \<open>
  \<open>read_back parse fs\<close> is the disk as the loader of \<open>Emu_Config\<close> sees it: the
  files it can read, each as the frame read from it.
\<close>

definition read_back :: "(raw_frame \<Rightarrow> coef_frame) \<Rightarrow> raw_frame file_system \<Rightarrow> string \<Rightarrow>
    coef_frame option" where
  "read_back parse fs path = map_option parse (files_of fs path)"

text \<open>
  A run of the page on a disk: the loader runs at the top of the module, before
  the first call of the interface, so a run whose loader raises shows nothing.
\<close>

definition render_fs :: "(real \<Rightarrow> string) \<Rightarrow> (raw_frame \<Rightarrow> coef_frame) \<Rightarrow> raw_frame file_system \<Rightarrow>
    inputs \<Rightarrow> ui_call list result" where
  "render_fs fmt parse fs inp =
     bind_res (load_cleaned_data_fs parse fs) (\<lambda>df_dict. render fmt (read_back parse fs) inp)"

text \<open>
  \<open>is_dir fs\<close> tells whether the path of a table entry is a directory;
  \<open>stale_dir fs\<close> tells whether a directory stands where the cleaned file of a
  dataset should be.
\<close>

definition is_dir :: "'a file_system \<Rightarrow> string \<times> string \<Rightarrow> bool" where
  "is_dir fs kp = (map_of fs (snd kp) = Some Dir)"

definition stale_dir :: "'a file_system \<Rightarrow> string \<times> string \<Rightarrow> bool" where
  "stale_dir fs item = (map_of fs (output_path (fst item)) = Some Dir)"

section \<open>The loader on a disk and the loader on its files\<close>

lemma load_step_fs_cases:
  "load_step_fs parse fs kp df_dict =
     (if is_dir fs kp then Inl (IsADirectoryError (snd kp))
      else Inr (load_step (read_back parse fs) kp df_dict))"
  by (cases kp; cases "map_of fs (snd kp)")
     (auto simp: load_step_fs_def load_step_def read_back_def is_dir_def os_path_exists_def
       read_file_def files_of_def split: entry.splits)

lemma load_cleaned_data_fs_cases:
  "load_cleaned_data_fs parse fs =
     (case find (is_dir fs) CLEANED_DATASETS of
        None \<Rightarrow> Inr (load_cleaned_data (read_back parse fs))
      | Some kp \<Rightarrow> Inl (IsADirectoryError (snd kp)))"
  unfolding load_cleaned_data_fs_def load_cleaned_data_def
  by (rule fold_res_find) (rule load_step_fs_cases)

lemma render_fs_files:
  "find (is_dir fs) CLEANED_DATASETS = None \<Longrightarrow>
   render_fs fmt parse fs inp = render fmt (read_back parse fs) inp"
  by (simp add: render_fs_def load_cleaned_data_fs_cases)

section \<open>The cleaned paths after a run of the script\<close>

lemma cleaned_file_after_run:
  assumes rel: "script_rel fs \<lparr>written = files_written (files_of fs) num RAW_DATASETS,
      printed = ls\<rparr> t"
    and item: "(name, path) \<in> set RAW_DATASETS"
  shows "map_of (disk t) (output_path name) =
     (case files_of fs path of
        Some df \<Rightarrow> Some (File (cleaned num df))
      | None \<Rightarrow> map_of fs (output_path name))"
proof -
  from item distinct_raw_keys have "map_of RAW_DATASETS name = Some path"
    by (simp add: map_of_is_SomeI)
  from map_of_files_written [OF distinct_raw_keys this, of "files_of fs" num] rel
  show ?thesis
    by (simp add: script_rel_def commit_def split: option.splits)
qed

lemma map_of_CLEANED_DATASETS:
  "map_of CLEANED_DATASETS name = map_option (\<lambda>path. output_path name) (map_of RAW_DATASETS name)"
  by (simp add: RAW_DATASETS_def CLEANED_DATASETS_def output_path_def CLEANED_DIR_def)

lemma map_of_load_cleaned_data:
  "map_of (load_cleaned_data fs) key = Option.bind (map_of CLEANED_DATASETS key) fs"
  using distinct_dataset_keys
  by (simp add: load_cleaned_data_def map_of_fold_load_step dict_keys_def split: option.splits)

text \<open>
  The two scripts agree on the files: the path the cleaning script writes for a
  dataset is the path under which \<^verbatim>\<open>src/app.py\<close> loads that dataset, for the
  same keys in the same order.
\<close>

lemma cleaned_paths_are_loaded_paths:
  "map (\<lambda>(name, path). (name, output_path name)) RAW_DATASETS = CLEANED_DATASETS"
  by (simp add: RAW_DATASETS_def CLEANED_DATASETS_def output_path_def CLEANED_DIR_def)

text \<open>
  After a run that ended normally, a directory stands at a cleaned path only
  where one stood before, and the loader of the dashboard binds a dataset to
  the table cleaned in this run or else to the cleaned file that was there.
\<close>

lemma find_dir_after_run:
  assumes rel: "script_rel fs \<lparr>written = files_written (files_of fs) num RAW_DATASETS,
      printed = ls\<rparr> t"
    and ok: "\<not> list_ex (blocked fs) RAW_DATASETS"
  shows "find (is_dir (disk t)) CLEANED_DATASETS =
     map_option (\<lambda>(name, path). (name, output_path name)) (find (stale_dir fs) RAW_DATASETS)"
proof -
  have "is_dir (disk t) (name, output_path name) \<longleftrightarrow> stale_dir fs (name, path)"
    if "(name, path) \<in> set RAW_DATASETS" for name path
    using cleaned_file_after_run [OF rel that] ok that
    by (auto simp: is_dir_def stale_dir_def blocked_def list_ex_iff files_of_def
        os_path_exists_def split: option.splits entry.splits)
  then have "find (is_dir (disk t) \<circ> (\<lambda>(name, path). (name, output_path name))) RAW_DATASETS =
      find (stale_dir fs) RAW_DATASETS"
    by (intro find_cong) auto
  then show ?thesis
    by (simp add: cleaned_paths_are_loaded_paths [symmetric] find_map_comp)
qed

lemma load_after_run:
  assumes rel: "script_rel fs \<lparr>written = files_written (files_of fs) num RAW_DATASETS,
      printed = ls\<rparr> t"
  shows "map_of (load_cleaned_data (read_back parse (disk t))) name =
     Option.bind (map_of RAW_DATASETS name)
       (\<lambda>path. case files_of fs path of
                 Some df \<Rightarrow> Some (parse (cleaned num df))
               | None \<Rightarrow> read_back parse fs (output_path name))"
proof (cases "map_of RAW_DATASETS name")
  case None
  then show ?thesis
    by (simp add: map_of_load_cleaned_data map_of_CLEANED_DATASETS)
next
  case (Some path)
  then have "(name, path) \<in> set RAW_DATASETS" by (rule map_of_SomeD)
  from cleaned_file_after_run [OF rel this] Some show ?thesis
    by (simp add: map_of_load_cleaned_data map_of_CLEANED_DATASETS read_back_def files_of_def
        split: option.splits)
qed

text \<open>
  After such a run, on a disk without a directory at a raw or a cleaned path,
  the loader leaves a dataset unbound exactly when neither its raw file nor a
  cleaned file was on the disk.
\<close>

lemma unbound_after_run:
  assumes rel: "script_rel fs \<lparr>written = files_written (files_of fs) num RAW_DATASETS,
      printed = ls\<rparr> t"
    and raw: "map_of RAW_DATASETS key = Some path"
    and files: "map_of fs path \<noteq> Some Dir" "map_of fs (output_path key) \<noteq> Some Dir"
  shows "map_of (load_cleaned_data (read_back parse (disk t))) key = None \<longleftrightarrow>
     \<not> os_path_exists fs path \<and> \<not> os_path_exists fs (output_path key)"
  using files raw
  by (auto simp: load_after_run [OF rel] read_back_def files_of_def os_path_exists_def
      split: option.splits entry.splits)

end
