(* ===== verification/Emu_Dynamic.thy ===== *)
theory Emu_Dynamic
  imports Emu_Simulation Py_Values
begin

text \<open>
  The year loop of \<^verbatim>\<open>src/app.py\<close> once more, on a column as \<^verbatim>\<open>pd.read_csv\<close>
  can deliver it: a cell is a number, \<^verbatim>\<open>NaN\<close> or a string, and the operators of
  the two formulas are checked when they run. \<open>predict_year_dyn\<close> and
  \<open>predict_series_dyn\<close> translate the same statements as their counterparts of
  \<open>Emu_Predictor\<close>, with \<open>py_add\<close> and \<open>py_mul\<close> for the operators.
  \<open>predict_typed\<close> says what a year of the loop returns by the kinds of the
  cells it reads. The lemmas show that the loop implements \<open>predict_typed\<close>,
  when it raises \<^verbatim>\<open>TypeError\<close>, that what it returns are numbers, and that on
  a column of numbers it is the loop of \<open>Emu_Predictor\<close>. The handler on such
  tables is in \<open>Emu_Dynamic_Handler\<close>.
\<close>

section \<open>The year loop on cells\<close>

type_synonym cell_series = "(string \<times> cell) list"

type_synonym cell_frame = "(string, cell) frame"

definition predict_year_dyn :: "string \<Rightarrow> real pydict \<Rightarrow> cell_series \<Rightarrow> int \<Rightarrow>
    (cell \<times> cell) result" where
  "predict_year_dyn key intervention_levels beta year =
     (let year_inc = year - 2024;
          b_cons = series_get beta ''_cons'' (Num 0);
          b_year = series_get beta (show_int year_inc @ ''.year_inc'') (Num 0)
      in if key = ''pcogstate'' then
           bind_res (dict_index intervention_levels ''pcogstate_1'') (\<lambda>L1.
           bind_res (dict_index intervention_levels ''pcogstate_2'') (\<lambda>L2.
             let b_iv1 = series_get beta ''ivparm1'' (Num 0);
                 b_year_iv1 = series_get beta (show_int year_inc @ ''.year_inc#c.ivparm1'') (Num 0);
                 b_iv2 = series_get beta ''ivparm2'' (Num 0);
                 b_year_iv2 = series_get beta (show_int year_inc @ ''.year_inc#c.ivparm2'') (Num 0);
                 b_iv1_iv2 = series_get beta ''c.ivparm1#c.ivparm2'' (Num 0);
                 b_year_iv1_iv2 =
                   series_get beta (show_int year_inc @ ''.year_inc#c.ivparm1#c.ivparm2'') (Num 0)
             in bind_res
                  (add_res (add_res (add_res (add_res (add_res (add_res
                     (py_add b_cons b_year)
                     (py_mul b_iv1 1)) (py_mul b_year_iv1 1))
                     (py_mul b_iv2 1)) (py_mul b_year_iv2 1))
                     (mul_res (py_mul b_iv1_iv2 1) 1)) (mul_res (py_mul b_year_iv1_iv2 1) 1))
                  (\<lambda>base_val.
                bind_res
                  (add_res (add_res (add_res (add_res (add_res (add_res
                     (py_add b_cons b_year)
                     (py_mul b_iv1 L1)) (py_mul b_year_iv1 L1))
                     (py_mul b_iv2 L2)) (py_mul b_year_iv2 L2))
                     (mul_res (py_mul b_iv1_iv2 L1) L2)) (mul_res (py_mul b_year_iv1_iv2 L1) L2))
                  (\<lambda>inter_val. Inr (base_val, inter_val)))))
         else
           bind_res (dict_index intervention_levels key) (\<lambda>L1.
             let b_iv1 = series_get beta ''ivparm1'' (Num 0);
                 b_year_iv1 = series_get beta (show_int year_inc @ ''.year_inc#c.ivparm1'') (Num 0)
             in bind_res
                  (add_res (add_res (py_add b_cons b_year) (py_mul b_iv1 1)) (py_mul b_year_iv1 1))
                  (\<lambda>base_val.
                bind_res
                  (add_res (add_res (py_add b_cons b_year) (py_mul b_iv1 L1)) (py_mul b_year_iv1 L1))
                  (\<lambda>inter_val. Inr (base_val, inter_val)))))"

definition series_step_dyn :: "string \<Rightarrow> real pydict \<Rightarrow> cell_series \<Rightarrow> int \<Rightarrow>
    cell list \<times> cell list \<Rightarrow> (cell list \<times> cell list) result" where
  "series_step_dyn key intervention_levels beta year acc =
     bind_res (predict_year_dyn key intervention_levels beta year) (\<lambda>(base_val, inter_val).
       Inr (fst acc @ [base_val], snd acc @ [inter_val]))"

definition predict_series_dyn :: "string \<Rightarrow> real pydict \<Rightarrow> cell_series \<Rightarrow> int list \<Rightarrow>
    (cell list \<times> cell list) result" where
  "predict_series_dyn key intervention_levels beta year_range =
     fold_res (series_step_dyn key intervention_levels beta) year_range ([], [])"

section \<open>What a year returns, by the kinds of the cells\<close>

text \<open>
  \<open>cell_table beta\<close> is the lookup \<^verbatim>\<open>beta.get(name, 0)\<close> by structured key,
  \<open>fin_val\<close> the real a cell holds (0 for a cell that holds none), \<open>is_nan_cell\<close>
  the test for \<^verbatim>\<open>NaN\<close>. \<open>predict_typed b year v\<close>: when one of the cells the
  variant reads for the year is a string the year raises \<^verbatim>\<open>TypeError\<close>;
  otherwise it returns \<open>typed_values b year v\<close>: both values are \<^verbatim>\<open>NaN\<close> when
  one of the cells is, and else the values of the formulas on the reals the
  cells hold.
\<close>

definition cell_table :: "cell_series \<Rightarrow> coef_key \<Rightarrow> cell" where
  "cell_table beta k = series_get beta (key_name k) (Num 0)"

fun fin_val :: "cell \<Rightarrow> real" where
  "fin_val (Num (Fin x)) = x"
| "fin_val _ = 0"

fun is_nan_cell :: "cell \<Rightarrow> bool" where
  "is_nan_cell (Num NaN) = True"
| "is_nan_cell _ = False"

definition typed_values :: "(coef_key \<Rightarrow> cell) \<Rightarrow> int \<Rightarrow> variant \<Rightarrow> cell \<times> cell" where
  "typed_values b year v =
     (if list_ex (\<lambda>k. is_nan_cell (b k)) (variant_keys v (year - 2024)) then (Num NaN, Num NaN)
      else let (base_val, inter_val) = predict_spec (\<lambda>k. fin_val (b k)) year v
           in (Num (Fin base_val), Num (Fin inter_val)))"

definition predict_typed :: "(coef_key \<Rightarrow> cell) \<Rightarrow> int \<Rightarrow> variant \<Rightarrow> (cell \<times> cell) result" where
  "predict_typed b year v =
     (if list_ex (\<lambda>k. is_str (b k)) (variant_keys v (year - 2024)) then Inl TypeError
      else Inr (typed_values b year v))"

section \<open>Numbers as cells\<close>

text \<open>A real as a cell.\<close>

definition embed :: "real \<Rightarrow> cell" where
  "embed x = Num (Fin x)"

section \<open>Cells that are text\<close>

text \<open>
  \<open>reads_text key beta year_range\<close>: for some year of the range one of the
  coefficients the code reads from \<open>beta\<close> is a string. \<open>num_of\<close> is the
  number a cell holds.
\<close>

definition reads_text :: "string \<Rightarrow> cell_series \<Rightarrow> int list \<Rightarrow> bool" where
  "reads_text key beta year_range =
     list_ex (\<lambda>year. list_ex (\<lambda>k. is_str (cell_table beta k))
        (if key = ''pcogstate'' then two_keys (year - 2024) else single_keys (year - 2024)))
       year_range"

fun num_of :: "cell \<Rightarrow> number" where
  "num_of (Num x) = x"
| "num_of (Str s) = NaN"

section \<open>A table with a cell that is not a number\<close>

text \<open>
  The table of the worked example of \<open>Emu_Simulation\<close> as it is loaded when
  one cell of the column is a text that is neither a number nor one of the
  markers \<^verbatim>\<open>pd.read_csv\<close> reads as a missing value: the column is text.
\<close>

definition example_text_frame :: cell_frame where
  "example_text_frame =
     \<lparr>df_index = [''_cons'', ''2.year_inc'', ''ivparm1'', ''2.year_inc#c.ivparm1''],
      df_columns =
        [(''n_startpop_all'', [Str ''10'', Str ''1'', Str ''(omitted)'', Str ''-0.5''])]\<rparr>"

section \<open>One year\<close>

lemma add_chain_head:
  "add_res (py_add c0 c1) (py_mul c2 L) =
     (if is_str c0 \<or> is_str c1 \<or> is_str c2 then Inl TypeError
      else Inr (Num (num_of c0 + num_of c1 + num_of c2 * Fin L)))"
  by (cases c0; cases c1; cases c2) (simp_all add: add_res_def)

lemma add_chain_mul:
  "add_res (if A then Inl TypeError else Inr (Num x)) (py_mul c L) =
     (if A \<or> is_str c then Inl TypeError else Inr (Num (x + num_of c * Fin L)))"
  by (cases c) simp_all

lemma add_chain_mul_mul:
  "add_res (if A then Inl TypeError else Inr (Num x)) (mul_res (py_mul c L1) L2) =
     (if A \<or> is_str c then Inl TypeError else Inr (Num (x + num_of c * Fin L1 * Fin L2)))"
  by (cases c) simp_all

lemmas add_chain = add_chain_head add_chain_mul add_chain_mul_mul

lemma num_of_typed:
  "\<not> is_str c \<Longrightarrow> num_of c = (if is_nan_cell c then NaN else Fin (fin_val c))"
  by (cases c rule: is_nan_cell.cases) simp_all

lemma typed_plus:
  "(if N then NaN else Fin r) + (if M then NaN else Fin q) = (if N \<or> M then NaN else Fin (r + q))"
  by simp

lemma typed_times:
  "(if N then NaN else Fin r) * Fin q = (if N then NaN else Fin (r * q))"
  by simp

lemmas typed_arith = typed_plus typed_times

lemma predict_year_dyn_typed:
  "predict_year_dyn key lv beta year =
     bind_res (select_variant key lv) (predict_typed (cell_table beta) year)"
proof (cases "key = ''pcogstate''")
  case True
  show ?thesis
    unfolding predict_year_dyn_def select_variant_def predict_typed_def typed_values_def Let_def
      cell_table_def
    by (simp add: True add_chain bind_res_assoc del: key_name_fstrings)
       (auto simp: two_keys_def single_keys_def num_of_typed typed_arith value_two_def
          bind_res_def split: sum.splits simp del: key_name_fstrings)
next
  case False
  show ?thesis
    unfolding predict_year_dyn_def select_variant_def predict_typed_def typed_values_def Let_def
      cell_table_def
    by (simp add: False add_chain bind_res_assoc del: key_name_fstrings)
       (auto simp: single_keys_def num_of_typed typed_arith value_single_def
          bind_res_def split: sum.splits simp del: key_name_fstrings)
qed

lemma predict_typed_raises_iff:
  "predict_typed b y v = Inl e \<longleftrightarrow>
     e = TypeError \<and> list_ex (\<lambda>k. is_str (b k)) (variant_keys v (y - 2024))"
  by (auto simp: predict_typed_def)

lemma is_num_typed_values [simp]:
  "is_num (fst (typed_values b y v))" "is_num (snd (typed_values b y v))"
  by (simp_all add: typed_values_def split_beta)

lemma predict_typed_Inr:
  "predict_typed b y v = Inr p \<Longrightarrow> is_num (fst p) \<and> is_num (snd p)"
  by (auto simp: predict_typed_def split: if_splits)

lemma select_variant_keys:
  "select_variant key lv = Inr v \<Longrightarrow>
     variant_keys v y = (if key = ''pcogstate'' then two_keys y else single_keys y)"
  by (auto simp: select_variant_def bind_res_eq_Inr_iff split: if_splits)

section \<open>The loop over the years\<close>

lemma predict_series_dyn_typed:
  "predict_series_dyn key lv beta ys =
     map_sum id (\<lambda>ps. (map fst ps, map snd ps))
       (map_res (\<lambda>y. bind_res (select_variant key lv) (predict_typed (cell_table beta) y)) ys)"
  unfolding predict_series_dyn_def series_step_dyn_def predict_year_dyn_typed case_prod_unfold
  using fold_res_pairs [where acc = "([], [])"] by simp

lemma reads_text_iff:
  assumes "select_variant key lv = Inr v"
  shows "reads_text key beta ys \<longleftrightarrow>
     (\<exists>y \<in> set ys. predict_typed (cell_table beta) y v = Inl TypeError)"
  by (simp add: reads_text_def predict_typed_raises_iff select_variant_keys [OF assms]
      list_ex_iff)

lemma predict_series_dyn_raises:
  assumes "select_variant key lv = Inr v"
  shows "predict_series_dyn key lv beta ys = Inl e \<longleftrightarrow> e = TypeError \<and> reads_text key beta ys"
proof -
  let ?f = "\<lambda>y. predict_typed (cell_table beta) y v"
  have "predict_series_dyn key lv beta ys = Inl e \<longleftrightarrow> map_res ?f ys = Inl e"
    by (cases "map_res ?f ys") (simp_all add: predict_series_dyn_typed assms)
  also have "\<dots> \<longleftrightarrow> e = TypeError \<and> (\<exists>y \<in> set ys. ?f y = Inl TypeError)"
    using map_res_raises_iff [of ys ?f TypeError] map_res_InlD [of ?f ys e]
    by (auto simp: predict_typed_raises_iff)
  finally show ?thesis by (simp add: reads_text_iff [OF assms])
qed

lemma predict_series_dyn_ok:
  assumes "select_variant key lv = Inr v" "\<not> reads_text key beta ys"
  shows "\<exists>bs is. predict_series_dyn key lv beta ys = Inr (bs, is) \<and>
     length bs = length ys \<and> length is = length ys \<and> list_all is_num bs \<and> list_all is_num is"
proof -
  let ?f = "\<lambda>y. predict_typed (cell_table beta) y v"
  have "\<exists>p. ?f y = Inr p \<and> is_num (fst p) \<and> is_num (snd p)" if "y \<in> set ys" for y
    using that assms(2) predict_typed_Inr [of "cell_table beta" y v]
    by (cases "?f y") (auto simp: reads_text_iff [OF assms(1)] predict_typed_raises_iff)
  from map_res_ok [of ys ?f "\<lambda>p. is_num (fst p) \<and> is_num (snd p)", OF this]
  obtain ps where "map_res ?f ys = Inr ps" "length ps = length ys"
    "list_all (\<lambda>p. is_num (fst p) \<and> is_num (snd p)) ps"
    by auto
  then show ?thesis
    by (simp add: predict_series_dyn_typed assms(1) list_all_iff)
qed

lemma predict_series_dyn_Inr:
  assumes "predict_series_dyn key lv beta ys = Inr vals"
  shows "length (fst vals) = length ys \<and> length (snd vals) = length ys \<and>
     list_all is_num (fst vals) \<and> list_all is_num (snd vals)"
proof -
  let ?f = "\<lambda>y. bind_res (select_variant key lv) (predict_typed (cell_table beta) y)"
  from assms obtain ps where ps: "map_res ?f ys = Inr ps" "vals = (map fst ps, map snd ps)"
    by (cases "map_res ?f ys") (auto simp: predict_series_dyn_typed)
  from map_res_Inr_all [OF ps(1), of "\<lambda>p. is_num (fst p) \<and> is_num (snd p)"]
  have "length ps = length ys" "list_all (\<lambda>p. is_num (fst p) \<and> is_num (snd p)) ps"
    by (auto simp: bind_res_eq_Inr_iff dest: predict_typed_Inr)
  with ps(2) show ?thesis by (simp add: list_all_iff)
qed

section \<open>The loop on a column of numbers\<close>

lemma cell_table_embed:
  "cell_table (map (\<lambda>(i, v). (i, embed v)) beta) k = embed (coefficient beta k)"
  using series_get_map [of embed beta "key_name k" 0]
  by (simp add: cell_table_def coefficient_def embed_def zero_number_def)

lemma predict_typed_embed:
  "predict_typed (\<lambda>k. embed (b k)) year v =
     Inr (embed (fst (predict_spec b year v)), embed (snd (predict_spec b year v)))"
  by (simp add: predict_typed_def typed_values_def embed_def list_ex_iff split_beta)

lemma predict_series_dyn_embed:
  "predict_series_dyn key lv (map (\<lambda>(i, v). (i, embed v)) beta) ys =
     map_sum id (\<lambda>(bs, is). (map embed bs, map embed is)) (predict_series key lv beta ys)"
proof (cases "select_variant key lv")
  case (Inl e)
  then show ?thesis
    unfolding predict_series_dyn_typed predict_series_def fold_series_step
    by (cases ys) simp_all
next
  case (Inr v)
  then show ?thesis
    by (simp add: predict_series_dyn_typed predict_series_ok cell_table_embed [abs_def]
        predict_typed_embed comp_def)
qed

section \<open>The example, evaluated\<close>

lemma example_reads_text:
  "reads_text ''pdiabe'' (zip (df_index example_text_frame)
      [Str ''10'', Str ''1'', Str ''(omitted)'', Str ''-0.5'']) [2026]"
  by (simp add: reads_text_def single_keys_def cell_table_def example_text_frame_def
      show_int_eval del: key_name_fstrings)

section \<open>Properties of the year loop on a column as it is loaded\<close>

text \<open>
  C12. The year loop by the kinds of the cells it reads: when the level
  dictionary has the levels of the code, the loop over the years raises
  \<^verbatim>\<open>TypeError\<close> if for some year of the range one of the coefficients it reads
  is a string, and otherwise returns, year by year, \<^verbatim>\<open>NaN\<close> for the baseline
  and the intervention value of a year for which one of the coefficients read
  is \<^verbatim>\<open>NaN\<close>, and the values of the formulas of the specification for the
  other years. A coefficient that is absent is the number 0.
\<close>

theorem predict_series_dyn_by_kind:
  assumes "select_variant key lv = Inr v"
  shows "predict_series_dyn key lv beta ys =
     (if reads_text key beta ys then Inl TypeError
      else Inr (map (\<lambda>y. fst (typed_values (cell_table beta) y v)) ys,
                map (\<lambda>y. snd (typed_values (cell_table beta) y v)) ys))"
proof (cases "reads_text key beta ys")
  case True
  with predict_series_dyn_raises [OF assms, of beta ys TypeError] show ?thesis by simp
next
  case False
  then have "map_res (\<lambda>y. predict_typed (cell_table beta) y v) ys =
      map_res (\<lambda>y. Inr (typed_values (cell_table beta) y v)) ys"
    by (intro map_res_cong_set)
       (auto simp: reads_text_iff [OF assms] predict_typed_def)
  with False show ?thesis
    by (simp add: predict_series_dyn_typed assms comp_def)
qed

theorem predict_series_dyn_by_kind_witness:
  "predict_series_dyn ''pdiabe'' example_levels
     (zip (df_index example_text_frame) [Str ''10'', Str ''1'', Str ''(omitted)'', Str ''-0.5'']) [2026] =
     Inl TypeError \<and>
   predict_series_dyn ''pdiabe'' example_levels
     [(''_cons'', Num (Fin 10)), (''ivparm1'', Num NaN)] [2026] = Inr ([Num NaN], [Num NaN])"
  using predict_series_dyn_by_kind [OF example_variant,
      of "zip (df_index example_text_frame) [Str ''10'', Str ''1'', Str ''(omitted)'', Str ''-0.5'']" "[2026]"]
    predict_series_dyn_by_kind [OF example_variant,
      of "[(''_cons'', Num (Fin 10)), (''ivparm1'', Num NaN)]" "[2026]"]
  by (simp add: example_reads_text)
     (simp add: reads_text_def typed_values_def single_keys_def cell_table_def show_int_eval
        del: key_name_fstrings)

end
