(* ===== verification/Emu_Dynamic_Handler.thy ===== *)
theory Emu_Dynamic_Handler
  imports Emu_Dynamic
begin

text \<open>
  The handler of the button of \<^verbatim>\<open>src/app.py\<close> once more, on tables as
  \<^verbatim>\<open>pd.read_csv\<close> can deliver them. \<open>store_results_dyn\<close>, \<open>sim_step_dyn\<close> and
  \<open>run_simulation_dyn\<close> translate the same statements as their counterparts of
  \<open>Emu_Simulation\<close>, over the year loop of \<open>Emu_Dynamic\<close> and with \<open>py_sub\<close>
  for the difference. \<open>run_shown_dyn\<close> is the handler with the messages it
  has put on the page when it ends, normally or with an exception. The lemmas
  show that on tables of numbers the handler is the handler of
  \<open>Emu_Simulation\<close>, when a run ends with \<^verbatim>\<open>TypeError\<close>, which messages are on
  the page then, and that the results frame of a run that ends normally holds
  numbers only.
\<close>

section \<open>The handler on cells\<close>

definition diff_values_dyn :: "cell list \<Rightarrow> cell list \<Rightarrow> cell list result" where
  "diff_values_dyn intervention_values baseline_values =
     map_res (\<lambda>(i, b). py_sub i b) (zip intervention_values baseline_values)"

record dyn_state =
  dyn_results :: "(nat, cell) frame"
  dyn_errors :: "string list"
  dyn_valid_plot :: bool

definition init_state_dyn :: "int list \<Rightarrow> dyn_state" where
  "init_state_dyn year_range =
     \<lparr>dyn_results = \<lparr>df_index = [0..<length year_range],
                      df_columns = [(''Year'', map (\<lambda>y. Num (Fin (of_int y))) year_range)]\<rparr>,
      dyn_errors = [], dyn_valid_plot = False\<rparr>"

definition store_results_dyn :: "string \<Rightarrow> cell list \<Rightarrow> cell list \<Rightarrow> (nat, cell) frame \<Rightarrow>
    (nat, cell) frame result" where
  "store_results_dyn display_name baseline_values intervention_values df =
     bind_res (assign_column df (baseline_col display_name) baseline_values) (\<lambda>df.
     bind_res (assign_column df (intervention_col display_name) intervention_values) (\<lambda>df.
     bind_res (diff_values_dyn intervention_values baseline_values) (\<lambda>diff.
     bind_res (assign_column df (baseline_col display_name) baseline_values) (\<lambda>df.
     bind_res (assign_column df (intervention_col display_name) intervention_values) (\<lambda>df.
       assign_column df (change_col display_name) diff)))))"

definition sim_step_dyn :: "cell_frame pydict \<Rightarrow> real pydict \<Rightarrow> string \<Rightarrow> int list \<Rightarrow> string \<Rightarrow>
    dyn_state \<Rightarrow> dyn_state result" where
  "sim_step_dyn df_dict intervention_levels target year_range display_name st =
     bind_res (dict_index INTERVENTION_OPTIONS display_name) (\<lambda>key.
       case map_of df_dict key of
         None \<Rightarrow> Inr (st\<lparr>dyn_errors := dyn_errors st @ [dataset_error key]\<rparr>)
       | Some df \<Rightarrow>
           if \<not> has_column df target then
             Inr (st\<lparr>dyn_errors := dyn_errors st @ [column_error target key]\<rparr>)
           else
             bind_res (get_column df target) (\<lambda>beta.
             bind_res (predict_series_dyn key intervention_levels beta year_range) (\<lambda>vals.
             bind_res (store_results_dyn display_name (fst vals) (snd vals) (dyn_results st)) (\<lambda>df'.
               Inr (st\<lparr>dyn_results := df', dyn_valid_plot := True\<rparr>)))))"

definition run_simulation_dyn :: "cell_frame pydict \<Rightarrow> inputs \<Rightarrow> real pydict \<Rightarrow>
    dyn_state result" where
  "run_simulation_dyn df_dict inp intervention_levels =
     bind_res (dict_index OUTCOME_OPTIONS (selected_outcome inp)) (\<lambda>outcome_code.
     bind_res (dict_index SUBGROUP_OPTIONS (selected_subgroup inp)) (\<lambda>subgroup_code.
       let target = target_col outcome_code subgroup_code;
           year_range = year_range_of inp
       in fold_res (sim_step_dyn df_dict intervention_levels target year_range)
            (selected_interventions inp) (init_state_dyn year_range)))"

text \<open>
  What the handler has put on the page when it ends: the messages of its
  \<^verbatim>\<open>st.error\<close> calls, in the order of the calls, and the exception that ended
  it, if one did. A step calls \<^verbatim>\<open>st.error\<close> only where it continues, so the
  messages are those of the state the loop had reached.
\<close>

definition run_shown_dyn :: "cell_frame pydict \<Rightarrow> inputs \<Rightarrow> real pydict \<Rightarrow>
    string list \<times> py_error option" where
  "run_shown_dyn df_dict inp intervention_levels =
     (case dict_index OUTCOME_OPTIONS (selected_outcome inp) of
        Inl e \<Rightarrow> ([], Some e)
      | Inr outcome_code \<Rightarrow>
     (case dict_index SUBGROUP_OPTIONS (selected_subgroup inp) of
        Inl e \<Rightarrow> ([], Some e)
      | Inr subgroup_code \<Rightarrow>
       let target = target_col outcome_code subgroup_code;
           year_range = year_range_of inp;
           reached = fold_upto (sim_step_dyn df_dict intervention_levels target year_range)
             (selected_interventions inp) (init_state_dyn year_range)
       in (dyn_errors (fst reached), snd reached)))"

section \<open>Tables of numbers\<close>

text \<open>
  A table of reals as a table of cells: \<open>embed_frame\<close> on a frame, \<open>embed_dict\<close>
  on the loaded datasets, \<open>embed_state\<close> on the state of the handler.
\<close>

definition embed_frame :: "('i, real) frame \<Rightarrow> ('i, cell) frame" where
  "embed_frame = apply_columns (map embed)"

definition embed_state :: "sim_state \<Rightarrow> dyn_state" where
  "embed_state st =
     \<lparr>dyn_results = embed_frame (results_df st), dyn_errors = errors st,
      dyn_valid_plot = valid_plot st\<rparr>"

definition embed_dict :: "coef_frame pydict \<Rightarrow> cell_frame pydict" where
  "embed_dict df_dict = map (\<lambda>(key, df). (key, embed_frame df)) df_dict"

section \<open>Tables with text\<close>

text \<open>
  \<open>hits_text\<close>: the selected intervention is usable (\<open>classify\<close> of
  \<open>Emu_Simulation\<close>) and its column is read at a string. \<open>dyn_inv n\<close>: the
  results frame has \<open>n\<close> rows. \<open>all_numbers\<close>: every cell of a frame is a
  number; \<open>numbers_inv n\<close>: the results frame is well formed, has the rows
  \<open>0, \<dots>, n - 1\<close> and holds numbers only.
\<close>

definition hits_text :: "cell_frame pydict \<Rightarrow> string \<Rightarrow> int list \<Rightarrow> string \<Rightarrow> bool" where
  "hits_text df_dict target year_range display_name =
     (case classify df_dict target display_name of
        Usable key beta \<Rightarrow> reads_text key beta year_range
      | _ \<Rightarrow> False)"

definition dyn_inv :: "nat \<Rightarrow> dyn_state \<Rightarrow> bool" where
  "dyn_inv n st \<longleftrightarrow> length (df_index (dyn_results st)) = n"

definition all_numbers :: "(nat, cell) frame \<Rightarrow> bool" where
  "all_numbers df \<longleftrightarrow> list_all (\<lambda>cv. list_all is_num (snd cv)) (df_columns df)"

definition numbers_inv :: "nat \<Rightarrow> dyn_state \<Rightarrow> bool" where
  "numbers_inv n st \<longleftrightarrow>
     wf_frame (dyn_results st) \<and> all_numbers (dyn_results st) \<and>
     df_index (dyn_results st) = [0..<n]"

section \<open>Storing the results\<close>

lemma diff_values_dyn_ok:
  assumes "list_all is_num is" "list_all is_num bs"
  shows "\<exists>diff. diff_values_dyn is bs = Inr diff \<and> length diff = min (length is) (length bs)"
proof -
  have "\<exists>ys. map_res (\<lambda>(i, b). py_sub i b) (zip is bs) = Inr ys \<and>
      length ys = length (zip is bs) \<and> list_all (\<lambda>c. True) ys"
  proof (rule map_res_ok)
    fix p assume "p \<in> set (zip is bs)"
    moreover obtain i b where p: "p = (i, b)" by (cases p)
    ultimately have "is_num i" "is_num b"
      using assms by (auto simp: list_all_iff dest: set_zip_leftD set_zip_rightD)
    with p show "\<exists>c. (case p of (i, b) \<Rightarrow> py_sub i b) = Inr c \<and> True"
      by (cases i; cases b) simp_all
  qed
  then show ?thesis
    by (auto simp: diff_values_dyn_def)
qed

lemma store_results_dyn_ok:
  assumes "length bs = length (df_index df)" "length is = length (df_index df)"
    and "list_all is_num is" "list_all is_num bs"
  shows "\<exists>df'. store_results_dyn d bs is df = Inr df' \<and> df_index df' = df_index df"
proof -
  from diff_values_dyn_ok [OF assms(3,4)] assms(1,2)
  obtain diff where "diff_values_dyn is bs = Inr diff" "length diff = length (df_index df)"
    by auto
  with assms(1,2) show ?thesis
    by (simp add: store_results_dyn_def assign_column_def)
qed

lemma diff_values_dyn_Inr:
  assumes "diff_values_dyn is bs = Inr diff"
  shows "length diff = min (length is) (length bs) \<and> list_all is_num diff"
proof -
  have "is_num c" if "(case p of (i, b) \<Rightarrow> py_sub i b) = Inr c" for p c
    using that by (auto simp: py_sub_Num_iff split: prod.splits)
  with map_res_Inr_all [OF assms [unfolded diff_values_dyn_def], of is_num]
  show ?thesis by simp
qed

lemma all_numbers_set_column:
  "all_numbers df \<Longrightarrow> list_all is_num vs \<Longrightarrow> all_numbers (set_column df c vs)"
  by (simp add: all_numbers_def set_column_def list_all_update)

lemma store_results_dyn_numbers:
  assumes "store_results_dyn d bs is df = Inr df'"
    and "wf_frame df" "all_numbers df" "list_all is_num bs" "list_all is_num is"
  shows "wf_frame df' \<and> all_numbers df' \<and> df_index df' = df_index df"
proof -
  from assms(1) obtain diff where diff: "diff_values_dyn is bs = Inr diff"
    and len: "length bs = length (df_index df)" "length is = length (df_index df)"
      "length diff = length (df_index df)"
    and df': "df' = set_column (set_column (set_column (set_column (set_column df
        (baseline_col d) bs) (intervention_col d) is) (baseline_col d) bs)
        (intervention_col d) is) (change_col d) diff"
    by (auto simp: store_results_dyn_def assign_column_def bind_res_eq_Inr_iff
        split: if_splits)
  from diff_values_dyn_Inr [OF diff] have "list_all is_num diff" by simp
  with assms(2-5) len show ?thesis
    unfolding df' by (simp add: wf_frame_set_column all_numbers_set_column)
qed

section \<open>The handler on tables of numbers\<close>

lemma diff_values_dyn_embed:
  "diff_values_dyn (map embed is) (map embed bs) = Inr (map embed (diff_values is bs))"
  unfolding diff_values_dyn_def diff_values_def
  by (induction "is" bs rule: list_induct2') (simp_all add: embed_def)

lemma store_results_dyn_embed:
  "store_results_dyn d (map embed bs) (map embed is) (embed_frame df) =
     map_sum id embed_frame (store_results d bs is df)"
  unfolding store_results_dyn_def store_results_def embed_frame_def
  by (simp add: assign_column_def set_column_apply [symmetric] diff_values_dyn_embed Let_def)

lemma map_of_embed_dict:
  "map_of (embed_dict df_dict) key = map_option embed_frame (map_of df_dict key)"
  by (simp add: embed_dict_def map_of_map_values)

lemma sim_step_dyn_classify:
  "sim_step_dyn df_dict lv target ys d st =
     (case classify df_dict target d of
        Unknown \<Rightarrow> Inl (KeyError d)
      | NoDataset key \<Rightarrow> Inr (st\<lparr>dyn_errors := dyn_errors st @ [dataset_error key]\<rparr>)
      | NoColumn key \<Rightarrow> Inr (st\<lparr>dyn_errors := dyn_errors st @ [column_error target key]\<rparr>)
      | Usable key beta \<Rightarrow>
          bind_res (predict_series_dyn key lv beta ys) (\<lambda>vals.
          bind_res (store_results_dyn d (fst vals) (snd vals) (dyn_results st)) (\<lambda>df'.
            Inr (st\<lparr>dyn_results := df', dyn_valid_plot := True\<rparr>))))"
  by (simp add: sim_step_dyn_def classify_def dict_index_def has_column_iff get_column_def
      split: option.splits)

lemma classify_embed_dict:
  "classify (embed_dict df_dict) target d =
     (case classify df_dict target d of
        Unknown \<Rightarrow> Unknown
      | NoDataset key \<Rightarrow> NoDataset key
      | NoColumn key \<Rightarrow> NoColumn key
      | Usable key beta \<Rightarrow> Usable key (map (\<lambda>(i, v). (i, embed v)) beta))"
  by (simp add: classify_def map_of_embed_dict embed_frame_def map_of_apply_columns zip_map2
      split_def split: option.splits)

lemma sim_step_dyn_embed:
  "sim_step_dyn (embed_dict df_dict) lv target ys d (embed_state st) =
     map_sum id embed_state (sim_step df_dict lv target ys d st)"
proof (cases "classify df_dict target d")
  case (Usable key beta)
  show ?thesis
  proof (cases "predict_series key lv beta ys")
    case (Inl e)
    with Usable show ?thesis
      by (simp add: sim_step_dyn_classify sim_step_classify classify_embed_dict
          predict_series_dyn_embed)
  next
    case (Inr vals)
    with Usable show ?thesis
      by (cases "store_results d (fst vals) (snd vals) (results_df st)")
         (simp_all add: sim_step_dyn_classify sim_step_classify classify_embed_dict
           predict_series_dyn_embed split_beta embed_state_def
           store_results_dyn_embed [unfolded embed_frame_def] embed_frame_def)
  qed
qed (simp_all add: sim_step_dyn_classify sim_step_classify classify_embed_dict embed_state_def)

lemma init_state_dyn_embed: "init_state_dyn ys = embed_state (init_state ys)"
  by (simp add: init_state_dyn_def init_state_def init_results_def embed_state_def
      embed_frame_def apply_columns_def embed_def comp_def)

lemma fold_sim_step_dyn_embed:
  "fold_res (sim_step_dyn (embed_dict df_dict) lv target ys) ds (embed_state st) =
     map_sum id embed_state (fold_res (sim_step df_dict lv target ys) ds st)"
  by (simp add: fold_res_refine [where f = "sim_step df_dict lv target ys"] sim_step_dyn_embed)

section \<open>The handler on tables with text\<close>

lemma sim_step_dyn_cases:
  assumes "d \<in> set (dict_keys INTERVENTION_OPTIONS)" "covers lv d" "dyn_inv (length ys) st"
  shows "if hits_text df_dict target ys d
     then sim_step_dyn df_dict lv target ys d st = Inl TypeError
     else \<exists>st'. sim_step_dyn df_dict lv target ys d st = Inr st' \<and> dyn_inv (length ys) st' \<and>
       dyn_errors st' = dyn_errors st @ step_message target (classify df_dict target d) \<and>
       (dyn_valid_plot st' \<longleftrightarrow> dyn_valid_plot st \<or> is_usable (classify df_dict target d))"
proof (cases "classify df_dict target d")
  case Unknown
  with assms(1) show ?thesis by (simp add: classify_Unknown_iff)
next
  case (NoDataset key)
  with assms(3) show ?thesis
    by (simp add: hits_text_def sim_step_dyn_classify dyn_inv_def is_usable_def)
next
  case (NoColumn key)
  with assms(3) show ?thesis
    by (simp add: hits_text_def sim_step_dyn_classify dyn_inv_def is_usable_def)
next
  case (Usable key beta)
  from classify_Usable_key [OF Usable] assms(2)
  have "set (level_keys key) \<subseteq> set (dict_keys lv)"
    by (simp add: covers_iff)
  then obtain v where v: "select_variant key lv = Inr v"
    using select_variant_ok by blast
  show ?thesis
  proof (cases "reads_text key beta ys")
    case True
    with Usable predict_series_dyn_raises [OF v, of beta ys TypeError] show ?thesis
      by (simp add: hits_text_def sim_step_dyn_classify)
  next
    case False
    from predict_series_dyn_ok [OF v False] obtain bs "is" where
      vals: "predict_series_dyn key lv beta ys = Inr (bs, is)"
      "length bs = length ys" "length is = length ys" "list_all is_num bs" "list_all is_num is"
      by blast
    with assms(3) store_results_dyn_ok [of bs "dyn_results st" "is" d]
    obtain df' where "store_results_dyn d bs is (dyn_results st) = Inr df'"
      "df_index df' = df_index (dyn_results st)"
      by (auto simp: dyn_inv_def)
    with False Usable vals(1) assms(3) show ?thesis
      by (simp add: hits_text_def sim_step_dyn_classify dyn_inv_def is_usable_def)
  qed
qed

lemma fold_sim_step_dyn_cases:
  assumes "set ds \<subseteq> set (dict_keys INTERVENTION_OPTIONS)" "\<forall>d \<in> set ds. covers lv d"
    and "dyn_inv (length ys) st"
  shows "if list_ex (hits_text df_dict target ys) ds
     then fold_res (sim_step_dyn df_dict lv target ys) ds st = Inl TypeError
     else \<exists>st'. fold_res (sim_step_dyn df_dict lv target ys) ds st = Inr st' \<and>
       dyn_errors st' =
         dyn_errors st @ concat (map (\<lambda>d. step_message target (classify df_dict target d)) ds) \<and>
       (dyn_valid_plot st' \<longleftrightarrow>
          dyn_valid_plot st \<or> list_ex (\<lambda>d. is_usable (classify df_dict target d)) ds)"
  using assms
proof (induction ds arbitrary: st)
  case Nil
  show ?case by simp
next
  case (Cons d ds)
  from Cons.prems have d: "d \<in> set (dict_keys INTERVENTION_OPTIONS)" "covers lv d" by simp_all
  show ?case
  proof (cases "hits_text df_dict target ys d")
    case True
    with sim_step_dyn_cases [OF d Cons.prems(3), of df_dict target] show ?thesis by simp
  next
    case False
    with sim_step_dyn_cases [OF d Cons.prems(3), of df_dict target] obtain st1 where
      st1: "sim_step_dyn df_dict lv target ys d st = Inr st1" "dyn_inv (length ys) st1"
        "dyn_errors st1 = dyn_errors st @ step_message target (classify df_dict target d)"
        "dyn_valid_plot st1 \<longleftrightarrow> dyn_valid_plot st \<or> is_usable (classify df_dict target d)"
      by auto
    from Cons.IH [OF _ _ st1(2)] Cons.prems(1,2) st1 False show ?thesis
      by (auto split: if_splits)
  qed
qed

text \<open>The exception of \<open>run_shown_dyn\<close> is the exception of the handler.\<close>

lemma run_simulation_dyn_shown:
  "run_simulation_dyn df_dict inp lv = Inl e \<longleftrightarrow> snd (run_shown_dyn df_dict inp lv) = Some e"
  by (cases "map_of OUTCOME_OPTIONS (selected_outcome inp)";
      cases "map_of SUBGROUP_OPTIONS (selected_subgroup inp)")
    (auto simp: run_simulation_dyn_def run_shown_dyn_def dict_index_def Let_def fold_res_upto
      split: option.splits)

section \<open>The results frame holds numbers\<close>

lemma sim_step_dyn_numbers:
  assumes "sim_step_dyn df_dict lv target ys d st = Inr st'" "numbers_inv (length ys) st"
  shows "numbers_inv (length ys) st'"
proof (cases "classify df_dict target d")
  case (Usable key beta)
  with assms(1) obtain vals where vals: "predict_series_dyn key lv beta ys = Inr vals"
    and store: "store_results_dyn d (fst vals) (snd vals) (dyn_results st) = Inr (dyn_results st')"
    by (auto simp: sim_step_dyn_classify bind_res_eq_Inr_iff)
  from predict_series_dyn_Inr [OF vals] store_results_dyn_numbers [OF store] assms(2)
  show ?thesis by (simp add: numbers_inv_def)
qed (use assms in \<open>auto simp: sim_step_dyn_classify numbers_inv_def\<close>)

lemma numbers_inv_init: "numbers_inv (length ys) (init_state_dyn ys)"
  by (simp add: numbers_inv_def init_state_dyn_def wf_frame_def all_numbers_def list_all_iff)

section \<open>The examples, evaluated\<close>

lemma example_hits_text:
  "hits_text [(''pdiabe'', example_text_frame)] ''n_startpop_all'' [2026]
     ''Diabetes Incidence Reduction''"
  using example_reads_text
  by (simp add: hits_text_def classify_def INTERVENTION_OPTIONS_def example_text_frame_def)

lemma example_hits_text_second:
  "hits_text [(''phearte'', example_text_frame)] ''n_startpop_all'' [2026]
     ''Heart Disease Incidence Reduction''"
  using example_reads_text
  by (simp add: hits_text_def classify_def INTERVENTION_OPTIONS_def example_text_frame_def
      reads_text_def)

lemma example_run_dyn:
  "run_simulation_dyn (embed_dict example_df_dict) example_inputs example_levels =
     Inr (embed_state example_state)"
proof -
  have "run_simulation_dyn (embed_dict example_df_dict) example_inputs example_levels =
      map_sum id embed_state (run_simulation example_df_dict example_inputs example_levels)"
    unfolding run_simulation_dyn_def run_simulation_def Let_def init_state_dyn_embed
    by (simp add: map_sum_bind_res fold_sim_step_dyn_embed)
  then show ?thesis by (simp add: example_run)
qed

section \<open>Properties of the handler on tables as they are loaded\<close>

text \<open>
  C31. One string stops the whole run: for answers the widgets can give, the
  handler on tables of cells ends with \<^verbatim>\<open>TypeError\<close> if some selected
  intervention has a loaded dataset with the selected column and the year loop
  reads a string from that column, whatever the other selected interventions
  are; if there is no such intervention the handler raises nothing, leaves the
  messages of the unusable interventions in the order of the selection, and
  sets \<^verbatim>\<open>valid_plot\<close> if and only if some selected intervention is usable.
\<close>

theorem type_error_iff_text_is_read:
  assumes "wf_inputs inp" "build_levels inp = Inr lv"
    and codes: "map_of OUTCOME_OPTIONS (selected_outcome inp) = Some oc"
      "map_of SUBGROUP_OPTIONS (selected_subgroup inp) = Some sc"
  shows "if list_ex (hits_text df_dict (target_col oc sc) (year_range_of inp))
        (selected_interventions inp)
     then run_simulation_dyn df_dict inp lv = Inl TypeError
     else \<exists>st. run_simulation_dyn df_dict inp lv = Inr st \<and>
       dyn_errors st = concat (map (\<lambda>d. step_message (target_col oc sc)
         (classify df_dict (target_col oc sc) d)) (selected_interventions inp)) \<and>
       (dyn_valid_plot st \<longleftrightarrow> list_ex (\<lambda>d. is_usable (classify df_dict (target_col oc sc) d))
         (selected_interventions inp))"
proof -
  from assms(1,2) have "\<forall>d \<in> set (selected_interventions inp). covers lv d"
    by (auto elim: wf_inputs_levels)
  moreover from assms(1)
  have "set (selected_interventions inp) \<subseteq> set (dict_keys INTERVENTION_OPTIONS)"
    by (simp add: wf_inputs_iff)
  moreover have "dyn_inv (length (year_range_of inp)) (init_state_dyn (year_range_of inp))"
    by (simp add: dyn_inv_def init_state_dyn_def)
  moreover have "dyn_errors (init_state_dyn ys) = []" "\<not> dyn_valid_plot (init_state_dyn ys)"
    for ys
    by (simp_all add: init_state_dyn_def)
  moreover have "run_simulation_dyn df_dict inp lv =
      fold_res (sim_step_dyn df_dict lv (target_col oc sc) (year_range_of inp))
        (selected_interventions inp) (init_state_dyn (year_range_of inp))"
    by (simp add: run_simulation_dyn_def dict_index_def codes Let_def)
  ultimately show ?thesis
    using fold_sim_step_dyn_cases [of "selected_interventions inp" lv "year_range_of inp"
        "init_state_dyn (year_range_of inp)" df_dict "target_col oc sc"]
    by (cases "list_ex (hits_text df_dict (target_col oc sc) (year_range_of inp))
        (selected_interventions inp)") simp_all
qed

theorem type_error_iff_text_is_read_witness:
  "run_simulation_dyn [(''pdiabe'', example_text_frame)] example_inputs example_levels =
     Inl TypeError"
  using type_error_iff_text_is_read [OF wf_inputs_example example_build_levels example_codes,
      of "[(''pdiabe'', example_text_frame)]"]
  by (simp add: example_year_range example_fields example_target example_hits_text)

text \<open>
  C19. What is on the page when the handler raises: for answers the widgets can
  give, the handler has shown the messages of the unusable interventions
  selected before the first selected intervention whose column is read at a
  string, in the order of the selection, and of none selected after it; it
  ends with \<^verbatim>\<open>TypeError\<close> if there is such an intervention and without an
  exception otherwise.
\<close>

theorem messages_before_the_exception:
  assumes "wf_inputs inp" "build_levels inp = Inr lv"
    and codes: "map_of OUTCOME_OPTIONS (selected_outcome inp) = Some oc"
      "map_of SUBGROUP_OPTIONS (selected_subgroup inp) = Some sc"
  shows "run_shown_dyn df_dict inp lv =
     (concat (map (\<lambda>d. step_message (target_col oc sc) (classify df_dict (target_col oc sc) d))
        (takeWhile (\<lambda>d. \<not> hits_text df_dict (target_col oc sc) (year_range_of inp) d)
           (selected_interventions inp))),
      if list_ex (hits_text df_dict (target_col oc sc) (year_range_of inp))
           (selected_interventions inp)
      then Some TypeError else None)"
proof -
  let ?ys = "year_range_of inp" and ?t = "target_col oc sc"
  let ?before = "takeWhile (\<lambda>d. \<not> hits_text df_dict ?t ?ys d) (selected_interventions inp)"
  from assms(1,2) have cov: "\<forall>d \<in> set (selected_interventions inp). covers lv d"
    by (auto elim: wf_inputs_levels)
  from assms(1) have known: "set (selected_interventions inp) \<subseteq> set (dict_keys INTERVENTION_OPTIONS)"
    by (simp add: wf_inputs_iff)
  have init: "dyn_inv (length ?ys) (init_state_dyn ?ys)" "dyn_errors (init_state_dyn ?ys) = []"
    by (simp_all add: dyn_inv_def init_state_dyn_def)
  have "if hits_text df_dict ?t ?ys d then sim_step_dyn df_dict lv ?t ?ys d s = Inl TypeError
      else \<exists>s'. sim_step_dyn df_dict lv ?t ?ys d s = Inr s' \<and> dyn_inv (length ?ys) s'"
    if "d \<in> set (selected_interventions inp)" "dyn_inv (length ?ys) s" for d s
  proof -
    from that(1) known cov have "d \<in> set (dict_keys INTERVENTION_OPTIONS)" "covers lv d"
      by auto
    from sim_step_dyn_cases [OF this that(2), of df_dict ?t] show ?thesis
      by (auto split: if_splits)
  qed
  from fold_upto_first_raise [of "selected_interventions inp" "dyn_inv (length ?ys)"
      "hits_text df_dict ?t ?ys" "sim_step_dyn df_dict lv ?t ?ys" TypeError, OF this init(1)]
  obtain st where st: "fold_res (sim_step_dyn df_dict lv ?t ?ys) ?before (init_state_dyn ?ys) = Inr st"
    "fold_upto (sim_step_dyn df_dict lv ?t ?ys) (selected_interventions inp) (init_state_dyn ?ys) =
       (st, if list_ex (hits_text df_dict ?t ?ys) (selected_interventions inp)
            then Some TypeError else None)"
    by auto
  have "\<not> list_ex (hits_text df_dict ?t ?ys) ?before"
    by (auto simp: list_ex_iff dest: set_takeWhileD)
  with fold_sim_step_dyn_cases [of ?before lv ?ys "init_state_dyn ?ys" df_dict ?t] known cov init st(1)
  have "dyn_errors st = concat (map (\<lambda>d. step_message ?t (classify df_dict ?t d)) ?before)"
    by (auto dest: set_takeWhileD)
  with st(2) show ?thesis
    by (simp add: run_shown_dyn_def dict_index_def codes Let_def)
qed

theorem messages_before_the_exception_witness:
  "run_shown_dyn [(''phearte'', example_text_frame)] example_inputs example_levels =
     ([''Dataset for pdiabe not loaded.''], Some TypeError)"
proof -
  let ?dict = "[(''phearte'', example_text_frame)]"
  have "classify ?dict ''n_startpop_all'' ''Diabetes Incidence Reduction'' = NoDataset ''pdiabe''"
    by (simp add: classify_def INTERVENTION_OPTIONS_def)
  moreover from this
  have "\<not> hits_text ?dict ''n_startpop_all'' [2026] ''Diabetes Incidence Reduction''"
    by (simp add: hits_text_def)
  ultimately show ?thesis
    using messages_before_the_exception [OF wf_inputs_example example_build_levels example_codes,
        of ?dict]
    by (simp add: example_year_range example_fields example_target example_hits_text_second
        dataset_error_def)
qed

text \<open>
  C37. On tables of numbers the handler on cells is the handler on reals: for
  every state of the loaded datasets, every answer of the widgets and every
  level dictionary, running the handler on the datasets with each real read as
  a cell gives the result of the handler of \<open>Emu_Simulation\<close>, the same
  exception or the same final state with each real read as a cell.
\<close>

theorem handler_on_numbers:
  "run_simulation_dyn (embed_dict df_dict) inp lv =
     map_sum id embed_state (run_simulation df_dict inp lv)"
  unfolding run_simulation_dyn_def run_simulation_def Let_def init_state_dyn_embed
  by (simp add: map_sum_bind_res fold_sim_step_dyn_embed)

text \<open>
  C28. The charts read numbers: whatever the loaded tables hold, the results
  frame of a run that ended normally is well formed, has one row per year of
  the range, and every cell of every column of it is a number (\<^verbatim>\<open>NaN\<close>
  included). A string of a loaded table is either never read or ends the run;
  it does not reach a chart.
\<close>

theorem results_hold_numbers:
  assumes "run_simulation_dyn df_dict inp lv = Inr st"
  shows "wf_frame (dyn_results st) \<and> all_numbers (dyn_results st) \<and>
     df_index (dyn_results st) = [0..<length (year_range_of inp)]"
proof -
  from assms obtain t where "fold_res (sim_step_dyn df_dict lv t (year_range_of inp))
      (selected_interventions inp) (init_state_dyn (year_range_of inp)) = Inr st"
    by (auto simp: run_simulation_dyn_def bind_res_eq_Inr_iff Let_def)
  then have "numbers_inv (length (year_range_of inp)) st"
    by (rule fold_res_invariant [where P = "numbers_inv (length (year_range_of inp))"])
      (auto intro: numbers_inv_init sim_step_dyn_numbers)
  then show ?thesis by (simp add: numbers_inv_def)
qed

theorem results_hold_numbers_witness:
  "wf_frame (dyn_results (embed_state example_state)) \<and>
   all_numbers (dyn_results (embed_state example_state)) \<and>
   df_index (dyn_results (embed_state example_state)) =
     [0..<length (year_range_of example_inputs)]"
  by (rule results_hold_numbers [OF example_run_dyn])

end
