(* ===== verification/Spec2Isabelle.thy ===== *)
theory Spec2Isabelle
  imports Emu_Pipeline Emu_Dynamic_Handler
begin

text \<open>
  \<^bold>\<open>Verification development for the emulator interface\<close>
  (\<^verbatim>\<open>src/app.py\<close>, \<^verbatim>\<open>src/clean_data.py\<close>).

  \<^bold>\<open>The program.\<close> \<^verbatim>\<open>src/app.py\<close> is a Streamlit script. At start it loads up to
  four tables of regression coefficients (\<^verbatim>\<open>load_cleaned_data\<close>), one per
  intervention code, each a frame whose rows are coefficient names and whose
  columns are selection keys \<^verbatim>\<open>outcome_subgroup\<close>. It configures the page and
  builds the sidebar, which yields an outcome, a subgroup, a list of
  interventions, a year range and one or two levels per intervention (the
  dictionary \<^verbatim>\<open>intervention_levels\<close>). When the button is pressed, the handler
  walks over the selected interventions; for each it looks the dataset and the
  column up, reports and skips what is missing, and otherwise evaluates a linear
  model for every second year of the range, once at level 1 (baseline) and once
  at the selected levels (intervention); the two series and their difference
  become three columns of a results frame. If no intervention was usable the
  script stops, otherwise it draws two charts from the results frame.
  \<^verbatim>\<open>src/clean_data.py\<close> is the offline script that produces the cleaned tables
  from spreadsheet exports: it strips the export's wrappers from labels and
  cells, converts the columns to numbers, writes one file per dataset and
  prints a report of each table written.

  \<^bold>\<open>The theories\<close>, in import order:
  \<^item> \<open>Emu_Prelude\<close>: the collection \<open>emu_inv\<close>; exceptions as values (\<open>py_error\<close>,
    \<open>'a result = py_error + 'a\<close>, \<open>bind_res\<close>); a loop whose body may raise
    (\<open>fold_res\<close>) with its invariant, totality, refinement and collection
    rules; a loop of statements with effects, whose steps return the state
    they leave and the exception they raised, if any (\<open>fold_exc\<close>), with its
    invariant rule and the rule that it simulates a loop \<open>fold_res\<close>; a list
    comprehension whose element may raise (\<open>map_res\<close>); Python's
    \<^verbatim>\<open>dict\<close> as an insertion-ordered association list (\<open>dict_index\<close> for
    \<^verbatim>\<open>d[k]\<close>, \<open>dict_set\<close>, \<open>dict_keys\<close>); list lemmas on separators and on
    concatenations without repetition.
  \<^item> \<open>Py_Builtins\<close>: the built-ins the sources call: \<^verbatim>\<open>str.strip\<close>,
    \<^verbatim>\<open>startswith\<close>, \<^verbatim>\<open>endswith\<close>, slices, \<^verbatim>\<open>str(int)\<close> (\<open>show_int\<close>, with its
    reader \<open>read_int\<close>) and \<^verbatim>\<open>range\<close> (\<open>py_range\<close>, a \<^theory_text>\<open>function\<close> whose
    termination is proved by the measure \<open>stop - i\<close>).
  \<^item> \<open>Py_Values\<close>: the values of a cell. A \<open>number\<close> is a real or \<^verbatim>\<open>NaN\<close>
    (an instance of the classes of commutative monoids and semirings, with
    \<^verbatim>\<open>NaN\<close> absorbing), a \<open>cell\<close> a string or a number; \<open>py_add\<close>, \<open>py_mul\<close>
    and \<open>py_sub\<close> are the operators \<^verbatim>\<open>+\<close>, \<^verbatim>\<open>*\<close> and \<^verbatim>\<open>-\<close> with the
    \<^verbatim>\<open>TypeError\<close> they raise on strings, \<open>add_res\<close> and \<open>mul_res\<close> the
    operators on operands that may raise.
  \<^item> \<open>Emu_Frame\<close>: pandas as data. \<open>series\<close> with \<open>series_get\<close> for
    \<^verbatim>\<open>beta.get(name, 0)\<close>; the record \<open>frame\<close> with \<open>has_column\<close>, \<open>get_column\<close>,
    \<open>set_column\<close>, \<open>assign_column\<close>, \<open>rename_columns\<close>, \<open>applymap\<close>, the
    operations the report of the cleaning script reads a table with
    (\<open>frame_shape\<close>, \<open>frame_head\<close>, \<open>apply_columns\<close>, \<open>columns_where\<close>,
    \<open>py_unique\<close>) and the well-formedness \<open>wf_frame\<close>.
  \<^item> \<open>Emu_Predictor\<close>: the core. \<open>predict_year\<close> is the body of the year loop
    (\<^verbatim>\<open>app.py\<close>, \<^verbatim>\<open>for year in year_range\<close>), \<open>predict_series\<close> the loop,
    \<open>diff_values\<close> the list of differences. The contract of the specification
    stands beside it: \<open>coef_key\<close> with \<open>key_name\<close> and \<open>parse_key\<close>,
    \<open>coefficient\<close> (lookup with default 0), \<open>value_single\<close>, \<open>value_two\<close>,
    \<open>predict_spec\<close>, and \<open>select_variant\<close> for the rule that \<^verbatim>\<open>pcogstate\<close> alone
    takes the two-level formula. The lemmas prove that the loop implements the
    contract (C1), the zero default (C2), which coefficients a variant reads (C3),
    that the order of the years does not matter (C8), a bound on the change (C9), the reduction of the
    two-level to the single-level formula (C10), the \<^verbatim>\<open>KeyError\<close> of a missing
    level (C11) and the value of the specification's two-level example (C21).
  \<^item> \<open>Emu_Config\<close>: the four constant tables, \<open>load_cleaned_data\<close> over a file
    system given as a function from paths to frames, \<open>target_col\<close>, and the
    sidebar. A \<open>widget\<close> is a call of \<^verbatim>\<open>st.sidebar\<close> with its arguments
    (\<open>outcome_box\<close>, \<open>subgroup_box\<close>, \<open>intervention_select\<close>, \<open>year_slider\<close>,
    \<open>level_sliders\<close>, \<open>run_button\<close>), an \<open>answer\<close> what it returns,
    \<open>valid_answer\<close> what Streamlit promises of the answer. The record \<open>inputs\<close>
    holds the variables the answers are assigned to; \<open>build_levels\<close> is the
    loop that fills \<^verbatim>\<open>intervention_levels\<close>, \<open>sidebar_widgets\<close> the widgets a
    run creates, in order. \<open>wf_inputs\<close> says that the variables hold, for every
    widget the script can create, an answer that widget can give. The lemmas
    prove that the selection key determines outcome and subgroup (C13), what
    the loader binds, that the sidebar provides every level the year loop
    reads (C15), and that no two widgets of a run share a label (C18).
  \<^item> \<open>Emu_Simulation\<close>: the button handler. The record \<open>sim_state\<close> holds
    \<^verbatim>\<open>results_df\<close>, the messages of \<^verbatim>\<open>st.error\<close> and \<^verbatim>\<open>valid_plot\<close>; \<open>sim_step\<close> is
    one iteration of \<^verbatim>\<open>for display_name in selected_interventions\<close> with its two
    \<^verbatim>\<open>continue\<close> branches, \<open>store_results\<close> the five column assignments,
    \<open>run_simulation\<close> the handler up to the loop's end. \<open>classify\<close> names the four
    cases of a step. The lemmas prove the values the frame ends with (C4), the
    reported skip (C5), change consistency (C6), the frame invariant (C16), when
    the run stops (C17) and the shape of the year range (C20). The loop is also given as a transition system, the inductive
    predicate \<open>reachable\<close>; its invariants are proved by rule induction and
    give that the flag and the columns of the frame agree (C40).
  \<^item> \<open>Emu_Dynamic\<close>: the year loop a second time, on a column as
    \<^verbatim>\<open>pd.read_csv\<close> can deliver it, whose cells are numbers, \<^verbatim>\<open>NaN\<close> or
    strings. \<open>predict_year_dyn\<close> and \<open>predict_series_dyn\<close> translate the
    statements their counterparts translate, with the operators of
    \<open>Py_Values\<close>. \<open>predict_typed\<close> and \<open>typed_values\<close> say what a year
    returns by the kinds of the cells it reads, \<open>reads_text\<close> that the loop
    reads a string. The lemmas prove what the year loop returns by the kinds
    of the cells (C12).
  \<^item> \<open>Emu_Dynamic_Handler\<close>: the handler a second time, on tables of such
    columns. \<open>store_results_dyn\<close>, \<open>sim_step_dyn\<close> and \<open>run_simulation_dyn\<close>
    translate the statements their counterparts translate; the state is the
    record \<open>dyn_state\<close>. \<open>embed_dict\<close> and \<open>embed_state\<close> read tables and
    states of reals as tables and states of cells, \<open>hits_text\<close> says that
    the column of a selected intervention is read at a string.
    \<open>run_shown_dyn\<close> is the handler with what it has put on the page when it
    ends: the messages of its \<^verbatim>\<open>st.error\<close> calls and the exception, if one
    ended it (the loop \<open>fold_upto\<close> of the prelude keeps the state reached
    when a step raises). The lemmas prove that one string read ends the run
    with \<^verbatim>\<open>TypeError\<close> and that nothing else does, with the messages and the
    flag of a run that ends normally (C31), which messages are on the page
    when the run ends with the exception (C19), that the results frame the
    charts read holds numbers only (C28), and that on tables of numbers the
    handler on cells is the handler of \<open>Emu_Simulation\<close> (C37), which is what
    makes the theorems on reals theorems about the program.
  \<^item> \<open>Emu_Plot\<close>: the two charts. The records \<open>trace\<close>, \<open>layout\<close> (every
    argument of \<^verbatim>\<open>update_layout\<close>: \<open>legend\<close>, \<open>margin\<close>, \<open>font\<close>, \<open>axis\<close>) and
    \<open>figure\<close>; \<open>value_traces_step\<close> and \<open>change_traces_step\<close> are the bodies of
    the two loops over \<^verbatim>\<open>enumerate(selected_interventions)\<close>, \<open>add_trace\<close> the
    block they share, \<open>value_layout\<close> and \<open>change_layout\<close> the two layouts,
    \<open>value_chart\<close>, \<open>change_chart\<close> and \<open>draw_charts\<close> the loops and their
    composition. \<open>value_traces\<close> and \<open>change_traces\<close> give the traces of one
    intervention in closed form. The lemmas prove what each chart shows (C34,
    C35) and that the second chart is the difference of the first.
  \<^item> \<open>Emu_Interface\<close>: the Streamlit interface as the script meets it. A
    \<open>ui_call\<close> is a call of the interface with its arguments; the record
    \<open>ui_state\<close> is what the interface remembers of a run, \<open>ui_step\<close> accepts
    or refuses one call, and the inductive relation \<open>ui_run\<close> relates the
    states before and after a list of accepted calls. The lemmas, by induction
    over \<open>ui_run\<close>, show what acceptance means (\<open>ui_run_rules\<close>) and how
    accepted lists are composed.
  \<^item> \<open>Emu_App\<close>: a run of the module body. \<open>script\<close> composes loader, sidebar,
    handler and charts as the module runs them; its result is an \<open>outcome\<close>
    (idle, stopped with messages, or the final state with the two figures).
    \<open>page_setup\<close> are the calls before the first widget (\<open>sidebar_css\<close> is
    the style sheet), \<open>handler_calls\<close> the calls of the handler, \<open>render\<close>
    all calls of a run in order. The lemmas prove that the script raises
    nothing (C7), the calls of a run in closed form (C32), that the interface
    accepts them (C23), and that after the button every selected intervention
    is answered by a message or by a chart (C26).
  \<^item> \<open>Emu_Clean_Text\<close>: the two string functions of the cleaning script,
    \<open>clean_column\<close> and \<open>clean_cell\<close>, over the type \<open>cell\<close> of strings and
    numbers of \<open>Py_Values\<close>. The lemmas prove what they return on wrapped
    text (C22), which labels are left alone and that different labels can
    be cleaned to one.
  \<^item> \<open>Emu_Clean_Table\<close>: what the cleaning script does to one table.
    \<open>clean_frame\<close>, the loop body on a table that has been read, with
    \<open>convert_step\<close> for the conversion loop; \<open>debug_dataset\<close>, the values of
    the report, as the record \<open>debug_report\<close>. \<open>cleaned\<close> is the column-wise
    closed form of \<open>clean_frame\<close>, \<open>schema\<close> the types of its columns. The
    lemmas prove the closed form of the loop body (C27), that every column of
    a cleaned table has one type (C29) and which columns a report names (C25).
  \<^item> \<open>Emu_Clean\<close>: the loop of the cleaning script as a specification: it
    reads tables from a function of paths and collects the files it writes.
    \<open>clean_step\<close> and \<open>clean_datasets\<close>, the loop over \<open>RAW_DATASETS\<close>,
    with the record \<open>clean_state\<close> of the files written and the lines
    printed (\<open>log_line\<close>: a missing file, the announcement of a dataset, the
    confirmation of a file written, a report), in the order they are printed.
    The lemmas give the files a run writes and the lines it prints in closed
    form (\<open>files_written\<close>, \<open>files_printed\<close>).
  \<^item> \<open>Emu_Files\<close>: the file system the scripts work on, a dictionary from
    paths to entries (\<open>Dir\<close>, or \<open>File\<close> with a table), and the calls the
    scripts make on it with the exceptions Python documents for them:
    \<open>os_path_exists\<close>, \<open>os_path_join\<close>, \<open>os_mkdir\<close>, \<open>os_makedirs\<close> for
    \<^verbatim>\<open>os.makedirs(name, exist_ok=True)\<close> (a \<^theory_text>\<open>function\<close> that makes the
    parent first; it terminates because the parent of a path is shorter),
    \<open>read_file\<close> and \<open>write_file\<close>. \<open>wf_fs\<close> says that every entry lies in
    a directory. The lemmas prove what each call returns and raises, that
    reading gives what was written, that \<open>os_makedirs\<close> leaves a directory,
    keeps what was there and changes nothing on a second call, and that every
    call keeps \<open>wf_fs\<close>.
  \<^item> \<open>Emu_Clean_Script\<close>: \<^verbatim>\<open>src/clean_data.py\<close> as a whole on that file
    system. \<open>clean_step_fs\<close> is the loop body with its test of the raw path,
    its read, its write and its prints, \<open>clean_script\<close> the module body from
    \<^verbatim>\<open>os.makedirs\<close> to the end of the loop; the record \<open>script_state\<close> holds
    the disk and the lines printed, and a run returns the state it leaves
    together with the exception that ended it, if any. The loop of
    \<open>Emu_Clean\<close> is its specification: \<open>script_rel\<close> relates the states of
    the two, and each step of the script simulates a step of the loop. The
    lemmas prove that the script implements the loop (C24), when a run ends
    normally, what it has printed and what the
    disk holds then (C30), at which dataset a run raises and what it has
    printed and written by then (C14), that a second run changes nothing
    (C39), and that a run keeps the disk well formed.
  \<^item> \<open>Emu_Pipeline\<close>: the dashboard on such a disk. \<open>load_cleaned_data_fs\<close>
    is the loader of \<^verbatim>\<open>src/app.py\<close> with the exception of a path that is a
    directory, \<open>render_fs\<close> a run of the page that starts with it. The lemmas
    reduce both to the loader and the run of \<open>Emu_Config\<close> and \<open>Emu_App\<close> on
    the files of the disk, and give the cleaned paths after a run of the
    cleaning script.
  \<^item> this theory: the properties that span the two scripts, on one disk: what
    the loader binds after a run of the cleaning script (C33), that the
    dashboard reports a dataset as not loaded exactly when neither its raw
    file nor an older cleaned file exists (C36), and that the year loop raises
    \<^verbatim>\<open>TypeError\<close> on a column of a cleaned table exactly when the cleaning left
    the column as text and the loop reads one of its rows (C38).

  \<^bold>\<open>Modelling decisions.\<close>
  \<^item> Numbers are \<^typ>\<open>real\<close>. Python computes with binary floating point; the
    theorems are about the exact values of the formulas and say nothing about
    rounding or overflow. The years and year offsets are \<^typ>\<open>int\<close>. The text
    Python prints for a float inside a trace name is the parameter \<open>fmt\<close>. A
    cell of a table can also be \<^verbatim>\<open>NaN\<close>, which absorbs in arithmetic and which
    \<^verbatim>\<open>isna()\<close> tests for, or a string; integers and floats are not
    distinguished (the right operand of every \<^verbatim>\<open>*\<close> of the formulas is a
    float, so a string is never repeated).
  \<^item> The dashboard is modelled twice. \<open>Emu_Predictor\<close>, \<open>Emu_Simulation\<close>,
    \<open>Emu_Plot\<close> and \<open>Emu_App\<close> take tables of reals, on which no operator can
    fail. \<open>Emu_Dynamic\<close> and \<open>Emu_Dynamic_Handler\<close> take tables of cells
    and check every operator; C37 shows that the two agree on tables of
    numbers, C12, C19 and C31 say what happens on the others, and C28 that
    the charts are handed numbers in every case. The charts and the list of
    calls of a run are modelled on tables of reals only.
  \<^item> A character is a code point below 256; strings are lists of them.
  \<^item> A frame's columns have distinct names and each frame has one label per
    row; \<^verbatim>\<open>beta.get\<close> returns the first entry with the label, which is what
    pandas returns when the labels are distinct. A raw table whose cleaned
    labels collide (\<open>cleanable\<close> fails) is outside the model; the lemma
    \<open>clean_column_merges_labels\<close> shows that such labels exist.
  \<^item> Streamlit is modelled by what the script asks of it. Each widget call is a
    value of type \<open>widget\<close>, its return value is a field of \<open>inputs\<close>, and
    \<open>valid_answer\<close> is the promise of the widget on its return value (the step
    of a level slider is kept as an argument; that a level is a multiple of it
    is not used). The other calls are values of type \<open>ui_call\<close>:
    \<^verbatim>\<open>st.error\<close> appends to a list, \<^verbatim>\<open>st.stop()\<close> is the outcome \<open>Stopped\<close>
    and ends the run, the charts handed to \<^verbatim>\<open>st.plotly_chart\<close> are the two
    figures of the outcome \<open>Charts\<close>. A run that raises gives the exception
    and no list of calls. Of the interface's own behaviour three rules are
    modelled, as \<open>ui_step\<close>: the page configuration comes first, a widget
    equal to an earlier one is refused, and nothing is accepted after the stop.
  \<^item> The file system is modelled twice. For the theorems about one script it
    is the function \<open>read_csv\<close> from paths to tables, \<open>None\<close> where
    \<^verbatim>\<open>os.path.exists\<close> is false. For the cleaning script as a whole and for the
    two scripts together it is the dictionary of \<open>Emu_Files\<close>, with
    directories; paths are compared as strings, relative to one working
    directory, and permissions, links and full disks are left out. A file
    holds the table \<^verbatim>\<open>pd.read_csv(path, dtype=str, keep_default_na=False)\<close>
    reads from it or \<^verbatim>\<open>to_csv\<close> wrote to it. Reading a written table back
    with \<^verbatim>\<open>read_csv(path, index_col=0)\<close> is the parameter \<open>parse\<close> of C33
    and C36; which cells that call reads as numbers or as missing is pandas'
    matter, so C38 is about the cleaned table itself, with any row labels.
  \<^item> \<^verbatim>\<open>pd.to_numeric\<close> is given by its documented behaviour: \<open>to_numeric_ignore\<close>
    under \<^verbatim>\<open>errors="ignore"\<close> (all cells or none), \<open>to_numeric_coerce\<close> under
    \<^verbatim>\<open>errors="coerce"\<close> (a cell that does not parse becomes \<^verbatim>\<open>NaN\<close>), both over a
    parser of numbers that is a parameter of the loop; whether a parsed number
    is an integer or a float is not distinguished.
  \<^item> Every \<^verbatim>\<open>KeyError\<close>, \<^verbatim>\<open>ValueError\<close> and \<^verbatim>\<open>TypeError\<close> the modelled
    statements can raise is a value; the theorems that a run raises nothing are
    proved, never assumed.
  \<^item> No loop needs fuel: the loops over lists are structural, \<^verbatim>\<open>range\<close>
    terminates by its measure and \<open>os_makedirs\<close> by the length of the path.

  \<^bold>\<open>Not modelled.\<close> The rendering itself (Streamlit, Plotly) and the layout of
  the page in columns beyond the order of the calls; the rerun of the script on
  every interaction (a run is a function of the answers); the commented-out
  table of raw data at the end of \<^verbatim>\<open>src/app.py\<close>; the text of CSV files and
  its parsing and printing by pandas, which is the library's and not the
  repository's; the text Python prints for a slider value inside a trace name,
  which depends on how Streamlit computes the value; of the cleaning script's
  printed output the text of the lines: a line is kept as the statement that
  prints it with the values it prints (the report as the record of its values,
  without its banner and headings; two of the lines hold characters above code
  point 255), and only the message of a missing file is also given as text.
  The charts and the list of calls of a run are not repeated on tables of
  cells: C28 shows that the charts are handed numbers. Of a run of the
  dashboard that raises, the calls made before the exception are kept for the
  handler only (C19).
\<close>

section \<open>Reading a cleaned table back\<close>

text \<open>
  An example of reading a cleaned table back: the first column gives the row
  labels, the other columns the numbers.
\<close>

definition example_read_back :: "raw_frame \<Rightarrow> coef_frame" where
  "example_read_back df =
     (case df_columns df of
        [] \<Rightarrow> \<lparr>df_index = [], df_columns = []\<rparr>
      | (c, vs) # cols \<Rightarrow>
          \<lparr>df_index = map (\<lambda>v. case v of Str s \<Rightarrow> s | Num x \<Rightarrow> []) vs,
           df_columns =
             map (\<lambda>(c, vs). (c, map (\<lambda>v. case v of Num (Fin x) \<Rightarrow> x | _ \<Rightarrow> 0) vs)) cols\<rparr>)"

section \<open>The cleaning script and the dashboard on one disk\<close>

lemma example_disk_no_stale_dir: "find (stale_dir example_disk) RAW_DATASETS = None"
  by (simp add: stale_dir_def example_disk_def RAW_DATASETS_def output_path_def CLEANED_DIR_def)

lemma run_then_load:
  assumes "cleanable_disk fs" "dir_free fs" "\<not> list_ex (blocked fs) RAW_DATASETS"
  shows "\<exists>t. clean_script fs num = (t, None) \<and>
     script_rel fs \<lparr>written = files_written (files_of fs) num RAW_DATASETS,
       printed = files_printed (files_of fs) num RAW_DATASETS\<rparr> t \<and>
     find (is_dir (disk t)) CLEANED_DATASETS =
       map_option (\<lambda>(name, path). (name, output_path name)) (find (stale_dir fs) RAW_DATASETS)"
proof -
  from clean_script_cases [OF assms(1), of num] assms(2,3) obtain t where
    t: "clean_script fs num = (t, None)"
    and rel: "script_rel fs \<lparr>written = files_written (files_of fs) num RAW_DATASETS,
      printed = files_printed (files_of fs) num RAW_DATASETS\<rparr> t"
    by auto
  from t rel find_dir_after_run [OF rel assms(3)] show ?thesis by blast
qed

text \<open>
  C33. From raw files to \<^verbatim>\<open>df_dict\<close>, on one disk: when the raw files that exist
  can be cleaned, the output directory can be made and no dataset is blocked,
  the cleaning script ends normally, and the loader of the dashboard on the
  disk it leaves raises \<^verbatim>\<open>IsADirectoryError\<close> for the first dataset at whose
  cleaned path a directory stood, and otherwise returns a dictionary that
  binds each dataset whose raw file exists to what reading back the table
  cleaned in this run gives, each other dataset for which a cleaned file was
  already on the disk to what reading that file gives, and nothing else
  (\<open>parse\<close> stands for reading a written table with
  \<^verbatim>\<open>read_csv(path, index_col=0)\<close>).
\<close>

theorem cleaned_files_reach_the_app:
  assumes "cleanable_disk fs" "dir_free fs" "\<not> list_ex (blocked fs) RAW_DATASETS"
  shows "\<exists>t. clean_script fs num = (t, None) \<and>
     load_cleaned_data_fs parse (disk t) =
       (case find (stale_dir fs) RAW_DATASETS of
          Some item \<Rightarrow> Inl (IsADirectoryError (output_path (fst item)))
        | None \<Rightarrow> Inr (load_cleaned_data (read_back parse (disk t)))) \<and>
     (\<forall>name. map_of (load_cleaned_data (read_back parse (disk t))) name =
        Option.bind (map_of RAW_DATASETS name)
          (\<lambda>path. case files_of fs path of
                    Some df \<Rightarrow> Some (parse (cleaned num df))
                  | None \<Rightarrow> read_back parse fs (output_path name)))"
proof -
  from run_then_load [OF assms, of num] obtain t where
    t: "clean_script fs num = (t, None)"
    and rel: "script_rel fs \<lparr>written = files_written (files_of fs) num RAW_DATASETS,
      printed = files_printed (files_of fs) num RAW_DATASETS\<rparr> t"
    and dirs: "find (is_dir (disk t)) CLEANED_DATASETS =
      map_option (\<lambda>(name, path). (name, output_path name)) (find (stale_dir fs) RAW_DATASETS)"
    by blast
  from dirs have "load_cleaned_data_fs parse (disk t) =
      (case find (stale_dir fs) RAW_DATASETS of
         Some item \<Rightarrow> Inl (IsADirectoryError (output_path (fst item)))
       | None \<Rightarrow> Inr (load_cleaned_data (read_back parse (disk t))))"
    by (simp add: load_cleaned_data_fs_cases split: option.splits prod.splits)
  with t load_after_run [OF rel, of parse] show ?thesis by blast
qed

theorem cleaned_files_reach_the_app_witness:
  "\<exists>t. clean_script example_disk example_parse = (t, None) \<and>
     load_cleaned_data_fs example_read_back (disk t) =
       Inr (load_cleaned_data (read_back example_read_back (disk t))) \<and>
     (\<forall>name. map_of (load_cleaned_data (read_back example_read_back (disk t))) name =
        Option.bind (map_of RAW_DATASETS name)
          (\<lambda>path. case files_of example_disk path of
                    Some df \<Rightarrow> Some (example_read_back (cleaned example_parse df))
                  | None \<Rightarrow> read_back example_read_back example_disk (output_path name)))"
  using cleaned_files_reach_the_app [of example_disk example_parse example_read_back]
  by (simp add: example_disk_cleanable example_disk_free example_disk_no_stale_dir)

text \<open>
  C36. From a missing raw file to the message of the dashboard: when the raw
  files that exist can be cleaned, the output directory can be made, no
  dataset is blocked and no directory stands at a cleaned path, the cleaning
  script ends normally, and a run of the dashboard on the disk it leaves, with
  answers the widgets can give and the button pressed, shows for a selected
  intervention the message that its dataset is not loaded if and only if
  neither the raw file of that dataset nor a cleaned file of an earlier run
  exists.
\<close>

theorem missing_raw_file_is_what_the_app_reports:
  assumes "cleanable_disk fs" "dir_free fs" and ok: "\<not> list_ex (blocked fs) RAW_DATASETS"
    and stale: "find (stale_dir fs) RAW_DATASETS = None"
    and wf: "wf_inputs inp" and clicked: "run_clicked inp"
    and d: "d \<in> set (selected_interventions inp)" "map_of INTERVENTION_OPTIONS d = Some key"
    and raw: "map_of RAW_DATASETS key = Some path"
  shows "\<exists>t calls. clean_script fs num = (t, None) \<and>
     render_fs fmt parse (disk t) inp = Inr calls \<and>
     (Error (dataset_error key) \<in> set calls \<longleftrightarrow>
        \<not> os_path_exists fs path \<and> \<not> os_path_exists fs (output_path key))"
proof -
  from run_then_load [OF assms(1,2) ok, of num] stale obtain t where
    t: "clean_script fs num = (t, None)"
    and rel: "script_rel fs \<lparr>written = files_written (files_of fs) num RAW_DATASETS,
      printed = files_printed (files_of fs) num RAW_DATASETS\<rparr> t"
    and dirs: "find (is_dir (disk t)) CLEANED_DATASETS = None"
    by auto
  let ?dd = "load_cleaned_data (read_back parse (disk t))"
  let ?mem = "\<not> os_path_exists fs path \<and> \<not> os_path_exists fs (output_path key)"
  from wf obtain oc sc lv where codes: "map_of OUTCOME_OPTIONS (selected_outcome inp) = Some oc"
    "map_of SUBGROUP_OPTIONS (selected_subgroup inp) = Some sc" and lv: "build_levels inp = Inr lv"
    by (blast elim: wf_inputs_codes wf_inputs_levels)
  let ?calls = "page_setup @ map Sidebar (shown_widgets (selected_interventions inp)) @
    handler_view fmt inp lv ?dd (target_col oc sc)"
  from raw have "(key, path) \<in> set RAW_DATASETS" by (rule map_of_SomeD)
  with ok stale have "map_of fs path \<noteq> Some Dir" "map_of fs (output_path key) \<noteq> Some Dir"
    by (auto simp: list_ex_iff blocked_def find_None_iff stale_dir_def)
  from unbound_after_run [OF rel raw this, of parse] d
  have "(\<exists>d' \<in> set (selected_interventions inp).
      classify ?dd (target_col oc sc) d' = NoDataset key) \<longleftrightarrow> ?mem"
    by (auto simp: classify_NoDataset_iff)
  then have "Error (dataset_error key) \<in> set ?calls \<longleftrightarrow> ?mem"
    by (simp only: dataset_error_shown_iff)
  moreover from render_clicked [OF wf clicked codes lv, of fmt "read_back parse (disk t)"]
  have "render_fs fmt parse (disk t) inp = Inr ?calls"
    by (simp add: render_fs_files [OF dirs])
  ultimately show ?thesis using t by blast
qed

theorem missing_raw_file_is_what_the_app_reports_witness:
  "\<exists>t calls. clean_script example_disk example_parse = (t, None) \<and>
     render_fs example_fmt example_read_back (disk t) example_inputs = Inr calls \<and>
     (Error (dataset_error ''phearte'') \<in> set calls \<longleftrightarrow>
        \<not> os_path_exists example_disk ''data/uscdm_emu_phearte_regression_ests.csv'' \<and>
        \<not> os_path_exists example_disk (output_path ''phearte''))"
  by (rule missing_raw_file_is_what_the_app_reports
       [where d = "''Heart Disease Incidence Reduction''", OF example_disk_cleanable(1)
         example_disk_free example_disk_no_stale_dir wf_inputs_example])
     (simp_all add: example_inputs_def INTERVENTION_OPTIONS_def RAW_DATASETS_def)

section \<open>The cleaned columns in the year loop\<close>

lemma cell_table_zip_text:
  assumes "has_dtype Text vs" "length labels = length vs"
  shows "is_str (cell_table (zip labels vs) k) \<longleftrightarrow> key_name k \<in> set labels"
proof (cases "map_of (zip labels vs) (key_name k)")
  case None
  then have "key_name k \<notin> set (map fst (zip labels vs))"
    by (simp add: map_of_eq_None_iff)
  with assms(2) have "key_name k \<notin> set labels" by simp
  with None show ?thesis
    by (simp add: cell_table_def series_get_def)
next
  case (Some v)
  then have "v \<in> set vs" "key_name k \<in> set labels"
    by (auto dest!: map_of_SomeD dest: set_zip_leftD set_zip_rightD)
  with assms(1) Some show ?thesis
    by (cases v) (auto simp: cell_table_def series_get_def has_dtype_def list_all_iff)
qed

lemma cell_table_zip_number:
  assumes "has_dtype Number vs"
  shows "\<not> is_str (cell_table (zip labels vs) k)"
proof (cases "map_of (zip labels vs) (key_name k)")
  case None
  then show ?thesis by (simp add: cell_table_def series_get_def)
next
  case (Some v)
  then have "v \<in> set vs" by (auto dest!: map_of_SomeD dest: set_zip_rightD)
  with assms Some show ?thesis
    by (cases v) (auto simp: cell_table_def series_get_def has_dtype_def list_all_iff)
qed

lemma cleaned_column_typed:
  assumes "all_text df" "(c, vs) \<in> set (df_columns (cleaned parse df))"
  shows "has_dtype Text vs \<or> has_dtype Number vs"
proof -
  from dtypes_ok_cleaned [OF assms(1), of parse] assms(2)
  obtain t where "has_dtype t vs" by (blast dest: dtypes_okD)
  then show ?thesis by (cases t) simp_all
qed

text \<open>
  C38. What the cleaning leaves as text stops the dashboard: for a table read as
  text, a column of the cleaned table, any row labels for its cells and a level
  dictionary that has the levels of the code, the year loop of the dashboard on
  that column raises \<^verbatim>\<open>TypeError\<close> if and only if the column is text and, for
  some year of the range, one of the coefficients the loop reads is among the
  row labels. A column the cleaning converted to numbers never raises it.
\<close>

theorem text_column_raises_in_the_dashboard:
  assumes "all_text df" and "(c, vs) \<in> set (df_columns (cleaned parse df))"
    and "length labels = length vs" and v: "select_variant key lv = Inr v"
  shows "predict_series_dyn key lv (zip labels vs) ys = Inl TypeError \<longleftrightarrow>
     has_dtype Text vs \<and>
     list_ex (\<lambda>y. list_ex (\<lambda>k. key_name k \<in> set labels) (variant_keys v (y - 2024))) ys"
proof (cases "has_dtype Text vs")
  case True
  with assms(3) show ?thesis
    by (simp add: predict_series_dyn_raises [OF v] reads_text_def cell_table_zip_text
        select_variant_keys [OF v])
next
  case False
  with cleaned_column_typed [OF assms(1,2)] have "has_dtype Number vs" by simp
  with False show ?thesis
    by (simp add: predict_series_dyn_raises [OF v] reads_text_def cell_table_zip_number
        list_ex_iff)
qed

theorem text_column_raises_in_the_dashboard_witness:
  "predict_series_dyn ''pdiabe'' example_levels (zip [''_cons''] [Str ''2026'']) [2026] =
     Inl TypeError"
proof -
  have "all_text example_raw"
    by (simp add: all_text_def example_raw_def has_dtype_def)
  moreover have "(''Year'', [Str ''2026'']) \<in> set (df_columns (cleaned example_parse example_raw))"
    by (simp add: example_cleaned)
  ultimately show ?thesis
    using text_column_raises_in_the_dashboard [OF _ _ _ example_variant,
        of example_raw "''Year''" "[Str ''2026'']" example_parse "[''_cons'']" "[2026]"]
    by (simp add: has_dtype_def single_keys_def del: key_name_fstrings)
qed

end
